(* ===== verification/Prelude.thy ===== *)
theory Prelude
  imports Main "HOL-Library.Word"
begin

text \<open>
  The shared vocabulary of the development.

  \<^item> Go's \<^verbatim>\<open>byte\<close> is an 8-bit word; a Go slice of bytes and the bytes that an \<^verbatim>\<open>io.Reader\<close>
    still holds are lists of bytes.  A Go \<^verbatim>\<open>string\<close> is an Isabelle \<open>string\<close> whose characters are
    the bytes of the Go string (so \<open>length\<close> is Go's \<^verbatim>\<open>len\<close>).
  \<^item> A Go function that returns \<^verbatim>\<open>(value, err)\<close> returns both here, because callers of this program do
    use the value next to an ignored error.  A reader function also returns the rest of its input.
  \<^item> A Go panic is the constructor \<open>Panic\<close> of the outcome type \<open>go\<close>; it ends the whole
    process, since no goroutine of the program recovers.
\<close>

unbundle bit_operations_syntax

named_theorems codec_simps
  \<open>read-after-write equations of the codecs\<close>
named_theorems go_simps
  \<open>unfolding equations for Go outcomes and readers\<close>

section \<open>Types\<close>

type_synonym byte = "8 word"
type_synonym bytes = "8 word list"

datatype 'a go = Ret 'a | Panic string

fun go_bind :: "'a go \<Rightarrow> ('a \<Rightarrow> 'b go) \<Rightarrow> 'b go" where
  "go_bind (Ret x) f = f x"
| "go_bind (Panic m) f = Panic m"

fun go_map :: "('a \<Rightarrow> 'b) \<Rightarrow> 'a go \<Rightarrow> 'b go" where
  "go_map f (Ret x) = Ret (f x)"
| "go_map f (Panic m) = Panic m"

fun panics :: "'a go \<Rightarrow> bool" where
  "panics (Ret x) = False"
| "panics (Panic m) = True"

lemma go_bind_Ret_iff [simp]: "go_bind m f = Ret y \<longleftrightarrow> (\<exists>x. m = Ret x \<and> f x = Ret y)"
  by (cases m) auto

lemma go_map_Ret_iff [simp]: "go_map f m = Ret y \<longleftrightarrow> (\<exists>x. m = Ret x \<and> f x = y)"
  by (cases m) auto

lemma panics_go_map [simp]: "panics (go_map f m) = panics m"
  by (cases m) auto

lemma not_panics_iff: "\<not> panics m \<longleftrightarrow> (\<exists>x. m = Ret x)"
  by (cases m) auto

text \<open>
  Errors.  \<^verbatim>\<open>io.EOF\<close>, \<^verbatim>\<open>io.ErrUnexpectedEOF\<close> and the overflow error of encoding/binary are the
  standard library's; \<open>Errorf\<close> is an error built by \<^verbatim>\<open>fmt.Errorf\<close> from its format and arguments, so two
  errors are equal only when they are the same sentinel or have the same text.
\<close>

datatype gerr =
    EOF
  | ErrUnexpectedEOF
  | ErrOverflow
  | ErrDropPacket
  | ErrUnexpectedPacket "32 word"
  | ErrIO string
  | ErrKick string
  | Errorf string "garg list"
and garg = GInt int | GStr string | GErr gerr

type_synonym 'a reading = "bytes \<Rightarrow> 'a \<times> gerr option \<times> bytes"

section \<open>Strings and bytes\<close>

definition byte_of_char :: "char \<Rightarrow> byte" where
  "byte_of_char c = word_of_nat (of_char c)"

definition char_of_byte :: "byte \<Rightarrow> char" where
  "char_of_byte b = char_of (unat b)"

lemma char_of_byte_of_char [simp]: "char_of_byte (byte_of_char c) = c"
proof -
  have "of_char c < (256 :: nat)" by (rule nat_of_char_less_256)
  then have "unat (word_of_nat (of_char c) :: byte) = of_char c"
    by (simp add: unat_of_nat)
  then show ?thesis
    by (simp add: char_of_byte_def byte_of_char_def)
qed

lemma byte_of_char_of_byte [simp]: "byte_of_char (char_of_byte b) = b"
proof -
  have "unat b < 256" using unsigned_less [of b] by simp
  then have "of_char (char_of (unat b)) = unat b"
    by simp
  then show ?thesis
    by (simp add: char_of_byte_def byte_of_char_def)
qed

text \<open>The conversions \<^verbatim>\<open>[]byte(s)\<close> and \<^verbatim>\<open>string(bs)\<close>.\<close>

definition bytes_of :: "string \<Rightarrow> bytes" where
  "bytes_of s = map byte_of_char s"

definition string_of :: "bytes \<Rightarrow> string" where
  "string_of bs = map char_of_byte bs"

lemma string_of_bytes_of [simp]: "string_of (bytes_of s) = s"
  by (simp add: string_of_def bytes_of_def comp_def)

lemma bytes_of_string_of [simp]: "bytes_of (string_of bs) = bs"
  by (simp add: string_of_def bytes_of_def comp_def)

lemma length_bytes_of [simp]: "length (bytes_of s) = length s"
  by (simp add: bytes_of_def)

lemma length_string_of [simp]: "length (string_of bs) = length bs"
  by (simp add: string_of_def)

lemma bytes_of_inject [simp]: "bytes_of s = bytes_of t \<longleftrightarrow> s = t"
  by (metis string_of_bytes_of)

section \<open>Big-endian integers (encoding/binary)\<close>

definition PutUint16 :: "16 word \<Rightarrow> bytes" where
  "PutUint16 v = [ucast (drop_bit 8 v), ucast v]"

definition PutUint32 :: "32 word \<Rightarrow> bytes" where
  "PutUint32 v =
     [ucast (drop_bit 24 v), ucast (drop_bit 16 v), ucast (drop_bit 8 v), ucast v]"

definition PutUint64 :: "64 word \<Rightarrow> bytes" where
  "PutUint64 v =
     [ucast (drop_bit 56 v), ucast (drop_bit 48 v), ucast (drop_bit 40 v), ucast (drop_bit 32 v),
      ucast (drop_bit 24 v), ucast (drop_bit 16 v), ucast (drop_bit 8 v), ucast v]"

text \<open>The bytes are indexed as \<^verbatim>\<open>b[0]\<close>, \<^verbatim>\<open>b[1]\<close>, \<dots>; callers pass buffers of the right length.\<close>

definition Uint16 :: "bytes \<Rightarrow> 16 word" where
  "Uint16 b = ucast (b ! 1) OR push_bit 8 (ucast (b ! 0))"

definition Uint32 :: "bytes \<Rightarrow> 32 word" where
  "Uint32 b = ucast (b ! 3) OR push_bit 8 (ucast (b ! 2)) OR push_bit 16 (ucast (b ! 1))
     OR push_bit 24 (ucast (b ! 0))"

definition Uint64 :: "bytes \<Rightarrow> 64 word" where
  "Uint64 b = ucast (b ! 7) OR push_bit 8 (ucast (b ! 6)) OR push_bit 16 (ucast (b ! 5))
     OR push_bit 24 (ucast (b ! 4)) OR push_bit 32 (ucast (b ! 3)) OR push_bit 40 (ucast (b ! 2))
     OR push_bit 48 (ucast (b ! 1)) OR push_bit 56 (ucast (b ! 0))"

lemma length_PutUint [simp]:
  "length (PutUint16 v) = 2" "length (PutUint32 w) = 4" "length (PutUint64 x) = 8"
  by (simp_all add: PutUint16_def PutUint32_def PutUint64_def)

text \<open>The byte written from position \<open>k\<close> goes back to the bits \<open>k\<close> to \<open>k + 7\<close>.\<close>

lemma bit_byte_slot:
  fixes v :: "'a::len word"
  assumes "n < LENGTH('a)"
  shows "bit (push_bit k (ucast (ucast (drop_bit k v) :: byte) :: 'a word)) n
    \<longleftrightarrow> k \<le> n \<and> n < k + 8 \<and> bit v n"
  using assms by (auto simp: bit_simps)

lemmas bit_byte_slot0 = bit_byte_slot [where k = 0, simplified]

lemma Uint16_PutUint16 [codec_simps, simp]: "Uint16 (PutUint16 v) = v"
  by (rule bit_word_eqI)
     (simp add: Uint16_def PutUint16_def bit_or_iff bit_byte_slot bit_byte_slot0, arith)

lemma Uint32_PutUint32 [codec_simps, simp]: "Uint32 (PutUint32 v) = v"
  by (rule bit_word_eqI)
     (simp add: Uint32_def PutUint32_def bit_or_iff bit_byte_slot bit_byte_slot0, arith)

lemma Uint64_PutUint64 [codec_simps, simp]: "Uint64 (PutUint64 v) = v"
  by (rule bit_word_eqI)
     (simp add: Uint64_def PutUint64_def bit_or_iff bit_byte_slot bit_byte_slot0, arith)

text \<open>The other direction: the bytes of a decoded buffer are the buffer.\<close>

lemma length_2_exhaust: "length b = 2 \<Longrightarrow> \<exists>x y. b = [x, y]"
  by (cases b; cases "tl b") auto

lemma length_4_exhaust: "length b = 4 \<Longrightarrow> \<exists>x y z u. b = [x, y, z, u]"
  using length_2_exhaust [of "drop 2 b"] length_2_exhaust [of "take 2 b"] append_take_drop_id [of 2 b]
  by fastforce

lemma length_8_exhaust: "length b = 8 \<Longrightarrow> \<exists>x y z u x' y' z' u'. b = [x, y, z, u, x', y', z', u']"
  using length_4_exhaust [of "drop 4 b"] length_4_exhaust [of "take 4 b"] append_take_drop_id [of 4 b]
  by fastforce

lemma bit_high_byte: "\<not> bit (b :: byte) (8 + n)" "8 \<le> n \<Longrightarrow> \<not> bit (b :: byte) n"
  by (auto dest: bit_imp_le_length)

lemma PutUint16_Uint16: "length b = 2 \<Longrightarrow> PutUint16 (Uint16 b) = b"
  by (auto dest!: length_2_exhaust simp: PutUint16_def Uint16_def bit_eq_iff [where ?'a = byte] bit_simps bit_high_byte)

lemma PutUint32_Uint32: "length b = 4 \<Longrightarrow> PutUint32 (Uint32 b) = b"
  by (auto dest!: length_4_exhaust simp: PutUint32_def Uint32_def bit_eq_iff [where ?'a = byte] bit_simps bit_high_byte)

lemma PutUint64_Uint64: "length b = 8 \<Longrightarrow> PutUint64 (Uint64 b) = b"
  by (auto dest!: length_8_exhaust simp: PutUint64_def Uint64_def bit_eq_iff [where ?'a = byte] bit_simps bit_high_byte)

end
