(* ===== verification/Codec.thy ===== *)
theory Codec
  imports Prelude
begin

text \<open>
  The interface between a serialiser and its reader: what one writes, the other reads back and
  leaves the rest of the stream untouched.  Every client lemma about repeated elements, and the
  fact that an encoding can be followed by anything without ambiguity, is proved once here.
\<close>

section \<open>Repeated reads\<close>

text \<open>
  \<open>read_fill\<close> is the loop \<^verbatim>\<open>arr := make([]T, n); for i := range arr { arr[i], err = read(); if err != nil
  { return } }\<close>: on an error the element read last is stored and the later ones keep the zero value.
  \<open>read_append\<close> is \<^verbatim>\<open>for i := 0; i < n; i++ { v, err := read(); if err != nil { return }; arr =
  append(arr, v) }\<close>.
\<close>

fun read_fill :: "'a reading \<Rightarrow> 'a \<Rightarrow> nat \<Rightarrow> 'a list reading" where
  "read_fill dec z 0 s = ([], None, s)"
| "read_fill dec z (Suc n) s =
     (case dec s of
        (x, Some e, s') \<Rightarrow> (x # replicate n z, Some e, s')
      | (x, None, s') \<Rightarrow>
          (case read_fill dec z n s' of (xs, err, s'') \<Rightarrow> (x # xs, err, s'')))"

fun read_append :: "'a reading \<Rightarrow> nat \<Rightarrow> 'a list reading" where
  "read_append dec 0 s = ([], None, s)"
| "read_append dec (Suc n) s =
     (case dec s of
        (x, Some e, s') \<Rightarrow> ([], Some e, s')
      | (x, None, s') \<Rightarrow>
          (case read_append dec n s' of (xs, err, s'') \<Rightarrow> (x # xs, err, s'')))"

lemma length_read_fill: "read_fill dec z n s = (xs, err, s') \<Longrightarrow> length xs = n"
  by (induction n arbitrary: s xs) (auto split: prod.splits option.splits)

section \<open>The codec contract\<close>

locale codec =
  fixes enc :: "'a \<Rightarrow> bytes"
    and dec :: "'a reading"
    and ok :: "'a \<Rightarrow> bool"
  assumes dec_enc: "ok x \<Longrightarrow> dec (enc x @ s) = (x, None, s)"
begin

lemma enc_prefix_free:
  assumes "ok x" "ok y" and same: "enc x @ s = enc y @ t"
  shows "x = y \<and> s = t"
proof -
  have "dec (enc y @ t) = (x, None, s)"
    using dec_enc [OF assms(1), of s] by (simp only: same)
  with dec_enc [OF assms(2), of t] show ?thesis by simp
qed

lemma enc_inject:
  assumes "ok x" "ok y" "enc x = enc y"
  shows "x = y"
proof -
  have "enc x @ [] = enc y @ []" by (simp only: assms(3))
  from enc_prefix_free [OF assms(1,2) this] show ?thesis ..
qed

lemma read_fill_enc:
  "\<forall>x\<in>set xs. ok x \<Longrightarrow> read_fill dec z (length xs) (concat (map enc xs) @ s) = (xs, None, s)"
  by (induction xs) (simp_all add: dec_enc)

lemma read_append_enc:
  "\<forall>x\<in>set xs. ok x \<Longrightarrow> read_append dec (length xs) (concat (map enc xs) @ s) = (xs, None, s)"
  by (induction xs) (simp_all add: dec_enc)

end

text \<open>
  A codec whose reader accepts only what the writer writes: reading and writing back gives the
  bytes that were consumed.
\<close>

locale exact_codec = codec +
  assumes enc_dec: "dec s = (x, None, s') \<Longrightarrow> s = enc x @ s'"
begin

lemma dec_same_bytes:
  "dec s = (x, None, s') \<Longrightarrow> dec t = (x, None, t') \<Longrightarrow> s' = t' \<Longrightarrow> s = t"
  by (auto dest: enc_dec)

end

end
