(* ===== verification/VarInt.thy ===== *)
theory VarInt
  imports Prelude
begin

text \<open>
  Variable-length integers.  \<open>PutUvarint\<close> and \<open>ReadUvarint\<close> are encoding/binary's functions that
  src/packets/ioutils.go calls; \<open>ReadVarInt\<close> and \<open>WriteVarInt\<close> are the program's, on the type
  \<^verbatim>\<open>VarInt\<close> (an \<^verbatim>\<open>int32\<close>).  Signed comparisons of the code read the word with \<open>sint\<close>.
\<close>

unbundle bit_operations_syntax

type_synonym VarInt = "32 word"

section \<open>encoding/binary\<close>

text \<open>
  \<^verbatim>\<open>for x >= 0x80 { buf[i] = byte(x) | 0x80; x >>= 7; i++ }; buf[i] = byte(x)\<close>.  The model returns
  the bytes written; the caller's buffer has 8 bytes, and \<open>length_WriteVarInt\<close> below shows that a
  32-bit argument needs at most 5, so the index never leaves the buffer.
\<close>

function PutUvarint :: "64 word \<Rightarrow> bytes" where
  "PutUvarint x =
     (if 0x80 \<le> x then (ucast x OR 0x80) # PutUvarint (drop_bit 7 x) else [ucast x])"
  by pat_completeness auto
termination
proof (relation "measure unat")
  fix x :: "64 word"
  assume "0x80 \<le> x"
  then have "128 \<le> unat x" by (simp add: word_le_nat_alt)
  moreover have "unat (drop_bit 7 x) = unat x div 128"
    by (simp only: unat_drop_bit_eq) (simp add: drop_bit_eq_div)
  ultimately show "(drop_bit 7 x, x) \<in> measure unat"
    by (simp only: in_measure)
qed simp

declare PutUvarint.simps [simp del]

lemma PutUvarint_small: "x < 0x80 \<Longrightarrow> PutUvarint x = [ucast x]"
  by (subst PutUvarint.simps) (simp only: not_le [symmetric] if_False simp_thms)

lemma PutUvarint_big:
  "0x80 \<le> x \<Longrightarrow> PutUvarint x = (ucast x OR 0x80) # PutUvarint (drop_bit 7 x)"
  by (subst PutUvarint.simps) simp

text \<open>
  \<^verbatim>\<open>ReadUvarint\<close>: at most ten bytes (\<^verbatim>\<open>MaxVarintLen64\<close>), the tenth at most 1; an end of input after
  the first byte is \<^verbatim>\<open>io.ErrUnexpectedEOF\<close>.  On an error the partial value is returned with it.
\<close>

fun ReadUvarint_loop :: "nat \<Rightarrow> 64 word \<Rightarrow> bytes \<Rightarrow> 64 word \<times> gerr option \<times> bytes" where
  "ReadUvarint_loop i x [] =
     (if i < 10 then (x, Some (if 0 < i then ErrUnexpectedEOF else EOF), [])
      else (x, Some ErrOverflow, []))"
| "ReadUvarint_loop i x (b # s) =
     (if \<not> i < 10 then (x, Some ErrOverflow, b # s)
      else if b < 0x80 then
        (if i = 9 \<and> 1 < b then (x, Some ErrOverflow, s)
         else (x OR push_bit (7 * i) (ucast b), None, s))
      else ReadUvarint_loop (Suc i) (x OR push_bit (7 * i) (ucast (b AND 0x7f))) s)"

definition ReadUvarint :: "64 word reading" where
  "ReadUvarint s = ReadUvarint_loop 0 0 s"

section \<open>VarInt of ioutils.go\<close>

definition ReadVarInt :: "VarInt reading" where
  "ReadVarInt s = (let (x, err, s') = ReadUvarint s in (ucast x, err, s'))"

definition WriteVarInt :: "VarInt \<Rightarrow> bytes" where
  "WriteVarInt c = PutUvarint (ucast c)"

section \<open>Round trip\<close>

lemma bit_0x80: "bit (0x80 :: byte) m \<longleftrightarrow> m = 7"
proof -
  have "(0x80 :: byte) = push_bit 7 1" by simp
  then show ?thesis
    by (simp only: bit_push_bit_iff bit_1_iff) auto
qed

lemma bit_0x7f: "bit (0x7f :: byte) m \<longleftrightarrow> m < 7"
proof -
  have "(0x7f :: byte) = mask 7" by (simp add: mask_eq_exp_minus_1)
  then show ?thesis
    by (simp only: bit_mask_iff) auto
qed

text \<open>One byte of seven payload bits, then the rest: the bit-level step of the loop.\<close>

lemma uvarint_step_bits:
  fixes v :: "64 word"
  shows "push_bit k (ucast ((ucast v OR 0x80 :: byte) AND 0x7f)) OR push_bit (k + 7) (drop_bit 7 v)
    = push_bit k v"
proof (rule bit_word_eqI)
  fix n
  assume n: "n < LENGTH(64)"
  have shift: "k + 7 \<le> n \<Longrightarrow> 7 + (n - (k + 7)) = n - k" by simp
  show "bit (push_bit k (ucast ((ucast v OR 0x80 :: byte) AND 0x7f))
      OR push_bit (k + 7) (drop_bit 7 v)) n = bit (push_bit k v) n"
    using n shift
    by (simp only: bit_or_iff bit_and_iff bit_push_bit_iff bit_drop_bit_eq bit_unsigned_iff
          bit_0x80 bit_0x7f comp_def)
      (cases "k + 7 \<le> n"; auto)
qed

lemma byte_or_80_ge: "\<not> ((b OR 0x80 :: byte) < 0x80)"
proof -
  have "(0x80 :: byte) \<le> b OR 0x80"
    by (rule le_word_or1)
  then show ?thesis by (simp only: not_less)
qed

lemma ucast_small_byte: "(v :: 64 word) < 0x80 \<Longrightarrow> (ucast v :: byte) < 0x80"
  by (simp add: word_less_nat_alt unsigned_ucast_eq take_bit_eq_mod)


lemma ucast_ucast_small:
  assumes "(v :: 64 word) < 0x80"
  shows "(ucast (ucast v :: byte) :: 64 word) = v"
proof -
  from assms have "unat v < 128" by (simp add: word_less_nat_alt)
  then show ?thesis
    by (simp add: word_unat_eq_iff unsigned_ucast_eq take_bit_eq_mod unat_mod_distrib)
qed

lemma PutUvarint_unfold_nat:
  "128 \<le> unat x \<Longrightarrow> unat (drop_bit 7 x) = unat x div 128" for x :: "64 word"
  by (simp only: unat_drop_bit_eq) (simp add: drop_bit_eq_div)

lemma ReadUvarint_loop_PutUvarint:
  "i < 10 \<Longrightarrow> unat v < 2 ^ (64 - 7 * i)
   \<Longrightarrow> ReadUvarint_loop i x (PutUvarint v @ s) = (x OR push_bit (7 * i) v, None, s)"
proof (induction v arbitrary: i x rule: PutUvarint.induct)
  case (1 v)
  show ?case
  proof (cases "0x80 \<le> v")
    case True
    then have v: "128 \<le> unat v" by (simp add: word_le_nat_alt)
    have i: "Suc i < 10"
    proof (rule ccontr)
      assume "\<not> Suc i < 10"
      with "1.prems"(1) have "i = 9" by simp
      with "1.prems"(2) v show False by simp
    qed
    have "unat v < 128 * 2 ^ (64 - 7 * Suc i)"
    proof -
      have "64 - 7 * i = 7 + (64 - 7 * Suc i)" using i by simp
      with "1.prems"(2) show ?thesis by (simp only: power_add) simp
    qed
    then have rest: "unat (drop_bit 7 v) < 2 ^ (64 - 7 * Suc i)"
      by (simp only: PutUvarint_unfold_nat [OF v] less_mult_imp_div_less mult.commute)
    have "ReadUvarint_loop i x (PutUvarint v @ s)
      = ReadUvarint_loop (Suc i)
          (x OR push_bit (7 * i) (ucast ((ucast v OR 0x80 :: byte) AND 0x7f)))
          (PutUvarint (drop_bit 7 v) @ s)"
      using True "1.prems"(1) byte_or_80_ge by (simp add: PutUvarint_big)
    also have "\<dots> = (x OR push_bit (7 * i) v, None, s)"
      by (simp only: "1.IH" [OF True i rest] or.assoc mult_Suc_right add.commute [of 7]
          uvarint_step_bits)
    finally show ?thesis .
  next
    case False
    then have v: "v < 0x80" by simp
    have "\<not> (i = 9 \<and> 1 < (ucast v :: byte))"
      using "1.prems"(2) v
      by (auto simp: word_less_nat_alt unsigned_ucast_eq take_bit_eq_mod)
    with v "1.prems"(1) ucast_small_byte [OF v] ucast_ucast_small [OF v] show ?thesis
      by (simp add: PutUvarint_small)
  qed
qed


lemma ReadUvarint_PutUvarint [codec_simps]:
  "ReadUvarint (PutUvarint v @ s) = (v, None, s)"
proof -
  have "unat v < 2 ^ (64 - 7 * 0)" using unsigned_less [of v] by simp
  then show ?thesis
    using ReadUvarint_loop_PutUvarint [of 0 v 0 s] by (simp add: ReadUvarint_def)
qed

lemma unat_ucast_64_32: "unat (ucast c :: 64 word) = unat (c :: 32 word)"
proof -
  have "unat c < 2 ^ 32" using unsigned_less [of c] by simp
  then have "take_bit 64 (unat c) = unat c"
    by (intro take_bit_nat_eq_self) simp
  then show ?thesis by (simp only: unsigned_ucast_eq) simp
qed

lemma ucast_ucast_64_32 [simp]: "(ucast (ucast c :: 64 word) :: 32 word) = c"
  by (rule bit_word_eqI) (simp add: bit_simps)

lemma ReadVarInt_WriteVarInt [codec_simps]:
  "ReadVarInt (WriteVarInt c @ s) = (c, None, s)"
  by (simp add: ReadVarInt_def WriteVarInt_def ReadUvarint_PutUvarint)

section \<open>Bounds\<close>

lemma length_PutUvarint_le: "unat v < 2 ^ (7 * n) \<Longrightarrow> 0 < n \<Longrightarrow> length (PutUvarint v) \<le> n"
proof (induction v arbitrary: n rule: PutUvarint.induct)
  case (1 v)
  show ?case
  proof (cases "0x80 \<le> v")
    case True
    then have v: "128 \<le> unat v" by (simp add: word_le_nat_alt)
    with "1.prems" obtain m where n: "n = Suc (Suc m)"
      by (cases n; cases "n - 1") auto
    have "unat v < 128 * 2 ^ (7 * Suc m)"
    proof -
      have "7 * n = 7 + 7 * Suc m" using n by simp
      with "1.prems"(1) show ?thesis by (simp only: power_add) simp
    qed
    then have "unat (drop_bit 7 v) < 2 ^ (7 * Suc m)"
      by (simp only: PutUvarint_unfold_nat [OF v] less_mult_imp_div_less mult.commute)
    from "1.IH" [OF True this] have "length (PutUvarint (drop_bit 7 v)) \<le> Suc m" by simp
    with True n show ?thesis by (simp add: PutUvarint_big)
  next
    case False
    with "1.prems" show ?thesis by (simp add: PutUvarint_small)
  qed
qed

lemma length_WriteVarInt: "length (WriteVarInt c) \<le> 5"
proof -
  have "unat (ucast c :: 64 word) = unat c"
    by (rule unat_ucast_64_32)
  moreover have "unat c < 2 ^ 32" using unsigned_less [of c] by simp
  moreover have "(2 :: nat) ^ 32 \<le> 2 ^ (7 * 5)" by simp
  ultimately have "unat (ucast c :: 64 word) < 2 ^ (7 * 5)" by linarith
  then show ?thesis
    unfolding WriteVarInt_def by (rule length_PutUvarint_le) simp
qed

lemma WriteVarInt_not_Nil [simp]: "WriteVarInt c \<noteq> []"
  unfolding WriteVarInt_def by (subst PutUvarint.simps) simp

text \<open>Reading consumes at least one byte when it succeeds, and never more than ten.\<close>

lemma ReadUvarint_loop_consumes:
  "ReadUvarint_loop i x s = (v, err, s') \<Longrightarrow> i \<le> 10
   \<Longrightarrow> \<exists>p. s = p @ s' \<and> length p \<le> 10 - i \<and> (err = None \<longrightarrow> p \<noteq> [])"
proof (induction i x s rule: ReadUvarint_loop.induct)
  case (1 i x)
  then show ?case by (auto split: if_splits)
next
  case (2 i x b s)
  show ?case
  proof (cases "i < 10 \<and> \<not> b < 0x80")
    case True
    with 2 obtain p where "s = p @ s'" "length p \<le> 10 - Suc i"
      by auto
    with True show ?thesis by (intro exI [of _ "b # p"]) auto
  next
    case False
    with "2.prems" show ?thesis
      by (cases "i < 10") (auto split: if_splits intro: exI [of _ "[b]"])
  qed
qed

lemma ReadVarInt_consumes:
  "ReadVarInt s = (v, err, s') \<Longrightarrow> \<exists>p. s = p @ s' \<and> length p \<le> 10 \<and> (err = None \<longrightarrow> p \<noteq> [])"
  by (auto simp: ReadVarInt_def ReadUvarint_def Let_def split: prod.splits
      dest: ReadUvarint_loop_consumes)

lemma ReadVarInt_Nil [simp]: "ReadVarInt [] = (0, Some EOF, [])"
  by (simp add: ReadVarInt_def ReadUvarint_def)

end
