(* ===== verification/IOUtils.thy ===== *)
theory IOUtils
  imports Codec VarInt
begin

text \<open>
  The field readers and writers of src/packets/ioutils.go, on a reader that holds a finite list of
  bytes and then ends.  Writers are functions to the bytes they write: in this program they write
  to a \<^verbatim>\<open>bytes.Buffer\<close>, which never fails.  A \<^verbatim>\<open>float32\<close> or \<^verbatim>\<open>float64\<close> is its bit pattern.
\<close>

unbundle bit_operations_syntax

type_synonym Identifier = string

definition IdentifierMaxLength :: int where
  "IdentifierMaxLength = 32767"

section \<open>The standard library's readers\<close>

text \<open>
  \<^verbatim>\<open>io.ReadFull(reader, buf)\<close> on a zeroed buffer of \<open>n\<close> bytes: the buffer, the error and the rest.
\<close>

definition ReadFull :: "nat \<Rightarrow> bytes reading" where
  "ReadFull n s =
     (take n s @ replicate (n - length s) 0,
      (if n \<le> length s then None else if s = [] then Some EOF else Some ErrUnexpectedEOF),
      drop n s)"

text \<open>\<^verbatim>\<open>binary.Read\<close> of an \<open>n\<close>-byte integer: on an error the variable keeps its zero value.\<close>

definition binary_Read :: "nat \<Rightarrow> (bytes \<Rightarrow> 'a::zero) \<Rightarrow> 'a reading" where
  "binary_Read n conv s =
     (case ReadFull n s of
        (b, Some e, s') \<Rightarrow> (0, Some e, s')
      | (b, None, s') \<Rightarrow> (conv b, None, s'))"

text \<open>\<^verbatim>\<open>io.CopyN\<close> into a buffer: \<^verbatim>\<open>io.EOF\<close> when the source ends early.\<close>

definition CopyN :: "nat \<Rightarrow> bytes reading" where
  "CopyN n s = (take n s, (if n \<le> length s then None else Some EOF), drop n s)"

lemma ReadFull_append [simp]: "length b = n \<Longrightarrow> ReadFull n (b @ s) = (b, None, s)"
  by (simp add: ReadFull_def)

lemma ReadFull_ok: "ReadFull n s = (b, None, s') \<longleftrightarrow> s = b @ s' \<and> length b = n"
  by (auto simp: ReadFull_def split: if_splits)

lemma ReadFull_Cons [simp]: "ReadFull (Suc 0) (x # s) = ([x], None, s)"
  by (simp add: ReadFull_def)

lemma CopyN_append [simp]: "length b = n \<Longrightarrow> CopyN n (b @ s) = (b, None, s)"
  by (simp add: CopyN_def)

lemma binary_Read_append [simp]: "length b = n \<Longrightarrow> binary_Read n conv (b @ s) = (conv b, None, s)"
  by (simp add: binary_Read_def)

section \<open>Fixed-width fields\<close>

fun ReadBool :: "bool reading" where
  "ReadBool [] = (False, Some EOF, [])"
| "ReadBool (v # s) = (v = 1, None, s)"

definition ReadByte :: "byte reading" where
  "ReadByte = binary_Read 1 (\<lambda>b. b ! 0)"

definition ReadUnsignedByte :: "byte reading" where
  "ReadUnsignedByte = binary_Read 1 (\<lambda>b. b ! 0)"

definition ReadShort :: "16 word reading" where
  "ReadShort = binary_Read 2 Uint16"

definition ReadInt :: "32 word reading" where
  "ReadInt = binary_Read 4 Uint32"

definition ReadLong :: "64 word reading" where
  "ReadLong = binary_Read 8 Uint64"

definition ReadFloat :: "32 word reading" where
  "ReadFloat = binary_Read 4 Uint32"

definition ReadDouble :: "64 word reading" where
  "ReadDouble = binary_Read 8 Uint64"

definition WriteBool :: "bool \<Rightarrow> bytes" where
  "WriteBool c = [if c then 1 else 0]"

definition WriteByte :: "byte \<Rightarrow> bytes" where
  "WriteByte c = [c]"

definition WriteUnsignedByte :: "byte \<Rightarrow> bytes" where
  "WriteUnsignedByte c = [c]"

definition WriteShort :: "16 word \<Rightarrow> bytes" where
  "WriteShort c = PutUint16 c"

definition WriteInt :: "32 word \<Rightarrow> bytes" where
  "WriteInt c = PutUint32 c"

definition WriteLong :: "64 word \<Rightarrow> bytes" where
  "WriteLong c = PutUint64 c"

definition WriteFloat :: "32 word \<Rightarrow> bytes" where
  "WriteFloat c = PutUint32 c"

definition WriteDouble :: "64 word \<Rightarrow> bytes" where
  "WriteDouble c = PutUint64 c"

section \<open>Strings and identifiers\<close>

definition ReadMinecraftString :: "int \<Rightarrow> string reading" where
  "ReadMinecraftString maxLength s =
     (case ReadVarInt s of
        (len, Some e, s1) \<Rightarrow> ([], Some e, s1)
      | (len, None, s1) \<Rightarrow>
          if maxLength < sint len then
            ([], Some (Errorf ''string longer than maxLength: %d > %d''
                         [GInt (sint len), GInt maxLength]), s1)
          else if sint len < 0 then
            ([], Some (Errorf ''string length smaller than 0: %d'' [GInt (sint len)]), s1)
          else (case ReadFull (nat (sint len)) s1 of
                  (d, Some e, s2) \<Rightarrow> ([], Some e, s2)
                | (d, None, s2) \<Rightarrow> (string_of d, None, s2)))"

definition WriteMinecraftString :: "string \<Rightarrow> bytes" where
  "WriteMinecraftString s = WriteVarInt (word_of_nat (length s)) @ bytes_of s"

definition ReadIdentifier :: "Identifier reading" where
  "ReadIdentifier = ReadMinecraftString IdentifierMaxLength"

definition WriteIdentifier :: "Identifier \<Rightarrow> bytes" where
  "WriteIdentifier i = WriteVarInt (word_of_nat (length i)) @ bytes_of i"

text \<open>
  \<^verbatim>\<open>make([]Identifier, count)\<close> already creates \<open>count\<close> empty identifiers (and panics when \<open>count\<close> is
  negative); the loop then appends behind them.
\<close>

definition ReadIdentifierArray :: "bytes \<Rightarrow> (Identifier list \<times> gerr option \<times> bytes) go" where
  "ReadIdentifierArray s =
     (case ReadVarInt s of
        (count, Some e, s1) \<Rightarrow> Ret ([], Some e, s1)
      | (count, None, s1) \<Rightarrow>
          if sint count < 0 then Panic ''makeslice: len out of range''
          else (case read_append ReadIdentifier (nat (sint count)) s1 of
                  (vs, err, s2) \<Rightarrow> Ret (replicate (nat (sint count)) [] @ vs, err, s2)))"

definition WriteIdentifierArray :: "Identifier list \<Rightarrow> bytes" where
  "WriteIdentifierArray ids =
     WriteVarInt (word_of_nat (length ids)) @ concat (map WriteIdentifier ids)"

section \<open>Round trips\<close>

lemma sint_of_nat_32 [simp]: "n < 2147483648 \<Longrightarrow> sint (word_of_nat n :: 32 word) = int n"
  by (simp add: sint_word_ariths(1) signed_of_nat signed_take_bit_int_eq_self)

lemma ReadMinecraftString_Write:
  assumes "int (length s) \<le> maxLength" "maxLength < 2147483648"
  shows "ReadMinecraftString maxLength (WriteMinecraftString s @ r) = (s, None, r)"
  using assms
  by (simp add: ReadMinecraftString_def WriteMinecraftString_def ReadVarInt_WriteVarInt)

interpretation varint: codec WriteVarInt ReadVarInt "\<lambda>_. True"
  by unfold_locales (rule ReadVarInt_WriteVarInt)

interpretation boolean: codec WriteBool ReadBool "\<lambda>_. True"
  by unfold_locales (simp add: WriteBool_def)

text \<open>A fixed-width integer field is an exact codec.\<close>

lemma fixed_exact_codec:
  assumes "\<And>b. length b = n \<Longrightarrow> put (conv b) = b" "\<And>v. conv (put v) = v" "\<And>v. length (put v) = n"
  shows "exact_codec put (binary_Read n conv) (\<lambda>_. True)"
proof
  show "binary_Read n conv (put x @ s) = (x, None, s)" for x s
    by (simp add: assms(2,3))
  show "s = put x @ s'" if "binary_Read n conv s = (x, None, s')" for s x s'
  proof -
    from that obtain b where "ReadFull n s = (b, None, s')" "x = conv b"
      by (auto simp: binary_Read_def split: prod.splits option.splits)
    then show ?thesis using assms(1) [of b] by (simp add: ReadFull_ok)
  qed
qed

interpretation int8: exact_codec WriteByte ReadByte "\<lambda>_. True"
  unfolding ReadByte_def
  by (rule fixed_exact_codec) (auto simp: WriteByte_def length_Suc_conv)

interpretation uint8: exact_codec WriteUnsignedByte ReadUnsignedByte "\<lambda>_. True"
  unfolding ReadUnsignedByte_def
  by (rule fixed_exact_codec) (auto simp: WriteUnsignedByte_def length_Suc_conv)

interpretation int16: exact_codec WriteShort ReadShort "\<lambda>_. True"
  unfolding ReadShort_def
  by (rule fixed_exact_codec) (auto simp: WriteShort_def PutUint16_Uint16)

interpretation int32: exact_codec WriteInt ReadInt "\<lambda>_. True"
  unfolding ReadInt_def
  by (rule fixed_exact_codec) (auto simp: WriteInt_def PutUint32_Uint32)

interpretation int64: exact_codec WriteLong ReadLong "\<lambda>_. True"
  unfolding ReadLong_def
  by (rule fixed_exact_codec) (auto simp: WriteLong_def PutUint64_Uint64)

interpretation float32: exact_codec WriteFloat ReadFloat "\<lambda>_. True"
  unfolding ReadFloat_def
  by (rule fixed_exact_codec) (auto simp: WriteFloat_def PutUint32_Uint32)

interpretation float64: exact_codec WriteDouble ReadDouble "\<lambda>_. True"
  unfolding ReadDouble_def
  by (rule fixed_exact_codec) (auto simp: WriteDouble_def PutUint64_Uint64)

text \<open>A string field read with the limit \<open>m\<close> of its caller.\<close>

interpretation mcstring: codec WriteMinecraftString "ReadMinecraftString m"
    "\<lambda>s. int (length s) \<le> m \<and> m < 2147483648" for m
  by unfold_locales (simp add: ReadMinecraftString_Write)

lemma WriteIdentifier_eq: "WriteIdentifier = WriteMinecraftString"
  by (rule ext) (simp add: WriteIdentifier_def WriteMinecraftString_def)

interpretation ident: codec WriteIdentifier ReadIdentifier
    "\<lambda>i. int (length i) \<le> IdentifierMaxLength"
  by unfold_locales
     (simp add: WriteIdentifier_eq ReadIdentifier_def IdentifierMaxLength_def
        ReadMinecraftString_Write)

text \<open>
  The array reader does not return what the writer wrote: \<^verbatim>\<open>count\<close> empty identifiers come first.
\<close>

lemma ReadIdentifierArray_Write:
  assumes "length ids < 2147483648" "\<forall>i\<in>set ids. int (length i) \<le> IdentifierMaxLength"
  shows "ReadIdentifierArray (WriteIdentifierArray ids @ s)
    = Ret (replicate (length ids) [] @ ids, None, s)"
  using assms
  by (simp add: ReadIdentifierArray_def WriteIdentifierArray_def ReadVarInt_WriteVarInt
      ident.read_append_enc)

end
