(* ===== verification/EntityData.thy ===== *)
theory EntityData
  imports IOUtils
begin

text \<open>
  src/packets/itemdata.go and src/packets/entitydata.go: the item stack and the entity metadata with
  their readers and writers.  A Go map ranges over its keys in an unspecified order, so the writer
  of a metadata map takes the order as an argument.
\<close>

section \<open>Readers do not lengthen their input\<close>

lemma ReadFull_shorter: "ReadFull n s = (b, err, s') \<Longrightarrow> length s' \<le> length s"
  by (auto simp: ReadFull_def)

lemma binary_Read_shorter: "binary_Read n c s = (v, err, s') \<Longrightarrow> length s' \<le> length s"
  by (auto simp: binary_Read_def dest: ReadFull_shorter split: prod.splits option.splits)

lemma ReadVarInt_shorter: "ReadVarInt s = (v, err, s') \<Longrightarrow> length s' \<le> length s"
  by (auto dest: ReadVarInt_consumes)

lemma ReadMinecraftString_shorter:
  "ReadMinecraftString m s = (v, err, s') \<Longrightarrow> length s' \<le> length s"
  unfolding ReadMinecraftString_def
  by (auto dest!: ReadFull_shorter ReadVarInt_shorter split: prod.splits option.splits if_splits)

lemma ReadBool_shorter: "ReadBool s = (v, err, s') \<Longrightarrow> length s' \<le> length s"
  by (cases s) auto

lemmas readers_shorter = ReadFull_shorter binary_Read_shorter ReadVarInt_shorter
  ReadMinecraftString_shorter ReadBool_shorter

lemma ReadUnsignedByte_Nil [simp]: "ReadUnsignedByte [] = (0, Some EOF, [])"
  by (simp add: ReadUnsignedByte_def binary_Read_def ReadFull_def)

lemma ReadUnsignedByte_Cons [simp]: "ReadUnsignedByte (b # s) = (b, None, s)"
  by (simp add: ReadUnsignedByte_def binary_Read_def)

section \<open>Item stacks\<close>

record ItemData =
  it_ID :: "16 word"
  it_Count :: byte
  it_Damage :: "16 word"
  it_Data :: bytes

definition NewItemData :: ItemData where
  "NewItemData = \<lparr>it_ID = 0, it_Count = 0, it_Damage = 0, it_Data = []\<rparr>"

text \<open>The errors of the count, the damage and the length of the data are discarded.\<close>

definition ItemData_Parse :: "ItemData \<Rightarrow> ItemData reading" where
  "ItemData_Parse item s =
     (case ReadShort s of
        (i, Some e, s1) \<Rightarrow> (item\<lparr>it_ID := i\<rparr>, Some e, s1)
      | (i, None, s1) \<Rightarrow>
          if 0 \<le> sint i then
            (case ReadByte s1 of (c, _, s2) \<Rightarrow>
             case ReadShort s2 of (d, _, s3) \<Rightarrow>
             case ReadShort s3 of (nbtLength, _, s4) \<Rightarrow>
             let item1 = item\<lparr>it_ID := i, it_Count := c, it_Damage := d\<rparr> in
               if 0 \<le> sint nbtLength then
                 (case ReadFull (nat (sint nbtLength)) s4 of (b, err, s5) \<Rightarrow>
                    (item1\<lparr>it_Data := b\<rparr>, err, s5))
               else (item1, None, s4))
          else (item\<lparr>it_ID := i\<rparr>, None, s1))"

definition ItemData_Serialize :: "ItemData \<Rightarrow> bytes" where
  "ItemData_Serialize item =
     WriteShort (it_ID item) @
     (if 0 \<le> sint (it_ID item) then
        WriteByte (it_Count item) @ WriteShort (it_Damage item) @
        (if 0 < length (it_Data item) then
           WriteShort (word_of_nat (length (it_Data item))) @ it_Data item
         else WriteShort (- 1))
      else [])"

definition ItemData_ok :: "ItemData \<Rightarrow> bool" where
  "ItemData_ok item \<longleftrightarrow> length (it_Data item) < 32768 \<and>
     (sint (it_ID item) < 0 \<longrightarrow> item = NewItemData\<lparr>it_ID := it_ID item\<rparr>)"

lemma sint_16_of_nat: "n < 32768 \<Longrightarrow> sint (word_of_nat n :: 16 word) = int n"
  by (simp add: sint_word_ariths(1) signed_of_nat signed_take_bit_int_eq_self)

interpretation item: codec ItemData_Serialize "ItemData_Parse NewItemData" ItemData_ok
proof
  fix x s
  assume ok: "ItemData_ok x"
  have neg: "\<not> 0 \<le> sint (- 1 :: 16 word)" by simp
  consider "sint (it_ID x) < 0" | "0 \<le> sint (it_ID x)" "it_Data x = []"
    | "0 \<le> sint (it_ID x)" "it_Data x \<noteq> []" by linarith
  then show "ItemData_Parse NewItemData (ItemData_Serialize x @ s) = (x, None, s)"
  proof cases
    case 1
    with ok show ?thesis
      by (auto simp: ItemData_ok_def ItemData_Serialize_def ItemData_Parse_def int16.dec_enc)
  next
    case 2
    then show ?thesis
      by (simp add: ItemData_Serialize_def ItemData_Parse_def int16.dec_enc int8.dec_enc Let_def
          NewItemData_def)
  next
    case 3
    with ok show ?thesis
      by (simp add: ItemData_ok_def ItemData_Serialize_def ItemData_Parse_def int16.dec_enc
          int8.dec_enc Let_def NewItemData_def sint_16_of_nat)
  qed
qed

lemma ItemData_Parse_shorter: "ItemData_Parse item s = (v, err, s') \<Longrightarrow> length s' \<le> length s"
  unfolding ItemData_Parse_def Let_def ReadShort_def ReadByte_def
  by (auto dest!: readers_shorter split: prod.splits option.splits if_splits)

section \<open>Entity metadata\<close>

record Vector =
  vec_X :: "32 word"
  vec_Y :: "32 word"
  vec_Z :: "32 word"

text \<open>The dynamic types that a value of the map can have; \<^verbatim>\<open>VarInt\<close> is not \<^verbatim>\<open>int32\<close>.\<close>

datatype meta =
    MInt8 byte
  | MInt16 "16 word"
  | MInt32 "32 word"
  | MVarInt VarInt
  | MFloat32 "32 word"
  | MString string
  | MBool bool
  | MItem ItemData
  | MVector Vector

type_synonym EntityMetadata = "byte \<rightharpoonup> meta"

definition NewEntityMetadata :: EntityMetadata where
  "NewEntityMetadata = Map.empty"

definition Vector_Parse :: "Vector reading" where
  "Vector_Parse s =
     (case ReadInt s of (x, _, s1) \<Rightarrow>
      case ReadInt s1 of (y, _, s2) \<Rightarrow>
      case ReadInt s2 of (z, err, s3) \<Rightarrow> (\<lparr>vec_X = x, vec_Y = y, vec_Z = z\<rparr>, err, s3))"

text \<open>
  The switch over the data type: \<open>None\<close> in the place of a value is a branch that assigns nothing.
\<close>

definition read_meta :: "byte \<Rightarrow> bytes \<Rightarrow> (meta option \<times> gerr option \<times> bytes) go" where
  "read_meta dataType s =
     (if dataType = 0 then Ret (map_prod (\<lambda>v. Some (MInt8 v)) id (ReadByte s))
      else if dataType = 1 then Ret (map_prod (\<lambda>v. Some (MVarInt v)) id (ReadVarInt s))
      else if dataType = 2 then Ret (map_prod (\<lambda>v. Some (MFloat32 v)) id (ReadFloat s))
      else if dataType = 3 then Ret (map_prod (\<lambda>v. Some (MString v)) id (ReadMinecraftString 255 s))
      else if dataType = 4 then Ret (map_prod (\<lambda>v. Some (MString v)) id (ReadMinecraftString 255 s))
      else if dataType = 5 then Ret (None, None, s)
      else if dataType = 6 then
        Ret (map_prod (\<lambda>v. Some (MItem v)) id (ItemData_Parse NewItemData s))
      else if dataType = 7 then Ret (map_prod (\<lambda>v. Some (MBool v)) id (ReadBool s))
      else if dataType = 8 then Ret (map_prod (\<lambda>v. Some (MVector v)) id (Vector_Parse s))
      else if dataType = 9 \<or> dataType = 10 \<or> dataType = 12 then Ret (None, None, s)
      else if dataType = 11 \<or> dataType = 13 then
        Ret (map_prod (\<lambda>v. Some (MVarInt v)) id (ReadVarInt s))
      else Panic ''Unkown dataType in EntityMetadata.Parse'')"

lemma read_meta_shorter: "read_meta t s = Ret (v, err, s') \<Longrightarrow> length s' \<le> length s"
  unfolding read_meta_def ReadByte_def ReadFloat_def Vector_Parse_def ReadInt_def
  by (auto simp: map_prod_def dest!: readers_shorter ItemData_Parse_shorter split: if_splits prod.splits)

function EntityMetadata_Parse ::
    "EntityMetadata \<Rightarrow> bytes \<Rightarrow> (EntityMetadata \<times> gerr option \<times> bytes) go" where
  "EntityMetadata_Parse data s =
     (case ReadUnsignedByte s of
        (item, Some e, s1) \<Rightarrow> Ret (data, Some e, s1)
      | (item, None, s1) \<Rightarrow>
          if item = 127 then Ret (data, None, s1)
          else
            (case read_meta (drop_bit 5 item) s1 of
               Panic m \<Rightarrow> Panic m
             | Ret (v, err, s2) \<Rightarrow>
                 let data' = (case v of None \<Rightarrow> data | Some x \<Rightarrow> data(item AND 0x1F \<mapsto> x)) in
                 if err \<noteq> None then Ret (data', err, s2)
                 else EntityMetadata_Parse data' s2))"
  by pat_completeness auto
termination
proof (relation "measure (\<lambda>(data, s). length s)", goal_cases)
  case 1
  then show ?case by simp
next
  case (2 data s item r err s1 g v r' err' s2)
  then show ?case by (cases s) (auto dest!: read_meta_shorter)
qed

declare EntityMetadata_Parse.simps [simp del]

definition write_meta :: "byte \<Rightarrow> meta \<Rightarrow> bytes go" where
  "write_meta index value =
     (case value of
        MInt8 v \<Rightarrow> Ret (WriteUnsignedByte (index OR push_bit 5 0) @ WriteByte v)
      | MInt16 v \<Rightarrow> Ret (WriteUnsignedByte (index OR push_bit 5 1) @ WriteShort v)
      | MInt32 v \<Rightarrow> Ret (WriteUnsignedByte (index OR push_bit 5 2) @ WriteInt v)
      | MFloat32 v \<Rightarrow> Ret (WriteUnsignedByte (index OR push_bit 5 3) @ WriteFloat v)
      | MString v \<Rightarrow> Ret (WriteUnsignedByte (index OR push_bit 5 4) @ WriteMinecraftString v)
      | MItem v \<Rightarrow> Ret (WriteUnsignedByte (index OR push_bit 5 5) @ ItemData_Serialize v)
      | MVector v \<Rightarrow> Ret (WriteUnsignedByte (index OR push_bit 5 6) @
                       WriteInt (vec_X v) @ WriteInt (vec_Y v) @ WriteInt (vec_Z v))
      | _ \<Rightarrow> Panic ''Unkown type in EntityMetadata.Serialize'')"

text \<open>The loop over the map in the order \<open>keys\<close>, and the terminator.\<close>

fun EntityMetadata_Serialize :: "byte list \<Rightarrow> EntityMetadata \<Rightarrow> bytes go" where
  "EntityMetadata_Serialize [] data = Ret (WriteUnsignedByte 0xFF)"
| "EntityMetadata_Serialize (index # keys) data =
     (case data index of
        None \<Rightarrow> EntityMetadata_Serialize keys data
      | Some value \<Rightarrow>
          go_bind (write_meta index value)
            (\<lambda>b. go_map ((@) b) (EntityMetadata_Serialize keys data)))"

text \<open>
  The data type has three bits, so no input reaches the panic of \<^verbatim>\<open>Parse\<close>, and the cases 8 to 13 are
  dead code.
\<close>

lemma drop_bit_5_byte: "drop_bit 5 (b :: byte) < 8"
proof -
  have "unat (drop_bit 5 b) = unat b div 32" by (simp add: drop_bit_eq_div unat_div)
  moreover have "unat b < 256" using unsigned_less [of b] by simp
  ultimately show ?thesis by (simp add: word_less_nat_alt)
qed

lemma read_meta_no_panic: "t < 8 \<Longrightarrow> \<not> panics (read_meta t s)"
proof -
  assume "t < 8"
  then have "unat t < 8" by (simp add: word_less_nat_alt)
  then consider "unat t = 0" | "unat t = 1" | "unat t = 2" | "unat t = 3" | "unat t = 4"
    | "unat t = 5" | "unat t = 6" | "unat t = 7" by linarith
  then have "t = 0 \<or> t = 1 \<or> t = 2 \<or> t = 3 \<or> t = 4 \<or> t = 5 \<or> t = 6 \<or> t = 7"
    by cases (simp_all add: word_unat_eq_iff)
  then show ?thesis by (auto simp: read_meta_def)
qed

lemma EntityMetadata_Parse_no_panic: "\<not> panics (EntityMetadata_Parse data s)"
proof (induction data s rule: EntityMetadata_Parse.induct)
  case (1 data s)
  show ?case
  proof (cases s)
    case Nil
    then show ?thesis by (subst EntityMetadata_Parse.simps) simp
  next
    case (Cons b s1)
    from read_meta_no_panic [OF drop_bit_5_byte]
    obtain v err s2 where m: "read_meta (drop_bit 5 b) s1 = Ret (v, err, s2)"
      by (metis not_panics_iff prod_cases3)
    show ?thesis
      using 1 [of b "(None, s1)" None s1 "(v, err, s2)" v "(err, s2)" err s2] Cons m
      by (subst EntityMetadata_Parse.simps) (auto simp: Let_def)
  qed
qed

text \<open>
  The two formats disagree: the terminator that \<^verbatim>\<open>Serialize\<close> writes is not the one \<^verbatim>\<open>Parse\<close> stops at,
  and a value that \<^verbatim>\<open>Parse\<close> stores as a \<^verbatim>\<open>VarInt\<close> or a \<^verbatim>\<open>bool\<close> makes \<^verbatim>\<open>Serialize\<close> panic.
\<close>

lemma EntityMetadata_terminators:
  "EntityMetadata_Serialize [] data = Ret [0xFF]"
  "EntityMetadata_Parse data [0xFF] = Ret (data(31 \<mapsto> MBool False), Some EOF, [])"
proof -
  show "EntityMetadata_Serialize [] data = Ret [0xFF]" by (simp add: WriteUnsignedByte_def)
  have "drop_bit 5 (0xFF :: byte) = 7" "(0xFF :: byte) AND 0x1F = 31" by simp_all
  then show "EntityMetadata_Parse data [0xFF] = Ret (data(31 \<mapsto> MBool False), Some EOF, [])"
    by (subst EntityMetadata_Parse.simps) (simp add: read_meta_def Let_def)
qed

lemma EntityMetadata_Serialize_panics:
  assumes "index \<in> set keys" "data index = Some (MVarInt v) \<or> data index = Some (MBool b)"
  shows "panics (EntityMetadata_Serialize keys data)"
  using assms(1)
proof (induction keys)
  case (Cons k keys)
  show ?case
  proof (cases "k = index")
    case True
    with assms(2) show ?thesis by (auto simp: write_meta_def)
  next
    case False
    with Cons have "panics (EntityMetadata_Serialize keys data)" by simp
    then show ?thesis
      by (cases "data k"; cases "write_meta k (the (data k))") auto
  qed
qed simp

end
