(* ===== verification/GoStrings.thy ===== *)
theory GoStrings
  imports Prelude
begin

text \<open>
  What the program uses of Go's packages strings, strconv and unicode/utf8.  A character is a
  byte; \<open>code\<close> is its value.  Runes (code points) are natural numbers.
\<close>

definition code :: "char \<Rightarrow> nat" where
  "code c = of_char c"

definition chr :: "nat \<Rightarrow> char" where
  "chr n = char_of n"

lemma code_less [simp]: "code c < 256"
  unfolding code_def by (rule nat_of_char_less_256)

lemma code_chr [simp]: "n < 256 \<Longrightarrow> code (chr n) = n"
  by (simp add: code_def chr_def)

lemma chr_code [simp]: "chr (code c) = c"
  by (simp add: code_def chr_def)

lemma code_inject [simp]: "code c = code d \<longleftrightarrow> c = d"
  by (simp add: code_def)

section \<open>Prefixes, splitting, joining, replacing\<close>

definition HasPrefix :: "string \<Rightarrow> string \<Rightarrow> bool" where
  "HasPrefix s p \<longleftrightarrow> take (length p) s = p"

lemma HasPrefix_append: "HasPrefix s p \<longleftrightarrow> (\<exists>t. s = p @ t)"
  unfolding HasPrefix_def by (metis append_eq_conv_conj append_take_drop_id)

text \<open>\<^verbatim>\<open>strings.Split(s, sep)\<close> for a separator of one byte; \<^verbatim>\<open>strings.Join\<close>.\<close>

fun Split :: "char \<Rightarrow> string \<Rightarrow> string list" where
  "Split c [] = [[]]"
| "Split c (x # xs) =
     (if x = c then [] # Split c xs
      else (case Split c xs of [] \<Rightarrow> [[x]] | w # ws \<Rightarrow> (x # w) # ws))"

fun Join :: "string list \<Rightarrow> string \<Rightarrow> string" where
  "Join [] sep = []"
| "Join [w] sep = w"
| "Join (w # v # ws) sep = w @ sep @ Join (v # ws) sep"

lemma Split_not_Nil [simp]: "Split c s \<noteq> []"
  by (induction s) (auto split: list.split)

lemma Join_Cons: "ws \<noteq> [] \<Longrightarrow> Join (w # ws) sep = w @ sep @ Join ws sep"
  by (cases ws) auto

lemma Join_Split: "Join (Split c s) [c] = s"
proof (induction s)
  case Nil
  then show ?case by simp
next
  case (Cons x xs)
  obtain w ws where split: "Split c xs = w # ws"
    by (cases "Split c xs") auto
  with Cons show ?case
    by (cases ws) (auto simp: Join_Cons)
qed

lemma Split_no_sep: "c \<notin> set s \<Longrightarrow> Split c s = [s]"
  by (induction s) auto

lemma Split_append: "c \<notin> set s \<Longrightarrow> Split c (s @ c # t) = s # Split c t"
  by (induction s) auto

lemma Split_no_sep_in: "w \<in> set (Split c s) \<Longrightarrow> c \<notin> set w"
  by (induction s arbitrary: w) (auto split: if_splits list.splits)

text \<open>\<^verbatim>\<open>strings.Replace(s, old, new, -1)\<close> for \<^verbatim>\<open>old\<close> of one byte.\<close>

definition ReplaceAll :: "string \<Rightarrow> char \<Rightarrow> string \<Rightarrow> string" where
  "ReplaceAll s old new = concat (map (\<lambda>c. if c = old then new else [c]) s)"

lemma ReplaceAll_absent: "old \<notin> set new \<Longrightarrow> old \<notin> set (ReplaceAll s old new)"
  by (auto simp: ReplaceAll_def)

text \<open>\<^verbatim>\<open>strings.LastIndex(s, sep)\<close> for a separator of one byte: \<open>-1\<close> when it does not occur.\<close>

fun LastIndex :: "string \<Rightarrow> char \<Rightarrow> int" where
  "LastIndex [] c = -1"
| "LastIndex (x # xs) c =
     (let i = LastIndex xs c in if 0 \<le> i then i + 1 else if x = c then 0 else -1)"

lemma LastIndex_bounds: "-1 \<le> LastIndex s c \<and> LastIndex s c < int (length s)"
  by (induction s) (auto simp: Let_def)

lemma LastIndex_neg: "LastIndex s c < 0 \<longleftrightarrow> c \<notin> set s"
  by (induction s) (auto simp: Let_def)

lemma LastIndex_append: "c \<notin> set t \<Longrightarrow> LastIndex (s @ c # t) c = int (length s)"
proof (induction s)
  case Nil
  then show ?case using LastIndex_neg [of t c] by (auto simp: Let_def)
next
  case (Cons x xs)
  then show ?case by (simp add: Let_def)
qed

section \<open>Integers (strconv)\<close>

definition is_digit :: "char \<Rightarrow> bool" where
  "is_digit c \<longleftrightarrow> 48 \<le> code c \<and> code c \<le> 57"

definition digits_value :: "string \<Rightarrow> nat" where
  "digits_value s = foldl (\<lambda>n c. 10 * n + (code c - 48)) 0 s"

definition parse_unsigned :: "string \<Rightarrow> nat option" where
  "parse_unsigned s = (if s \<noteq> [] \<and> list_all is_digit s then Some (digits_value s) else None)"

text \<open>\<^verbatim>\<open>strconv.Atoi\<close> (and \<^verbatim>\<open>ParseInt(s, 10, 64)\<close>): a value out of range is clamped, with an error.\<close>

definition Atoi :: "string \<Rightarrow> int \<times> gerr option" where
  "Atoi s =
     (let neg = (s \<noteq> [] \<and> hd s = CHR ''-'');
          ds = (if s \<noteq> [] \<and> (hd s = CHR ''-'' \<or> hd s = CHR ''+'') then tl s else s)
      in case parse_unsigned ds of
           None \<Rightarrow> (0, Some (Errorf ''parsing %q: invalid syntax'' [GStr s]))
         | Some n \<Rightarrow>
             if neg then
               (if 2 ^ 63 < n then (-(2 ^ 63), Some (Errorf ''parsing %q: value out of range'' [GStr s]))
                else (- int n, None))
             else
               (if 2 ^ 63 \<le> n then (2 ^ 63 - 1, Some (Errorf ''parsing %q: value out of range'' [GStr s]))
                else (int n, None)))"

section \<open>UTF-8 (unicode/utf8)\<close>

definition RuneError :: nat where
  "RuneError = 65533"

definition valid_rune :: "nat \<Rightarrow> bool" where
  "valid_rune r \<longleftrightarrow> r < 55296 \<or> (57343 < r \<and> r \<le> 1114111)"

text \<open>\<^verbatim>\<open>string(r)\<close>: a surrogate or a value beyond U+10FFFF is written as U+FFFD.\<close>

definition encode_rune :: "nat \<Rightarrow> string" where
  "encode_rune r0 =
     (let r = (if valid_rune r0 then r0 else RuneError) in
      if r \<le> 127 then [chr r]
      else if r \<le> 2047 then [chr (192 + r div 64), chr (128 + r mod 64)]
      else if r \<le> 65535 then
        [chr (224 + r div 4096), chr (128 + r div 64 mod 64), chr (128 + r mod 64)]
      else
        [chr (240 + r div 262144), chr (128 + r div 4096 mod 64),
         chr (128 + r div 64 mod 64), chr (128 + r mod 64)])"

definition is_cont :: "nat \<Rightarrow> bool" where
  "is_cont n \<longleftrightarrow> 128 \<le> n \<and> n < 192"

text \<open>
  \<^verbatim>\<open>utf8.DecodeRuneInString\<close> on the codes of a non-empty string: the rune and the bytes it takes.
  Anything that is not the shortest encoding of a valid rune is one byte of \<open>RuneError\<close>.
\<close>

fun decode_rune :: "nat list \<Rightarrow> nat \<times> nat" where
  "decode_rune [] = (RuneError, 0)"
| "decode_rune (a # s) =
     (if a < 128 then (a, 1)
      else if 194 \<le> a \<and> a < 224 then
        (case s of b # _ \<Rightarrow> if is_cont b then ((a - 192) * 64 + (b - 128), 2) else (RuneError, 1)
         | [] \<Rightarrow> (RuneError, 1))
      else if 224 \<le> a \<and> a < 240 then
        (case s of b # c # _ \<Rightarrow>
             if is_cont b \<and> is_cont c \<and> (a = 224 \<longrightarrow> 160 \<le> b) \<and> (a = 237 \<longrightarrow> b < 160)
             then ((a - 224) * 4096 + (b - 128) * 64 + (c - 128), 3) else (RuneError, 1)
         | _ \<Rightarrow> (RuneError, 1))
      else if 240 \<le> a \<and> a < 245 then
        (case s of b # c # d # _ \<Rightarrow>
             if is_cont b \<and> is_cont c \<and> is_cont d \<and> (a = 240 \<longrightarrow> 144 \<le> b) \<and> (a = 244 \<longrightarrow> b < 144)
             then ((a - 240) * 262144 + (b - 128) * 4096 + (c - 128) * 64 + (d - 128), 4)
             else (RuneError, 1)
         | _ \<Rightarrow> (RuneError, 1))
      else (RuneError, 1))"

lemma decode_rune_size: "s \<noteq> [] \<Longrightarrow> 1 \<le> snd (decode_rune s) \<and> snd (decode_rune s) \<le> length s"
  by (cases s) (auto split: list.splits)

text \<open>The runes that \<^verbatim>\<open>for _, r := range s\<close> visits.\<close>

function runes_codes :: "nat list \<Rightarrow> nat list" where
  "runes_codes s =
     (if s = [] then [] else fst (decode_rune s) # runes_codes (drop (snd (decode_rune s)) s))"
  by pat_completeness auto
termination
proof (relation "measure length")
  fix s :: "nat list"
  assume "s \<noteq> []"
  then show "(drop (snd (decode_rune s)) s, s) \<in> measure length"
    using decode_rune_size [of s] by (cases s) (simp_all add: diff_less_Suc del: decode_rune.simps)
qed simp

declare runes_codes.simps [simp del]

definition runes_of :: "string \<Rightarrow> nat list" where
  "runes_of s = runes_codes (map code s)"

text \<open>The digits of a rune in base 64, and what validity says of the leading ones.\<close>

lemma base64_digits:
  fixes r :: nat
  shows "r = r div 64 * 64 + r mod 64"
    and "r = r div 4096 * 4096 + r div 64 mod 64 * 64 + r mod 64"
    and "r = r div 262144 * 262144 + r div 4096 mod 64 * 4096 + r div 64 mod 64 * 64 + r mod 64"
proof -
  show a: "r = r div 64 * 64 + r mod 64" by simp
  have b: "r div 64 = r div 4096 * 64 + r div 64 mod 64"
    using div_mult_mod_eq [of "r div 64" 64] by (simp add: div_mult2_eq [symmetric])
  have c: "r div 4096 = r div 262144 * 64 + r div 4096 mod 64"
    using div_mult_mod_eq [of "r div 4096" 64] by (simp add: div_mult2_eq [symmetric])
  show "r = r div 4096 * 4096 + r div 64 mod 64 * 64 + r mod 64"
    using a b by linarith
  show "r = r div 262144 * 262144 + r div 4096 mod 64 * 4096 + r div 64 mod 64 * 64 + r mod 64"
    using a b c by linarith
qed

lemma decode_rune_2:
  assumes "2 \<le> q" "q < 32" "m < 64"
  shows "decode_rune ((192 + q) # (128 + m) # t) = (q * 64 + m, 2)"
  using assms by (simp add: is_cont_def)

lemma decode_rune_3:
  assumes "q < 16" "l < 64" "m < 64" "q = 0 \<Longrightarrow> 32 \<le> l" "q = 13 \<Longrightarrow> l < 32"
  shows "decode_rune ((224 + q) # (128 + l) # (128 + m) # t) = (q * 4096 + l * 64 + m, 3)"
  using assms by (simp add: is_cont_def)

lemma decode_rune_4:
  assumes "q < 5" "k < 64" "l < 64" "m < 64" "q = 0 \<Longrightarrow> 16 \<le> k" "q = 4 \<Longrightarrow> k < 16"
  shows "decode_rune ((240 + q) # (128 + k) # (128 + l) # (128 + m) # t)
    = (q * 262144 + k * 4096 + l * 64 + m, 4)"
  using assms by (simp add: is_cont_def)

lemma decode_encode_rune:
  assumes "valid_rune r"
  shows "decode_rune (map code (encode_rune r) @ t) = (r, length (encode_rune r))"
proof -
  consider "r \<le> 127" | "127 < r" "r \<le> 2047" | "2047 < r" "r \<le> 65535" | "65535 < r"
    by linarith
  then show ?thesis
  proof cases
    case 1
    then show ?thesis using assms by (simp add: encode_rune_def)
  next
    case 2
    then have "2 \<le> r div 64" "r div 64 < 32" by auto
    with 2 assms decode_rune_2 [of "r div 64" "r mod 64" t] show ?thesis
      by (simp add: encode_rune_def del: decode_rune.simps)
  next
    case 3
    have "r div 4096 < 16" using 3 by auto
    moreover have "r div 4096 = 0 \<Longrightarrow> 32 \<le> r div 64 mod 64"
      using 3 base64_digits(2) [of r] by linarith
    moreover have "r div 4096 = 13 \<Longrightarrow> r div 64 mod 64 < 32"
      using assms base64_digits(2) [of r] mod_less_divisor [of 64 r]
      unfolding valid_rune_def by linarith
    ultimately show ?thesis
      using 3 assms decode_rune_3 [of "r div 4096" "r div 64 mod 64" "r mod 64" t]
        base64_digits(2) [of r]
      by (simp add: encode_rune_def del: decode_rune.simps)
  next
    case 4
    have "r div 262144 < 5" using assms by (auto simp: valid_rune_def)
    moreover have "r div 262144 = 0 \<Longrightarrow> 16 \<le> r div 4096 mod 64"
      using 4 base64_digits(3) [of r] mod_less_divisor [of 64 r]
        mod_less_divisor [of 64 "r div 64"] by linarith
    moreover have "r div 262144 = 4 \<Longrightarrow> r div 4096 mod 64 < 16"
      using assms base64_digits(3) [of r] unfolding valid_rune_def by linarith
    ultimately show ?thesis
      using 4 assms decode_rune_4 [of "r div 262144" "r div 4096 mod 64" "r div 64 mod 64"
          "r mod 64" t] base64_digits(3) [of r]
      by (simp add: encode_rune_def del: decode_rune.simps)
  qed
qed

lemma encode_rune_not_Nil [simp]: "encode_rune r \<noteq> []"
  by (simp add: encode_rune_def Let_def)

lemma runes_of_encode:
  "\<forall>r\<in>set rs. valid_rune r \<Longrightarrow> runes_of (concat (map encode_rune rs)) = rs"
proof (induction rs)
  case Nil
  then show ?case by (simp add: runes_of_def runes_codes.simps)
next
  case (Cons r rs)
  have step: "decode_rune (map code (encode_rune r @ concat (map encode_rune rs)))
      = (r, length (encode_rune r))"
    using Cons.prems decode_encode_rune by simp
  have "runes_of (concat (map encode_rune (r # rs)))
      = r # runes_codes (drop (length (encode_rune r))
          (map code (encode_rune r @ concat (map encode_rune rs))))"
    unfolding runes_of_def
    by (subst runes_codes.simps) (simp only: list.map concat.simps step fst_conv snd_conv, simp)
  also have "\<dots> = r # rs"
    using Cons by (simp add: runes_of_def)
  finally show ?case .
qed

section \<open>Case (unicode)\<close>

text \<open>
  \<open>tbl\<close> is the lower-case table of package unicode for the runes above ASCII.
\<close>

definition rune_ToLower :: "(nat \<Rightarrow> nat) \<Rightarrow> nat \<Rightarrow> nat" where
  "rune_ToLower tbl r =
     (if r \<le> 127 then (if 65 \<le> r \<and> r \<le> 90 then r + 32 else r) else tbl r)"

definition ToLower :: "(nat \<Rightarrow> nat) \<Rightarrow> string \<Rightarrow> string" where
  "ToLower tbl s =
     (if list_all (\<lambda>c. code c < 128) s then map (\<lambda>c. chr (rune_ToLower tbl (code c))) s
      else concat (map (encode_rune \<circ> rune_ToLower tbl) (runes_of s)))"

lemma ToLower_ascii_idem:
  assumes "list_all (\<lambda>c. code c < 128) s"
  shows "ToLower tbl (ToLower tbl s) = ToLower tbl s"
proof -
  have lower: "code (chr (rune_ToLower tbl (code c))) < 128
      \<and> rune_ToLower tbl (code (chr (rune_ToLower tbl (code c)))) = rune_ToLower tbl (code c)"
    if "code c < 128" for c
    using that by (auto simp: rune_ToLower_def)
  have "list_all (\<lambda>c. code c < 128) (ToLower tbl s)"
    using assms lower by (auto simp: ToLower_def list_all_iff)
  with assms lower show ?thesis
    by (simp add: ToLower_def list_all_iff)
qed

end
