(* ===== verification/MinecraftStruct.thy ===== *)
theory MinecraftStruct
  imports IOUtils GoStrings
begin

text \<open>
  The reflective struct codec of src/packets/ioutils.go.  \<^verbatim>\<open>reflect\<close> gives the codec, for each field
  of a packet struct, its tags and its current value; the dynamic type of the value, which the
  code switches on, is the constructor of \<open>fval\<close>.  NBT compounds belong to a third-party package:
  its value type is the parameter \<open>'n\<close>, its parser and writer are the record \<open>nbt_lib\<close>.
\<close>

unbundle bit_operations_syntax

section \<open>Fields\<close>

record field_tag =
  fname :: string
  max_length :: string
  length_prefix :: string
  data_type :: string
  mcignore :: string

definition tag :: "string \<Rightarrow> field_tag" where
  "tag n = \<lparr>fname = n, max_length = '''', length_prefix = '''', data_type = '''', mcignore = ''''\<rparr>"

datatype 'n fval =
    VBool bool
  | VUint8 byte
  | VInt8 byte
  | VInt16 "16 word"
  | VInt32 "32 word"
  | VInt64 "64 word"
  | VVarInt VarInt
  | VFloat32 "32 word"
  | VFloat64 "64 word"
  | VIdentifier Identifier
  | VIdentifiers "Identifier list"
  | VString string
  | VBytes bytes
  | VEntityID "32 word"
  | VUUID bytes
  | VNbt 'n
  | VOther string

type_synonym 'n field = "field_tag \<times> 'n fval"

record 'n nbt_lib =
  nbt_read :: "'n reading"
  nbt_write :: "'n \<Rightarrow> bytes \<times> gerr option"

section \<open>ReadMinecraftStruct\<close>

text \<open>
  A \<^verbatim>\<open>float32\<close> goes through \<^verbatim>\<open>float64\<close> (\<^verbatim>\<open>reflect.Value.SetFloat\<close>), which turns a signalling NaN into the
  quiet NaN with the same payload and changes no other value.
\<close>

definition quiet32 :: "32 word \<Rightarrow> 32 word" where
  "quiet32 w =
     (if w AND 0x7f800000 = 0x7f800000 \<and> w AND 0x007fffff \<noteq> 0 then w OR 0x00400000 else w)"

text \<open>The end of the \<^verbatim>\<open>[]byte\<close> case: the length check and the copy of \<open>datalen\<close> bytes.\<close>

definition ReadBytesCopy ::
    "int \<Rightarrow> string \<Rightarrow> 'n fval \<Rightarrow> int \<Rightarrow> bytes \<Rightarrow> ('n fval \<times> gerr option \<times> bytes) go" where
  "ReadBytesCopy maxlen prefix v datalen s =
     (if datalen < 0 \<or> maxlen < datalen then
        Ret (v, Some (Errorf ''invalid datalen value: 0 < %d < %d'' [GInt datalen, GInt maxlen]), s)
      else (case CopyN (nat datalen) s of
              (buf, err, s') \<Rightarrow>
                (case (if err = Some EOF \<and> prefix = ''eof'' then None else err) of
                   Some e \<Rightarrow> Ret (v, Some e, s')
                 | None \<Rightarrow> Ret (VBytes buf, None, s'))))"

definition ReadBytesField ::
    "bool \<Rightarrow> field_tag \<Rightarrow> 'n fval \<Rightarrow> bytes \<Rightarrow> ('n fval \<times> gerr option \<times> bytes) go" where
  "ReadBytesField fin t v s =
     (case Atoi (max_length t) of
        (maxlen, Some e) \<Rightarrow> Panic ''invalid max_length tag''
      | (maxlen, None) \<Rightarrow>
          if length_prefix t = ''int16'' then
            (case ReadFull 2 s of
               (b, Some e, s') \<Rightarrow> Ret (v, Some e, s')
             | (b, None, s') \<Rightarrow> ReadBytesCopy maxlen (length_prefix t) v (uint (Uint16 b)) s')
          else if length_prefix t = ''int32'' then
            (case ReadFull 4 s of
               (b, Some e, s') \<Rightarrow> Ret (v, Some e, s')
             | (b, None, s') \<Rightarrow> ReadBytesCopy maxlen (length_prefix t) v (uint (Uint32 b)) s')
          else if length_prefix t = ''VarInt'' then
            (case ReadUvarint s of
               (x, Some e, s') \<Rightarrow> Ret (v, Some e, s')
             | (x, None, s') \<Rightarrow>
                 ReadBytesCopy maxlen (length_prefix t) v (uint (ucast x :: 32 word)) s')
          else if length_prefix t = ''eof'' then
            (if \<not> fin then Panic ''max_length eof field is not last in struct''
             else ReadBytesCopy maxlen (length_prefix t) v maxlen s)
          else Panic ''invalid length_prefix tag'')"

fun ReadField ::
    "'n nbt_lib \<Rightarrow> bool \<Rightarrow> field_tag \<Rightarrow> 'n fval \<Rightarrow> bytes \<Rightarrow> ('n fval \<times> gerr option \<times> bytes) go" where
  "ReadField lib fin t (VBool v) s =
     (case ReadBool s of (c, Some e, s') \<Rightarrow> Ret (VBool v, Some e, s') | (c, None, s') \<Rightarrow> Ret (VBool c, None, s'))"
| "ReadField lib fin t (VUint8 v) s =
     (case ReadFull 1 s of (b, Some e, s') \<Rightarrow> Ret (VUint8 v, Some e, s') | (b, None, s') \<Rightarrow> Ret (VUint8 (b ! 0), None, s'))"
| "ReadField lib fin t (VInt8 v) s =
     (case ReadFull 1 s of (b, Some e, s') \<Rightarrow> Ret (VInt8 v, Some e, s') | (b, None, s') \<Rightarrow> Ret (VInt8 (b ! 0), None, s'))"
| "ReadField lib fin t (VInt16 v) s =
     (case ReadFull 2 s of (b, Some e, s') \<Rightarrow> Ret (VInt16 v, Some e, s') | (b, None, s') \<Rightarrow> Ret (VInt16 (Uint16 b), None, s'))"
| "ReadField lib fin t (VInt32 v) s =
     (case ReadFull 4 s of (b, Some e, s') \<Rightarrow> Ret (VInt32 v, Some e, s') | (b, None, s') \<Rightarrow> Ret (VInt32 (Uint32 b), None, s'))"
| "ReadField lib fin t (VInt64 v) s =
     (case ReadFull 8 s of (b, Some e, s') \<Rightarrow> Ret (VInt64 v, Some e, s') | (b, None, s') \<Rightarrow> Ret (VInt64 (Uint64 b), None, s'))"
| "ReadField lib fin t (VVarInt v) s =
     (case ReadUvarint s of (x, Some e, s') \<Rightarrow> Ret (VVarInt v, Some e, s') | (x, None, s') \<Rightarrow> Ret (VVarInt (ucast x), None, s'))"
| "ReadField lib fin t (VFloat32 v) s =
     (case ReadFull 4 s of (b, Some e, s') \<Rightarrow> Ret (VFloat32 v, Some e, s') | (b, None, s') \<Rightarrow> Ret (VFloat32 (quiet32 (Uint32 b)), None, s'))"
| "ReadField lib fin t (VFloat64 v) s =
     (case ReadFull 8 s of (b, Some e, s') \<Rightarrow> Ret (VFloat64 v, Some e, s') | (b, None, s') \<Rightarrow> Ret (VFloat64 (Uint64 b), None, s'))"
| "ReadField lib fin t (VIdentifier v) s =
     (case ReadIdentifier s of (i, Some e, s') \<Rightarrow> Ret (VIdentifier v, Some e, s') | (i, None, s') \<Rightarrow> Ret (VIdentifier i, None, s'))"
| "ReadField lib fin t (VIdentifiers v) s =
     (case ReadIdentifierArray s of
        Panic m \<Rightarrow> Panic m
      | Ret (ids, Some e, s') \<Rightarrow> Ret (VIdentifiers v, Some e, s')
      | Ret (ids, None, s') \<Rightarrow> Ret (VIdentifiers ids, None, s'))"
| "ReadField lib fin t (VString v) s =
     (case Atoi (max_length t) of
        (maxlen, Some e) \<Rightarrow> Panic ''Invalid max_length tag''
      | (maxlen, None) \<Rightarrow>
          (case ReadMinecraftString maxlen s of
             (str, Some e, s') \<Rightarrow> Ret (VString v, Some e, s')
           | (str, None, s') \<Rightarrow> Ret (VString str, None, s')))"
| "ReadField lib fin t (VBytes v) s = ReadBytesField fin t (VBytes v) s"
| "ReadField lib fin t (VEntityID v) s =
     (if data_type t = ''int32'' then
        (case ReadFull 4 s of (b, err, s') \<Rightarrow> Ret (VEntityID (Uint32 b), err, s'))
      else if data_type t = ''VarInt'' then
        (case ReadUvarint s of
           (x, Some e, s') \<Rightarrow> Ret (VEntityID v, Some e, s')
         | (x, None, s') \<Rightarrow> Ret (VEntityID (ucast x), None, s'))
      else Panic ''Invalid EntityID datatype'')"
| "ReadField lib fin t (VUUID v) s =
     (case ReadFull 16 s of (b, Some e, s') \<Rightarrow> Ret (VUUID v, Some e, s') | (b, None, s') \<Rightarrow> Ret (VUUID b, None, s'))"
| "ReadField lib fin t (VNbt v) s =
     (case nbt_read lib s of (n, Some e, s') \<Rightarrow> Ret (VNbt v, Some e, s') | (n, None, s') \<Rightarrow> Ret (VNbt n, None, s'))"
| "ReadField lib fin t (VOther v) s = Panic ''Invalid field in minecraft struct''"

fun ReadMinecraftStruct ::
    "'n nbt_lib \<Rightarrow> 'n field list \<Rightarrow> bytes \<Rightarrow> ('n fval list \<times> gerr option \<times> bytes) go" where
  "ReadMinecraftStruct lib [] s = Ret ([], None, s)"
| "ReadMinecraftStruct lib ((t, v) # fs) s =
     (if mcignore t \<noteq> '''' then
        go_map (\<lambda>(vs, err, s'). (v # vs, err, s')) (ReadMinecraftStruct lib fs s)
      else
        (case ReadField lib (fs = []) t v s of
           Panic m \<Rightarrow> Panic m
         | Ret (v', Some e, s') \<Rightarrow> Ret (v' # map snd fs, Some e, s')
         | Ret (v', None, s') \<Rightarrow>
             go_map (\<lambda>(vs, err, s''). (v' # vs, err, s'')) (ReadMinecraftStruct lib fs s')))"

section \<open>WriteMinecraftStruct\<close>

definition WriteBytesField :: "bool \<Rightarrow> field_tag \<Rightarrow> bytes \<Rightarrow> (bytes \<times> gerr option) go" where
  "WriteBytesField fin t v =
     (let prefix = length_prefix t in
      if prefix = ''int16'' then Ret (PutUint16 (word_of_nat (length v)) @ v, None)
      else if prefix = ''int32'' then Ret (PutUint32 (word_of_nat (length v)) @ v, None)
      else if prefix = ''VarInt'' then
        Ret (PutUvarint (ucast (word_of_nat (length v) :: 32 word)) @ v, None)
      else if prefix = ''eof'' then
        (if \<not> fin then Panic ''max_length eof field is not last in struct'' else Ret (v, None))
      else Panic ''Invalid length_prefix tag'')"

fun WriteField :: "'n nbt_lib \<Rightarrow> bool \<Rightarrow> field_tag \<Rightarrow> 'n fval \<Rightarrow> (bytes \<times> gerr option) go" where
  "WriteField lib fin t (VBool v) = Ret (WriteBool v, None)"
| "WriteField lib fin t (VUint8 v) = Ret ([v], None)"
| "WriteField lib fin t (VInt8 v) = Ret ([v], None)"
| "WriteField lib fin t (VInt16 v) = Ret (PutUint16 v, None)"
| "WriteField lib fin t (VInt32 v) = Ret (PutUint32 v, None)"
| "WriteField lib fin t (VInt64 v) = Ret (PutUint64 v, None)"
| "WriteField lib fin t (VVarInt v) = Ret (PutUvarint (ucast v), None)"
| "WriteField lib fin t (VFloat32 v) = Ret (PutUint32 v, None)"
| "WriteField lib fin t (VFloat64 v) = Ret (PutUint64 v, None)"
| "WriteField lib fin t (VIdentifier v) = Ret (WriteIdentifier v, None)"
| "WriteField lib fin t (VIdentifiers v) = Ret (WriteIdentifierArray v, None)"
| "WriteField lib fin t (VString v) = Ret (WriteMinecraftString v, None)"
| "WriteField lib fin t (VBytes v) = WriteBytesField fin t v"
| "WriteField lib fin t (VEntityID v) =
     (if data_type t = ''int32'' then Ret (PutUint32 v, None)
      else if data_type t = ''VarInt'' then Ret (PutUvarint (ucast v), None)
      else Panic ''Invalid EntityID datatype'')"
| "WriteField lib fin t (VUUID v) = Ret (v, None)"
| "WriteField lib fin t (VNbt v) = Ret (nbt_write lib v)"
| "WriteField lib fin t (VOther v) = Panic ''Invalid field in minecraft struct''"

fun WriteMinecraftStruct :: "'n nbt_lib \<Rightarrow> 'n field list \<Rightarrow> (bytes \<times> gerr option) go" where
  "WriteMinecraftStruct lib [] = Ret ([], None)"
| "WriteMinecraftStruct lib ((t, v) # fs) =
     (if mcignore t \<noteq> '''' then WriteMinecraftStruct lib fs
      else
        (case WriteField lib (fs = []) t v of
           Panic m \<Rightarrow> Panic m
         | Ret (b, Some e) \<Rightarrow> Ret (b, Some e)
         | Ret (b, None) \<Rightarrow> go_map (\<lambda>(bs, err). (b @ bs, err)) (WriteMinecraftStruct lib fs)))"

section \<open>Which schemas are safe, which values survive\<close>

text \<open>
  \<open>schema_ok\<close> is about the declaration of a struct only (types and tags).  A struct with it can be
  read from any input whatever without a panic.
\<close>

fun field_schema_ok :: "bool \<Rightarrow> field_tag \<Rightarrow> 'n fval \<Rightarrow> bool" where
  "field_schema_ok fin t (VString v) = (snd (Atoi (max_length t)) = None)"
| "field_schema_ok fin t (VBytes v) =
     (snd (Atoi (max_length t)) = None \<and>
      (length_prefix t \<in> {''int16'', ''int32'', ''VarInt''} \<or> length_prefix t = ''eof'' \<and> fin))"
| "field_schema_ok fin t (VEntityID v) = (data_type t = ''int32'' \<or> data_type t = ''VarInt'')"
| "field_schema_ok fin t (VIdentifiers v) = False"
| "field_schema_ok fin t (VOther v) = False"
| "field_schema_ok fin t v = True"

fun schema_ok :: "'n field list \<Rightarrow> bool" where
  "schema_ok [] = True"
| "schema_ok ((t, v) # fs) =
     ((mcignore t \<noteq> '''' \<or> field_schema_ok (fs = []) t v) \<and> schema_ok fs)"

lemma ReadBytesCopy_no_panic [simp]: "\<not> panics (ReadBytesCopy maxlen prefix v datalen s)"
  by (auto simp: ReadBytesCopy_def split: prod.split option.split)

lemma ReadBytesField_no_panic:
  assumes "field_schema_ok fin t (VBytes b)"
  shows "\<not> panics (ReadBytesField fin t v s)"
proof -
  obtain m where "Atoi (max_length t) = (m, None)"
    using assms by (cases "Atoi (max_length t)") auto
  with assms show ?thesis
    unfolding ReadBytesField_def by (simp split: prod.split option.split) auto
qed

lemma ReadField_no_panic:
  "field_schema_ok fin t v \<Longrightarrow> \<not> panics (ReadField lib fin t v s)"
  by (cases v; cases "Atoi (max_length t)")
     (simp_all add: ReadBytesField_no_panic split: prod.split option.split, auto)

lemma ReadMinecraftStruct_no_panic:
  "schema_ok fs \<Longrightarrow> \<not> panics (ReadMinecraftStruct lib fs s)"
proof (induction lib fs s rule: ReadMinecraftStruct.induct)
  case (1 lib s)
  then show ?case by simp
next
  case (2 lib t v fs s)
  show ?case
  proof (cases "mcignore t = ''''")
    case False
    with 2 show ?thesis by simp
  next
    case True
    with "2.prems" have "\<not> panics (ReadField lib (fs = []) t v s)"
      by (intro ReadField_no_panic) simp
    then obtain v' err s' where read: "ReadField lib (fs = []) t v s = Ret (v', err, s')"
      by (auto simp: not_panics_iff)
    with True 2 show ?thesis by (cases err) auto
  qed
qed

text \<open>
  \<open>field_ok\<close>: values of a field that the writer and the reader agree on.  The NBT library is known
  by the round trip it documents, on the compounds \<open>nbt_ok\<close>.
\<close>

definition nbt_roundtrips :: "'n nbt_lib \<Rightarrow> ('n \<Rightarrow> bool) \<Rightarrow> bool" where
  "nbt_roundtrips lib nbt_ok \<longleftrightarrow>
     (\<forall>n s. nbt_ok n \<longrightarrow> snd (nbt_write lib n) = None
        \<and> nbt_read lib (fst (nbt_write lib n) @ s) = (n, None, s))"

fun field_ok :: "('n \<Rightarrow> bool) \<Rightarrow> bool \<Rightarrow> field_tag \<Rightarrow> 'n fval \<Rightarrow> bool" where
  "field_ok nbt_ok fin t (VFloat32 w) = (quiet32 w = w)"
| "field_ok nbt_ok fin t (VIdentifier i) = (int (length i) \<le> IdentifierMaxLength)"
| "field_ok nbt_ok fin t (VIdentifiers ids) = (ids = [])"
| "field_ok nbt_ok fin t (VString str) =
     (case Atoi (max_length t) of
        (m, None) \<Rightarrow> int (length str) \<le> m \<and> m < 2147483648
      | (m, Some e) \<Rightarrow> False)"
| "field_ok nbt_ok fin t (VBytes b) =
     (case Atoi (max_length t) of
        (m, None) \<Rightarrow> int (length b) \<le> m \<and>
          (length_prefix t = ''int16'' \<and> length b < 65536
           \<or> length_prefix t \<in> {''int32'', ''VarInt''} \<and> length b < 4294967296
           \<or> length_prefix t = ''eof'' \<and> fin)
      | (m, Some e) \<Rightarrow> False)"
| "field_ok nbt_ok fin t (VEntityID v) = (data_type t = ''int32'' \<or> data_type t = ''VarInt'')"
| "field_ok nbt_ok fin t (VUUID u) = (length u = 16)"
| "field_ok nbt_ok fin t (VNbt n) = nbt_ok n"
| "field_ok nbt_ok fin t (VOther v) = False"
| "field_ok nbt_ok fin t v = True"

fun fields_ok :: "('n \<Rightarrow> bool) \<Rightarrow> 'n field list \<Rightarrow> bool" where
  "fields_ok nbt_ok [] = True"
| "fields_ok nbt_ok ((t, v) # fs) =
     ((mcignore t \<noteq> '''' \<or> field_ok nbt_ok (fs = []) t v) \<and> fields_ok nbt_ok fs)"

text \<open>The struct that a parser starts from has fields of the same types, and equal ignored fields.\<close>

fun type_index :: "'n fval \<Rightarrow> nat" where
  "type_index (VBool a) = 0"
| "type_index (VUint8 a) = 1"
| "type_index (VInt8 a) = 2"
| "type_index (VInt16 a) = 3"
| "type_index (VInt32 a) = 4"
| "type_index (VInt64 a) = 5"
| "type_index (VVarInt a) = 6"
| "type_index (VFloat32 a) = 7"
| "type_index (VFloat64 a) = 8"
| "type_index (VIdentifier a) = 9"
| "type_index (VIdentifiers a) = 10"
| "type_index (VString a) = 11"
| "type_index (VBytes a) = 12"
| "type_index (VEntityID a) = 13"
| "type_index (VUUID a) = 14"
| "type_index (VNbt a) = 15"
| "type_index (VOther a) = 16"

fun same_struct :: "'n field list \<Rightarrow> 'n field list \<Rightarrow> bool" where
  "same_struct [] [] = True"
| "same_struct ((t, v) # fs) ((t', v') # fs') =
     (t = t' \<and> (if mcignore t \<noteq> '''' then v = v' else type_index v = type_index v')
      \<and> same_struct fs fs')"
| "same_struct fs fs' = False"

definition eof_field :: "field_tag \<Rightarrow> 'n fval \<Rightarrow> bool" where
  "eof_field t v \<longleftrightarrow> type_index v = 12 \<and> length_prefix t = ''eof''"

definition reads_to_eof :: "'n field list \<Rightarrow> bool" where
  "reads_to_eof fs \<longleftrightarrow> list_ex (\<lambda>(t, v). eof_field t v) fs"

lemma uint_of_nat_16: "n < 65536 \<Longrightarrow> uint (word_of_nat n :: 16 word) = int n"
  by (simp add: unsigned_of_nat take_bit_nat_eq_self)

lemma uint_of_nat_32: "n < 4294967296 \<Longrightarrow> uint (word_of_nat n :: 32 word) = int n"
  by (simp add: unsigned_of_nat take_bit_nat_eq_self)

lemma WriteBytesField_roundtrip:
  assumes "field_ok nbt_ok fin t (VBytes b :: 'n fval)" "length_prefix t = ''eof'' \<longrightarrow> s = []"
  shows "\<exists>e. WriteBytesField fin t b = Ret (e, None)
    \<and> ReadBytesField fin t (v0 :: 'n fval) (e @ s) = Ret (VBytes b, None, s)"
proof -
  obtain m where m: "Atoi (max_length t) = (m, None)" "int (length b) \<le> m"
    using assms(1) by (auto split: prod.splits option.splits)
  consider "length_prefix t = ''int16''" "length b < 65536"
    | "length_prefix t = ''int32''" "length b < 4294967296"
    | "length_prefix t = ''VarInt''" "length b < 4294967296"
    | "length_prefix t = ''eof''" fin
    using assms(1) m by auto
  then show ?thesis
  proof cases
    case 4
    with m assms(2) show ?thesis
      by (simp add: WriteBytesField_def ReadBytesField_def ReadBytesCopy_def Let_def CopyN_def)
  qed (use m in \<open>simp_all add: WriteBytesField_def ReadBytesField_def ReadBytesCopy_def Let_def uint_of_nat_16
         uint_of_nat_32 ReadUvarint_PutUvarint\<close>)
qed

section \<open>Round trip of fields and structs\<close>

lemma type_index_iff:
  "type_index v = 0 \<longleftrightarrow> (\<exists>a. v = VBool a)"
  "type_index v = Suc 0 \<longleftrightarrow> (\<exists>a. v = VUint8 a)"
  "type_index v = 2 \<longleftrightarrow> (\<exists>a. v = VInt8 a)"
  "type_index v = 3 \<longleftrightarrow> (\<exists>a. v = VInt16 a)"
  "type_index v = 4 \<longleftrightarrow> (\<exists>a. v = VInt32 a)"
  "type_index v = 5 \<longleftrightarrow> (\<exists>a. v = VInt64 a)"
  "type_index v = 6 \<longleftrightarrow> (\<exists>a. v = VVarInt a)"
  "type_index v = 7 \<longleftrightarrow> (\<exists>a. v = VFloat32 a)"
  "type_index v = 8 \<longleftrightarrow> (\<exists>a. v = VFloat64 a)"
  "type_index v = 9 \<longleftrightarrow> (\<exists>a. v = VIdentifier a)"
  "type_index v = 10 \<longleftrightarrow> (\<exists>a. v = VIdentifiers a)"
  "type_index v = 11 \<longleftrightarrow> (\<exists>a. v = VString a)"
  "type_index v = 12 \<longleftrightarrow> (\<exists>a. v = VBytes a)"
  "type_index v = 13 \<longleftrightarrow> (\<exists>a. v = VEntityID a)"
  "type_index v = 14 \<longleftrightarrow> (\<exists>a. v = VUUID a)"
  "type_index v = 15 \<longleftrightarrow> (\<exists>a. v = VNbt a)"
  "type_index v = 16 \<longleftrightarrow> (\<exists>a. v = VOther a)"
  by (cases v; simp)+

lemma WriteField_roundtrip:
  assumes "field_ok nbt_ok fin t v" "nbt_roundtrips lib nbt_ok"
    and "type_index v0 = type_index v" "eof_field t v \<longrightarrow> s = []"
  shows "\<exists>e. WriteField lib fin t v = Ret (e, None) \<and> ReadField lib fin t v0 (e @ s) = Ret (v, None, s)"
proof (cases v)
  case (VBytes b)
  with assms(3) obtain b0 where "v0 = VBytes b0" by (auto simp: type_index_iff)
  with VBytes assms WriteBytesField_roundtrip [of nbt_ok fin t b s v0] show ?thesis
    by (simp add: eof_field_def)
next
  case (VString str)
  with assms(3) obtain b0 where "v0 = VString b0" by (auto simp: type_index_iff)
  with VString assms show ?thesis
    by (cases "Atoi (max_length t)") (auto simp: ReadMinecraftString_Write split: option.splits)
next
  case (VNbt n)
  with assms(3) obtain b0 where "v0 = VNbt b0" by (auto simp: type_index_iff)
  moreover from VNbt assms have "nbt_write lib n = (fst (nbt_write lib n), None)"
      "nbt_read lib (fst (nbt_write lib n) @ s) = (n, None, s)"
    by (auto simp: nbt_roundtrips_def prod_eq_iff)
  ultimately show ?thesis using VNbt
    by (intro exI [of _ "fst (nbt_write lib n)"]) simp
next
  case (VIdentifiers ids)
  with assms(3) obtain b0 where "v0 = VIdentifiers b0" by (auto simp: type_index_iff)
  with VIdentifiers assms ReadIdentifierArray_Write [of "[]" s] show ?thesis by simp
next
  case (VIdentifier i)
  with assms(3) obtain b0 where "v0 = VIdentifier b0" by (auto simp: type_index_iff)
  with VIdentifier assms show ?thesis by (simp add: ident.dec_enc)
next
  case (VEntityID i)
  with assms(3) obtain b0 where "v0 = VEntityID b0" by (auto simp: type_index_iff)
  with VEntityID assms show ?thesis by (auto simp: ReadUvarint_PutUvarint)
next
  case (VBool c)
  with assms(3) obtain b0 where "v0 = VBool b0" by (auto simp: type_index_iff)
  with VBool show ?thesis by (simp add: boolean.dec_enc)
qed (use assms(1,3) in \<open>auto simp: type_index_iff ReadUvarint_PutUvarint\<close>)

lemma eof_field_final: "field_ok nbt_ok fin t v \<Longrightarrow> eof_field t v \<Longrightarrow> fin"
  by (cases v) (auto simp: eof_field_def split: prod.splits option.splits)

text \<open>
  What \<open>WriteMinecraftStruct\<close> writes, \<open>ReadMinecraftStruct\<close> reads back, into any struct of the same
  type.  A struct that ends in a field up to the end of input must be the last thing in the stream.
\<close>

theorem struct_roundtrip_gen:
  assumes "fields_ok nbt_ok fs" "nbt_roundtrips lib nbt_ok" "same_struct fs0 fs"
    and "reads_to_eof fs \<longrightarrow> s = []"
  shows "\<exists>e. WriteMinecraftStruct lib fs = Ret (e, None)
    \<and> ReadMinecraftStruct lib fs0 (e @ s) = Ret (map snd fs, None, s)"
  using assms(1,3,4)
proof (induction fs0 fs rule: same_struct.induct)
  case 1
  then show ?case by simp
next
  case (2 t v0 fs0 t' v fs)
  then have rest: "\<exists>e. WriteMinecraftStruct lib fs = Ret (e, None)
      \<and> ReadMinecraftStruct lib fs0 (e @ s) = Ret (map snd fs, None, s)"
    by (simp add: reads_to_eof_def)
  then obtain e where e: "WriteMinecraftStruct lib fs = Ret (e, None)"
      "ReadMinecraftStruct lib fs0 (e @ s) = Ret (map snd fs, None, s)" by blast
  have t: "t = t'" and fin: "fs0 = [] \<longleftrightarrow> fs = []"
    using "2.prems" by (auto elim: same_struct.elims)
  show ?case
  proof (cases "mcignore t = ''''")
    case False
    with t "2.prems" e show ?thesis by simp
  next
    case True
    then have ok: "field_ok nbt_ok (fs = []) t v" "type_index v0 = type_index v"
      using "2.prems" t by auto
    have eof: "eof_field t v \<longrightarrow> e @ s = []"
      using eof_field_final [OF ok(1)] "2.prems"(3) t e by (auto simp: reads_to_eof_def)
    from WriteField_roundtrip [OF ok(1) assms(2) ok(2) eof] obtain d where
      "WriteField lib (fs = []) t v = Ret (d, None)"
      "ReadField lib (fs = []) t v0 (d @ e @ s) = Ret (v, None, e @ s)" by blast
    with True t e fin show ?thesis by simp
  qed
qed auto

end
