(* ===== verification/PacketStruct.thy ===== *)
theory PacketStruct
  imports MinecraftStruct
begin

text \<open>
  What every packet type has in common: the constants of src/packets/direction.go and
  connstate.go, the method set of the Go interface \<^verbatim>\<open>Packet\<close>, and the contract between a struct and
  its reflection from which the round trip of every packet that only calls
  \<^verbatim>\<open>ReadMinecraftStruct\<close>/\<^verbatim>\<open>WriteMinecraftStruct\<close> follows.
\<close>

section \<open>Directions, connection states, identifiers\<close>

type_synonym uuid = bytes

type_synonym direction = "8 word"

definition ServerBound :: direction where "ServerBound = 1"

definition ClientBound :: direction where "ClientBound = 2"

definition direction_String :: "direction \<Rightarrow> string go" where
  "direction_String d =
     (if d = ServerBound then Ret ''SB'' else if d = ClientBound then Ret ''CB''
      else Panic ''invalid direction'')"

type_synonym conn_state = VarInt

definition HANDSHAKING :: conn_state where "HANDSHAKING = 0"

definition STATUS :: conn_state where "STATUS = 1"

definition LOGIN :: conn_state where "LOGIN = 2"

definition PLAY :: conn_state where "PLAY = 3"

definition conn_state_String :: "conn_state \<Rightarrow> string" where
  "conn_state_String st =
     (if st = HANDSHAKING then ''HANDSHAKING'' else if st = STATUS then ''STATUS''
      else if st = LOGIN then ''LOGIN'' else if st = PLAY then ''PLAY'' else ''UNKNOWN'')"

section \<open>The method set of a packet type\<close>

type_synonym 'p parsing = "bytes \<Rightarrow> ('p \<times> gerr option \<times> bytes) go"

record 'p methods =
  m_PacketID :: VarInt
  m_Direction :: direction
  m_Parse :: "'p \<Rightarrow> 'p parsing"
  m_Serialize :: "'p \<Rightarrow> (bytes \<times> gerr option) go"

text \<open>\<^verbatim>\<open>return ReadMinecraftStruct(reader, packet)\<close> and \<^verbatim>\<open>return WriteMinecraftStruct(writer, packet)\<close>.\<close>

definition struct_Parse ::
    "'n nbt_lib \<Rightarrow> ('p \<Rightarrow> 'n field list) \<Rightarrow> ('n fval list \<Rightarrow> 'p \<Rightarrow> 'p) \<Rightarrow> 'p \<Rightarrow> 'p parsing" where
  "struct_Parse lib reflect set_fields p s =
     go_map (\<lambda>(vs, err, s'). (set_fields vs p, err, s')) (ReadMinecraftStruct lib (reflect p) s)"

definition struct_Serialize ::
    "'n nbt_lib \<Rightarrow> ('p \<Rightarrow> 'n field list) \<Rightarrow> 'p \<Rightarrow> (bytes \<times> gerr option) go" where
  "struct_Serialize lib reflect p = WriteMinecraftStruct lib (reflect p)"

section \<open>The contract of reflection\<close>

locale packet_struct =
  fixes reflect :: "'p \<Rightarrow> 'n field list"
    and set_fields :: "'n fval list \<Rightarrow> 'p \<Rightarrow> 'p"
  assumes set_reflect: "set_fields (map snd (reflect p)) q = p"
    and reflect_same: "same_struct (reflect q) (reflect p)"
begin

lemma roundtrip:
  assumes "fields_ok nbt_ok (reflect p)" "nbt_roundtrips lib nbt_ok"
    and "reads_to_eof (reflect p) \<longrightarrow> s = []"
  shows "\<exists>e. struct_Serialize lib reflect p = Ret (e, None)
    \<and> (\<forall>q. struct_Parse lib reflect set_fields q (e @ s) = Ret (p, None, s))"
proof -
  from struct_roundtrip_gen [OF assms(1,2) reflect_same assms(3)]
  have read: "\<exists>e. WriteMinecraftStruct lib (reflect p) = Ret (e, None)
      \<and> ReadMinecraftStruct lib (reflect q) (e @ s) = Ret (map snd (reflect p), None, s)" for q .
  then obtain e where e: "WriteMinecraftStruct lib (reflect p) = Ret (e, None)" by blast
  with read have "ReadMinecraftStruct lib (reflect q) (e @ s) = Ret (map snd (reflect p), None, s)" for q
    by fastforce
  with e show ?thesis
    by (auto simp: struct_Serialize_def struct_Parse_def set_reflect)
qed

lemma no_panic: "schema_ok (reflect p) \<Longrightarrow> \<not> panics (struct_Parse lib reflect set_fields p s)"
  by (simp add: struct_Parse_def ReadMinecraftStruct_no_panic)

end

section \<open>The length limits that occur in tags\<close>

lemma Atoi_tags [simp]:
  "Atoi ''16'' = (16, None)" "Atoi ''20'' = (20, None)" "Atoi ''64'' = (64, None)"
  "Atoi ''255'' = (255, None)" "Atoi ''256'' = (256, None)" "Atoi ''1024'' = (1024, None)"
  "Atoi ''2048'' = (2048, None)" "Atoi ''32500'' = (32500, None)" "Atoi ''32767'' = (32767, None)"
  "Atoi ''35000'' = (35000, None)"
  by (simp_all add: Atoi_def parse_unsigned_def is_digit_def digits_value_def code_def)

lemma Atoi_no_tag [simp]:
  "Atoi '''' = (0, Some (Errorf ''parsing %q: invalid syntax'' [GStr '''']))"
  by (simp add: Atoi_def parse_unsigned_def)

lemma tag_simps [simp]:
  "mcignore (tag n) = ''''" "max_length (tag n) = ''''" "length_prefix (tag n) = ''''"
  "data_type (tag n) = ''''" "fname (tag n) = n"
  by (simp_all add: tag_def)

lemmas reflect_eval = reads_to_eof_def eof_field_def

end
