(* ===== verification/LoginPackets.thy ===== *)
theory LoginPackets
  imports PacketStruct
begin

text \<open>
  The packet types of src/packets/handshaking_packets.go, status.go and login_packets.go: for each
  struct its fields, its reflection (types and tags), and its method set.
\<close>

record HandshakePacket =
  hs_Protocol :: VarInt
  hs_Host :: string
  hs_Port :: "16 word"
  hs_NextState :: VarInt

definition HandshakePacket_reflect :: "HandshakePacket \<Rightarrow> 'n field list" where
  "HandshakePacket_reflect p =
     [(tag ''Protocol'', VVarInt (hs_Protocol p)),
      ((tag ''Host'')\<lparr>max_length := ''255''\<rparr>, VString (hs_Host p)),
      (tag ''Port'', VInt16 (hs_Port p)),
      (tag ''NextState'', VVarInt (hs_NextState p))]"

definition HandshakePacket_set :: "'n fval list \<Rightarrow> HandshakePacket \<Rightarrow> HandshakePacket" where
  "HandshakePacket_set vs p =
     (case vs of [VVarInt a, VString b, VInt16 c, VVarInt d] \<Rightarrow>
        p\<lparr>hs_Protocol := a, hs_Host := b, hs_Port := c, hs_NextState := d\<rparr>
      | _ \<Rightarrow> p)"

definition HandshakePacket_methods :: "'n nbt_lib \<Rightarrow> HandshakePacket methods" where
  "HandshakePacket_methods lib =
     \<lparr>m_PacketID = 0x00, m_Direction = ServerBound,
      m_Parse = struct_Parse lib HandshakePacket_reflect HandshakePacket_set,
      m_Serialize = struct_Serialize lib HandshakePacket_reflect\<rparr>"

interpretation HandshakePacket_struct: packet_struct HandshakePacket_reflect HandshakePacket_set
  by unfold_locales (simp_all add: HandshakePacket_reflect_def HandshakePacket_set_def)

record StatusResponsePacketCB =
  sr_Data :: string

definition StatusResponsePacketCB_reflect :: "StatusResponsePacketCB \<Rightarrow> 'n field list" where
  "StatusResponsePacketCB_reflect p =
     [((tag ''Data'')\<lparr>max_length := ''32767''\<rparr>, VString (sr_Data p))]"

definition StatusResponsePacketCB_set :: "'n fval list \<Rightarrow> StatusResponsePacketCB \<Rightarrow> StatusResponsePacketCB" where
  "StatusResponsePacketCB_set vs p =
     (case vs of [VString a] \<Rightarrow>
        p\<lparr>sr_Data := a\<rparr>
      | _ \<Rightarrow> p)"

definition StatusResponsePacketCB_methods :: "'n nbt_lib \<Rightarrow> StatusResponsePacketCB methods" where
  "StatusResponsePacketCB_methods lib =
     \<lparr>m_PacketID = 0x00, m_Direction = ClientBound,
      m_Parse = struct_Parse lib StatusResponsePacketCB_reflect StatusResponsePacketCB_set,
      m_Serialize = struct_Serialize lib StatusResponsePacketCB_reflect\<rparr>"

interpretation StatusResponsePacketCB_struct: packet_struct StatusResponsePacketCB_reflect StatusResponsePacketCB_set
  by unfold_locales (simp_all add: StatusResponsePacketCB_reflect_def StatusResponsePacketCB_set_def)

record StatusPingPacketCB =
  pc_Time :: "64 word"

definition StatusPingPacketCB_reflect :: "StatusPingPacketCB \<Rightarrow> 'n field list" where
  "StatusPingPacketCB_reflect p =
     [(tag ''Time'', VInt64 (pc_Time p))]"

definition StatusPingPacketCB_set :: "'n fval list \<Rightarrow> StatusPingPacketCB \<Rightarrow> StatusPingPacketCB" where
  "StatusPingPacketCB_set vs p =
     (case vs of [VInt64 a] \<Rightarrow>
        p\<lparr>pc_Time := a\<rparr>
      | _ \<Rightarrow> p)"

definition StatusPingPacketCB_methods :: "'n nbt_lib \<Rightarrow> StatusPingPacketCB methods" where
  "StatusPingPacketCB_methods lib =
     \<lparr>m_PacketID = 0x01, m_Direction = ServerBound,
      m_Parse = struct_Parse lib StatusPingPacketCB_reflect StatusPingPacketCB_set,
      m_Serialize = struct_Serialize lib StatusPingPacketCB_reflect\<rparr>"

interpretation StatusPingPacketCB_struct: packet_struct StatusPingPacketCB_reflect StatusPingPacketCB_set
  by unfold_locales (simp_all add: StatusPingPacketCB_reflect_def StatusPingPacketCB_set_def)

record StatusPingPacketSB =
  ps_Time :: "64 word"

definition StatusPingPacketSB_reflect :: "StatusPingPacketSB \<Rightarrow> 'n field list" where
  "StatusPingPacketSB_reflect p =
     [(tag ''Time'', VInt64 (ps_Time p))]"

definition StatusPingPacketSB_set :: "'n fval list \<Rightarrow> StatusPingPacketSB \<Rightarrow> StatusPingPacketSB" where
  "StatusPingPacketSB_set vs p =
     (case vs of [VInt64 a] \<Rightarrow>
        p\<lparr>ps_Time := a\<rparr>
      | _ \<Rightarrow> p)"

definition StatusPingPacketSB_methods :: "'n nbt_lib \<Rightarrow> StatusPingPacketSB methods" where
  "StatusPingPacketSB_methods lib =
     \<lparr>m_PacketID = 0x01, m_Direction = ClientBound,
      m_Parse = struct_Parse lib StatusPingPacketSB_reflect StatusPingPacketSB_set,
      m_Serialize = struct_Serialize lib StatusPingPacketSB_reflect\<rparr>"

interpretation StatusPingPacketSB_struct: packet_struct StatusPingPacketSB_reflect StatusPingPacketSB_set
  by unfold_locales (simp_all add: StatusPingPacketSB_reflect_def StatusPingPacketSB_set_def)

record LoginStartPacket =
  ls_Nickname :: string

definition LoginStartPacket_reflect :: "LoginStartPacket \<Rightarrow> 'n field list" where
  "LoginStartPacket_reflect p =
     [((tag ''Nickname'')\<lparr>max_length := ''16''\<rparr>, VString (ls_Nickname p))]"

definition LoginStartPacket_set :: "'n fval list \<Rightarrow> LoginStartPacket \<Rightarrow> LoginStartPacket" where
  "LoginStartPacket_set vs p =
     (case vs of [VString a] \<Rightarrow>
        p\<lparr>ls_Nickname := a\<rparr>
      | _ \<Rightarrow> p)"

definition LoginStartPacket_methods :: "'n nbt_lib \<Rightarrow> LoginStartPacket methods" where
  "LoginStartPacket_methods lib =
     \<lparr>m_PacketID = 0x00, m_Direction = ServerBound,
      m_Parse = struct_Parse lib LoginStartPacket_reflect LoginStartPacket_set,
      m_Serialize = struct_Serialize lib LoginStartPacket_reflect\<rparr>"

interpretation LoginStartPacket_struct: packet_struct LoginStartPacket_reflect LoginStartPacket_set
  by unfold_locales (simp_all add: LoginStartPacket_reflect_def LoginStartPacket_set_def)

record LoginSuccessPacket =
  lsu_UID :: uuid
  lsu_Username :: string

definition LoginSuccessPacket_reflect :: "LoginSuccessPacket \<Rightarrow> 'n field list" where
  "LoginSuccessPacket_reflect p =
     [(tag ''UID'', VUUID (lsu_UID p)),
      ((tag ''Username'')\<lparr>max_length := ''16''\<rparr>, VString (lsu_Username p))]"

definition LoginSuccessPacket_set :: "'n fval list \<Rightarrow> LoginSuccessPacket \<Rightarrow> LoginSuccessPacket" where
  "LoginSuccessPacket_set vs p =
     (case vs of [VUUID a, VString b] \<Rightarrow>
        p\<lparr>lsu_UID := a, lsu_Username := b\<rparr>
      | _ \<Rightarrow> p)"

definition LoginSuccessPacket_methods :: "'n nbt_lib \<Rightarrow> LoginSuccessPacket methods" where
  "LoginSuccessPacket_methods lib =
     \<lparr>m_PacketID = 0x02, m_Direction = ClientBound,
      m_Parse = struct_Parse lib LoginSuccessPacket_reflect LoginSuccessPacket_set,
      m_Serialize = struct_Serialize lib LoginSuccessPacket_reflect\<rparr>"

interpretation LoginSuccessPacket_struct: packet_struct LoginSuccessPacket_reflect LoginSuccessPacket_set
  by unfold_locales (simp_all add: LoginSuccessPacket_reflect_def LoginSuccessPacket_set_def)

record LoginKickPacket =
  lk_Message :: string

definition LoginKickPacket_reflect :: "LoginKickPacket \<Rightarrow> 'n field list" where
  "LoginKickPacket_reflect p =
     [((tag ''Message'')\<lparr>max_length := ''256''\<rparr>, VString (lk_Message p))]"

definition LoginKickPacket_set :: "'n fval list \<Rightarrow> LoginKickPacket \<Rightarrow> LoginKickPacket" where
  "LoginKickPacket_set vs p =
     (case vs of [VString a] \<Rightarrow>
        p\<lparr>lk_Message := a\<rparr>
      | _ \<Rightarrow> p)"

definition LoginKickPacket_methods :: "'n nbt_lib \<Rightarrow> LoginKickPacket methods" where
  "LoginKickPacket_methods lib =
     \<lparr>m_PacketID = 0x00, m_Direction = ClientBound,
      m_Parse = struct_Parse lib LoginKickPacket_reflect LoginKickPacket_set,
      m_Serialize = struct_Serialize lib LoginKickPacket_reflect\<rparr>"

interpretation LoginKickPacket_struct: packet_struct LoginKickPacket_reflect LoginKickPacket_set
  by unfold_locales (simp_all add: LoginKickPacket_reflect_def LoginKickPacket_set_def)

record EncryptionRequestPacket =
  erq_ServerID :: string
  erq_PublicKey :: bytes
  erq_Token :: bytes

definition EncryptionRequestPacket_reflect :: "EncryptionRequestPacket \<Rightarrow> 'n field list" where
  "EncryptionRequestPacket_reflect p =
     [((tag ''ServerID'')\<lparr>max_length := ''20''\<rparr>, VString (erq_ServerID p)),
      ((tag ''PublicKey'')\<lparr>max_length := ''2048'', length_prefix := ''VarInt''\<rparr>, VBytes (erq_PublicKey p)),
      ((tag ''Token'')\<lparr>max_length := ''256'', length_prefix := ''VarInt''\<rparr>, VBytes (erq_Token p))]"

definition EncryptionRequestPacket_set :: "'n fval list \<Rightarrow> EncryptionRequestPacket \<Rightarrow> EncryptionRequestPacket" where
  "EncryptionRequestPacket_set vs p =
     (case vs of [VString a, VBytes b, VBytes c] \<Rightarrow>
        p\<lparr>erq_ServerID := a, erq_PublicKey := b, erq_Token := c\<rparr>
      | _ \<Rightarrow> p)"

definition EncryptionRequestPacket_methods :: "'n nbt_lib \<Rightarrow> EncryptionRequestPacket methods" where
  "EncryptionRequestPacket_methods lib =
     \<lparr>m_PacketID = 0x01, m_Direction = ClientBound,
      m_Parse = struct_Parse lib EncryptionRequestPacket_reflect EncryptionRequestPacket_set,
      m_Serialize = struct_Serialize lib EncryptionRequestPacket_reflect\<rparr>"

interpretation EncryptionRequestPacket_struct: packet_struct EncryptionRequestPacket_reflect EncryptionRequestPacket_set
  by unfold_locales (simp_all add: EncryptionRequestPacket_reflect_def EncryptionRequestPacket_set_def)

record EncryptionResponsePacket =
  ers_Secret :: bytes
  ers_Token :: bytes

definition EncryptionResponsePacket_reflect :: "EncryptionResponsePacket \<Rightarrow> 'n field list" where
  "EncryptionResponsePacket_reflect p =
     [((tag ''Secret'')\<lparr>max_length := ''1024'', length_prefix := ''VarInt''\<rparr>, VBytes (ers_Secret p)),
      ((tag ''Token'')\<lparr>max_length := ''256'', length_prefix := ''VarInt''\<rparr>, VBytes (ers_Token p))]"

definition EncryptionResponsePacket_set :: "'n fval list \<Rightarrow> EncryptionResponsePacket \<Rightarrow> EncryptionResponsePacket" where
  "EncryptionResponsePacket_set vs p =
     (case vs of [VBytes a, VBytes b] \<Rightarrow>
        p\<lparr>ers_Secret := a, ers_Token := b\<rparr>
      | _ \<Rightarrow> p)"

definition EncryptionResponsePacket_methods :: "'n nbt_lib \<Rightarrow> EncryptionResponsePacket methods" where
  "EncryptionResponsePacket_methods lib =
     \<lparr>m_PacketID = 0x01, m_Direction = ServerBound,
      m_Parse = struct_Parse lib EncryptionResponsePacket_reflect EncryptionResponsePacket_set,
      m_Serialize = struct_Serialize lib EncryptionResponsePacket_reflect\<rparr>"

interpretation EncryptionResponsePacket_struct: packet_struct EncryptionResponsePacket_reflect EncryptionResponsePacket_set
  by unfold_locales (simp_all add: EncryptionResponsePacket_reflect_def EncryptionResponsePacket_set_def)

record LoginCompressionPacket =
  lc_Threshold :: VarInt

definition LoginCompressionPacket_reflect :: "LoginCompressionPacket \<Rightarrow> 'n field list" where
  "LoginCompressionPacket_reflect p =
     [(tag ''Threshold'', VVarInt (lc_Threshold p))]"

definition LoginCompressionPacket_set :: "'n fval list \<Rightarrow> LoginCompressionPacket \<Rightarrow> LoginCompressionPacket" where
  "LoginCompressionPacket_set vs p =
     (case vs of [VVarInt a] \<Rightarrow>
        p\<lparr>lc_Threshold := a\<rparr>
      | _ \<Rightarrow> p)"

definition LoginCompressionPacket_methods :: "'n nbt_lib \<Rightarrow> LoginCompressionPacket methods" where
  "LoginCompressionPacket_methods lib =
     \<lparr>m_PacketID = 0x03, m_Direction = ClientBound,
      m_Parse = struct_Parse lib LoginCompressionPacket_reflect LoginCompressionPacket_set,
      m_Serialize = struct_Serialize lib LoginCompressionPacket_reflect\<rparr>"

interpretation LoginCompressionPacket_struct: packet_struct LoginCompressionPacket_reflect LoginCompressionPacket_set
  by unfold_locales (simp_all add: LoginCompressionPacket_reflect_def LoginCompressionPacket_set_def)

section \<open>The empty status request\<close>

record StatusRequestPacketSB =
  srq_unit :: unit

definition StatusRequestPacketSB_methods :: "StatusRequestPacketSB methods" where
  "StatusRequestPacketSB_methods =
     \<lparr>m_PacketID = 0x00, m_Direction = ServerBound,
      m_Parse = (\<lambda>p s. Ret (p, None, s)), m_Serialize = (\<lambda>p. Ret ([], None))\<rparr>"

section \<open>The status document\<close>

record ServerStatusVersion =
  ssv_Name :: string
  ssv_Protocol :: int

record ServerStatusPlayers =
  ssp_Online :: int
  ssp_Max :: int

record ServerStatus =
  ss_Version :: ServerStatusVersion
  ss_Players :: ServerStatusPlayers
  ss_Description :: string
  ss_Favicon :: string

end
