(* ===== verification/PlayPackets.thy ===== *)
theory PlayPackets
  imports PacketStruct
begin

text \<open>
  The packet types of src/packets/play_serverbound.go and play_clientbound.go whose \<^verbatim>\<open>Parse\<close> and
  \<^verbatim>\<open>Serialize\<close> are the reflective codec.  Those with a hand-written codec are in PlayCustom.
\<close>

record ClientSettingsPacketSB =
  cs_Locale :: string
  cs_ViewDistance :: byte
  cs_ChatMode :: VarInt
  cs_ChatColors :: bool
  cs_SkinParts :: byte
  cs_Hand :: VarInt

definition ClientSettingsPacketSB_reflect :: "ClientSettingsPacketSB \<Rightarrow> 'n field list" where
  "ClientSettingsPacketSB_reflect p =
     [((tag ''Locale'')\<lparr>max_length := ''16''\<rparr>, VString (cs_Locale p)),
      (tag ''ViewDistance'', VUint8 (cs_ViewDistance p)),
      (tag ''ChatMode'', VVarInt (cs_ChatMode p)),
      (tag ''ChatColors'', VBool (cs_ChatColors p)),
      (tag ''SkinParts'', VUint8 (cs_SkinParts p)),
      (tag ''Hand'', VVarInt (cs_Hand p))]"

definition ClientSettingsPacketSB_set :: "'n fval list \<Rightarrow> ClientSettingsPacketSB \<Rightarrow> ClientSettingsPacketSB" where
  "ClientSettingsPacketSB_set vs p =
     (case vs of [VString a, VUint8 b, VVarInt c, VBool d, VUint8 e, VVarInt f] \<Rightarrow>
        p\<lparr>cs_Locale := a, cs_ViewDistance := b, cs_ChatMode := c, cs_ChatColors := d, cs_SkinParts := e, cs_Hand := f\<rparr>
      | _ \<Rightarrow> p)"

definition ClientSettingsPacketSB_methods :: "'n nbt_lib \<Rightarrow> ClientSettingsPacketSB methods" where
  "ClientSettingsPacketSB_methods lib =
     \<lparr>m_PacketID = 0x05, m_Direction = ServerBound,
      m_Parse = struct_Parse lib ClientSettingsPacketSB_reflect ClientSettingsPacketSB_set,
      m_Serialize = struct_Serialize lib ClientSettingsPacketSB_reflect\<rparr>"

interpretation ClientSettingsPacketSB_struct: packet_struct ClientSettingsPacketSB_reflect ClientSettingsPacketSB_set
  by unfold_locales (simp_all add: ClientSettingsPacketSB_reflect_def ClientSettingsPacketSB_set_def)

record ClientStatusPacketSB =
  cst_Action :: VarInt

definition ClientStatusPacketSB_reflect :: "ClientStatusPacketSB \<Rightarrow> 'n field list" where
  "ClientStatusPacketSB_reflect p =
     [(tag ''Action'', VVarInt (cst_Action p))]"

definition ClientStatusPacketSB_set :: "'n fval list \<Rightarrow> ClientStatusPacketSB \<Rightarrow> ClientStatusPacketSB" where
  "ClientStatusPacketSB_set vs p =
     (case vs of [VVarInt a] \<Rightarrow>
        p\<lparr>cst_Action := a\<rparr>
      | _ \<Rightarrow> p)"

definition ClientStatusPacketSB_methods :: "'n nbt_lib \<Rightarrow> ClientStatusPacketSB methods" where
  "ClientStatusPacketSB_methods lib =
     \<lparr>m_PacketID = 0x04, m_Direction = ServerBound,
      m_Parse = struct_Parse lib ClientStatusPacketSB_reflect ClientStatusPacketSB_set,
      m_Serialize = struct_Serialize lib ClientStatusPacketSB_reflect\<rparr>"

interpretation ClientStatusPacketSB_struct: packet_struct ClientStatusPacketSB_reflect ClientStatusPacketSB_set
  by unfold_locales (simp_all add: ClientStatusPacketSB_reflect_def ClientStatusPacketSB_set_def)

record PluginMessagePacketSB =
  pms_Channel :: string
  pms_Payload :: bytes

definition PluginMessagePacketSB_reflect :: "PluginMessagePacketSB \<Rightarrow> 'n field list" where
  "PluginMessagePacketSB_reflect p =
     [((tag ''Channel'')\<lparr>max_length := ''64''\<rparr>, VString (pms_Channel p)),
      ((tag ''Payload'')\<lparr>max_length := ''35000'', length_prefix := ''eof''\<rparr>, VBytes (pms_Payload p))]"

definition PluginMessagePacketSB_set :: "'n fval list \<Rightarrow> PluginMessagePacketSB \<Rightarrow> PluginMessagePacketSB" where
  "PluginMessagePacketSB_set vs p =
     (case vs of [VString a, VBytes b] \<Rightarrow>
        p\<lparr>pms_Channel := a, pms_Payload := b\<rparr>
      | _ \<Rightarrow> p)"

definition PluginMessagePacketSB_methods :: "'n nbt_lib \<Rightarrow> PluginMessagePacketSB methods" where
  "PluginMessagePacketSB_methods lib =
     \<lparr>m_PacketID = 0x0B, m_Direction = ServerBound,
      m_Parse = struct_Parse lib PluginMessagePacketSB_reflect PluginMessagePacketSB_set,
      m_Serialize = struct_Serialize lib PluginMessagePacketSB_reflect\<rparr>"

interpretation PluginMessagePacketSB_struct: packet_struct PluginMessagePacketSB_reflect PluginMessagePacketSB_set
  by unfold_locales (simp_all add: PluginMessagePacketSB_reflect_def PluginMessagePacketSB_set_def)

record ChatMessagePacketSB =
  cms_Message :: string

definition ChatMessagePacketSB_reflect :: "ChatMessagePacketSB \<Rightarrow> 'n field list" where
  "ChatMessagePacketSB_reflect p =
     [((tag ''Message'')\<lparr>max_length := ''256''\<rparr>, VString (cms_Message p))]"

definition ChatMessagePacketSB_set :: "'n fval list \<Rightarrow> ChatMessagePacketSB \<Rightarrow> ChatMessagePacketSB" where
  "ChatMessagePacketSB_set vs p =
     (case vs of [VString a] \<Rightarrow>
        p\<lparr>cms_Message := a\<rparr>
      | _ \<Rightarrow> p)"

definition ChatMessagePacketSB_methods :: "'n nbt_lib \<Rightarrow> ChatMessagePacketSB methods" where
  "ChatMessagePacketSB_methods lib =
     \<lparr>m_PacketID = 0x03, m_Direction = ServerBound,
      m_Parse = struct_Parse lib ChatMessagePacketSB_reflect ChatMessagePacketSB_set,
      m_Serialize = struct_Serialize lib ChatMessagePacketSB_reflect\<rparr>"

interpretation ChatMessagePacketSB_struct: packet_struct ChatMessagePacketSB_reflect ChatMessagePacketSB_set
  by unfold_locales (simp_all add: ChatMessagePacketSB_reflect_def ChatMessagePacketSB_set_def)

record TabCompletePacketSB =
  tcs_TransactionId :: VarInt
  tcs_Text :: string

definition TabCompletePacketSB_reflect :: "TabCompletePacketSB \<Rightarrow> 'n field list" where
  "TabCompletePacketSB_reflect p =
     [(tag ''TransactionId'', VVarInt (tcs_TransactionId p)),
      ((tag ''Text'')\<lparr>max_length := ''32500''\<rparr>, VString (tcs_Text p))]"

definition TabCompletePacketSB_set :: "'n fval list \<Rightarrow> TabCompletePacketSB \<Rightarrow> TabCompletePacketSB" where
  "TabCompletePacketSB_set vs p =
     (case vs of [VVarInt a, VString b] \<Rightarrow>
        p\<lparr>tcs_TransactionId := a, tcs_Text := b\<rparr>
      | _ \<Rightarrow> p)"

definition TabCompletePacketSB_methods :: "'n nbt_lib \<Rightarrow> TabCompletePacketSB methods" where
  "TabCompletePacketSB_methods lib =
     \<lparr>m_PacketID = 0x06, m_Direction = ServerBound,
      m_Parse = struct_Parse lib TabCompletePacketSB_reflect TabCompletePacketSB_set,
      m_Serialize = struct_Serialize lib TabCompletePacketSB_reflect\<rparr>"

interpretation TabCompletePacketSB_struct: packet_struct TabCompletePacketSB_reflect TabCompletePacketSB_set
  by unfold_locales (simp_all add: TabCompletePacketSB_reflect_def TabCompletePacketSB_set_def)

record 'n RespawnPacketCB =
  rs_Dimension :: 'n
  rs_DimensionId :: Identifier
  rs_HashedSeed :: "64 word"
  rs_GameMode :: byte
  rs_PreviousGameMode :: byte
  rs_IsDebug :: bool
  rs_IsFlat :: bool
  rs_CopyMetadata :: bool

definition RespawnPacketCB_reflect :: "'n RespawnPacketCB \<Rightarrow> 'n field list" where
  "RespawnPacketCB_reflect p =
     [(tag ''Dimension'', VNbt (rs_Dimension p)),
      ((tag ''DimensionId'')\<lparr>max_length := ''32767''\<rparr>, VIdentifier (rs_DimensionId p)),
      (tag ''HashedSeed'', VInt64 (rs_HashedSeed p)),
      (tag ''GameMode'', VUint8 (rs_GameMode p)),
      (tag ''PreviousGameMode'', VUint8 (rs_PreviousGameMode p)),
      (tag ''IsDebug'', VBool (rs_IsDebug p)),
      (tag ''IsFlat'', VBool (rs_IsFlat p)),
      (tag ''CopyMetadata'', VBool (rs_CopyMetadata p))]"

definition RespawnPacketCB_set :: "'n fval list \<Rightarrow> 'n RespawnPacketCB \<Rightarrow> 'n RespawnPacketCB" where
  "RespawnPacketCB_set vs p =
     (case vs of [VNbt a, VIdentifier b, VInt64 c, VUint8 d, VUint8 e, VBool f, VBool g, VBool h] \<Rightarrow>
        p\<lparr>rs_Dimension := a, rs_DimensionId := b, rs_HashedSeed := c, rs_GameMode := d, rs_PreviousGameMode := e, rs_IsDebug := f, rs_IsFlat := g, rs_CopyMetadata := h\<rparr>
      | _ \<Rightarrow> p)"

definition RespawnPacketCB_methods :: "'n nbt_lib \<Rightarrow> 'n RespawnPacketCB methods" where
  "RespawnPacketCB_methods lib =
     \<lparr>m_PacketID = 0x39, m_Direction = ClientBound,
      m_Parse = struct_Parse lib RespawnPacketCB_reflect RespawnPacketCB_set,
      m_Serialize = struct_Serialize lib RespawnPacketCB_reflect\<rparr>"

interpretation RespawnPacketCB_struct: packet_struct RespawnPacketCB_reflect RespawnPacketCB_set
  by unfold_locales (simp_all add: RespawnPacketCB_reflect_def RespawnPacketCB_set_def)

record KickPacketCB =
  kk_Message :: string

definition KickPacketCB_reflect :: "KickPacketCB \<Rightarrow> 'n field list" where
  "KickPacketCB_reflect p =
     [((tag ''Message'')\<lparr>max_length := ''256''\<rparr>, VString (kk_Message p))]"

definition KickPacketCB_set :: "'n fval list \<Rightarrow> KickPacketCB \<Rightarrow> KickPacketCB" where
  "KickPacketCB_set vs p =
     (case vs of [VString a] \<Rightarrow>
        p\<lparr>kk_Message := a\<rparr>
      | _ \<Rightarrow> p)"

definition KickPacketCB_methods :: "'n nbt_lib \<Rightarrow> KickPacketCB methods" where
  "KickPacketCB_methods lib =
     \<lparr>m_PacketID = 0x19, m_Direction = ClientBound,
      m_Parse = struct_Parse lib KickPacketCB_reflect KickPacketCB_set,
      m_Serialize = struct_Serialize lib KickPacketCB_reflect\<rparr>"

interpretation KickPacketCB_struct: packet_struct KickPacketCB_reflect KickPacketCB_set
  by unfold_locales (simp_all add: KickPacketCB_reflect_def KickPacketCB_set_def)

record 'n JoinGamePacketCB =
  jg_PlayerEntity :: "32 word"
  jg_IsHardcore :: bool
  jg_GameMode :: byte
  jg_PreviousGameMode :: byte
  jg_AllWorldNames :: "Identifier list"
  jg_DimensionCodec :: 'n
  jg_Dimension :: 'n
  jg_DimensionId :: Identifier
  jg_HashedSeed :: "64 word"
  jg_MaxPlayers :: VarInt
  jg_ViewDistance :: VarInt
  jg_ReducedDebugInfo :: bool
  jg_EnableRespawnScreen :: bool
  jg_IsDebug :: bool
  jg_IsFlat :: bool

definition JoinGamePacketCB_reflect :: "'n JoinGamePacketCB \<Rightarrow> 'n field list" where
  "JoinGamePacketCB_reflect p =
     [((tag ''PlayerEntity'')\<lparr>data_type := ''int32''\<rparr>, VEntityID (jg_PlayerEntity p)),
      (tag ''IsHardcore'', VBool (jg_IsHardcore p)),
      (tag ''GameMode'', VUint8 (jg_GameMode p)),
      (tag ''PreviousGameMode'', VUint8 (jg_PreviousGameMode p)),
      (tag ''AllWorldNames'', VIdentifiers (jg_AllWorldNames p)),
      (tag ''DimensionCodec'', VNbt (jg_DimensionCodec p)),
      (tag ''Dimension'', VNbt (jg_Dimension p)),
      (tag ''DimensionId'', VIdentifier (jg_DimensionId p)),
      (tag ''HashedSeed'', VInt64 (jg_HashedSeed p)),
      (tag ''MaxPlayers'', VVarInt (jg_MaxPlayers p)),
      (tag ''ViewDistance'', VVarInt (jg_ViewDistance p)),
      (tag ''ReducedDebugInfo'', VBool (jg_ReducedDebugInfo p)),
      (tag ''EnableRespawnScreen'', VBool (jg_EnableRespawnScreen p)),
      (tag ''IsDebug'', VBool (jg_IsDebug p)),
      (tag ''IsFlat'', VBool (jg_IsFlat p))]"

definition JoinGamePacketCB_set :: "'n fval list \<Rightarrow> 'n JoinGamePacketCB \<Rightarrow> 'n JoinGamePacketCB" where
  "JoinGamePacketCB_set vs p =
     (case vs of [VEntityID a, VBool b, VUint8 c, VUint8 d, VIdentifiers e, VNbt f, VNbt g, VIdentifier h, VInt64 i, VVarInt j, VVarInt k, VBool l, VBool m, VBool n, VBool u] \<Rightarrow>
        p\<lparr>jg_PlayerEntity := a, jg_IsHardcore := b, jg_GameMode := c, jg_PreviousGameMode := d, jg_AllWorldNames := e, jg_DimensionCodec := f, jg_Dimension := g, jg_DimensionId := h, jg_HashedSeed := i, jg_MaxPlayers := j, jg_ViewDistance := k, jg_ReducedDebugInfo := l, jg_EnableRespawnScreen := m, jg_IsDebug := n, jg_IsFlat := u\<rparr>
      | _ \<Rightarrow> p)"

definition JoinGamePacketCB_methods :: "'n nbt_lib \<Rightarrow> 'n JoinGamePacketCB methods" where
  "JoinGamePacketCB_methods lib =
     \<lparr>m_PacketID = 0x24, m_Direction = ClientBound,
      m_Parse = struct_Parse lib JoinGamePacketCB_reflect JoinGamePacketCB_set,
      m_Serialize = struct_Serialize lib JoinGamePacketCB_reflect\<rparr>"

interpretation JoinGamePacketCB_struct: packet_struct JoinGamePacketCB_reflect JoinGamePacketCB_set
  by unfold_locales (simp_all add: JoinGamePacketCB_reflect_def JoinGamePacketCB_set_def)

record GameStateChangePacketCB =
  gsc_Reason :: byte
  gsc_Value :: "32 word"

definition GameStateChangePacketCB_reflect :: "GameStateChangePacketCB \<Rightarrow> 'n field list" where
  "GameStateChangePacketCB_reflect p =
     [(tag ''Reason'', VUint8 (gsc_Reason p)),
      (tag ''Value'', VFloat32 (gsc_Value p))]"

definition GameStateChangePacketCB_set :: "'n fval list \<Rightarrow> GameStateChangePacketCB \<Rightarrow> GameStateChangePacketCB" where
  "GameStateChangePacketCB_set vs p =
     (case vs of [VUint8 a, VFloat32 b] \<Rightarrow>
        p\<lparr>gsc_Reason := a, gsc_Value := b\<rparr>
      | _ \<Rightarrow> p)"

definition GameStateChangePacketCB_methods :: "'n nbt_lib \<Rightarrow> GameStateChangePacketCB methods" where
  "GameStateChangePacketCB_methods lib =
     \<lparr>m_PacketID = 0x1D, m_Direction = ClientBound,
      m_Parse = struct_Parse lib GameStateChangePacketCB_reflect GameStateChangePacketCB_set,
      m_Serialize = struct_Serialize lib GameStateChangePacketCB_reflect\<rparr>"

interpretation GameStateChangePacketCB_struct: packet_struct GameStateChangePacketCB_reflect GameStateChangePacketCB_set
  by unfold_locales (simp_all add: GameStateChangePacketCB_reflect_def GameStateChangePacketCB_set_def)

record ChatMessagePacketCB =
  cmc_Message :: string
  cmc_Position :: byte
  cmc_Sender :: uuid

definition ChatMessagePacketCB_reflect :: "ChatMessagePacketCB \<Rightarrow> 'n field list" where
  "ChatMessagePacketCB_reflect p =
     [((tag ''Message'')\<lparr>max_length := ''32767''\<rparr>, VString (cmc_Message p)),
      (tag ''Position'', VUint8 (cmc_Position p)),
      (tag ''Sender'', VUUID (cmc_Sender p))]"

definition ChatMessagePacketCB_set :: "'n fval list \<Rightarrow> ChatMessagePacketCB \<Rightarrow> ChatMessagePacketCB" where
  "ChatMessagePacketCB_set vs p =
     (case vs of [VString a, VUint8 b, VUUID c] \<Rightarrow>
        p\<lparr>cmc_Message := a, cmc_Position := b, cmc_Sender := c\<rparr>
      | _ \<Rightarrow> p)"

definition ChatMessagePacketCB_methods :: "'n nbt_lib \<Rightarrow> ChatMessagePacketCB methods" where
  "ChatMessagePacketCB_methods lib =
     \<lparr>m_PacketID = 0x0E, m_Direction = ClientBound,
      m_Parse = struct_Parse lib ChatMessagePacketCB_reflect ChatMessagePacketCB_set,
      m_Serialize = struct_Serialize lib ChatMessagePacketCB_reflect\<rparr>"

interpretation ChatMessagePacketCB_struct: packet_struct ChatMessagePacketCB_reflect ChatMessagePacketCB_set
  by unfold_locales (simp_all add: ChatMessagePacketCB_reflect_def ChatMessagePacketCB_set_def)

record PlayerListTitlePacketCB =
  plt_Header :: string
  plt_Footer :: string

definition PlayerListTitlePacketCB_reflect :: "PlayerListTitlePacketCB \<Rightarrow> 'n field list" where
  "PlayerListTitlePacketCB_reflect p =
     [((tag ''Header'')\<lparr>max_length := ''1024''\<rparr>, VString (plt_Header p)),
      ((tag ''Footer'')\<lparr>max_length := ''1024''\<rparr>, VString (plt_Footer p))]"

definition PlayerListTitlePacketCB_set :: "'n fval list \<Rightarrow> PlayerListTitlePacketCB \<Rightarrow> PlayerListTitlePacketCB" where
  "PlayerListTitlePacketCB_set vs p =
     (case vs of [VString a, VString b] \<Rightarrow>
        p\<lparr>plt_Header := a, plt_Footer := b\<rparr>
      | _ \<Rightarrow> p)"

definition PlayerListTitlePacketCB_methods :: "'n nbt_lib \<Rightarrow> PlayerListTitlePacketCB methods" where
  "PlayerListTitlePacketCB_methods lib =
     \<lparr>m_PacketID = 0x53, m_Direction = ClientBound,
      m_Parse = struct_Parse lib PlayerListTitlePacketCB_reflect PlayerListTitlePacketCB_set,
      m_Serialize = struct_Serialize lib PlayerListTitlePacketCB_reflect\<rparr>"

interpretation PlayerListTitlePacketCB_struct: packet_struct PlayerListTitlePacketCB_reflect PlayerListTitlePacketCB_set
  by unfold_locales (simp_all add: PlayerListTitlePacketCB_reflect_def PlayerListTitlePacketCB_set_def)

record ScoreboardObjectivePacketCB =
  so_Name :: string
  so_Value :: string
  so_Mode :: byte

definition ScoreboardObjectivePacketCB_reflect :: "ScoreboardObjectivePacketCB \<Rightarrow> 'n field list" where
  "ScoreboardObjectivePacketCB_reflect p =
     [((tag ''Name'')\<lparr>max_length := ''16''\<rparr>, VString (so_Name p)),
      ((tag ''Value'')\<lparr>max_length := ''16''\<rparr>, VString (so_Value p)),
      (tag ''Mode'', VUint8 (so_Mode p))]"

definition ScoreboardObjectivePacketCB_set :: "'n fval list \<Rightarrow> ScoreboardObjectivePacketCB \<Rightarrow> ScoreboardObjectivePacketCB" where
  "ScoreboardObjectivePacketCB_set vs p =
     (case vs of [VString a, VString b, VUint8 c] \<Rightarrow>
        p\<lparr>so_Name := a, so_Value := b, so_Mode := c\<rparr>
      | _ \<Rightarrow> p)"

definition ScoreboardObjectivePacketCB_methods :: "'n nbt_lib \<Rightarrow> ScoreboardObjectivePacketCB methods" where
  "ScoreboardObjectivePacketCB_methods lib =
     \<lparr>m_PacketID = 0x4A, m_Direction = ClientBound,
      m_Parse = struct_Parse lib ScoreboardObjectivePacketCB_reflect ScoreboardObjectivePacketCB_set,
      m_Serialize = struct_Serialize lib ScoreboardObjectivePacketCB_reflect\<rparr>"

interpretation ScoreboardObjectivePacketCB_struct: packet_struct ScoreboardObjectivePacketCB_reflect ScoreboardObjectivePacketCB_set
  by unfold_locales (simp_all add: ScoreboardObjectivePacketCB_reflect_def ScoreboardObjectivePacketCB_set_def)

record PlayerPositionAndLookPacketCB =
  ppl_X :: "64 word"
  ppl_Y :: "64 word"
  ppl_Z :: "64 word"
  ppl_Yaw :: "32 word"
  ppl_Pitch :: "32 word"
  ppl_Flags :: byte
  ppl_TeleportID :: VarInt

definition PlayerPositionAndLookPacketCB_reflect :: "PlayerPositionAndLookPacketCB \<Rightarrow> 'n field list" where
  "PlayerPositionAndLookPacketCB_reflect p =
     [(tag ''X'', VFloat64 (ppl_X p)),
      (tag ''Y'', VFloat64 (ppl_Y p)),
      (tag ''Z'', VFloat64 (ppl_Z p)),
      (tag ''Yaw'', VFloat32 (ppl_Yaw p)),
      (tag ''Pitch'', VFloat32 (ppl_Pitch p)),
      (tag ''Flags'', VUint8 (ppl_Flags p)),
      (tag ''TeleportID'', VVarInt (ppl_TeleportID p))]"

definition PlayerPositionAndLookPacketCB_set :: "'n fval list \<Rightarrow> PlayerPositionAndLookPacketCB \<Rightarrow> PlayerPositionAndLookPacketCB" where
  "PlayerPositionAndLookPacketCB_set vs p =
     (case vs of [VFloat64 a, VFloat64 b, VFloat64 c, VFloat32 d, VFloat32 e, VUint8 f, VVarInt g] \<Rightarrow>
        p\<lparr>ppl_X := a, ppl_Y := b, ppl_Z := c, ppl_Yaw := d, ppl_Pitch := e, ppl_Flags := f, ppl_TeleportID := g\<rparr>
      | _ \<Rightarrow> p)"

definition PlayerPositionAndLookPacketCB_methods :: "'n nbt_lib \<Rightarrow> PlayerPositionAndLookPacketCB methods" where
  "PlayerPositionAndLookPacketCB_methods lib =
     \<lparr>m_PacketID = 0x34, m_Direction = ClientBound,
      m_Parse = struct_Parse lib PlayerPositionAndLookPacketCB_reflect PlayerPositionAndLookPacketCB_set,
      m_Serialize = struct_Serialize lib PlayerPositionAndLookPacketCB_reflect\<rparr>"

interpretation PlayerPositionAndLookPacketCB_struct: packet_struct PlayerPositionAndLookPacketCB_reflect PlayerPositionAndLookPacketCB_set
  by unfold_locales (simp_all add: PlayerPositionAndLookPacketCB_reflect_def PlayerPositionAndLookPacketCB_set_def)

record SpawnPositionPacketCB =
  spp_Position :: "64 word"

definition SpawnPositionPacketCB_reflect :: "SpawnPositionPacketCB \<Rightarrow> 'n field list" where
  "SpawnPositionPacketCB_reflect p =
     [(tag ''Position'', VOther ''Position'')]"

definition SpawnPositionPacketCB_set :: "'n fval list \<Rightarrow> SpawnPositionPacketCB \<Rightarrow> SpawnPositionPacketCB" where
  "SpawnPositionPacketCB_set vs p = p"

definition SpawnPositionPacketCB_methods :: "'n nbt_lib \<Rightarrow> SpawnPositionPacketCB methods" where
  "SpawnPositionPacketCB_methods lib =
     \<lparr>m_PacketID = 0x42, m_Direction = ClientBound,
      m_Parse = struct_Parse lib SpawnPositionPacketCB_reflect SpawnPositionPacketCB_set,
      m_Serialize = struct_Serialize lib SpawnPositionPacketCB_reflect\<rparr>"

record CameraPacketCB =
  cam_ID :: "32 word"

definition CameraPacketCB_reflect :: "CameraPacketCB \<Rightarrow> 'n field list" where
  "CameraPacketCB_reflect p =
     [((tag ''ID'')\<lparr>data_type := ''VarInt''\<rparr>, VEntityID (cam_ID p))]"

definition CameraPacketCB_set :: "'n fval list \<Rightarrow> CameraPacketCB \<Rightarrow> CameraPacketCB" where
  "CameraPacketCB_set vs p =
     (case vs of [VEntityID a] \<Rightarrow>
        p\<lparr>cam_ID := a\<rparr>
      | _ \<Rightarrow> p)"

definition CameraPacketCB_methods :: "'n nbt_lib \<Rightarrow> CameraPacketCB methods" where
  "CameraPacketCB_methods lib =
     \<lparr>m_PacketID = 0x3E, m_Direction = ClientBound,
      m_Parse = struct_Parse lib CameraPacketCB_reflect CameraPacketCB_set,
      m_Serialize = struct_Serialize lib CameraPacketCB_reflect\<rparr>"

interpretation CameraPacketCB_struct: packet_struct CameraPacketCB_reflect CameraPacketCB_set
  by unfold_locales (simp_all add: CameraPacketCB_reflect_def CameraPacketCB_set_def)

record ResourcePackSendCB =
  rp_Url :: string
  rp_Hash :: string

definition ResourcePackSendCB_reflect :: "ResourcePackSendCB \<Rightarrow> 'n field list" where
  "ResourcePackSendCB_reflect p =
     [(tag ''Url'', VString (rp_Url p)),
      (tag ''Hash'', VString (rp_Hash p))]"

definition ResourcePackSendCB_set :: "'n fval list \<Rightarrow> ResourcePackSendCB \<Rightarrow> ResourcePackSendCB" where
  "ResourcePackSendCB_set vs p =
     (case vs of [VString a, VString b] \<Rightarrow>
        p\<lparr>rp_Url := a, rp_Hash := b\<rparr>
      | _ \<Rightarrow> p)"

definition ResourcePackSendCB_methods :: "'n nbt_lib \<Rightarrow> ResourcePackSendCB methods" where
  "ResourcePackSendCB_methods lib =
     \<lparr>m_PacketID = 0x38, m_Direction = ClientBound,
      m_Parse = struct_Parse lib ResourcePackSendCB_reflect ResourcePackSendCB_set,
      m_Serialize = struct_Serialize lib ResourcePackSendCB_reflect\<rparr>"

interpretation ResourcePackSendCB_struct: packet_struct ResourcePackSendCB_reflect ResourcePackSendCB_set
  by unfold_locales (simp_all add: ResourcePackSendCB_reflect_def ResourcePackSendCB_set_def)


end
