(* ===== verification/PlayCustom.thy ===== *)
theory PlayCustom
  imports PacketStruct
begin

text \<open>
  The packet types of src/packets/play_clientbound.go with a hand-written \<^verbatim>\<open>Parse\<close> and \<^verbatim>\<open>Serialize\<close>:
  PluginMessagePacketCB, TabCompletePacketCB, PlayerListItemPacketCB, TeamsPacketCB, SpawnPlayer.
  An error the code discards (\<^verbatim>\<open>x, _ = Read(...)\<close>, or an \<^verbatim>\<open>err\<close> that a later read or an inner
  declaration shadows) is discarded here too, and the zero value the reader returned is kept.
\<close>

section \<open>PluginMessagePacketCB\<close>

record PluginMessagePacketCB =
  pmc_Channel :: string
  pmc_Payload :: bytes

definition PluginMessagePacketCB_Parse :: "PluginMessagePacketCB \<Rightarrow> PluginMessagePacketCB parsing" where
  "PluginMessagePacketCB_Parse p s =
     (case ReadMinecraftString 128 s of
        (ch, Some e, s1) \<Rightarrow> Ret (p\<lparr>pmc_Channel := ch\<rparr>, Some e, s1)
      | (ch, None, s1) \<Rightarrow> Ret (p\<lparr>pmc_Channel := ch, pmc_Payload := s1\<rparr>, None, []))"

definition PluginMessagePacketCB_Serialize :: "PluginMessagePacketCB \<Rightarrow> (bytes \<times> gerr option) go" where
  "PluginMessagePacketCB_Serialize p =
     Ret (WriteMinecraftString (pmc_Channel p) @ pmc_Payload p, None)"

definition PluginMessagePacketCB_methods :: "PluginMessagePacketCB methods" where
  "PluginMessagePacketCB_methods =
     \<lparr>m_PacketID = 0x17, m_Direction = ClientBound,
      m_Parse = PluginMessagePacketCB_Parse, m_Serialize = PluginMessagePacketCB_Serialize\<rparr>"

lemma PluginMessagePacketCB_roundtrip:
  "length (pmc_Channel p) \<le> 128 \<Longrightarrow>
   \<exists>b. PluginMessagePacketCB_Serialize p = Ret (b, None)
     \<and> PluginMessagePacketCB_Parse q b = Ret (p, None, [])"
  by (simp add: PluginMessagePacketCB_Serialize_def PluginMessagePacketCB_Parse_def
      ReadMinecraftString_Write)

section \<open>TabCompletePacketCB\<close>

record TabCompleteMatch =
  tm_Match :: string
  tm_Tooltip :: string

record TabCompletePacketCB =
  tcc_TransactionId :: VarInt
  tcc_Start :: VarInt
  tcc_Length :: VarInt
  tcc_Count :: VarInt
  tcc_Matches :: "TabCompleteMatch list"

definition TabCompletePacketCB_reflect :: "TabCompletePacketCB \<Rightarrow> 'n field list" where
  "TabCompletePacketCB_reflect p =
     [(tag ''TransactionId'', VVarInt (tcc_TransactionId p)),
      (tag ''Start'', VVarInt (tcc_Start p)),
      (tag ''Length'', VVarInt (tcc_Length p)),
      (tag ''Count'', VVarInt (tcc_Count p)),
      ((tag ''Matches'')\<lparr>mcignore := ''-''\<rparr>, VOther ''Matches'')]"

definition TabCompletePacketCB_set :: "'n fval list \<Rightarrow> TabCompletePacketCB \<Rightarrow> TabCompletePacketCB" where
  "TabCompletePacketCB_set vs p =
     (case vs of [VVarInt a, VVarInt b, VVarInt c, VVarInt d, _] \<Rightarrow>
        p\<lparr>tcc_TransactionId := a, tcc_Start := b, tcc_Length := c, tcc_Count := d\<rparr>
      | _ \<Rightarrow> p)"

definition zero_TabCompleteMatch :: TabCompleteMatch where
  "zero_TabCompleteMatch = \<lparr>tm_Match = '''', tm_Tooltip = ''''\<rparr>"

text \<open>The body of the loop over \<^verbatim>\<open>packet.Matches\<close>.\<close>

definition ReadTabCompleteMatch :: "TabCompleteMatch reading" where
  "ReadTabCompleteMatch s =
     (case ReadMinecraftString 4096 s of
        (m, Some e, s1) \<Rightarrow> (\<lparr>tm_Match = m, tm_Tooltip = ''''\<rparr>, Some e, s1)
      | (m, None, s1) \<Rightarrow>
          (case ReadBool s1 of
             (has_tooltip, Some e, s2) \<Rightarrow> (\<lparr>tm_Match = m, tm_Tooltip = ''''\<rparr>, Some e, s2)
           | (has_tooltip, None, s2) \<Rightarrow>
               if has_tooltip then
                 (case ReadMinecraftString 4096 s2 of
                    (t, err, s3) \<Rightarrow> (\<lparr>tm_Match = m, tm_Tooltip = t\<rparr>, err, s3))
               else (\<lparr>tm_Match = m, tm_Tooltip = ''''\<rparr>, None, s2)))"

definition TabCompletePacketCB_Parse ::
    "'n nbt_lib \<Rightarrow> TabCompletePacketCB \<Rightarrow> TabCompletePacketCB parsing" where
  "TabCompletePacketCB_Parse lib p s =
     (case struct_Parse lib TabCompletePacketCB_reflect TabCompletePacketCB_set p s of
        Panic m \<Rightarrow> Panic m
      | Ret (p1, Some e, s1) \<Rightarrow> Ret (p1, Some e, s1)
      | Ret (p1, None, s1) \<Rightarrow>
          if sint (tcc_Count p1) < 1 then Ret (p1, None, s1)
          else if 32767 < sint (tcc_Count p1) then
            Ret (p1, Some (Errorf ''invalid match count: %d'' [GInt (sint (tcc_Count p1))]), s1)
          else
            (case read_fill ReadTabCompleteMatch zero_TabCompleteMatch (nat (sint (tcc_Count p1))) s1 of
               (ms, err, s2) \<Rightarrow> Ret (p1\<lparr>tcc_Matches := ms\<rparr>, err, s2)))"

definition WriteTabCompleteMatch :: "TabCompleteMatch \<Rightarrow> bytes" where
  "WriteTabCompleteMatch v =
     WriteMinecraftString (tm_Match v) @ WriteBool (tm_Tooltip v \<noteq> '''') @
     (if tm_Tooltip v \<noteq> '''' then WriteMinecraftString (tm_Tooltip v) else [])"

text \<open>
  \<^verbatim>\<open>packet.Count = VarInt(len(packet.Matches))\<close>, then the struct, then the matches.  (The caller's packet
  keeps the new count; nothing reads it after the packet is written.)
\<close>

definition TabCompletePacketCB_Serialize ::
    "'n nbt_lib \<Rightarrow> TabCompletePacketCB \<Rightarrow> (bytes \<times> gerr option) go" where
  "TabCompletePacketCB_Serialize lib p =
     (case struct_Serialize lib TabCompletePacketCB_reflect
             (p\<lparr>tcc_Count := word_of_nat (length (tcc_Matches p))\<rparr>) of
        Panic m \<Rightarrow> Panic m
      | Ret (b, Some e) \<Rightarrow> Ret (b, Some e)
      | Ret (b, None) \<Rightarrow> Ret (b @ concat (map WriteTabCompleteMatch (tcc_Matches p)), None))"

definition TabCompletePacketCB_methods :: "'n nbt_lib \<Rightarrow> TabCompletePacketCB methods" where
  "TabCompletePacketCB_methods lib =
     \<lparr>m_PacketID = 0x0F, m_Direction = ClientBound,
      m_Parse = TabCompletePacketCB_Parse lib, m_Serialize = TabCompletePacketCB_Serialize lib\<rparr>"

definition TabCompleteMatch_ok :: "TabCompleteMatch \<Rightarrow> bool" where
  "TabCompleteMatch_ok m \<longleftrightarrow> length (tm_Match m) \<le> 4096 \<and> length (tm_Tooltip m) \<le> 4096"

interpretation tabmatch: codec WriteTabCompleteMatch ReadTabCompleteMatch TabCompleteMatch_ok
  by unfold_locales
     (auto simp: WriteTabCompleteMatch_def ReadTabCompleteMatch_def TabCompleteMatch_ok_def
        ReadMinecraftString_Write boolean.dec_enc)

lemma TabCompletePacketCB_roundtrip:
  assumes "list_all TabCompleteMatch_ok (tcc_Matches p)" "length (tcc_Matches p) \<le> 32767"
    and "tcc_Matches q = []"
  shows "\<exists>b. TabCompletePacketCB_Serialize lib p = Ret (b, None)
    \<and> TabCompletePacketCB_Parse lib q (b @ s)
      = Ret (p\<lparr>tcc_Count := word_of_nat (length (tcc_Matches p))\<rparr>, None, s)"
proof -
  have matches: "read_fill ReadTabCompleteMatch zero_TabCompleteMatch (length (tcc_Matches p))
      (concat (map WriteTabCompleteMatch (tcc_Matches p)) @ s) = (tcc_Matches p, None, s)"
    using assms(1) by (intro tabmatch.read_fill_enc) (simp add: list_all_iff)
  show ?thesis
    using assms(2,3) matches
    by (cases "tcc_Matches p = []")
       (auto simp: TabCompletePacketCB_Serialize_def TabCompletePacketCB_Parse_def struct_Parse_def
          struct_Serialize_def TabCompletePacketCB_reflect_def TabCompletePacketCB_set_def
          ReadUvarint_PutUvarint)
qed

section \<open>PlayerListItemPacketCB\<close>

definition ADD_PLAYER :: VarInt where "ADD_PLAYER = 0"

definition UPDATE_GAME_MODE :: VarInt where "UPDATE_GAME_MODE = 1"

definition UPDATE_LATENCY :: VarInt where "UPDATE_LATENCY = 2"

definition UPDATE_DISPLAY_NAME :: VarInt where "UPDATE_DISPLAY_NAME = 3"

definition REMOVE_PLAYER :: VarInt where "REMOVE_PLAYER = 4"

lemmas list_actions = ADD_PLAYER_def UPDATE_GAME_MODE_def UPDATE_LATENCY_def
  UPDATE_DISPLAY_NAME_def REMOVE_PLAYER_def

record AuthProperty =
  ap_Name :: string
  ap_Value :: string
  ap_Signature :: string

record PlayerListItem =
  pi_UUID :: uuid
  pi_Name :: string
  pi_Properties :: "AuthProperty list"
  pi_GameMode :: VarInt
  pi_Ping :: VarInt
  pi_DisplayName :: string

record PlayerListItemPacketCB =
  pli_Action :: VarInt
  pli_Items :: "PlayerListItem list"

definition zero_AuthProperty :: AuthProperty where
  "zero_AuthProperty = \<lparr>ap_Name = '''', ap_Value = '''', ap_Signature = ''''\<rparr>"

definition zero_PlayerListItem :: PlayerListItem where
  "zero_PlayerListItem = \<lparr>pi_UUID = replicate 16 0, pi_Name = '''', pi_Properties = [],
     pi_GameMode = 0, pi_Ping = 0, pi_DisplayName = ''''\<rparr>"

text \<open>
  One property.  The errors of the name and of the value are discarded; the error of the flag is
  kept only when the flag is false (then no signature is read).
\<close>

definition ReadAuthProperty :: "AuthProperty reading" where
  "ReadAuthProperty s =
     (case ReadMinecraftString 32767 s of (n, _, s1) \<Rightarrow>
      case ReadMinecraftString 32767 s1 of (v, _, s2) \<Rightarrow>
      case ReadBool s2 of (isSigned, err, s3) \<Rightarrow>
        if isSigned then
          (case ReadMinecraftString 32767 s3 of (sig, err', s4) \<Rightarrow>
             (\<lparr>ap_Name = n, ap_Value = v, ap_Signature = sig\<rparr>, err', s4))
        else (\<lparr>ap_Name = n, ap_Value = v, ap_Signature = ''''\<rparr>, err, s3))"

definition ReadDisplayName :: "string reading" where
  "ReadDisplayName s =
     (case ReadBool s of (hasDisplayName, err, s1) \<Rightarrow>
        if hasDisplayName then ReadMinecraftString 32767 s1 else ('''', err, s1))"

text \<open>
  The branch \<^verbatim>\<open>case ADD_PLAYER\<close>.  It declares its own \<^verbatim>\<open>err\<close>, so the error of the display name is
  lost, and those of the name, the game mode and the ping are assigned to the blank identifier; only
  the property list can end the parsing.  The flag of the result says that the branch returned.
\<close>

definition ReadAddPlayer :: "PlayerListItem \<Rightarrow> PlayerListItem reading" where
  "ReadAddPlayer v s =
     (case ReadMinecraftString 128 s of (n, _, s1) \<Rightarrow>
      case ReadVarInt s1 of
        (pnum, Some e, s2) \<Rightarrow> (zero_PlayerListItem, Some e, s2)
      | (pnum, None, s2) \<Rightarrow>
          if sint pnum < 0 \<or> 16 < sint pnum then
            (zero_PlayerListItem,
             Some (Errorf ''PlayerListItemPacketCB bad property count %d'' [GInt (sint pnum)]), s2)
          else
            (case read_fill ReadAuthProperty zero_AuthProperty (nat (sint pnum)) s2 of
               (props, Some e, s3) \<Rightarrow> (zero_PlayerListItem, Some e, s3)
             | (props, None, s3) \<Rightarrow>
                 (case ReadVarInt s3 of (gm, _, s4) \<Rightarrow>
                  case ReadVarInt s4 of (ping, _, s5) \<Rightarrow>
                  case ReadDisplayName s5 of (dn, _, s6) \<Rightarrow>
                    (v\<lparr>pi_Name := n, pi_Properties := props, pi_GameMode := gm, pi_Ping := ping,
                       pi_DisplayName := dn\<rparr>, None, s6))))"

text \<open>
  The body of the loop over \<^verbatim>\<open>packet.Items\<close>: the element that is stored (still zero when the body
  returns before the assignment \<^verbatim>\<open>packet.Items[i] = v\<close>) and the error that ends the loop.
\<close>

definition ReadPlayerListItem :: "VarInt \<Rightarrow> PlayerListItem reading" where
  "ReadPlayerListItem action s =
     (case ReadFull 16 s of
        (u, Some e, s1) \<Rightarrow> (zero_PlayerListItem, Some e, s1)
      | (u, None, s1) \<Rightarrow>
          (let v = zero_PlayerListItem\<lparr>pi_UUID := u\<rparr> in
           if action = ADD_PLAYER then ReadAddPlayer v s1
           else if action = UPDATE_GAME_MODE then
             (case ReadVarInt s1 of (gm, err, s2) \<Rightarrow> (v\<lparr>pi_GameMode := gm\<rparr>, err, s2))
           else if action = UPDATE_LATENCY then
             (case ReadVarInt s1 of (ping, err, s2) \<Rightarrow> (v\<lparr>pi_Ping := ping\<rparr>, err, s2))
           else if action = UPDATE_DISPLAY_NAME then
             (case ReadDisplayName s1 of (dn, err, s2) \<Rightarrow> (v\<lparr>pi_DisplayName := dn\<rparr>, err, s2))
           else (v, None, s1)))"

definition PlayerListItemPacketCB_Parse :: "PlayerListItemPacketCB \<Rightarrow> PlayerListItemPacketCB parsing" where
  "PlayerListItemPacketCB_Parse p s =
     (case ReadVarInt s of (action, _, s1) \<Rightarrow>
      let p1 = p\<lparr>pli_Action := action\<rparr> in
      case ReadVarInt s1 of
        (len, Some e, s2) \<Rightarrow> Ret (p1, Some e, s2)
      | (len, None, s2) \<Rightarrow>
          if sint len < 0 \<or> 16384 < sint len then
            Ret (p1, Some (Errorf ''PlayerListItemPacketCB bad item count %d'' [GInt (sint len)]), s2)
          else
            (case read_fill (ReadPlayerListItem action) zero_PlayerListItem (nat (sint len)) s2 of
               (items, err, s3) \<Rightarrow> Ret (p1\<lparr>pli_Items := items\<rparr>, err, s3)))"

definition WriteAuthProperty :: "AuthProperty \<Rightarrow> bytes" where
  "WriteAuthProperty prop =
     WriteMinecraftString (ap_Name prop) @ WriteMinecraftString (ap_Value prop) @
     WriteBool (ap_Signature prop \<noteq> '''') @
     (if ap_Signature prop \<noteq> '''' then WriteMinecraftString (ap_Signature prop) else [])"

definition WriteDisplayName :: "string \<Rightarrow> bytes" where
  "WriteDisplayName d =
     WriteBool (d \<noteq> '''') @ (if d \<noteq> '''' then WriteMinecraftString d else [])"

definition WritePlayerListItem :: "VarInt \<Rightarrow> PlayerListItem \<Rightarrow> bytes" where
  "WritePlayerListItem action v =
     pi_UUID v @
     (if action = ADD_PLAYER then
        WriteMinecraftString (pi_Name v) @ WriteVarInt (word_of_nat (length (pi_Properties v))) @
        concat (map WriteAuthProperty (pi_Properties v)) @
        WriteVarInt (pi_GameMode v) @ WriteVarInt (pi_Ping v) @ WriteDisplayName (pi_DisplayName v)
      else if action = UPDATE_GAME_MODE then WriteVarInt (pi_GameMode v)
      else if action = UPDATE_LATENCY then WriteVarInt (pi_Ping v)
      else if action = UPDATE_DISPLAY_NAME then WriteDisplayName (pi_DisplayName v)
      else [])"

definition PlayerListItemPacketCB_Serialize :: "PlayerListItemPacketCB \<Rightarrow> (bytes \<times> gerr option) go" where
  "PlayerListItemPacketCB_Serialize p =
     Ret (WriteVarInt (pli_Action p) @ WriteVarInt (word_of_nat (length (pli_Items p))) @
          concat (map (WritePlayerListItem (pli_Action p)) (pli_Items p)), None)"

definition PlayerListItemPacketCB_methods :: "PlayerListItemPacketCB methods" where
  "PlayerListItemPacketCB_methods =
     \<lparr>m_PacketID = 0x32, m_Direction = ClientBound,
      m_Parse = PlayerListItemPacketCB_Parse, m_Serialize = PlayerListItemPacketCB_Serialize\<rparr>"

text \<open>
  What an item must satisfy to come back unchanged: the limits of its strings and property list, and
  the zero value in every field that its action does not transmit.
\<close>

definition AuthProperty_ok :: "AuthProperty \<Rightarrow> bool" where
  "AuthProperty_ok a \<longleftrightarrow> length (ap_Name a) \<le> 32767 \<and> length (ap_Value a) \<le> 32767
     \<and> length (ap_Signature a) \<le> 32767"

definition PlayerListItem_ok :: "VarInt \<Rightarrow> PlayerListItem \<Rightarrow> bool" where
  "PlayerListItem_ok action v \<longleftrightarrow> length (pi_UUID v) = 16 \<and>
     (if action = ADD_PLAYER then
        length (pi_Name v) \<le> 128 \<and> length (pi_Properties v) \<le> 16 \<and>
        list_all AuthProperty_ok (pi_Properties v) \<and> length (pi_DisplayName v) \<le> 32767
      else if action = UPDATE_GAME_MODE then
        v = zero_PlayerListItem\<lparr>pi_UUID := pi_UUID v, pi_GameMode := pi_GameMode v\<rparr>
      else if action = UPDATE_LATENCY then
        v = zero_PlayerListItem\<lparr>pi_UUID := pi_UUID v, pi_Ping := pi_Ping v\<rparr>
      else if action = UPDATE_DISPLAY_NAME then
        v = zero_PlayerListItem\<lparr>pi_UUID := pi_UUID v, pi_DisplayName := pi_DisplayName v\<rparr> \<and>
        length (pi_DisplayName v) \<le> 32767
      else v = zero_PlayerListItem\<lparr>pi_UUID := pi_UUID v\<rparr>)"

interpretation auth_property: codec WriteAuthProperty ReadAuthProperty AuthProperty_ok
  by unfold_locales
     (auto simp: WriteAuthProperty_def ReadAuthProperty_def AuthProperty_ok_def
        ReadMinecraftString_Write boolean.dec_enc)

interpretation display_name: codec WriteDisplayName ReadDisplayName "\<lambda>d. length d \<le> 32767"
  by unfold_locales
     (auto simp: WriteDisplayName_def ReadDisplayName_def ReadMinecraftString_Write boolean.dec_enc)

lemma ReadAddPlayer_Write:
  assumes "length (pi_Name v) \<le> 128" "length (pi_Properties v) \<le> 16"
    "list_all AuthProperty_ok (pi_Properties v)" "length (pi_DisplayName v) \<le> 32767"
  shows "ReadAddPlayer w
      (WriteMinecraftString (pi_Name v) @ WriteVarInt (word_of_nat (length (pi_Properties v))) @
        concat (map WriteAuthProperty (pi_Properties v)) @
        WriteVarInt (pi_GameMode v) @ WriteVarInt (pi_Ping v) @ WriteDisplayName (pi_DisplayName v) @ s)
    = (v\<lparr>pi_UUID := pi_UUID w\<rparr>, None, s)"
proof -
  have "read_fill ReadAuthProperty zero_AuthProperty (length (pi_Properties v))
      (concat (map WriteAuthProperty (pi_Properties v)) @ r) = (pi_Properties v, None, r)" for r
    using assms(3) by (intro auth_property.read_fill_enc) (simp add: list_all_iff)
  with assms(1,2,4) show ?thesis
    by (simp add: ReadAddPlayer_def ReadMinecraftString_Write ReadVarInt_WriteVarInt
        display_name.dec_enc)
qed

interpretation list_item: codec "WritePlayerListItem action" "ReadPlayerListItem action"
    "PlayerListItem_ok action" for action
proof
  fix x s
  assume ok: "PlayerListItem_ok action x"
  then have uuid: "length (pi_UUID x) = 16" by (simp add: PlayerListItem_ok_def)
  consider "action = ADD_PLAYER" | "action \<noteq> ADD_PLAYER" by blast
  then show "ReadPlayerListItem action (WritePlayerListItem action x @ s) = (x, None, s)"
  proof cases
    case 1
    with ok uuid show ?thesis
      by (simp add: PlayerListItem_ok_def WritePlayerListItem_def ReadPlayerListItem_def Let_def
          ReadAddPlayer_Write)
  next
    case 2
    with ok uuid show ?thesis
      by (cases "action = UPDATE_GAME_MODE"; cases "action = UPDATE_LATENCY";
          cases "action = UPDATE_DISPLAY_NAME")
         (auto simp: PlayerListItem_ok_def WritePlayerListItem_def ReadPlayerListItem_def Let_def
          ReadVarInt_WriteVarInt display_name.dec_enc)
  qed
qed

lemma PlayerListItemPacketCB_roundtrip:
  assumes "list_all (PlayerListItem_ok (pli_Action p)) (pli_Items p)" "length (pli_Items p) \<le> 16384"
  shows "\<exists>b. PlayerListItemPacketCB_Serialize p = Ret (b, None)
    \<and> PlayerListItemPacketCB_Parse q (b @ s) = Ret (p, None, s)"
proof -
  have "read_fill (ReadPlayerListItem (pli_Action p)) zero_PlayerListItem (length (pli_Items p))
      (concat (map (WritePlayerListItem (pli_Action p)) (pli_Items p)) @ s) = (pli_Items p, None, s)"
    using assms(1) by (intro list_item.read_fill_enc) (simp add: list_all_iff)
  with assms(2) show ?thesis
    by (simp add: PlayerListItemPacketCB_Serialize_def PlayerListItemPacketCB_Parse_def
        ReadVarInt_WriteVarInt Let_def)
qed

text \<open>The item count that is accepted bounds the allocation.\<close>

lemma PlayerListItemPacketCB_bounded:
  assumes "PlayerListItemPacketCB_Parse p s = Ret (p', err, s')"
  shows "pli_Items p' = pli_Items p \<or> length (pli_Items p') \<le> 16384"
  using assms
  by (auto simp: PlayerListItemPacketCB_Parse_def Let_def split: prod.splits option.splits if_splits
      dest: length_read_fill)

text \<open>
  A list item whose display name is cut off is accepted: the error is assigned to a variable of the
  inner block.
\<close>

lemma ReadAddPlayer_no_display_name:
  assumes "length (pi_Name v) \<le> 128" "length (pi_Properties v) \<le> 16"
    "list_all AuthProperty_ok (pi_Properties v)"
  shows "ReadAddPlayer w
      (WriteMinecraftString (pi_Name v) @ WriteVarInt (word_of_nat (length (pi_Properties v))) @
        concat (map WriteAuthProperty (pi_Properties v)) @
        WriteVarInt (pi_GameMode v) @ WriteVarInt (pi_Ping v))
    = (v\<lparr>pi_UUID := pi_UUID w, pi_DisplayName := ''''\<rparr>, None, [])"
proof -
  have "read_fill ReadAuthProperty zero_AuthProperty (length (pi_Properties v))
      (concat (map WriteAuthProperty (pi_Properties v)) @ r) = (pi_Properties v, None, r)" for r
    using assms(3) by (intro auth_property.read_fill_enc) (simp add: list_all_iff)
  with assms(1,2) show ?thesis
    using ReadVarInt_WriteVarInt [of "pi_Ping v" "[]"]
    by (simp add: ReadAddPlayer_def ReadMinecraftString_Write ReadVarInt_WriteVarInt
        ReadDisplayName_def)
qed

section \<open>TeamsPacketCB\<close>

record TeamsPacketCB =
  tp_Name :: string
  tp_Mode :: byte
  tp_DisplayName :: string
  tp_Prefix :: string
  tp_Suffix :: string
  tp_FriendlyFire :: byte
  tp_Players :: "string list"

text \<open>Every assignment to \<^verbatim>\<open>err\<close> before the first check overwrites the one before it.\<close>

definition TeamsPacketCB_Parse :: "TeamsPacketCB \<Rightarrow> TeamsPacketCB parsing" where
  "TeamsPacketCB_Parse p s =
     (case ReadMinecraftString 64 s of (name, _, s1) \<Rightarrow>
      case ReadUnsignedByte s1 of (mode, err1, s2) \<Rightarrow>
      let p1 = p\<lparr>tp_Name := name, tp_Mode := mode\<rparr> in
      case (if mode = 0 \<or> mode = 2 then
              (case ReadMinecraftString 64 s2 of (dn, _, s3) \<Rightarrow>
               case ReadMinecraftString 16 s3 of (pre, _, s4) \<Rightarrow>
               case ReadMinecraftString 16 s4 of (suf, _, s5) \<Rightarrow>
               case ReadByte s5 of (ff, err2, s6) \<Rightarrow>
                 (p1\<lparr>tp_DisplayName := dn, tp_Prefix := pre, tp_Suffix := suf,
                     tp_FriendlyFire := ff\<rparr>, err2, s6))
            else (p1, err1, s2)) of
        (p2, Some e, s7) \<Rightarrow> Ret (p2, Some e, s7)
      | (p2, None, s7) \<Rightarrow>
          if mode = 0 \<or> mode = 3 \<or> mode = 4 then
            (case ReadShort s7 of
               (player_count, Some e, s8) \<Rightarrow> Ret (p2, Some e, s8)
             | (player_count, None, s8) \<Rightarrow>
                 if sint player_count < 0 \<or> 1024 < sint player_count then
                   Ret (p2, Some (Errorf ''Unexpected player_count in TeamsPacket: %d''
                          [GInt (sint player_count)]), s8)
                 else
                   (case read_fill (ReadMinecraftString 16) '''' (nat (sint player_count)) s8 of
                      (ps, err, s9) \<Rightarrow> Ret (p2\<lparr>tp_Players := ps\<rparr>, err, s9)))
          else Ret (p2, None, s7))"

definition TeamsPacketCB_Serialize :: "TeamsPacketCB \<Rightarrow> (bytes \<times> gerr option) go" where
  "TeamsPacketCB_Serialize p =
     (let b1 = WriteMinecraftString (tp_Name p) @ WriteUnsignedByte (tp_Mode p) @
               (if tp_Mode p = 0 \<or> tp_Mode p = 2 then
                  WriteMinecraftString (tp_DisplayName p) @ WriteMinecraftString (tp_Prefix p) @
                  WriteMinecraftString (tp_Suffix p) @ WriteByte (tp_FriendlyFire p)
                else [])
      in if tp_Mode p = 0 \<or> tp_Mode p = 3 \<or> tp_Mode p = 4 then
           if 1024 < length (tp_Players p) then
             Ret (b1, Some (Errorf ''TeamsPacket.Players too long! %d elements''
                        [GInt (int (length (tp_Players p)))]))
           else Ret (b1 @ WriteShort (word_of_nat (length (tp_Players p))) @
                     concat (map WriteMinecraftString (tp_Players p)), None)
         else Ret (b1, None))"

definition TeamsPacketCB_methods :: "TeamsPacketCB methods" where
  "TeamsPacketCB_methods =
     \<lparr>m_PacketID = 0x4C, m_Direction = ClientBound,
      m_Parse = TeamsPacketCB_Parse, m_Serialize = TeamsPacketCB_Serialize\<rparr>"

definition TeamsPacketCB_ok :: "TeamsPacketCB \<Rightarrow> bool" where
  "TeamsPacketCB_ok p \<longleftrightarrow> length (tp_Name p) \<le> 64 \<and> length (tp_DisplayName p) \<le> 64 \<and>
     length (tp_Prefix p) \<le> 16 \<and> length (tp_Suffix p) \<le> 16 \<and> length (tp_Players p) \<le> 1024 \<and>
     list_all (\<lambda>n. length n \<le> 16) (tp_Players p)"

text \<open>The fields that the mode of \<open>p\<close> transmits come from \<open>p\<close>, the others stay as in \<open>q\<close>.\<close>

definition teams_update :: "TeamsPacketCB \<Rightarrow> TeamsPacketCB \<Rightarrow> TeamsPacketCB" where
  "teams_update q p =
     (let q1 = q\<lparr>tp_Name := tp_Name p, tp_Mode := tp_Mode p\<rparr>;
          q2 = (if tp_Mode p = 0 \<or> tp_Mode p = 2 then
                  q1\<lparr>tp_DisplayName := tp_DisplayName p, tp_Prefix := tp_Prefix p,
                     tp_Suffix := tp_Suffix p, tp_FriendlyFire := tp_FriendlyFire p\<rparr>
                else q1)
      in if tp_Mode p = 0 \<or> tp_Mode p = 3 \<or> tp_Mode p = 4 then q2\<lparr>tp_Players := tp_Players p\<rparr>
         else q2)"

lemma sint_of_nat_16: "n < 32768 \<Longrightarrow> sint (word_of_nat n :: 16 word) = int n"
  by (simp add: sint_word_ariths(1) signed_of_nat signed_take_bit_int_eq_self)

lemma read_names:
  assumes "list_all (\<lambda>n. length n \<le> 16) ns"
  shows "read_fill (ReadMinecraftString 16) '''' (length ns)
    (concat (map WriteMinecraftString ns) @ s) = (ns, None, s)"
  using assms by (intro mcstring.read_fill_enc) (auto simp: list_all_iff)

lemma TeamsPacketCB_roundtrip:
  assumes "TeamsPacketCB_ok p"
  shows "\<exists>b. TeamsPacketCB_Serialize p = Ret (b, None)
    \<and> TeamsPacketCB_Parse q (b @ s) = Ret (teams_update q p, None, s)"
  using assms read_names [of "tp_Players p" s]
  by (cases "tp_Mode p = 0"; cases "tp_Mode p = 2"; cases "tp_Mode p = 3 \<or> tp_Mode p = 4")
     (auto simp: TeamsPacketCB_ok_def TeamsPacketCB_Serialize_def TeamsPacketCB_Parse_def
        teams_update_def Let_def ReadMinecraftString_Write uint8.dec_enc int8.dec_enc int16.dec_enc
        sint_of_nat_16)

section \<open>SpawnPlayer\<close>

record SpawnPlayer =
  spl_EntityID :: "32 word"
  spl_UUID :: string
  spl_X :: "32 word"
  spl_Y :: "32 word"
  spl_Z :: "32 word"
  spl_Yaw :: byte
  spl_Pitch :: byte

text \<open>\<^verbatim>\<open>dataCount\<close> is read, checked against 1024 from above only, and otherwise unused.\<close>

definition SpawnPlayer_Parse :: "SpawnPlayer \<Rightarrow> SpawnPlayer parsing" where
  "SpawnPlayer_Parse p s =
     (case ReadVarInt s of
        (eid, Some e, s1) \<Rightarrow> Ret (p, Some e, s1)
      | (eid, None, s1) \<Rightarrow>
     (case ReadMinecraftString 64 s1 of
        (u, Some e, s2) \<Rightarrow> Ret (p\<lparr>spl_EntityID := eid, spl_UUID := u\<rparr>, Some e, s2)
      | (u, None, s2) \<Rightarrow>
     let p1 = p\<lparr>spl_EntityID := eid, spl_UUID := u\<rparr> in
     (case ReadVarInt s2 of
        (dataCount, Some e, s3) \<Rightarrow> Ret (p1, Some e, s3)
      | (dataCount, None, s3) \<Rightarrow>
     if 1024 < sint dataCount then
       Ret (p1, Some (Errorf ''SpawnPlayer.Data too long! %d elements'' [GInt (sint dataCount)]), s3)
     else
     (case ReadInt s3 of
        (x, Some e, s4) \<Rightarrow> Ret (p1\<lparr>spl_X := x\<rparr>, Some e, s4)
      | (x, None, s4) \<Rightarrow>
     (case ReadInt s4 of
        (y, Some e, s5) \<Rightarrow> Ret (p1\<lparr>spl_X := x, spl_Y := y\<rparr>, Some e, s5)
      | (y, None, s5) \<Rightarrow>
     (case ReadInt s5 of
        (z, Some e, s6) \<Rightarrow> Ret (p1\<lparr>spl_X := x, spl_Y := y, spl_Z := z\<rparr>, Some e, s6)
      | (z, None, s6) \<Rightarrow>
     (case ReadByte s6 of
        (yaw, Some e, s7) \<Rightarrow>
          Ret (p1\<lparr>spl_X := x, spl_Y := y, spl_Z := z, spl_Yaw := yaw\<rparr>, Some e, s7)
      | (yaw, None, s7) \<Rightarrow>
     (case ReadByte s7 of (pitch, err, s8) \<Rightarrow>
          Ret (p1\<lparr>spl_X := x, spl_Y := y, spl_Z := z, spl_Yaw := yaw, spl_Pitch := pitch\<rparr>,
               err, s8)))))))))"

definition SpawnPlayer_Serialize :: "SpawnPlayer \<Rightarrow> (bytes \<times> gerr option) go" where
  "SpawnPlayer_Serialize p =
     Ret (WriteVarInt (spl_EntityID p) @ WriteMinecraftString (spl_UUID p) @ WriteInt (spl_X p) @
          WriteInt (spl_Y p) @ WriteInt (spl_Z p) @ WriteByte (spl_Yaw p) @ WriteByte (spl_Pitch p),
          None)"

definition SpawnPlayer_methods :: "SpawnPlayer methods" where
  "SpawnPlayer_methods =
     \<lparr>m_PacketID = 0x04, m_Direction = ClientBound,
      m_Parse = SpawnPlayer_Parse, m_Serialize = SpawnPlayer_Serialize\<rparr>"

text \<open>
  What \<^verbatim>\<open>Serialize\<close> writes cannot be read back: \<^verbatim>\<open>Parse\<close> takes the first coordinate's first byte for
  a data count, and the coordinates that follow are shifted.
\<close>

lemma SpawnPlayer_no_roundtrip:
  assumes "length (spl_UUID p) \<le> 64"
  shows "\<exists>b. SpawnPlayer_Serialize p = Ret (b, None) \<and> SpawnPlayer_Parse q b \<noteq> Ret (p, None, [])"
proof -
  define r where "r = WriteInt (spl_X p) @ WriteInt (spl_Y p) @ WriteInt (spl_Z p) @
      WriteByte (spl_Yaw p) @ WriteByte (spl_Pitch p)"
  have len: "length r = 14" by (simp add: r_def WriteInt_def WriteByte_def)
  obtain n err s3 where dc: "ReadVarInt r = (n, err, s3)" by (metis prod_cases3)
  have shorter: "err = None \<Longrightarrow> length s3 < 14"
    using ReadVarInt_consumes [of r] dc len by (auto simp flip: length_greater_0_conv)
  show ?thesis
  proof (cases err)
    case (Some e)
    with dc assms show ?thesis
      by (simp add: SpawnPlayer_Serialize_def SpawnPlayer_Parse_def ReadVarInt_WriteVarInt
          ReadMinecraftString_Write Let_def flip: r_def)
  next
    case None
    have "SpawnPlayer_Parse q (WriteVarInt (spl_EntityID p) @ WriteMinecraftString (spl_UUID p) @ r)
        \<noteq> Ret (p, None, [])" (is "?lhs \<noteq> _")
    proof
      assume "?lhs = Ret (p, None, [])"
      with dc None assms have "14 \<le> length s3"
        by (auto simp: SpawnPlayer_Parse_def ReadVarInt_WriteVarInt ReadMinecraftString_Write Let_def
            split: if_splits prod.splits option.splits dest!: int32.enc_dec int8.enc_dec)
           (auto simp: WriteInt_def WriteByte_def)
      with shorter None show False by simp
    qed
    then show ?thesis by (simp add: SpawnPlayer_Serialize_def r_def)
  qed
qed

end
