(* ===== verification/Packets.thy ===== *)
theory Packets
  imports LoginPackets PlayPackets PlayCustom
begin

text \<open>
  src/packets/packets.go and rawpacket.go: the Go interface \<^verbatim>\<open>Packet\<close> as one datatype with a
  constructor for each type that implements it, the dynamic dispatch of its four methods, the
  registry \<^verbatim>\<open>NewPacket\<close>, and what holds of all packets together.
\<close>

section \<open>The interface and its implementations\<close>

definition MaxPacketSize :: int where "MaxPacketSize = 128 * 1024"

definition MaxPacketID :: int where "MaxPacketID = 256"

definition CompressThreshold :: int where "CompressThreshold = 512"

definition ProtocolVersion :: int where "ProtocolVersion = 753"

definition GameVersion :: ServerStatusVersion where
  "GameVersion = \<lparr>ssv_Name = ''1.16.3'', ssv_Protocol = ProtocolVersion\<rparr>"

record RawPacket =
  raw_ID :: VarInt
  raw_DataLength :: VarInt
  raw_Payload :: bytes

datatype 'n packet =
    P_RawPacket RawPacket
  | P_HandshakePacket HandshakePacket
  | P_StatusRequestPacketSB StatusRequestPacketSB
  | P_StatusResponsePacketCB StatusResponsePacketCB
  | P_StatusPingPacketCB StatusPingPacketCB
  | P_StatusPingPacketSB StatusPingPacketSB
  | P_LoginStartPacket LoginStartPacket
  | P_LoginSuccessPacket LoginSuccessPacket
  | P_LoginKickPacket LoginKickPacket
  | P_EncryptionRequestPacket EncryptionRequestPacket
  | P_EncryptionResponsePacket EncryptionResponsePacket
  | P_LoginCompressionPacket LoginCompressionPacket
  | P_ClientSettingsPacketSB ClientSettingsPacketSB
  | P_ClientStatusPacketSB ClientStatusPacketSB
  | P_PluginMessagePacketSB PluginMessagePacketSB
  | P_ChatMessagePacketSB ChatMessagePacketSB
  | P_TabCompletePacketSB TabCompletePacketSB
  | P_RespawnPacketCB "'n RespawnPacketCB"
  | P_KickPacketCB KickPacketCB
  | P_JoinGamePacketCB "'n JoinGamePacketCB"
  | P_PluginMessagePacketCB PluginMessagePacketCB
  | P_GameStateChangePacketCB GameStateChangePacketCB
  | P_ChatMessagePacketCB ChatMessagePacketCB
  | P_TabCompletePacketCB TabCompletePacketCB
  | P_PlayerListItemPacketCB PlayerListItemPacketCB
  | P_PlayerListTitlePacketCB PlayerListTitlePacketCB
  | P_ScoreboardObjectivePacketCB ScoreboardObjectivePacketCB
  | P_TeamsPacketCB TeamsPacketCB
  | P_SpawnPlayer SpawnPlayer
  | P_PlayerPositionAndLookPacketCB PlayerPositionAndLookPacketCB
  | P_SpawnPositionPacketCB SpawnPositionPacketCB
  | P_CameraPacketCB CameraPacketCB
  | P_ResourcePackSendCB ResourcePackSendCB

text \<open>The dynamic type of a packet.\<close>

primrec packet_type :: "'n packet \<Rightarrow> nat" where
  "packet_type (P_RawPacket p) = 0"
| "packet_type (P_HandshakePacket p) = 1"
| "packet_type (P_StatusRequestPacketSB p) = 2"
| "packet_type (P_StatusResponsePacketCB p) = 3"
| "packet_type (P_StatusPingPacketCB p) = 4"
| "packet_type (P_StatusPingPacketSB p) = 5"
| "packet_type (P_LoginStartPacket p) = 6"
| "packet_type (P_LoginSuccessPacket p) = 7"
| "packet_type (P_LoginKickPacket p) = 8"
| "packet_type (P_EncryptionRequestPacket p) = 9"
| "packet_type (P_EncryptionResponsePacket p) = 10"
| "packet_type (P_LoginCompressionPacket p) = 11"
| "packet_type (P_ClientSettingsPacketSB p) = 12"
| "packet_type (P_ClientStatusPacketSB p) = 13"
| "packet_type (P_PluginMessagePacketSB p) = 14"
| "packet_type (P_ChatMessagePacketSB p) = 15"
| "packet_type (P_TabCompletePacketSB p) = 16"
| "packet_type (P_RespawnPacketCB p) = 17"
| "packet_type (P_KickPacketCB p) = 18"
| "packet_type (P_JoinGamePacketCB p) = 19"
| "packet_type (P_PluginMessagePacketCB p) = 20"
| "packet_type (P_GameStateChangePacketCB p) = 21"
| "packet_type (P_ChatMessagePacketCB p) = 22"
| "packet_type (P_TabCompletePacketCB p) = 23"
| "packet_type (P_PlayerListItemPacketCB p) = 24"
| "packet_type (P_PlayerListTitlePacketCB p) = 25"
| "packet_type (P_ScoreboardObjectivePacketCB p) = 26"
| "packet_type (P_TeamsPacketCB p) = 27"
| "packet_type (P_SpawnPlayer p) = 28"
| "packet_type (P_PlayerPositionAndLookPacketCB p) = 29"
| "packet_type (P_SpawnPositionPacketCB p) = 30"
| "packet_type (P_CameraPacketCB p) = 31"
| "packet_type (P_ResourcePackSendCB p) = 32"

primrec PacketID :: "'n nbt_lib \<Rightarrow> 'n packet \<Rightarrow> VarInt" where
  "PacketID lib (P_RawPacket p) = raw_ID p"
| "PacketID lib (P_HandshakePacket p) = m_PacketID (HandshakePacket_methods lib)"
| "PacketID lib (P_StatusRequestPacketSB p) = m_PacketID (StatusRequestPacketSB_methods)"
| "PacketID lib (P_StatusResponsePacketCB p) = m_PacketID (StatusResponsePacketCB_methods lib)"
| "PacketID lib (P_StatusPingPacketCB p) = m_PacketID (StatusPingPacketCB_methods lib)"
| "PacketID lib (P_StatusPingPacketSB p) = m_PacketID (StatusPingPacketSB_methods lib)"
| "PacketID lib (P_LoginStartPacket p) = m_PacketID (LoginStartPacket_methods lib)"
| "PacketID lib (P_LoginSuccessPacket p) = m_PacketID (LoginSuccessPacket_methods lib)"
| "PacketID lib (P_LoginKickPacket p) = m_PacketID (LoginKickPacket_methods lib)"
| "PacketID lib (P_EncryptionRequestPacket p) = m_PacketID (EncryptionRequestPacket_methods lib)"
| "PacketID lib (P_EncryptionResponsePacket p) = m_PacketID (EncryptionResponsePacket_methods lib)"
| "PacketID lib (P_LoginCompressionPacket p) = m_PacketID (LoginCompressionPacket_methods lib)"
| "PacketID lib (P_ClientSettingsPacketSB p) = m_PacketID (ClientSettingsPacketSB_methods lib)"
| "PacketID lib (P_ClientStatusPacketSB p) = m_PacketID (ClientStatusPacketSB_methods lib)"
| "PacketID lib (P_PluginMessagePacketSB p) = m_PacketID (PluginMessagePacketSB_methods lib)"
| "PacketID lib (P_ChatMessagePacketSB p) = m_PacketID (ChatMessagePacketSB_methods lib)"
| "PacketID lib (P_TabCompletePacketSB p) = m_PacketID (TabCompletePacketSB_methods lib)"
| "PacketID lib (P_RespawnPacketCB p) = m_PacketID (RespawnPacketCB_methods lib)"
| "PacketID lib (P_KickPacketCB p) = m_PacketID (KickPacketCB_methods lib)"
| "PacketID lib (P_JoinGamePacketCB p) = m_PacketID (JoinGamePacketCB_methods lib)"
| "PacketID lib (P_PluginMessagePacketCB p) = m_PacketID (PluginMessagePacketCB_methods)"
| "PacketID lib (P_GameStateChangePacketCB p) = m_PacketID (GameStateChangePacketCB_methods lib)"
| "PacketID lib (P_ChatMessagePacketCB p) = m_PacketID (ChatMessagePacketCB_methods lib)"
| "PacketID lib (P_TabCompletePacketCB p) = m_PacketID (TabCompletePacketCB_methods lib)"
| "PacketID lib (P_PlayerListItemPacketCB p) = m_PacketID (PlayerListItemPacketCB_methods)"
| "PacketID lib (P_PlayerListTitlePacketCB p) = m_PacketID (PlayerListTitlePacketCB_methods lib)"
| "PacketID lib (P_ScoreboardObjectivePacketCB p) = m_PacketID (ScoreboardObjectivePacketCB_methods lib)"
| "PacketID lib (P_TeamsPacketCB p) = m_PacketID (TeamsPacketCB_methods)"
| "PacketID lib (P_SpawnPlayer p) = m_PacketID (SpawnPlayer_methods)"
| "PacketID lib (P_PlayerPositionAndLookPacketCB p) = m_PacketID (PlayerPositionAndLookPacketCB_methods lib)"
| "PacketID lib (P_SpawnPositionPacketCB p) = m_PacketID (SpawnPositionPacketCB_methods lib)"
| "PacketID lib (P_CameraPacketCB p) = m_PacketID (CameraPacketCB_methods lib)"
| "PacketID lib (P_ResourcePackSendCB p) = m_PacketID (ResourcePackSendCB_methods lib)"

primrec Direction :: "'n nbt_lib \<Rightarrow> 'n packet \<Rightarrow> direction go" where
  "Direction lib (P_RawPacket p) =
     Panic ''RawPacket is just a dummy container type - valid directions are unknown!''"
| "Direction lib (P_HandshakePacket p) = Ret (m_Direction (HandshakePacket_methods lib))"
| "Direction lib (P_StatusRequestPacketSB p) = Ret (m_Direction (StatusRequestPacketSB_methods))"
| "Direction lib (P_StatusResponsePacketCB p) = Ret (m_Direction (StatusResponsePacketCB_methods lib))"
| "Direction lib (P_StatusPingPacketCB p) = Ret (m_Direction (StatusPingPacketCB_methods lib))"
| "Direction lib (P_StatusPingPacketSB p) = Ret (m_Direction (StatusPingPacketSB_methods lib))"
| "Direction lib (P_LoginStartPacket p) = Ret (m_Direction (LoginStartPacket_methods lib))"
| "Direction lib (P_LoginSuccessPacket p) = Ret (m_Direction (LoginSuccessPacket_methods lib))"
| "Direction lib (P_LoginKickPacket p) = Ret (m_Direction (LoginKickPacket_methods lib))"
| "Direction lib (P_EncryptionRequestPacket p) = Ret (m_Direction (EncryptionRequestPacket_methods lib))"
| "Direction lib (P_EncryptionResponsePacket p) = Ret (m_Direction (EncryptionResponsePacket_methods lib))"
| "Direction lib (P_LoginCompressionPacket p) = Ret (m_Direction (LoginCompressionPacket_methods lib))"
| "Direction lib (P_ClientSettingsPacketSB p) = Ret (m_Direction (ClientSettingsPacketSB_methods lib))"
| "Direction lib (P_ClientStatusPacketSB p) = Ret (m_Direction (ClientStatusPacketSB_methods lib))"
| "Direction lib (P_PluginMessagePacketSB p) = Ret (m_Direction (PluginMessagePacketSB_methods lib))"
| "Direction lib (P_ChatMessagePacketSB p) = Ret (m_Direction (ChatMessagePacketSB_methods lib))"
| "Direction lib (P_TabCompletePacketSB p) = Ret (m_Direction (TabCompletePacketSB_methods lib))"
| "Direction lib (P_RespawnPacketCB p) = Ret (m_Direction (RespawnPacketCB_methods lib))"
| "Direction lib (P_KickPacketCB p) = Ret (m_Direction (KickPacketCB_methods lib))"
| "Direction lib (P_JoinGamePacketCB p) = Ret (m_Direction (JoinGamePacketCB_methods lib))"
| "Direction lib (P_PluginMessagePacketCB p) = Ret (m_Direction (PluginMessagePacketCB_methods))"
| "Direction lib (P_GameStateChangePacketCB p) = Ret (m_Direction (GameStateChangePacketCB_methods lib))"
| "Direction lib (P_ChatMessagePacketCB p) = Ret (m_Direction (ChatMessagePacketCB_methods lib))"
| "Direction lib (P_TabCompletePacketCB p) = Ret (m_Direction (TabCompletePacketCB_methods lib))"
| "Direction lib (P_PlayerListItemPacketCB p) = Ret (m_Direction (PlayerListItemPacketCB_methods))"
| "Direction lib (P_PlayerListTitlePacketCB p) = Ret (m_Direction (PlayerListTitlePacketCB_methods lib))"
| "Direction lib (P_ScoreboardObjectivePacketCB p) = Ret (m_Direction (ScoreboardObjectivePacketCB_methods lib))"
| "Direction lib (P_TeamsPacketCB p) = Ret (m_Direction (TeamsPacketCB_methods))"
| "Direction lib (P_SpawnPlayer p) = Ret (m_Direction (SpawnPlayer_methods))"
| "Direction lib (P_PlayerPositionAndLookPacketCB p) = Ret (m_Direction (PlayerPositionAndLookPacketCB_methods lib))"
| "Direction lib (P_SpawnPositionPacketCB p) = Ret (m_Direction (SpawnPositionPacketCB_methods lib))"
| "Direction lib (P_CameraPacketCB p) = Ret (m_Direction (CameraPacketCB_methods lib))"
| "Direction lib (P_ResourcePackSendCB p) = Ret (m_Direction (ResourcePackSendCB_methods lib))"

definition parse_as :: "('p \<Rightarrow> 'n packet) \<Rightarrow> 'p parsing \<Rightarrow> 'n packet parsing" where
  "parse_as C f s = go_map (\<lambda>(p, err, s'). (C p, err, s')) (f s)"

primrec Parse :: "'n nbt_lib \<Rightarrow> 'n packet \<Rightarrow> 'n packet parsing" where
  "Parse lib (P_RawPacket p) s =
     Panic ''RawPacket is just a dummy container type - can't parse real data stream!''"
| "Parse lib (P_HandshakePacket p) s = parse_as P_HandshakePacket (m_Parse (HandshakePacket_methods lib) p) s"
| "Parse lib (P_StatusRequestPacketSB p) s = parse_as P_StatusRequestPacketSB (m_Parse (StatusRequestPacketSB_methods) p) s"
| "Parse lib (P_StatusResponsePacketCB p) s = parse_as P_StatusResponsePacketCB (m_Parse (StatusResponsePacketCB_methods lib) p) s"
| "Parse lib (P_StatusPingPacketCB p) s = parse_as P_StatusPingPacketCB (m_Parse (StatusPingPacketCB_methods lib) p) s"
| "Parse lib (P_StatusPingPacketSB p) s = parse_as P_StatusPingPacketSB (m_Parse (StatusPingPacketSB_methods lib) p) s"
| "Parse lib (P_LoginStartPacket p) s = parse_as P_LoginStartPacket (m_Parse (LoginStartPacket_methods lib) p) s"
| "Parse lib (P_LoginSuccessPacket p) s = parse_as P_LoginSuccessPacket (m_Parse (LoginSuccessPacket_methods lib) p) s"
| "Parse lib (P_LoginKickPacket p) s = parse_as P_LoginKickPacket (m_Parse (LoginKickPacket_methods lib) p) s"
| "Parse lib (P_EncryptionRequestPacket p) s = parse_as P_EncryptionRequestPacket (m_Parse (EncryptionRequestPacket_methods lib) p) s"
| "Parse lib (P_EncryptionResponsePacket p) s = parse_as P_EncryptionResponsePacket (m_Parse (EncryptionResponsePacket_methods lib) p) s"
| "Parse lib (P_LoginCompressionPacket p) s = parse_as P_LoginCompressionPacket (m_Parse (LoginCompressionPacket_methods lib) p) s"
| "Parse lib (P_ClientSettingsPacketSB p) s = parse_as P_ClientSettingsPacketSB (m_Parse (ClientSettingsPacketSB_methods lib) p) s"
| "Parse lib (P_ClientStatusPacketSB p) s = parse_as P_ClientStatusPacketSB (m_Parse (ClientStatusPacketSB_methods lib) p) s"
| "Parse lib (P_PluginMessagePacketSB p) s = parse_as P_PluginMessagePacketSB (m_Parse (PluginMessagePacketSB_methods lib) p) s"
| "Parse lib (P_ChatMessagePacketSB p) s = parse_as P_ChatMessagePacketSB (m_Parse (ChatMessagePacketSB_methods lib) p) s"
| "Parse lib (P_TabCompletePacketSB p) s = parse_as P_TabCompletePacketSB (m_Parse (TabCompletePacketSB_methods lib) p) s"
| "Parse lib (P_RespawnPacketCB p) s = parse_as P_RespawnPacketCB (m_Parse (RespawnPacketCB_methods lib) p) s"
| "Parse lib (P_KickPacketCB p) s = parse_as P_KickPacketCB (m_Parse (KickPacketCB_methods lib) p) s"
| "Parse lib (P_JoinGamePacketCB p) s = parse_as P_JoinGamePacketCB (m_Parse (JoinGamePacketCB_methods lib) p) s"
| "Parse lib (P_PluginMessagePacketCB p) s = parse_as P_PluginMessagePacketCB (m_Parse (PluginMessagePacketCB_methods) p) s"
| "Parse lib (P_GameStateChangePacketCB p) s = parse_as P_GameStateChangePacketCB (m_Parse (GameStateChangePacketCB_methods lib) p) s"
| "Parse lib (P_ChatMessagePacketCB p) s = parse_as P_ChatMessagePacketCB (m_Parse (ChatMessagePacketCB_methods lib) p) s"
| "Parse lib (P_TabCompletePacketCB p) s = parse_as P_TabCompletePacketCB (m_Parse (TabCompletePacketCB_methods lib) p) s"
| "Parse lib (P_PlayerListItemPacketCB p) s = parse_as P_PlayerListItemPacketCB (m_Parse (PlayerListItemPacketCB_methods) p) s"
| "Parse lib (P_PlayerListTitlePacketCB p) s = parse_as P_PlayerListTitlePacketCB (m_Parse (PlayerListTitlePacketCB_methods lib) p) s"
| "Parse lib (P_ScoreboardObjectivePacketCB p) s = parse_as P_ScoreboardObjectivePacketCB (m_Parse (ScoreboardObjectivePacketCB_methods lib) p) s"
| "Parse lib (P_TeamsPacketCB p) s = parse_as P_TeamsPacketCB (m_Parse (TeamsPacketCB_methods) p) s"
| "Parse lib (P_SpawnPlayer p) s = parse_as P_SpawnPlayer (m_Parse (SpawnPlayer_methods) p) s"
| "Parse lib (P_PlayerPositionAndLookPacketCB p) s = parse_as P_PlayerPositionAndLookPacketCB (m_Parse (PlayerPositionAndLookPacketCB_methods lib) p) s"
| "Parse lib (P_SpawnPositionPacketCB p) s = parse_as P_SpawnPositionPacketCB (m_Parse (SpawnPositionPacketCB_methods lib) p) s"
| "Parse lib (P_CameraPacketCB p) s = parse_as P_CameraPacketCB (m_Parse (CameraPacketCB_methods lib) p) s"
| "Parse lib (P_ResourcePackSendCB p) s = parse_as P_ResourcePackSendCB (m_Parse (ResourcePackSendCB_methods lib) p) s"

primrec Serialize :: "'n nbt_lib \<Rightarrow> 'n packet \<Rightarrow> (bytes \<times> gerr option) go" where
  "Serialize lib (P_RawPacket p) =
     Panic ''RawPacket is just a dummy container type - can't serialize!''"
| "Serialize lib (P_HandshakePacket p) = m_Serialize (HandshakePacket_methods lib) p"
| "Serialize lib (P_StatusRequestPacketSB p) = m_Serialize (StatusRequestPacketSB_methods) p"
| "Serialize lib (P_StatusResponsePacketCB p) = m_Serialize (StatusResponsePacketCB_methods lib) p"
| "Serialize lib (P_StatusPingPacketCB p) = m_Serialize (StatusPingPacketCB_methods lib) p"
| "Serialize lib (P_StatusPingPacketSB p) = m_Serialize (StatusPingPacketSB_methods lib) p"
| "Serialize lib (P_LoginStartPacket p) = m_Serialize (LoginStartPacket_methods lib) p"
| "Serialize lib (P_LoginSuccessPacket p) = m_Serialize (LoginSuccessPacket_methods lib) p"
| "Serialize lib (P_LoginKickPacket p) = m_Serialize (LoginKickPacket_methods lib) p"
| "Serialize lib (P_EncryptionRequestPacket p) = m_Serialize (EncryptionRequestPacket_methods lib) p"
| "Serialize lib (P_EncryptionResponsePacket p) = m_Serialize (EncryptionResponsePacket_methods lib) p"
| "Serialize lib (P_LoginCompressionPacket p) = m_Serialize (LoginCompressionPacket_methods lib) p"
| "Serialize lib (P_ClientSettingsPacketSB p) = m_Serialize (ClientSettingsPacketSB_methods lib) p"
| "Serialize lib (P_ClientStatusPacketSB p) = m_Serialize (ClientStatusPacketSB_methods lib) p"
| "Serialize lib (P_PluginMessagePacketSB p) = m_Serialize (PluginMessagePacketSB_methods lib) p"
| "Serialize lib (P_ChatMessagePacketSB p) = m_Serialize (ChatMessagePacketSB_methods lib) p"
| "Serialize lib (P_TabCompletePacketSB p) = m_Serialize (TabCompletePacketSB_methods lib) p"
| "Serialize lib (P_RespawnPacketCB p) = m_Serialize (RespawnPacketCB_methods lib) p"
| "Serialize lib (P_KickPacketCB p) = m_Serialize (KickPacketCB_methods lib) p"
| "Serialize lib (P_JoinGamePacketCB p) = m_Serialize (JoinGamePacketCB_methods lib) p"
| "Serialize lib (P_PluginMessagePacketCB p) = m_Serialize (PluginMessagePacketCB_methods) p"
| "Serialize lib (P_GameStateChangePacketCB p) = m_Serialize (GameStateChangePacketCB_methods lib) p"
| "Serialize lib (P_ChatMessagePacketCB p) = m_Serialize (ChatMessagePacketCB_methods lib) p"
| "Serialize lib (P_TabCompletePacketCB p) = m_Serialize (TabCompletePacketCB_methods lib) p"
| "Serialize lib (P_PlayerListItemPacketCB p) = m_Serialize (PlayerListItemPacketCB_methods) p"
| "Serialize lib (P_PlayerListTitlePacketCB p) = m_Serialize (PlayerListTitlePacketCB_methods lib) p"
| "Serialize lib (P_ScoreboardObjectivePacketCB p) = m_Serialize (ScoreboardObjectivePacketCB_methods lib) p"
| "Serialize lib (P_TeamsPacketCB p) = m_Serialize (TeamsPacketCB_methods) p"
| "Serialize lib (P_SpawnPlayer p) = m_Serialize (SpawnPlayer_methods) p"
| "Serialize lib (P_PlayerPositionAndLookPacketCB p) = m_Serialize (PlayerPositionAndLookPacketCB_methods lib) p"
| "Serialize lib (P_SpawnPositionPacketCB p) = m_Serialize (SpawnPositionPacketCB_methods lib) p"
| "Serialize lib (P_CameraPacketCB p) = m_Serialize (CameraPacketCB_methods lib) p"
| "Serialize lib (P_ResourcePackSendCB p) = m_Serialize (ResourcePackSendCB_methods lib) p"

section \<open>The registry\<close>

text \<open>
  \<^verbatim>\<open>new(T)\<close> for the types that the registry creates.  \<open>z\<close> is the zero value of an NBT compound.
\<close>

definition new_HandshakePacket :: HandshakePacket where
  "new_HandshakePacket =
     \<lparr>hs_Protocol = 0, hs_Host = '''', hs_Port = 0, hs_NextState = 0\<rparr>"

definition new_StatusRequestPacketSB :: StatusRequestPacketSB where
  "new_StatusRequestPacketSB =
     \<lparr>srq_unit = ()\<rparr>"

definition new_StatusPingPacketSB :: StatusPingPacketSB where
  "new_StatusPingPacketSB =
     \<lparr>ps_Time = 0\<rparr>"

definition new_StatusResponsePacketCB :: StatusResponsePacketCB where
  "new_StatusResponsePacketCB =
     \<lparr>sr_Data = ''''\<rparr>"

definition new_StatusPingPacketCB :: StatusPingPacketCB where
  "new_StatusPingPacketCB =
     \<lparr>pc_Time = 0\<rparr>"

definition new_LoginStartPacket :: LoginStartPacket where
  "new_LoginStartPacket =
     \<lparr>ls_Nickname = ''''\<rparr>"

definition new_EncryptionResponsePacket :: EncryptionResponsePacket where
  "new_EncryptionResponsePacket =
     \<lparr>ers_Secret = [], ers_Token = []\<rparr>"

definition new_LoginKickPacket :: LoginKickPacket where
  "new_LoginKickPacket =
     \<lparr>lk_Message = ''''\<rparr>"

definition new_EncryptionRequestPacket :: EncryptionRequestPacket where
  "new_EncryptionRequestPacket =
     \<lparr>erq_ServerID = '''', erq_PublicKey = [], erq_Token = []\<rparr>"

definition new_LoginSuccessPacket :: LoginSuccessPacket where
  "new_LoginSuccessPacket =
     \<lparr>lsu_UID = replicate 16 0, lsu_Username = ''''\<rparr>"

definition new_LoginCompressionPacket :: LoginCompressionPacket where
  "new_LoginCompressionPacket =
     \<lparr>lc_Threshold = 0\<rparr>"

definition new_ChatMessagePacketSB :: ChatMessagePacketSB where
  "new_ChatMessagePacketSB =
     \<lparr>cms_Message = ''''\<rparr>"

definition new_ClientStatusPacketSB :: ClientStatusPacketSB where
  "new_ClientStatusPacketSB =
     \<lparr>cst_Action = 0\<rparr>"

definition new_ClientSettingsPacketSB :: ClientSettingsPacketSB where
  "new_ClientSettingsPacketSB =
     \<lparr>cs_Locale = '''', cs_ViewDistance = 0, cs_ChatMode = 0, cs_ChatColors =
       False, cs_SkinParts = 0, cs_Hand = 0\<rparr>"

definition new_TabCompletePacketSB :: TabCompletePacketSB where
  "new_TabCompletePacketSB =
     \<lparr>tcs_TransactionId = 0, tcs_Text = ''''\<rparr>"

definition new_PluginMessagePacketSB :: PluginMessagePacketSB where
  "new_PluginMessagePacketSB =
     \<lparr>pms_Channel = '''', pms_Payload = []\<rparr>"

definition new_RespawnPacketCB :: "'n \<Rightarrow> 'n RespawnPacketCB" where
  "new_RespawnPacketCB z =
     \<lparr>rs_Dimension = z, rs_DimensionId = '''', rs_HashedSeed = 0, rs_GameMode =
       0, rs_PreviousGameMode = 0, rs_IsDebug = False, rs_IsFlat = False,
       rs_CopyMetadata = False\<rparr>"

definition new_KickPacketCB :: KickPacketCB where
  "new_KickPacketCB =
     \<lparr>kk_Message = ''''\<rparr>"

definition new_JoinGamePacketCB :: "'n \<Rightarrow> 'n JoinGamePacketCB" where
  "new_JoinGamePacketCB z =
     \<lparr>jg_PlayerEntity = 0, jg_IsHardcore = False, jg_GameMode = 0,
       jg_PreviousGameMode = 0, jg_AllWorldNames = [], jg_DimensionCodec = z,
       jg_Dimension = z, jg_DimensionId = '''', jg_HashedSeed = 0, jg_MaxPlayers = 0,
       jg_ViewDistance = 0, jg_ReducedDebugInfo = False, jg_EnableRespawnScreen = False,
       jg_IsDebug = False, jg_IsFlat = False\<rparr>"

definition new_PluginMessagePacketCB :: PluginMessagePacketCB where
  "new_PluginMessagePacketCB =
     \<lparr>pmc_Channel = '''', pmc_Payload = []\<rparr>"

definition new_GameStateChangePacketCB :: GameStateChangePacketCB where
  "new_GameStateChangePacketCB =
     \<lparr>gsc_Reason = 0, gsc_Value = 0\<rparr>"

definition new_ChatMessagePacketCB :: ChatMessagePacketCB where
  "new_ChatMessagePacketCB =
     \<lparr>cmc_Message = '''', cmc_Position = 0, cmc_Sender = replicate 16 0\<rparr>"

definition new_TabCompletePacketCB :: TabCompletePacketCB where
  "new_TabCompletePacketCB =
     \<lparr>tcc_TransactionId = 0, tcc_Start = 0, tcc_Length = 0, tcc_Count = 0,
       tcc_Matches = []\<rparr>"

definition new_PlayerListItemPacketCB :: PlayerListItemPacketCB where
  "new_PlayerListItemPacketCB =
     \<lparr>pli_Action = 0, pli_Items = []\<rparr>"

definition new_ScoreboardObjectivePacketCB :: ScoreboardObjectivePacketCB where
  "new_ScoreboardObjectivePacketCB =
     \<lparr>so_Name = '''', so_Value = '''', so_Mode = 0\<rparr>"

definition new_TeamsPacketCB :: TeamsPacketCB where
  "new_TeamsPacketCB =
     \<lparr>tp_Name = '''', tp_Mode = 0, tp_DisplayName = '''', tp_Prefix = '''',
       tp_Suffix = '''', tp_FriendlyFire = 0, tp_Players = []\<rparr>"

definition newPlayPacket :: "'n \<Rightarrow> VarInt \<Rightarrow> direction \<Rightarrow> 'n packet option" where
  "newPlayPacket z packetId direction =
     (if direction = ServerBound then
       (if packetId = 0x03 then Some (P_ChatMessagePacketSB new_ChatMessagePacketSB)
        else if packetId = 0x04 then Some (P_ClientStatusPacketSB new_ClientStatusPacketSB)
        else if packetId = 0x05 then Some (P_ClientSettingsPacketSB new_ClientSettingsPacketSB)
        else if packetId = 0x06 then Some (P_TabCompletePacketSB new_TabCompletePacketSB)
        else if packetId = 0x0B then Some (P_PluginMessagePacketSB new_PluginMessagePacketSB)
        else None)
      else
       (if packetId = 0x39 then Some (P_RespawnPacketCB (new_RespawnPacketCB z))
        else if packetId = 0x19 then Some (P_KickPacketCB new_KickPacketCB)
        else if packetId = 0x24 then Some (P_JoinGamePacketCB (new_JoinGamePacketCB z))
        else if packetId = 0x17 then Some (P_PluginMessagePacketCB new_PluginMessagePacketCB)
        else if packetId = 0x1D then Some (P_GameStateChangePacketCB new_GameStateChangePacketCB)
        else if packetId = 0x0E then Some (P_ChatMessagePacketCB new_ChatMessagePacketCB)
        else if packetId = 0x0F then Some (P_TabCompletePacketCB new_TabCompletePacketCB)
        else if packetId = 0x32 then Some (P_PlayerListItemPacketCB new_PlayerListItemPacketCB)
        else if packetId = 0x4A then Some (P_ScoreboardObjectivePacketCB new_ScoreboardObjectivePacketCB)
        else if packetId = 0x4C then Some (P_TeamsPacketCB new_TeamsPacketCB)
        else None))"

text \<open>The choice of \<^verbatim>\<open>NewPacket\<close>, before its checks.\<close>

definition choose_packet :: "'n \<Rightarrow> VarInt \<Rightarrow> conn_state \<Rightarrow> direction \<Rightarrow> 'n packet option" where
  "choose_packet z packetId state direction =
     (if state = HANDSHAKING \<and> direction = ServerBound \<and> packetId = 0 then
        Some (P_HandshakePacket new_HandshakePacket)
      else if state = STATUS then
        (if direction = ServerBound then
          (if packetId = 0x00 then Some (P_StatusRequestPacketSB new_StatusRequestPacketSB)
           else if packetId = 0x01 then Some (P_StatusPingPacketSB new_StatusPingPacketSB)
           else None)
         else
          (if packetId = 0x00 then Some (P_StatusResponsePacketCB new_StatusResponsePacketCB)
           else if packetId = 0x01 then Some (P_StatusPingPacketCB new_StatusPingPacketCB)
           else None))
      else if state = LOGIN then
        (if direction = ServerBound then
          (if packetId = 0x00 then Some (P_LoginStartPacket new_LoginStartPacket)
           else if packetId = 0x01 then Some (P_EncryptionResponsePacket new_EncryptionResponsePacket)
           else None)
         else
          (if packetId = 0x00 then Some (P_LoginKickPacket new_LoginKickPacket)
           else if packetId = 0x01 then Some (P_EncryptionRequestPacket new_EncryptionRequestPacket)
           else if packetId = 0x02 then Some (P_LoginSuccessPacket new_LoginSuccessPacket)
           else if packetId = 0x03 then Some (P_LoginCompressionPacket new_LoginCompressionPacket)
           else None))
      else if state = PLAY then newPlayPacket z packetId direction
      else None)"

definition NewPacket ::
    "'n nbt_lib \<Rightarrow> 'n \<Rightarrow> VarInt \<Rightarrow> conn_state \<Rightarrow> direction \<Rightarrow> 'n packet option go" where
  "NewPacket lib z packetId state direction =
     (case choose_packet z packetId state direction of
        None \<Rightarrow> Ret None
      | Some packet \<Rightarrow>
          if PacketID lib packet \<noteq> packetId then Panic ''Packet id mismatch''
          else go_bind (Direction lib packet)
            (\<lambda>d. if d \<noteq> direction then Panic ''Packet direction mismatch''
                 else Ret (Some packet)))"

section \<open>Values that survive the wire\<close>

text \<open>
  The limits that a packet must respect to be read back.  They are the tags of the struct or the
  constants of the hand-written reader.  Three types never come back: SpawnPlayer (reader and writer
  disagree), SpawnPositionPacketCB and ResourcePackSendCB (their readers panic).
\<close>

primrec packet_ok :: "('n \<Rightarrow> bool) \<Rightarrow> 'n packet \<Rightarrow> bool" where
  "packet_ok nbt_ok (P_RawPacket p) = False"
| "packet_ok nbt_ok (P_HandshakePacket p) = fields_ok nbt_ok (HandshakePacket_reflect p)"
| "packet_ok nbt_ok (P_StatusRequestPacketSB p) = True"
| "packet_ok nbt_ok (P_StatusResponsePacketCB p) = fields_ok nbt_ok (StatusResponsePacketCB_reflect p)"
| "packet_ok nbt_ok (P_StatusPingPacketCB p) = fields_ok nbt_ok (StatusPingPacketCB_reflect p)"
| "packet_ok nbt_ok (P_StatusPingPacketSB p) = fields_ok nbt_ok (StatusPingPacketSB_reflect p)"
| "packet_ok nbt_ok (P_LoginStartPacket p) = fields_ok nbt_ok (LoginStartPacket_reflect p)"
| "packet_ok nbt_ok (P_LoginSuccessPacket p) = fields_ok nbt_ok (LoginSuccessPacket_reflect p)"
| "packet_ok nbt_ok (P_LoginKickPacket p) = fields_ok nbt_ok (LoginKickPacket_reflect p)"
| "packet_ok nbt_ok (P_EncryptionRequestPacket p) = fields_ok nbt_ok (EncryptionRequestPacket_reflect p)"
| "packet_ok nbt_ok (P_EncryptionResponsePacket p) = fields_ok nbt_ok (EncryptionResponsePacket_reflect p)"
| "packet_ok nbt_ok (P_LoginCompressionPacket p) = fields_ok nbt_ok (LoginCompressionPacket_reflect p)"
| "packet_ok nbt_ok (P_ClientSettingsPacketSB p) = fields_ok nbt_ok (ClientSettingsPacketSB_reflect p)"
| "packet_ok nbt_ok (P_ClientStatusPacketSB p) = fields_ok nbt_ok (ClientStatusPacketSB_reflect p)"
| "packet_ok nbt_ok (P_PluginMessagePacketSB p) = fields_ok nbt_ok (PluginMessagePacketSB_reflect p)"
| "packet_ok nbt_ok (P_ChatMessagePacketSB p) = fields_ok nbt_ok (ChatMessagePacketSB_reflect p)"
| "packet_ok nbt_ok (P_TabCompletePacketSB p) = fields_ok nbt_ok (TabCompletePacketSB_reflect p)"
| "packet_ok nbt_ok (P_RespawnPacketCB p) = fields_ok nbt_ok (RespawnPacketCB_reflect p)"
| "packet_ok nbt_ok (P_KickPacketCB p) = fields_ok nbt_ok (KickPacketCB_reflect p)"
| "packet_ok nbt_ok (P_JoinGamePacketCB p) = fields_ok nbt_ok (JoinGamePacketCB_reflect p)"
| "packet_ok nbt_ok (P_PluginMessagePacketCB p) = (length (pmc_Channel p) \<le> 128)"
| "packet_ok nbt_ok (P_GameStateChangePacketCB p) = fields_ok nbt_ok (GameStateChangePacketCB_reflect p)"
| "packet_ok nbt_ok (P_ChatMessagePacketCB p) = fields_ok nbt_ok (ChatMessagePacketCB_reflect p)"
| "packet_ok nbt_ok (P_TabCompletePacketCB p) = 
     (list_all TabCompleteMatch_ok (tcc_Matches p) \<and> length (tcc_Matches p) \<le> 32767 \<and>
      tcc_Count p = word_of_nat (length (tcc_Matches p)))"
| "packet_ok nbt_ok (P_PlayerListItemPacketCB p) = 
     (list_all (PlayerListItem_ok (pli_Action p)) (pli_Items p) \<and> length (pli_Items p) \<le> 16384)"
| "packet_ok nbt_ok (P_PlayerListTitlePacketCB p) = fields_ok nbt_ok (PlayerListTitlePacketCB_reflect p)"
| "packet_ok nbt_ok (P_ScoreboardObjectivePacketCB p) = fields_ok nbt_ok (ScoreboardObjectivePacketCB_reflect p)"
| "packet_ok nbt_ok (P_TeamsPacketCB p) = TeamsPacketCB_ok p"
| "packet_ok nbt_ok (P_SpawnPlayer p) = False"
| "packet_ok nbt_ok (P_PlayerPositionAndLookPacketCB p) = fields_ok nbt_ok (PlayerPositionAndLookPacketCB_reflect p)"
| "packet_ok nbt_ok (P_SpawnPositionPacketCB p) = False"
| "packet_ok nbt_ok (P_CameraPacketCB p) = fields_ok nbt_ok (CameraPacketCB_reflect p)"
| "packet_ok nbt_ok (P_ResourcePackSendCB p) = False"

text \<open>
  The packet a reader ends with when it starts from \<open>q\<close> and reads what \<open>p\<close> wrote: \<open>p\<close>, except that a
  TeamsPacketCB keeps the fields of \<open>q\<close> that the mode of \<open>p\<close> does not transmit.
\<close>

definition read_back :: "'n packet \<Rightarrow> 'n packet \<Rightarrow> 'n packet" where
  "read_back q p =
     (case (q, p) of
        (P_TeamsPacketCB a, P_TeamsPacketCB b) \<Rightarrow> P_TeamsPacketCB (teams_update a b)
      | _ \<Rightarrow> p)"

text \<open>A receiving packet: of the same type, and with no matches left from an earlier use.\<close>

definition receives :: "'n packet \<Rightarrow> 'n packet \<Rightarrow> bool" where
  "receives q p \<longleftrightarrow> packet_type q = packet_type p \<and>
     (case q of P_TabCompletePacketCB a \<Rightarrow> tcc_Matches a = [] | _ \<Rightarrow> True)"

end
