(* ===== verification/PacketLaws.thy ===== *)
theory PacketLaws
  imports Packets
begin

text \<open>
  What holds of every packet type: the registry creates packets of the id and the direction asked
  for, a packet that respects its limits is read back from what it wrote, and malformed input never
  makes a reader panic (with the exceptions the theorems name).
\<close>

section \<open>Collections\<close>

lemmas methods_defs =
  HandshakePacket_methods_def StatusRequestPacketSB_methods_def
  StatusResponsePacketCB_methods_def StatusPingPacketCB_methods_def
  StatusPingPacketSB_methods_def LoginStartPacket_methods_def LoginSuccessPacket_methods_def
  LoginKickPacket_methods_def EncryptionRequestPacket_methods_def
  EncryptionResponsePacket_methods_def LoginCompressionPacket_methods_def
  ClientSettingsPacketSB_methods_def ClientStatusPacketSB_methods_def
  PluginMessagePacketSB_methods_def ChatMessagePacketSB_methods_def
  TabCompletePacketSB_methods_def RespawnPacketCB_methods_def KickPacketCB_methods_def
  JoinGamePacketCB_methods_def PluginMessagePacketCB_methods_def
  GameStateChangePacketCB_methods_def ChatMessagePacketCB_methods_def
  TabCompletePacketCB_methods_def PlayerListItemPacketCB_methods_def
  PlayerListTitlePacketCB_methods_def ScoreboardObjectivePacketCB_methods_def
  TeamsPacketCB_methods_def SpawnPlayer_methods_def PlayerPositionAndLookPacketCB_methods_def
  SpawnPositionPacketCB_methods_def CameraPacketCB_methods_def ResourcePackSendCB_methods_def

lemmas struct_contracts =
  HandshakePacket_struct.packet_struct_axioms StatusResponsePacketCB_struct.packet_struct_axioms
  StatusPingPacketCB_struct.packet_struct_axioms StatusPingPacketSB_struct.packet_struct_axioms
  LoginStartPacket_struct.packet_struct_axioms LoginSuccessPacket_struct.packet_struct_axioms
  LoginKickPacket_struct.packet_struct_axioms
  EncryptionRequestPacket_struct.packet_struct_axioms
  EncryptionResponsePacket_struct.packet_struct_axioms
  LoginCompressionPacket_struct.packet_struct_axioms
  ClientSettingsPacketSB_struct.packet_struct_axioms
  ClientStatusPacketSB_struct.packet_struct_axioms
  PluginMessagePacketSB_struct.packet_struct_axioms
  ChatMessagePacketSB_struct.packet_struct_axioms
  TabCompletePacketSB_struct.packet_struct_axioms RespawnPacketCB_struct.packet_struct_axioms
  KickPacketCB_struct.packet_struct_axioms JoinGamePacketCB_struct.packet_struct_axioms
  GameStateChangePacketCB_struct.packet_struct_axioms
  ChatMessagePacketCB_struct.packet_struct_axioms
  PlayerListTitlePacketCB_struct.packet_struct_axioms
  ScoreboardObjectivePacketCB_struct.packet_struct_axioms
  PlayerPositionAndLookPacketCB_struct.packet_struct_axioms
  CameraPacketCB_struct.packet_struct_axioms ResourcePackSendCB_struct.packet_struct_axioms

lemmas reflects =
  HandshakePacket_reflect_def StatusResponsePacketCB_reflect_def StatusPingPacketCB_reflect_def
  StatusPingPacketSB_reflect_def LoginStartPacket_reflect_def LoginSuccessPacket_reflect_def
  LoginKickPacket_reflect_def EncryptionRequestPacket_reflect_def
  EncryptionResponsePacket_reflect_def LoginCompressionPacket_reflect_def
  ClientSettingsPacketSB_reflect_def ClientStatusPacketSB_reflect_def
  PluginMessagePacketSB_reflect_def ChatMessagePacketSB_reflect_def
  TabCompletePacketSB_reflect_def RespawnPacketCB_reflect_def KickPacketCB_reflect_def
  JoinGamePacketCB_reflect_def GameStateChangePacketCB_reflect_def
  ChatMessagePacketCB_reflect_def PlayerListTitlePacketCB_reflect_def
  ScoreboardObjectivePacketCB_reflect_def PlayerPositionAndLookPacketCB_reflect_def
  CameraPacketCB_reflect_def ResourcePackSendCB_reflect_def SpawnPositionPacketCB_reflect_def

lemma packet_type_inversion:
  "packet_type q = Suc 0 \<longleftrightarrow> (\<exists>r. q = P_HandshakePacket r)"
  "packet_type q = 2 \<longleftrightarrow> (\<exists>r. q = P_StatusRequestPacketSB r)"
  "packet_type q = 3 \<longleftrightarrow> (\<exists>r. q = P_StatusResponsePacketCB r)"
  "packet_type q = 4 \<longleftrightarrow> (\<exists>r. q = P_StatusPingPacketCB r)"
  "packet_type q = 5 \<longleftrightarrow> (\<exists>r. q = P_StatusPingPacketSB r)"
  "packet_type q = 6 \<longleftrightarrow> (\<exists>r. q = P_LoginStartPacket r)"
  "packet_type q = 7 \<longleftrightarrow> (\<exists>r. q = P_LoginSuccessPacket r)"
  "packet_type q = 8 \<longleftrightarrow> (\<exists>r. q = P_LoginKickPacket r)"
  "packet_type q = 9 \<longleftrightarrow> (\<exists>r. q = P_EncryptionRequestPacket r)"
  "packet_type q = 10 \<longleftrightarrow> (\<exists>r. q = P_EncryptionResponsePacket r)"
  "packet_type q = 11 \<longleftrightarrow> (\<exists>r. q = P_LoginCompressionPacket r)"
  "packet_type q = 12 \<longleftrightarrow> (\<exists>r. q = P_ClientSettingsPacketSB r)"
  "packet_type q = 13 \<longleftrightarrow> (\<exists>r. q = P_ClientStatusPacketSB r)"
  "packet_type q = 14 \<longleftrightarrow> (\<exists>r. q = P_PluginMessagePacketSB r)"
  "packet_type q = 15 \<longleftrightarrow> (\<exists>r. q = P_ChatMessagePacketSB r)"
  "packet_type q = 16 \<longleftrightarrow> (\<exists>r. q = P_TabCompletePacketSB r)"
  "packet_type q = 17 \<longleftrightarrow> (\<exists>r. q = P_RespawnPacketCB r)"
  "packet_type q = 18 \<longleftrightarrow> (\<exists>r. q = P_KickPacketCB r)"
  "packet_type q = 19 \<longleftrightarrow> (\<exists>r. q = P_JoinGamePacketCB r)"
  "packet_type q = 20 \<longleftrightarrow> (\<exists>r. q = P_PluginMessagePacketCB r)"
  "packet_type q = 21 \<longleftrightarrow> (\<exists>r. q = P_GameStateChangePacketCB r)"
  "packet_type q = 22 \<longleftrightarrow> (\<exists>r. q = P_ChatMessagePacketCB r)"
  "packet_type q = 23 \<longleftrightarrow> (\<exists>r. q = P_TabCompletePacketCB r)"
  "packet_type q = 24 \<longleftrightarrow> (\<exists>r. q = P_PlayerListItemPacketCB r)"
  "packet_type q = 25 \<longleftrightarrow> (\<exists>r. q = P_PlayerListTitlePacketCB r)"
  "packet_type q = 26 \<longleftrightarrow> (\<exists>r. q = P_ScoreboardObjectivePacketCB r)"
  "packet_type q = 27 \<longleftrightarrow> (\<exists>r. q = P_TeamsPacketCB r)"
  "packet_type q = 28 \<longleftrightarrow> (\<exists>r. q = P_SpawnPlayer r)"
  "packet_type q = 29 \<longleftrightarrow> (\<exists>r. q = P_PlayerPositionAndLookPacketCB r)"
  "packet_type q = 30 \<longleftrightarrow> (\<exists>r. q = P_SpawnPositionPacketCB r)"
  "packet_type q = 31 \<longleftrightarrow> (\<exists>r. q = P_CameraPacketCB r)"
  "packet_type q = 32 \<longleftrightarrow> (\<exists>r. q = P_ResourcePackSendCB r)"
  "packet_type q = 0 \<longleftrightarrow> (\<exists>r. q = P_RawPacket r)"
  by (cases q; simp)+

lemma packet_type_less: "packet_type q < 33"
  by (cases q; simp)

lemmas zero_packets =
  new_HandshakePacket_def new_StatusRequestPacketSB_def new_StatusPingPacketSB_def
  new_StatusResponsePacketCB_def new_StatusPingPacketCB_def new_LoginStartPacket_def
  new_EncryptionResponsePacket_def new_LoginKickPacket_def new_EncryptionRequestPacket_def
  new_LoginSuccessPacket_def new_LoginCompressionPacket_def new_ChatMessagePacketSB_def
  new_ClientStatusPacketSB_def new_ClientSettingsPacketSB_def new_TabCompletePacketSB_def
  new_PluginMessagePacketSB_def new_RespawnPacketCB_def new_KickPacketCB_def
  new_JoinGamePacketCB_def new_PluginMessagePacketCB_def new_GameStateChangePacketCB_def
  new_ChatMessagePacketCB_def new_TabCompletePacketCB_def new_PlayerListItemPacketCB_def
  new_ScoreboardObjectivePacketCB_def new_TeamsPacketCB_def

section \<open>The registry\<close>

lemma choose_packet_id:
  "choose_packet z packetId state direction = Some p \<Longrightarrow> PacketID lib p = packetId"
  unfolding choose_packet_def newPlayPacket_def
  by (simp split: if_splits; auto simp: methods_defs)

lemma choose_packet_direction:
  assumes "choose_packet z packetId state direction = Some p"
    and "direction = ServerBound \<or> direction = ClientBound" "\<not> (state = STATUS \<and> packetId = 1)"
  shows "Direction lib p = Ret direction"
  using assms unfolding choose_packet_def newPlayPacket_def
  by (simp split: if_splits; auto simp: methods_defs ServerBound_def ClientBound_def)

lemma choose_packet_ping:
  "choose_packet z 1 STATUS ServerBound = Some (P_StatusPingPacketSB new_StatusPingPacketSB)"
  "choose_packet z 1 STATUS ClientBound = Some (P_StatusPingPacketCB new_StatusPingPacketCB)"
  by (simp_all add: choose_packet_def STATUS_def HANDSHAKING_def ServerBound_def ClientBound_def)

lemma NewPacket_ping:
  "direction = ServerBound \<or> direction = ClientBound \<Longrightarrow>
   NewPacket lib z 1 STATUS direction = Panic ''Packet direction mismatch''"
  by (elim disjE; simp add: NewPacket_def choose_packet_ping methods_defs)
     (simp_all add: ServerBound_def ClientBound_def)

lemma NewPacket_choose:
  assumes "direction = ServerBound \<or> direction = ClientBound" "\<not> (state = STATUS \<and> packetId = 1)"
  shows "NewPacket lib z packetId state direction = Ret (choose_packet z packetId state direction)"
  using choose_packet_id [of z packetId state direction _ lib]
    choose_packet_direction [OF _ assms, of z _ lib]
  by (simp add: NewPacket_def split: option.split)

section \<open>Reading back\<close>

lemma struct_reads_back:
  assumes "packet_struct reflect set_fields"
    and "nbt_roundtrips lib nbt_ok" "fields_ok nbt_ok (reflect p)"
  shows "\<exists>b. struct_Serialize lib reflect p = Ret (b, None)
    \<and> struct_Parse lib reflect set_fields q b = Ret (p, None, [])"
proof -
  from packet_struct.roundtrip [OF assms(1,3,2), of "[]"]
  obtain b where "struct_Serialize lib reflect p = Ret (b, None)"
    "\<And>q. struct_Parse lib reflect set_fields q (b @ []) = Ret (p, None, [])" by auto
  then show ?thesis by simp
qed

lemmas reads_back_rules = struct_contracts [THEN struct_reads_back]

lemma custom_reads_back:
  assumes "\<exists>b. ser = Ret (b, None) \<and> f (b @ []) = Ret (p, None, [])"
  shows "\<exists>b. ser = Ret (b, None) \<and> parse_as C f b = Ret (C p, None, [])"
  using assms by (auto simp: parse_as_def)

lemma packet_reads_back:
  assumes "packet_ok nbt_ok p" "nbt_roundtrips lib nbt_ok" "receives q p"
  shows "\<exists>b. Serialize lib p = Ret (b, None) \<and> Parse lib q b = Ret (read_back q p, None, [])"
proof -
  from assms(3) have "packet_type q = packet_type p" by (simp add: receives_def)
  then show ?thesis
  proof (cases p)
    case (P_TabCompletePacketCB t)
    with assms obtain r where q: "q = P_TabCompletePacketCB r" "tcc_Matches r = []"
      by (auto simp: receives_def packet_type_inversion)
    from P_TabCompletePacketCB assms(1)
    have t: "list_all TabCompleteMatch_ok (tcc_Matches t)" "length (tcc_Matches t) \<le> 32767"
      "t\<lparr>tcc_Count := word_of_nat (length (tcc_Matches t))\<rparr> = t" by auto
    from TabCompletePacketCB_roundtrip [OF t(1,2) q(2), of lib "[]"] t(3) P_TabCompletePacketCB q
    show ?thesis
      by (auto simp: methods_defs read_back_def intro!: custom_reads_back)
  next
    case (P_TeamsPacketCB t)
    with assms(1,3) TeamsPacketCB_roundtrip [of t _ "[]"] show ?thesis
      by (auto simp: receives_def packet_type_inversion methods_defs read_back_def
          intro!: custom_reads_back)
  next
    case (P_PlayerListItemPacketCB t)
    with assms(1,3) PlayerListItemPacketCB_roundtrip [of t _ "[]"] show ?thesis
      by (auto simp: receives_def packet_type_inversion methods_defs read_back_def
          intro!: custom_reads_back)
  next
    case (P_PluginMessagePacketCB t)
    with assms(1,3) PluginMessagePacketCB_roundtrip [of t] show ?thesis
      by (auto simp: receives_def packet_type_inversion methods_defs read_back_def
          intro!: custom_reads_back)
  qed (use assms(1,2) in \<open>auto simp: packet_type_inversion methods_defs read_back_def parse_as_def
         intro!: reads_back_rules\<close>)
qed

section \<open>Malformed input\<close>

lemma panics_parse_as [simp]: "panics (parse_as C f s) = panics (f s)"
  by (simp add: parse_as_def)

lemma struct_no_panic:
  "schema_ok (reflect q) \<Longrightarrow> \<not> panics (struct_Parse lib reflect set_fields q s)"
  by (simp add: struct_Parse_def ReadMinecraftStruct_no_panic)

definition parser_may_panic :: "'n packet \<Rightarrow> bool" where
  "parser_may_panic q =
     (case q of P_RawPacket p \<Rightarrow> True | P_JoinGamePacketCB p \<Rightarrow> True
      | P_SpawnPositionPacketCB p \<Rightarrow> True | P_ResourcePackSendCB p \<Rightarrow> True | _ \<Rightarrow> False)"

lemmas safe_reflects =
  HandshakePacket_reflect_def StatusResponsePacketCB_reflect_def StatusPingPacketCB_reflect_def
  StatusPingPacketSB_reflect_def LoginStartPacket_reflect_def LoginSuccessPacket_reflect_def
  LoginKickPacket_reflect_def EncryptionRequestPacket_reflect_def
  EncryptionResponsePacket_reflect_def LoginCompressionPacket_reflect_def
  ClientSettingsPacketSB_reflect_def ClientStatusPacketSB_reflect_def
  PluginMessagePacketSB_reflect_def ChatMessagePacketSB_reflect_def
  TabCompletePacketSB_reflect_def RespawnPacketCB_reflect_def KickPacketCB_reflect_def
  GameStateChangePacketCB_reflect_def ChatMessagePacketCB_reflect_def
  PlayerListTitlePacketCB_reflect_def ScoreboardObjectivePacketCB_reflect_def
  PlayerPositionAndLookPacketCB_reflect_def CameraPacketCB_reflect_def

lemma custom_no_panic:
  "\<not> panics (PluginMessagePacketCB_Parse p1 s)" "\<not> panics (TabCompletePacketCB_Parse lib p2 s)"
  "\<not> panics (PlayerListItemPacketCB_Parse p3 s)" "\<not> panics (TeamsPacketCB_Parse p4 s)"
  "\<not> panics (SpawnPlayer_Parse p5 s)"
proof -
  show "\<not> panics (PluginMessagePacketCB_Parse p1 s)"
    by (simp add: PluginMessagePacketCB_Parse_def split: prod.split option.split)
  have "\<not> panics (struct_Parse lib TabCompletePacketCB_reflect TabCompletePacketCB_set p2 s)"
    by (rule struct_no_panic) (simp add: TabCompletePacketCB_reflect_def)
  then show "\<not> panics (TabCompletePacketCB_Parse lib p2 s)"
    by (auto simp: TabCompletePacketCB_Parse_def split: go.split prod.split option.split)
  show "\<not> panics (PlayerListItemPacketCB_Parse p3 s)"
    by (auto simp: PlayerListItemPacketCB_Parse_def Let_def split: prod.split option.split)
  show "\<not> panics (TeamsPacketCB_Parse p4 s)"
    by (simp add: TeamsPacketCB_Parse_def Let_def split: prod.split option.split)
  show "\<not> panics (SpawnPlayer_Parse p5 s)"
    by (simp add: SpawnPlayer_Parse_def Let_def split: prod.split option.split)
qed

lemma Parse_no_panic: "\<not> parser_may_panic q \<Longrightarrow> \<not> panics (Parse lib q s)"
  by (cases q)
     (simp_all add: parser_may_panic_def methods_defs custom_no_panic struct_no_panic safe_reflects)

text \<open>
  Of the packets that the registry creates only JoinGamePacketCB has a reader that can panic: its
  list of world names is allocated from an unchecked count.
\<close>

lemma choose_packet_safe:
  assumes "choose_packet z packetId state direction = Some q" "packetId \<noteq> 0x24"
  shows "\<not> parser_may_panic q"
  using assms unfolding choose_packet_def newPlayPacket_def
  by (simp split: if_splits; auto simp: parser_may_panic_def)

lemma JoinGame_panics:
  assumes "sint c < 0"
  shows "panics (Parse lib (P_JoinGamePacketCB q)
    (WriteInt e @ WriteBool h @ WriteUnsignedByte g @ WriteUnsignedByte pg @ WriteVarInt c @ s))"
  using assms
  by (simp add: methods_defs struct_Parse_def JoinGamePacketCB_reflect_def WriteInt_def
      WriteBool_def WriteUnsignedByte_def ReadIdentifierArray_def ReadVarInt_WriteVarInt)

lemma SpawnPosition_ResourcePack_panic:
  "panics (Parse lib (P_SpawnPositionPacketCB p) s)" "panics (Serialize lib (P_SpawnPositionPacketCB p))"
  "panics (Parse lib (P_ResourcePackSendCB r) s)"
  by (simp_all add: methods_defs struct_Parse_def struct_Serialize_def
      SpawnPositionPacketCB_reflect_def ResourcePackSendCB_reflect_def)

lemma NewPacket_kick:
  "NewPacket lib z 0x19 PLAY ClientBound = Ret (Some (P_KickPacketCB new_KickPacketCB))"
  by (simp add: NewPacket_choose choose_packet_def newPlayPacket_def PLAY_def STATUS_def
      HANDSHAKING_def LOGIN_def ServerBound_def ClientBound_def)

section \<open>Properties\<close>



text \<open>C29: the registry.  For either direction \<^verbatim>\<open>NewPacket\<close> never hits its consistency panics except
  for id 1 of the status state, where it always does (the two ping packets declare each other's
  direction); a packet it returns has the id and the direction that were asked for.\<close>

theorem registry_correct:
  assumes "direction = ServerBound \<or> direction = ClientBound"
  shows "(panics (NewPacket lib z packetId state direction) \<longleftrightarrow> state = STATUS \<and> packetId = 1)
    \<and> (\<forall>p. NewPacket lib z packetId state direction = Ret (Some p) \<longrightarrow>
          PacketID lib p = packetId \<and> Direction lib p = Ret direction)"
  using assms NewPacket_ping [of direction lib z]
  by (cases "state = STATUS \<and> packetId = 1")
     (auto simp: NewPacket_choose choose_packet_id choose_packet_direction)

theorem registry_correct_witness:
  "\<forall>lib z. PacketID lib (P_KickPacketCB new_KickPacketCB) = 0x19
    \<and> Direction lib (P_KickPacketCB new_KickPacketCB) = Ret ClientBound
    \<and> panics (NewPacket lib z 1 STATUS ClientBound)"
proof (intro allI)
  fix lib z
  have "NewPacket lib z 0x19 PLAY ClientBound = Ret (Some (P_KickPacketCB new_KickPacketCB))"
    by (rule NewPacket_kick)
  then show "PacketID lib (P_KickPacketCB new_KickPacketCB) = 0x19
    \<and> Direction lib (P_KickPacketCB new_KickPacketCB) = Ret ClientBound
    \<and> panics (NewPacket lib z 1 STATUS ClientBound)"
    using registry_correct [of ClientBound lib z "0x19" PLAY]
      registry_correct [of ClientBound lib z 1 STATUS] by simp
qed



end
