(* ===== verification/Framing.thy ===== *)
theory Framing
  imports PacketLaws
begin

text \<open>
  src/packets/reader.go and writer.go: how packets are cut out of a byte stream and put into it.
  A frame is its length, with compression the length of the data before compression (0: sent as it
  is), and the packet: its id and its fields.  The zlib package is the record \<open>zlib_lib\<close> of what the
  code uses of it; the buffer pool of a third-party package is the function \<open>get\<close>.
\<close>

section \<open>Libraries\<close>

text \<open>
  \<open>zl_open\<close>: the error of \<^verbatim>\<open>zlib.NewReader\<close> and of \<^verbatim>\<open>Reset\<close>; \<open>zl_data\<close> and \<open>zl_end\<close>: the decompressed bytes
  and what ends them (\<open>None\<close>: \<^verbatim>\<open>io.EOF\<close>); \<open>zl_deflate\<close>: what a writer has written after \<^verbatim>\<open>Close\<close>.
\<close>

record zlib_lib =
  zl_open :: "bytes \<Rightarrow> gerr option"
  zl_data :: "bytes \<Rightarrow> bytes"
  zl_end :: "bytes \<Rightarrow> gerr option"
  zl_deflate :: "bytes \<Rightarrow> bytes"

definition zlib_roundtrips :: "zlib_lib \<Rightarrow> bool" where
  "zlib_roundtrips zl \<longleftrightarrow>
     (\<forall>b. zl_open zl (zl_deflate zl b) = None \<and> zl_data zl (zl_deflate zl b) = b
        \<and> zl_end zl (zl_deflate zl b) = None)"

type_synonym buffer_pool = "int \<Rightarrow> bytes go"

text \<open>
  The pool's contract: a buffer of the length asked for, with any contents; like \<^verbatim>\<open>make\<close> it panics on a
  negative length.
\<close>

definition pool_gives :: "buffer_pool \<Rightarrow> bool" where
  "pool_gives get \<longleftrightarrow>
     (\<forall>n. if n < 0 then panics (get n) else \<exists>b. get n = Ret b \<and> length b = nat n)"

lemma pool_Ret: "pool_gives get \<Longrightarrow> get n = Ret b \<Longrightarrow> 0 \<le> n \<and> length b = nat n"
  unfolding pool_gives_def by (cases "n < 0") (metis panics.simps(1), metis go.inject(1) not_less)

lemma pool_panics: "pool_gives get \<Longrightarrow> get n = Panic m \<Longrightarrow> n < 0"
  unfolding pool_gives_def by (metis go.distinct(1))

section \<open>The reader\<close>

text \<open>
  \<open>pr_input\<close> are the bytes that the connection still delivers, \<open>pr_end\<close> is the error it returns after
  them (\<^verbatim>\<open>io.EOF\<close> when it is closed).  The payload is a view of the last packet: the unread part of the
  slice reader, of the decompressor (with the error that will end it), or of a buffer.
\<close>

datatype payload_src = NoPayload | Slicer bytes | Zliber bytes "gerr option" | Buffer bytes

record packetReader =
  pr_compthres :: VarInt
  pr_input :: bytes
  pr_end :: gerr
  pr_payload :: payload_src
  pr_err :: "gerr option"

definition NewPacketReader :: "bytes \<Rightarrow> gerr \<Rightarrow> int \<Rightarrow> packetReader" where
  "NewPacketReader input en compressThreshold =
     \<lparr>pr_compthres = word_of_int compressThreshold, pr_input = input, pr_end = en,
      pr_payload = NoPayload, pr_err = None\<rparr>"

text \<open>The error of a read from the connection: it is not \<^verbatim>\<open>io.EOF\<close> when the connection failed.\<close>

fun input_error :: "gerr \<Rightarrow> gerr option \<Rightarrow> gerr option" where
  "input_error en (Some EOF) = Some en"
| "input_error en (Some ErrUnexpectedEOF) = (if en = EOF then Some ErrUnexpectedEOF else Some en)"
| "input_error en err = err"

definition reset_slicer :: "bytes \<Rightarrow> payload_src \<Rightarrow> payload_src" where
  "reset_slicer b src = (case src of Slicer _ \<Rightarrow> Slicer b | _ \<Rightarrow> src)"

definition zero_RawPacket :: RawPacket where
  "zero_RawPacket = \<lparr>raw_ID = 0, raw_DataLength = 0, raw_Payload = []\<rparr>"

definition fail_read :: "gerr \<Rightarrow> packetReader \<Rightarrow> ((RawPacket \<times> gerr option) \<times> packetReader) go" where
  "fail_read e r = Ret ((zero_RawPacket, Some e), r\<lparr>pr_err := Some e\<rparr>)"

text \<open>The packet id, from the start of the payload.\<close>

definition read_id :: "payload_src \<Rightarrow> VarInt \<times> gerr option \<times> payload_src" where
  "read_id src =
     (case src of
        Zliber d en \<Rightarrow>
          (case ReadVarInt d of (i, err, rest) \<Rightarrow>
             (i, (case en of None \<Rightarrow> err | Some e \<Rightarrow> if err = Some EOF then Some e else err),
              Zliber rest en))
      | Slicer s \<Rightarrow> (case ReadVarInt s of (i, err, rest) \<Rightarrow> (i, err, Slicer rest))
      | _ \<Rightarrow> (0, None, src))"

text \<open>The second half of \<^verbatim>\<open>ReadPacket\<close>: from the frame that was read to the packet.\<close>

definition open_frame ::
    "zlib_lib \<Rightarrow> bytes \<Rightarrow> packetReader \<Rightarrow> ((RawPacket \<times> gerr option) \<times> packetReader) go" where
  "open_frame zl payload r =
     (case (if 0 < sint (pr_compthres r) then ReadVarInt payload else (0, None, payload)) of
        (dl, err, s) \<Rightarrow>
        let r1 = r\<lparr>pr_payload := reset_slicer s (pr_payload r)\<rparr> in
        case err of Some e \<Rightarrow> fail_read e r1
      | None \<Rightarrow>
          if 0 < sint dl \<and> sint dl < sint (pr_compthres r) then
            fail_read (Errorf ''Compressed data below threshold! %d < %d''
              [GInt (sint dl), GInt (sint (pr_compthres r))]) r1
          else
            (case (if 0 < sint dl then
                     (case zl_open zl s of
                        Some e \<Rightarrow> Inl e
                      | None \<Rightarrow> Inr (Zliber (zl_data zl s) (zl_end zl s)))
                   else Inr (Slicer s)) of
               Inl e \<Rightarrow> fail_read e r1
             | Inr src \<Rightarrow>
                 (case read_id src of (i, err, src') \<Rightarrow>
                  let r2 = r1\<lparr>pr_payload := src'\<rparr> in
                  case err of Some e \<Rightarrow> fail_read e r2
                | None \<Rightarrow>
                    if MaxPacketID < sint i \<or> sint i < 0 then
                      fail_read (Errorf ''Invalid packet_id %d'' [GInt (sint i)]) r2
                    else Ret ((\<lparr>raw_ID = i, raw_DataLength = dl, raw_Payload = payload\<rparr>, None), r2))))"

definition ReadPacket ::
    "zlib_lib \<Rightarrow> buffer_pool \<Rightarrow> packetReader \<Rightarrow> ((RawPacket \<times> gerr option) \<times> packetReader) go" where
  "ReadPacket zl get r =
     (case pr_err r of
        Some e \<Rightarrow> Ret ((zero_RawPacket, Some e), r)
      | None \<Rightarrow>
          (case ReadVarInt (pr_input r) of (packet_length, err, s) \<Rightarrow>
           let r1 = r\<lparr>pr_input := s, pr_payload := reset_slicer [] (pr_payload r)\<rparr> in
           case input_error (pr_end r) err of
             Some e \<Rightarrow> fail_read e r1
           | None \<Rightarrow>
               if MaxPacketSize < sint packet_length then
                 fail_read (Errorf ''Packet is too big! %d > %d''
                   [GInt (sint packet_length), GInt MaxPacketSize]) r1
               else
                 (case get (sint packet_length) of
                    Panic m \<Rightarrow> Panic m
                  | Ret buf \<Rightarrow>
                      (case ReadFull (length buf) s of (payload, err, s') \<Rightarrow>
                       let r2 = r1\<lparr>pr_input := s'\<rparr> in
                       case input_error (pr_end r) err of
                         Some e \<Rightarrow> fail_read e r2
                       | None \<Rightarrow> open_frame zl payload r2))))"

text \<open>
  \<^verbatim>\<open>Payload\<close> decompresses the rest of the packet into a buffer.  Before the first packet both
  \<^verbatim>\<open>payload\<close> and \<^verbatim>\<open>zliber\<close> are nil, hence equal, and the copy panics.
\<close>

definition Payload :: "packetReader \<Rightarrow> ((bytes option \<times> gerr option) \<times> packetReader) go" where
  "Payload r =
     (case pr_payload r of
        NoPayload \<Rightarrow> Panic ''nil pointer dereference''
      | Slicer s \<Rightarrow> Ret ((Some s, None), r)
      | Buffer b \<Rightarrow> Ret ((Some b, None), r)
      | Zliber d None \<Rightarrow> Ret ((Some d, None), r\<lparr>pr_payload := Buffer d, pr_err := None\<rparr>)
      | Zliber d (Some e) \<Rightarrow>
          Ret ((None, Some e), r\<lparr>pr_payload := Zliber [] (Some e), pr_err := Some e\<rparr>))"

definition advance_payload :: "bytes \<Rightarrow> packetReader \<Rightarrow> packetReader" where
  "advance_payload rest r =
     r\<lparr>pr_payload := (case pr_payload r of Slicer _ \<Rightarrow> Slicer rest | Buffer _ \<Rightarrow> Buffer rest | x \<Rightarrow> x)\<rparr>"

definition ParsePackets ::
    "'n nbt_lib \<Rightarrow> zlib_lib \<Rightarrow> buffer_pool \<Rightarrow> 'n packet list \<Rightarrow> packetReader \<Rightarrow>
     (('n packet option \<times> gerr option) \<times> packetReader) go" where
  "ParsePackets lib zl get packets r =
     (case ReadPacket zl get r of
        Panic m \<Rightarrow> Panic m
      | Ret ((raw, Some e), r1) \<Rightarrow> Ret ((None, Some e), r1)
      | Ret ((raw, None), r1) \<Rightarrow>
          (case find (\<lambda>packet. raw_ID raw = PacketID lib packet) packets of
             None \<Rightarrow> Ret ((Some (P_RawPacket raw), Some (ErrUnexpectedPacket (raw_ID raw))), r1)
           | Some packet \<Rightarrow>
               (case Payload r1 of
                  Panic m \<Rightarrow> Panic m
                | Ret ((payload, Some e), r2) \<Rightarrow> Ret ((None, Some e), r2)
                | Ret ((payload, None), r2) \<Rightarrow>
                    (case Parse lib packet (the payload) of
                       Panic m \<Rightarrow> Panic m
                     | Ret (packet', err, rest) \<Rightarrow>
                         Ret ((Some packet', err), advance_payload rest r2)))))"

section \<open>The writer\<close>

text \<open>
  An output device: what was written and flushed, and for the coming calls of \<^verbatim>\<open>Write\<close> (and of \<^verbatim>\<open>Flush\<close>)
  whether they fail, and after how many bytes; beyond the end of a plan nothing fails.
\<close>

record out_dev =
  od_written :: bytes
  od_plan :: "(nat \<times> gerr) option list"
  od_flushed :: nat
  od_flush_plan :: "gerr option list"

definition dev_Write :: "bytes \<Rightarrow> out_dev \<Rightarrow> gerr option \<times> out_dev" where
  "dev_Write b d =
     (case od_plan d of
        [] \<Rightarrow> (None, d\<lparr>od_written := od_written d @ b\<rparr>)
      | None # plan \<Rightarrow> (None, d\<lparr>od_written := od_written d @ b, od_plan := plan\<rparr>)
      | Some (k, e) # plan \<Rightarrow> (Some e, d\<lparr>od_written := od_written d @ take k b, od_plan := plan\<rparr>))"

definition dev_Flush :: "out_dev \<Rightarrow> gerr option \<times> out_dev" where
  "dev_Flush d =
     (case od_flush_plan d of
        [] \<Rightarrow> (None, d\<lparr>od_flushed := length (od_written d)\<rparr>)
      | None # plan \<Rightarrow> (None, d\<lparr>od_flushed := length (od_written d), od_flush_plan := plan\<rparr>)
      | Some e # plan \<Rightarrow> (Some e, d\<lparr>od_flush_plan := plan\<rparr>))"

record packetWriter =
  pw_err :: "gerr option"
  pw_out :: out_dev
  pw_flusher :: bool
  pw_compthres :: int

definition NewPacketWriter :: "out_dev \<Rightarrow> bool \<Rightarrow> int \<Rightarrow> packetWriter" where
  "NewPacketWriter out is_flusher compress_threshold =
     \<lparr>pw_err = None, pw_out = out, pw_flusher = is_flusher, pw_compthres = compress_threshold\<rparr>"

text \<open>\<^verbatim>\<open>_, w.err = w.out.Write(b)\<close>, and \<^verbatim>\<open>io.Copy\<close> from a buffer (no call when the buffer is empty).\<close>

definition write_out :: "bytes \<Rightarrow> packetWriter \<Rightarrow> packetWriter" where
  "write_out b w = (case dev_Write b (pw_out w) of (err, d) \<Rightarrow> w\<lparr>pw_err := err, pw_out := d\<rparr>)"

definition copy_out :: "bytes \<Rightarrow> packetWriter \<Rightarrow> packetWriter" where
  "copy_out b w = (if b = [] then w\<lparr>pw_err := None\<rparr> else write_out b w)"

definition Flush :: "packetWriter \<Rightarrow> gerr option \<times> packetWriter" where
  "Flush w =
     (case pw_err w of
        Some e \<Rightarrow> (Some e, w)
      | None \<Rightarrow>
          if pw_flusher w then
            (case dev_Flush (pw_out w) of (err, d) \<Rightarrow> (err, w\<lparr>pw_err := err, pw_out := d\<rparr>))
          else (None, w))"

definition finish_write :: "bool \<Rightarrow> packetWriter \<Rightarrow> gerr option \<times> packetWriter" where
  "finish_write flush w = (if flush then Flush w else (pw_err w, w))"

text \<open>Continue unless the last write failed.\<close>

definition unless_err ::
    "packetWriter \<Rightarrow> (packetWriter \<Rightarrow> gerr option \<times> packetWriter) \<Rightarrow> gerr option \<times> packetWriter" where
  "unless_err w k = (case pw_err w of Some e \<Rightarrow> (Some e, w) | None \<Rightarrow> k w)"

text \<open>
  \<open>buf\<close> is the buffer with the id and the fields of the packet; the compressor reads the data from
  the front of the same buffer to which it appends its output.
\<close>

definition write_frame :: "zlib_lib \<Rightarrow> bytes \<Rightarrow> bool \<Rightarrow> packetWriter \<Rightarrow> gerr option \<times> packetWriter" where
  "write_frame zl buf flush w =
     (if pw_compthres w < 1 then
        unless_err (write_out (WriteVarInt (word_of_nat (length buf))) w)
          (\<lambda>w1. finish_write flush (copy_out buf w1))
      else
        (let compressed = pw_compthres w \<le> int (length buf);
             datalen = (if compressed then length buf else 0);
             body = (if compressed then zl_deflate zl buf else buf);
             datalen_buf = PutUvarint (ucast (word_of_nat datalen :: 32 word))
         in unless_err (write_out (WriteVarInt (word_of_nat (length datalen_buf + length body))) w)
              (\<lambda>w1. unless_err (write_out datalen_buf w1)
                 (\<lambda>w2. finish_write flush (copy_out body w2)))))"

definition WritePacket ::
    "'n nbt_lib \<Rightarrow> zlib_lib \<Rightarrow> 'n packet \<Rightarrow> bool \<Rightarrow> packetWriter \<Rightarrow> (gerr option \<times> packetWriter) go" where
  "WritePacket lib zl packet flush w =
     (case pw_err w of
        Some e \<Rightarrow> Ret (Some e, w)
      | None \<Rightarrow>
          (case packet of
             P_RawPacket raw \<Rightarrow>
               Ret (unless_err (write_out (WriteVarInt (word_of_nat (length (raw_Payload raw)))) w)
                      (\<lambda>w1. finish_write flush (write_out (raw_Payload raw) w1)))
           | _ \<Rightarrow>
               (case Serialize lib packet of
                  Panic m \<Rightarrow> Panic m
                | Ret (b, Some e) \<Rightarrow> Ret (Some e, w\<lparr>pw_err := Some e\<rparr>)
                | Ret (b, None) \<Rightarrow>
                    Ret (write_frame zl (WriteVarInt (PacketID lib packet) @ b) flush w))))"

end
