(* ===== verification/FramingLaws.thy ===== *)
theory FramingLaws
  imports Framing
begin

text \<open>
  What the packet reader and the packet writer guarantee together: a frame that is written is read
  back, alone and in sequences; a frame that is read can be forwarded; the sizes a reader accepts are
  bounded; an error ends a reader and a writer for good.
\<close>

section \<open>The frame of a packet\<close>

definition frame_body :: "zlib_lib \<Rightarrow> int \<Rightarrow> bytes \<Rightarrow> bytes" where
  "frame_body zl t buf =
     (if t < 1 then buf
      else if t \<le> int (length buf) then WriteVarInt (word_of_nat (length buf)) @ zl_deflate zl buf
      else WriteVarInt 0 @ buf)"

definition frame :: "zlib_lib \<Rightarrow> int \<Rightarrow> bytes \<Rightarrow> bytes" where
  "frame zl t buf = WriteVarInt (word_of_nat (length (frame_body zl t buf))) @ frame_body zl t buf"

text \<open>A device on which no coming call fails, and what it holds after a write.\<close>

definition reliable :: "packetWriter \<Rightarrow> bool" where
  "reliable w \<longleftrightarrow> pw_err w = None \<and> od_plan (pw_out w) = [] \<and> od_flush_plan (pw_out w) = []"

definition wrote :: "bytes \<Rightarrow> packetWriter \<Rightarrow> packetWriter \<Rightarrow> bool" where
  "wrote b w w' \<longleftrightarrow> reliable w' \<and> od_written (pw_out w') = od_written (pw_out w) @ b
     \<and> pw_compthres w' = pw_compthres w"

lemma wrote_trans: "wrote a w w1 \<Longrightarrow> wrote b w1 w2 \<Longrightarrow> wrote (a @ b) w w2"
  by (auto simp: wrote_def)

lemma write_out_wrote: "reliable w \<Longrightarrow> wrote b w (write_out b w)"
  by (simp add: reliable_def wrote_def write_out_def dev_Write_def)

lemma copy_out_wrote: "reliable w \<Longrightarrow> wrote b w (copy_out b w)"
  by (simp add: copy_out_def write_out_wrote) (simp add: wrote_def reliable_def)

lemma finish_write_wrote: "wrote b w w1 \<Longrightarrow> \<exists>w'. finish_write flush w1 = (None, w') \<and> wrote b w w'"
  by (auto simp: wrote_def reliable_def finish_write_def Flush_def dev_Flush_def)

lemma unless_err_wrote:
  assumes "wrote b w w1" "\<exists>w'. k w1 = (None, w') \<and> wrote c w w'"
  shows "\<exists>w'. unless_err w1 k = (None, w') \<and> wrote c w w'"
  using assms by (simp add: unless_err_def wrote_def reliable_def)

lemma wrote_then:
  assumes "wrote b w w1" "\<exists>w'. f w1 = (None, w') \<and> wrote c w1 w'"
  shows "\<exists>w'. f w1 = (None, w') \<and> wrote (b @ c) w w'"
  using assms wrote_trans by blast

lemma wrote_reliable: "wrote b w w1 \<Longrightarrow> reliable w1"
  by (simp add: wrote_def)

lemma write_frame_frame:
  assumes "reliable w"
  shows "\<exists>w'. write_frame zl buf flush w = (None, w') \<and> wrote (frame zl (pw_compthres w) buf) w w'"
proof -
  have two: "\<exists>w'. unless_err (write_out a w) (\<lambda>w1. finish_write flush (copy_out b w1)) = (None, w')
      \<and> wrote (a @ b) w w'" for a b
    using write_out_wrote [OF assms, of a]
    by (blast intro: unless_err_wrote finish_write_wrote wrote_trans copy_out_wrote wrote_reliable)
  have three: "\<exists>w'. unless_err (write_out a w) (\<lambda>w1. unless_err (write_out b w1)
        (\<lambda>w2. finish_write flush (copy_out c w2))) = (None, w') \<and> wrote (a @ b @ c) w w'" for a b c
  proof -
    define w1 where "w1 = write_out a w"
    define w2 where "w2 = write_out b w1"
    have w1: "wrote a w w1" using assms by (simp add: w1_def write_out_wrote)
    then have w2: "wrote (a @ b) w w2"
      by (auto simp: w2_def intro: wrote_trans write_out_wrote wrote_reliable)
    then have "wrote (a @ b @ c) w (copy_out c w2)"
      using wrote_trans [OF w2 copy_out_wrote [OF wrote_reliable [OF w2]]] by simp
    from finish_write_wrote [OF this] show ?thesis
      using w1 w2
      by (simp add: unless_err_def wrote_def reliable_def w1_def [symmetric] w2_def [symmetric])
  qed
  show ?thesis
    using two three by (simp add: write_frame_def frame_def frame_body_def Let_def WriteVarInt_def)
qed

section \<open>Reading a frame\<close>

lemma sint_word_of_int_32:
  "- 2147483648 \<le> t \<Longrightarrow> t < 2147483648 \<Longrightarrow> sint (word_of_int t :: 32 word) = t"
  by (simp add: signed_of_int signed_take_bit_int_eq_self)

lemma ReadPacket_frame:
  assumes "pr_err r = None" "pr_input r = WriteVarInt (word_of_nat (length b)) @ b @ s"
    and "length b \<le> 131072" "pool_gives get"
  shows "ReadPacket zl get r
    = open_frame zl b (r\<lparr>pr_payload := reset_slicer [] (pr_payload r), pr_input := s\<rparr>)"
proof -
  from assms(4) obtain buf where "get (int (length b)) = Ret buf" "length buf = length b"
    unfolding pool_gives_def by (metis nat_int of_nat_0_le_iff not_less)
  with assms(1-3) show ?thesis
    by (simp add: ReadPacket_def ReadVarInt_WriteVarInt MaxPacketSize_def)
qed

definition id_ok :: "VarInt \<Rightarrow> bool" where
  "id_ok i \<longleftrightarrow> 0 \<le> sint i \<and> sint i \<le> MaxPacketID"

definition threshold_ok :: "int \<Rightarrow> bool" where
  "threshold_ok t \<longleftrightarrow> - 2147483648 \<le> t \<and> t < 2147483648"

lemma open_frame_body:
  fixes i :: VarInt and b :: bytes and t :: int
  defines "buf \<equiv> WriteVarInt i @ b"
  assumes "zlib_roundtrips zl" "id_ok i" "pr_err r = None"
    and "pr_compthres r = word_of_int t" "threshold_ok t" "length buf < 2147483648"
  shows "\<exists>dl src. open_frame zl (frame_body zl t buf) r
      = Ret ((\<lparr>raw_ID = i, raw_DataLength = dl, raw_Payload = frame_body zl t buf\<rparr>, None),
             r\<lparr>pr_payload := src\<rparr>)
    \<and> (src = Slicer b \<or> src = Zliber b None)"
proof -
  have t: "sint (pr_compthres r) = t"
    using assms(5,6) by (simp add: threshold_ok_def sint_word_of_int_32)
  have i: "\<not> (MaxPacketID < sint i \<or> sint i < 0)" using assms(3) by (simp add: id_ok_def)
  consider "t < 1" | "1 \<le> t" "int (length buf) < t" | "1 \<le> t" "t \<le> int (length buf)" by linarith
  then show ?thesis
  proof cases
    case 1
    with t i show ?thesis
      by (simp add: open_frame_def frame_body_def buf_def read_id_def ReadVarInt_WriteVarInt Let_def)
         blast
  next
    case 2
    with t i show ?thesis
      by (simp add: open_frame_def frame_body_def read_id_def ReadVarInt_WriteVarInt Let_def)
         (simp add: buf_def ReadVarInt_WriteVarInt, blast)
  next
    case 3
    have zl: "zl_open zl (zl_deflate zl buf) = None" "zl_data zl (zl_deflate zl buf) = buf"
      "zl_end zl (zl_deflate zl buf) = None"
      using assms(2) by (simp_all add: zlib_roundtrips_def)
    have id: "read_id (Zliber buf None) = (i, None, Zliber b None)"
      by (simp add: read_id_def buf_def ReadVarInt_WriteVarInt)
    have "buf \<noteq> []" by (simp add: buf_def)
    with 3 t i zl id assms(7) show ?thesis
      by (simp add: open_frame_def frame_body_def ReadVarInt_WriteVarInt Let_def) blast
  qed
qed

lemma read_frame:
  assumes "zlib_roundtrips zl" "pool_gives get" "id_ok i" "threshold_ok t" "pr_err r = None"
    and "pr_compthres r = word_of_int t" "length (WriteVarInt i @ b) < 2147483648"
    and "length (frame_body zl t (WriteVarInt i @ b)) \<le> 131072"
    and "pr_input r = frame zl t (WriteVarInt i @ b) @ s"
  shows "\<exists>raw r1 r2. ReadPacket zl get r = Ret ((raw, None), r1) \<and> raw_ID raw = i
    \<and> raw_Payload raw = frame_body zl t (WriteVarInt i @ b)
    \<and> Payload r1 = Ret ((Some b, None), r2) \<and> pr_input r2 = s \<and> pr_err r2 = None
    \<and> pr_compthres r2 = pr_compthres r \<and> pr_end r2 = pr_end r
    \<and> pr_input r1 = s \<and> pr_err r1 = None \<and> pr_compthres r1 = pr_compthres r"
proof -
  let ?r = "r\<lparr>pr_payload := reset_slicer [] (pr_payload r), pr_input := s\<rparr>"
  from open_frame_body [OF assms(1,3), of ?r t b] assms(4-7) obtain dl src where
    o: "open_frame zl (frame_body zl t (WriteVarInt i @ b)) ?r
      = Ret ((\<lparr>raw_ID = i, raw_DataLength = dl,
               raw_Payload = frame_body zl t (WriteVarInt i @ b)\<rparr>, None), ?r\<lparr>pr_payload := src\<rparr>)"
    and src: "src = Slicer b \<or> src = Zliber b None" by auto
  have "ReadPacket zl get r = open_frame zl (frame_body zl t (WriteVarInt i @ b)) ?r"
    using assms(2,5,8,9) by (intro ReadPacket_frame) (simp_all add: frame_def)
  with o src assms(5) show ?thesis by (auto simp: Payload_def)
qed

section \<open>Writing and reading packets\<close>

text \<open>
  \<open>sends lib zl t p b\<close>: \<open>p\<close> can be sent with the threshold \<open>t\<close>, and its fields are the bytes \<open>b\<close>.
\<close>

definition sends :: "'n nbt_lib \<Rightarrow> zlib_lib \<Rightarrow> int \<Rightarrow> 'n packet \<Rightarrow> bytes \<Rightarrow> bool" where
  "sends lib zl t p b \<longleftrightarrow> Serialize lib p = Ret (b, None) \<and> id_ok (PacketID lib p)
     \<and> length (WriteVarInt (PacketID lib p) @ b) < 2147483648
     \<and> int (length (frame_body zl t (WriteVarInt (PacketID lib p) @ b))) \<le> MaxPacketSize"

lemma WritePacket_wrote:
  assumes "sends lib zl (pw_compthres w) p b" "reliable w"
  shows "\<exists>w'. WritePacket lib zl p flush w = Ret (None, w')
    \<and> wrote (frame zl (pw_compthres w) (WriteVarInt (PacketID lib p) @ b)) w w'"
proof -
  have "\<And>raw. p \<noteq> P_RawPacket raw" using assms(1) by (auto simp: sends_def)
  then have "WritePacket lib zl p flush w
      = Ret (write_frame zl (WriteVarInt (PacketID lib p) @ b) flush w)"
    using assms by (cases p) (simp_all add: WritePacket_def sends_def reliable_def)
  with write_frame_frame [OF assms(2)] show ?thesis by simp
qed

lemma sends_read:
  assumes "sends lib zl t p b" "zlib_roundtrips zl" "pool_gives get" "threshold_ok t"
    and "pr_err r = None" "pr_compthres r = word_of_int t"
    and "pr_input r = frame zl t (WriteVarInt (PacketID lib p) @ b) @ s"
  shows "\<exists>raw r1 r2. ReadPacket zl get r = Ret ((raw, None), r1) \<and> raw_ID raw = PacketID lib p
    \<and> raw_Payload raw = frame_body zl t (WriteVarInt (PacketID lib p) @ b)
    \<and> Payload r1 = Ret ((Some b, None), r2) \<and> pr_input r2 = s \<and> pr_err r2 = None
    \<and> pr_compthres r2 = pr_compthres r \<and> pr_end r2 = pr_end r
    \<and> pr_input r1 = s \<and> pr_err r1 = None \<and> pr_compthres r1 = pr_compthres r"
  using assms by (intro read_frame) (simp_all add: sends_def MaxPacketSize_def)

text \<open>A sequence of packets, each flushed or not, and the ids and payloads a reader gets.\<close>

fun write_packets ::
    "'n nbt_lib \<Rightarrow> zlib_lib \<Rightarrow> ('n packet \<times> bool) list \<Rightarrow> packetWriter \<Rightarrow> (gerr option \<times> packetWriter) go" where
  "write_packets lib zl [] w = Ret (None, w)"
| "write_packets lib zl ((p, flush) # ps) w =
     (case WritePacket lib zl p flush w of
        Panic m \<Rightarrow> Panic m
      | Ret (Some e, w') \<Rightarrow> Ret (Some e, w')
      | Ret (None, w') \<Rightarrow> write_packets lib zl ps w')"

fun read_payloads ::
    "zlib_lib \<Rightarrow> buffer_pool \<Rightarrow> nat \<Rightarrow> packetReader \<Rightarrow> ((VarInt \<times> bytes) list \<times> packetReader) option" where
  "read_payloads zl get 0 r = Some ([], r)"
| "read_payloads zl get (Suc n) r =
     (case ReadPacket zl get r of
        Ret ((raw, None), r1) \<Rightarrow>
          (case Payload r1 of
             Ret ((Some b, None), r2) \<Rightarrow>
               map_option (map_prod ((#) (raw_ID raw, b)) id) (read_payloads zl get n r2)
           | _ \<Rightarrow> None)
      | _ \<Rightarrow> None)"

definition wire :: "'n nbt_lib \<Rightarrow> zlib_lib \<Rightarrow> int \<Rightarrow> ('n packet \<times> bytes) list \<Rightarrow> bytes" where
  "wire lib zl t ps = concat (map (\<lambda>(p, b). frame zl t (WriteVarInt (PacketID lib p) @ b)) ps)"

lemma write_packets_wire:
  assumes "\<forall>(p, b)\<in>set ps. sends lib zl (pw_compthres w) p b" "reliable w" "length fl = length ps"
  shows "\<exists>w'. write_packets lib zl (zip (map fst ps) fl) w = Ret (None, w')
    \<and> wrote (wire lib zl (pw_compthres w) ps) w w'"
  using assms
proof (induction ps arbitrary: w fl)
  case Nil
  then show ?case by (simp add: wire_def wrote_def)
next
  case (Cons a ps)
  obtain p b where a: "a = (p, b)" by force
  from Cons.prems(3) obtain f fs where fl: "fl = f # fs" "length fs = length ps"
    by (cases fl) auto
  from Cons.prems(1) a have send: "sends lib zl (pw_compthres w) p b" by simp
  from WritePacket_wrote [OF send Cons.prems(2), of f] obtain w1 where
    w1: "WritePacket lib zl p f w = Ret (None, w1)"
      "wrote (frame zl (pw_compthres w) (WriteVarInt (PacketID lib p) @ b)) w w1" by blast
  then have "reliable w1" "pw_compthres w1 = pw_compthres w" by (simp_all add: wrote_def)
  with Cons.IH [of w1 fs] Cons.prems(1) fl a obtain w2 where
    w2: "write_packets lib zl (zip (map fst ps) fs) w1 = Ret (None, w2)"
      "wrote (wire lib zl (pw_compthres w) ps) w1 w2" by auto
  from wrote_trans [OF w1(2) w2(2)] w1(1) w2(1) a fl show ?case
    by (simp add: wire_def)
qed

lemma read_payloads_wire:
  assumes "\<forall>(p, b)\<in>set ps. sends lib zl t p b" "zlib_roundtrips zl" "pool_gives get" "threshold_ok t"
    and "pr_err r = None" "pr_compthres r = word_of_int t" "pr_input r = wire lib zl t ps @ s"
  shows "\<exists>r'. read_payloads zl get (length ps) r
      = Some (map (\<lambda>(p, b). (PacketID lib p, b)) ps, r') \<and> pr_input r' = s"
  using assms
proof (induction ps arbitrary: r)
  case Nil
  then show ?case by (simp add: wire_def)
next
  case (Cons a ps)
  obtain p b where a: "a = (p, b)" by force
  from Cons.prems(1) a have send: "sends lib zl t p b" by simp
  from Cons.prems(7) a have
    "pr_input r = frame zl t (WriteVarInt (PacketID lib p) @ b) @ wire lib zl t ps @ s"
    by (simp add: wire_def)
  from sends_read [OF send Cons.prems(2-6) this] obtain raw r1 r2 where
    step: "ReadPacket zl get r = Ret ((raw, None), r1)" "raw_ID raw = PacketID lib p"
      "Payload r1 = Ret ((Some b, None), r2)"
    and r2: "pr_input r2 = wire lib zl t ps @ s" "pr_err r2 = None" "pr_compthres r2 = pr_compthres r"
    by blast
  from Cons.IH [of r2] Cons.prems(1-6) r2 obtain r' where
    "read_payloads zl get (length ps) r2 = Some (map (\<lambda>(p, b). (PacketID lib p, b)) ps, r')"
    "pr_input r' = s" by auto
  with step a show ?case by simp
qed

section \<open>What a reader accepts\<close>

lemma open_frame_shape:
  "(\<exists>e r'. open_frame zl payload r = fail_read e r') \<or>
   (\<exists>dl i src. id_ok i \<and> src \<noteq> NoPayload \<and> (\<forall>r'. pr_compthres r' = pr_compthres r \<longrightarrow> open_frame zl payload r'
      = Ret ((\<lparr>raw_ID = i, raw_DataLength = dl, raw_Payload = payload\<rparr>, None),
             r'\<lparr>pr_payload := src\<rparr>)))"
proof -
  obtain dl err s where
    head: "(if 0 < sint (pr_compthres r) then ReadVarInt payload else (0, None, payload)) = (dl, err, s)"
    by (metis prod_cases3)
  obtain src where
    body: "(if 0 < sint dl then (case zl_open zl s of Some e \<Rightarrow> Inl e
        | None \<Rightarrow> Inr (Zliber (zl_data zl s) (zl_end zl s))) else Inr (Slicer s)) = src"
    by blast
  show ?thesis
  proof (cases "err = None \<and> \<not> (0 < sint dl \<and> sint dl < sint (pr_compthres r)) \<and> \<not> isl src")
    case False
    then have "\<exists>e r'. open_frame zl payload r = fail_read e r'"
      unfolding open_frame_def head Let_def prod.case body by (cases err; cases src) auto
    then show ?thesis ..
  next
    case True
    then obtain sr where sr: "src = Inr sr" by (cases src) auto
    with body have sr_cases: "(\<exists>b. sr = Slicer b) \<or> (\<exists>b en. sr = Zliber b en)"
      by (auto split: if_splits option.splits)
    obtain i err' src' where i: "read_id sr = (i, err', src')" by (metis prod_cases3)
    show ?thesis
    proof (cases "err' = None \<and> id_ok i")
      case False
      with True have "\<exists>e r'. open_frame zl payload r = fail_read e r'"
        unfolding open_frame_def head Let_def prod.case body
        by (cases err') (auto simp: sr i id_ok_def)
      then show ?thesis ..
    next
      case ok: True
      have "open_frame zl payload r' = Ret ((\<lparr>raw_ID = i, raw_DataLength = dl, raw_Payload = payload\<rparr>,
          None), r'\<lparr>pr_payload := src'\<rparr>)" if "pr_compthres r' = pr_compthres r" for r'
        using True ok unfolding open_frame_def that head Let_def prod.case body
        by (auto simp: sr i id_ok_def)
      moreover have "src' \<noteq> NoPayload"
        using i sr_cases by (auto simp: read_id_def split: prod.splits)
      ultimately show ?thesis using ok by blast
    qed
  qed
qed

lemma open_frame_total: "\<not> panics (open_frame zl payload r)"
  using open_frame_shape [of zl payload r] by (auto simp: fail_read_def)

lemma open_frame_ok:
  assumes "open_frame zl payload r = Ret ((raw, None), r1)"
  shows "raw_Payload raw = payload \<and> id_ok (raw_ID raw) \<and> r1 = r\<lparr>pr_payload := pr_payload r1\<rparr>
    \<and> pr_payload r1 \<noteq> NoPayload
    \<and> (\<forall>r'. pr_compthres r' = pr_compthres r \<longrightarrow>
          open_frame zl payload r' = Ret ((raw, None), r'\<lparr>pr_payload := pr_payload r1\<rparr>))"
proof -
  from open_frame_shape [of zl payload r] assms obtain dl i src where
    "id_ok i" "src \<noteq> NoPayload" and all: "\<forall>r'. pr_compthres r' = pr_compthres r \<longrightarrow> open_frame zl payload r'
      = Ret ((\<lparr>raw_ID = i, raw_DataLength = dl, raw_Payload = payload\<rparr>, None), r'\<lparr>pr_payload := src\<rparr>)"
    by (auto simp: fail_read_def)
  moreover from all assms have "raw = \<lparr>raw_ID = i, raw_DataLength = dl, raw_Payload = payload\<rparr>"
    "r1 = r\<lparr>pr_payload := src\<rparr>" by auto
  ultimately show ?thesis by simp
qed

lemma ReadPacket_ok:
  assumes "ReadPacket zl get r = Ret ((raw, None), r1)" "pool_gives get"
  shows "\<exists>len s. ReadVarInt (pr_input r) = (len, None, raw_Payload raw @ s)
    \<and> int (length (raw_Payload raw)) = sint len \<and> sint len \<le> MaxPacketSize \<and> pr_err r = None
    \<and> pr_input r1 = s \<and> pr_compthres r1 = pr_compthres r \<and> id_ok (raw_ID raw)
    \<and> pr_payload r1 \<noteq> NoPayload
    \<and> (\<forall>r'. pr_compthres r' = pr_compthres r \<longrightarrow>
          open_frame zl (raw_Payload raw) r' = Ret ((raw, None), r'\<lparr>pr_payload := pr_payload r1\<rparr>))"
proof -
  obtain len err s where len: "ReadVarInt (pr_input r) = (len, err, s)" by (metis prod_cases3)
  have no: "pr_err r = None" "input_error (pr_end r) err = None" "sint len \<le> MaxPacketSize"
    using assms(1) len
    by (auto simp: ReadPacket_def fail_read_def Let_def split: option.splits if_splits)
  then have err: "err = None" by (cases "(pr_end r, err)" rule: input_error.cases) (auto split: if_splits)
  obtain buf where buf: "get (sint len) = Ret buf"
    using assms(1) len no by (cases "get (sint len)") (auto simp: ReadPacket_def Let_def)
  from pool_Ret [OF assms(2) buf] have buflen: "0 \<le> sint len" "length buf = nat (sint len)" by auto
  obtain payload err' s' where full: "ReadFull (length buf) s = (payload, err', s')"
    by (metis prod_cases3)
  define r2 where "r2 = r\<lparr>pr_input := s, pr_payload := reset_slicer [] (pr_payload r)\<rparr>\<lparr>pr_input := s'\<rparr>"
  have no': "input_error (pr_end r) err' = None" "open_frame zl payload r2 = Ret ((raw, None), r1)"
    using assms(1) len no buf full
    by (auto simp: ReadPacket_def fail_read_def Let_def r2_def split: option.splits)
  then have "err' = None" by (cases "(pr_end r, err')" rule: input_error.cases) (auto split: if_splits)
  with full have s: "s = payload @ s'" "length payload = length buf" by (simp_all add: ReadFull_ok)
  from open_frame_ok [OF no'(2)] have
    "raw_Payload raw = payload" "id_ok (raw_ID raw)" "pr_payload r1 \<noteq> NoPayload" "pr_input r1 = s'" "pr_compthres r1 = pr_compthres r"
    "\<forall>r'. pr_compthres r' = pr_compthres r \<longrightarrow>
          open_frame zl payload r' = Ret ((raw, None), r'\<lparr>pr_payload := pr_payload r1\<rparr>)"
    by (auto simp: r2_def dest: arg_cong [where f = pr_input] arg_cong [where f = pr_compthres])
  with no s len err buflen show ?thesis by auto
qed

lemma ReadPacket_panics:
  assumes "pool_gives get"
  shows "panics (ReadPacket zl get r) \<longleftrightarrow>
    pr_err r = None \<and> (\<exists>len s. ReadVarInt (pr_input r) = (len, None, s) \<and> sint len < 0)"
proof -
  obtain len err s where len: "ReadVarInt (pr_input r) = (len, err, s)" by (metis prod_cases3)
  have no: "input_error (pr_end r) err = None \<longleftrightarrow> err = None"
    by (cases "(pr_end r, err)" rule: input_error.cases) auto
  have f: "\<not> panics (fail_read e r')" for e r' by (simp add: fail_read_def)
  show ?thesis
  proof (cases "pr_err r = None \<and> err = None \<and> sint len \<le> MaxPacketSize")
    case False
    then show ?thesis
      using len no f by (cases "pr_err r")
        (auto simp: ReadPacket_def Let_def MaxPacketSize_def split: option.split)
  next
    case True
    show ?thesis
    proof (cases "get (sint len)")
      case (Panic m)
      with True len pool_panics [OF assms Panic] show ?thesis by (simp add: ReadPacket_def Let_def)
    next
      case (Ret buf)
      with pool_Ret [OF assms Ret] True len show ?thesis
        by (auto simp: ReadPacket_def Let_def open_frame_total f split: prod.split option.split)
    qed
  qed
qed

section \<open>Errors are final\<close>

lemma WritePacket_sticky: "pw_err w = Some e \<Longrightarrow> WritePacket lib zl p flush w = Ret (Some e, w)"
  by (simp add: WritePacket_def)

lemma unless_err_result:
  "unless_err w k = (e, w') \<Longrightarrow> (\<And>w1 e w'. k w1 = (e, w') \<Longrightarrow> pw_err w' = e) \<Longrightarrow> pw_err w' = e"
  by (cases "pw_err w") (auto simp: unless_err_def)

lemma finish_write_result: "finish_write flush w = (e, w') \<Longrightarrow> pw_err w' = e"
  by (auto simp: finish_write_def Flush_def split: if_splits option.splits prod.splits)

lemma write_frame_result: "write_frame zl buf flush w = (e, w') \<Longrightarrow> pw_err w' = e"
  unfolding write_frame_def Let_def
  by (split if_splits) (auto elim!: unless_err_result finish_write_result)

lemma WritePacket_result: "WritePacket lib zl p flush w = Ret (e, w') \<Longrightarrow> pw_err w' = e"
  by (cases "pw_err w"; cases p)
     (auto simp: WritePacket_def dest!: write_frame_result
        elim!: unless_err_result finish_write_result split: go.splits prod.splits option.splits)

section \<open>Concrete libraries for the witnesses\<close>

definition stored_zlib :: zlib_lib where
  "stored_zlib = \<lparr>zl_open = \<lambda>_. None, zl_data = \<lambda>b. b, zl_end = \<lambda>_. None, zl_deflate = \<lambda>b. b\<rparr>"

definition fresh_pool :: buffer_pool where
  "fresh_pool n = (if n < 0 then Panic ''makeslice'' else Ret (replicate (nat n) 0))"

definition unit_nbt :: "unit nbt_lib" where
  "unit_nbt = \<lparr>nbt_read = \<lambda>s. ((), None, s), nbt_write = \<lambda>n. ([], None)\<rparr>"

definition open_dev :: out_dev where
  "open_dev = \<lparr>od_written = [], od_plan = [], od_flushed = 0, od_flush_plan = []\<rparr>"

lemma concrete_ok:
  "zlib_roundtrips stored_zlib" "pool_gives fresh_pool" "nbt_roundtrips unit_nbt (\<lambda>_. True)"
  "reliable (NewPacketWriter open_dev True t)"
  by (simp_all add: zlib_roundtrips_def stored_zlib_def pool_gives_def fresh_pool_def
      nbt_roundtrips_def unit_nbt_def reliable_def NewPacketWriter_def open_dev_def)

definition hello :: "unit packet" where
  "hello = P_PluginMessagePacketCB \<lparr>pmc_Channel = ''c'', pmc_Payload = [1, 2]\<rparr>"

lemma hello_sends:
  "sends unit_nbt stored_zlib 512 hello (WriteMinecraftString ''c'' @ [1, 2])"
proof -
  have "length (WriteVarInt i) \<le> 5" for i by (rule length_WriteVarInt)
  from this [of 23] this [of 1] this [of 0] show ?thesis
    by (simp add: sends_def hello_def methods_defs PluginMessagePacketCB_Serialize_def id_ok_def
        MaxPacketID_def frame_body_def MaxPacketSize_def WriteMinecraftString_def)
qed

section \<open>Properties\<close>

text \<open>C6: packets cross the connection in order and unchanged.  A sequence of packets written to a
  device that does not fail (each with or without a flush), with any compression threshold, is read
  back by a reader with the same threshold: same ids, same fields, in the same order, and the reader
  stops right behind the last frame.\<close>

theorem stream_roundtrip:
  assumes "\<forall>(p, b)\<in>set ps. sends lib zl t p b" "zlib_roundtrips zl" "pool_gives get" "threshold_ok t"
    and "reliable w" "pw_compthres w = t" "length flushes = length ps"
    and "pr_err r = None" "pr_compthres r = word_of_int t"
    and "pr_input r = drop (length (od_written (pw_out w))) (od_written (pw_out w')) @ s"
    and "write_packets lib zl (zip (map fst ps) flushes) w = Ret (err, w')"
  shows "err = None \<and> (\<exists>r'. read_payloads zl get (length ps) r
      = Some (map (\<lambda>(p, b). (PacketID lib p, b)) ps, r') \<and> pr_input r' = s)"
proof -
  from write_packets_wire [of ps lib zl w flushes] assms(1,5,6,7,11)
  have "err = None" "od_written (pw_out w') = od_written (pw_out w) @ wire lib zl t ps"
    by (auto simp: wrote_def)
  with read_payloads_wire [OF assms(1-4,8,9)] assms(10) show ?thesis by simp
qed

theorem stream_roundtrip_witness:
  "\<exists>w' r'. write_packets unit_nbt stored_zlib [(hello, False), (hello, True)] (NewPacketWriter open_dev True 512)
      = Ret (None, w')
    \<and> read_payloads stored_zlib fresh_pool 2 (NewPacketReader (od_written (pw_out w')) EOF 512)
      = Some ([(0x17, WriteMinecraftString ''c'' @ [1, 2]), (0x17, WriteMinecraftString ''c'' @ [1, 2])], r')"
proof -
  let ?ps = "[(hello, WriteMinecraftString ''c'' @ [1, 2]), (hello, WriteMinecraftString ''c'' @ [1, 2])]"
  let ?w = "NewPacketWriter open_dev True 512"
  have c: "pw_compthres ?w = 512" by (simp add: NewPacketWriter_def)
  have send: "\<forall>(p, b)\<in>set ?ps. sends unit_nbt stored_zlib 512 p b" using hello_sends by simp
  from write_packets_wire [of ?ps unit_nbt stored_zlib ?w "[False, True]"] send c concrete_ok(4)
  obtain w' where w': "write_packets unit_nbt stored_zlib (zip (map fst ?ps) [False, True]) ?w = Ret (None, w')"
    by auto
  let ?r = "NewPacketReader (od_written (pw_out w')) EOF 512"
  have r: "pr_err ?r = None" "pr_compthres ?r = word_of_int 512"
    "pr_input ?r = drop (length (od_written (pw_out ?w))) (od_written (pw_out w')) @ []"
    by (simp_all add: NewPacketReader_def NewPacketWriter_def open_dev_def)
  have "PacketID unit_nbt hello = 0x17" by (simp add: hello_def methods_defs)
  with stream_roundtrip [OF send concrete_ok(1,2) _ concrete_ok(4) c _ r w'] w' show ?thesis
    by (simp add: threshold_ok_def numeral_2_eq_2) blast
qed

text \<open>One packet, end to end.  A packet within its limits that \<^verbatim>\<open>WritePacket\<close> has written is what
  \<^verbatim>\<open>ParsePackets\<close> returns on the other side, without an error, when it is asked for packets of which
  the first with this id is of the same type; the next packet starts right behind.\<close>

theorem parse_written:
  assumes "packet_ok nbt_ok p" "nbt_roundtrips lib nbt_ok" "sends lib zl t p b"
    and "zlib_roundtrips zl" "pool_gives get" "threshold_ok t" "reliable w" "pw_compthres w = t"
    and "WritePacket lib zl p flush w = Ret (err, w')"
    and "pr_err r = None" "pr_compthres r = word_of_int t"
    and "od_written (pw_out w') @ s = od_written (pw_out w) @ pr_input r"
    and "find (\<lambda>q. PacketID lib p = PacketID lib q) qs = Some q" "receives q p"
  shows "err = None \<and> (\<exists>r'. ParsePackets lib zl get qs r = Ret ((Some (read_back q p), None), r')
    \<and> pr_input r' = s)"
proof -
  from WritePacket_wrote [of lib zl w p b flush] assms(3,7-9)
  have w': "err = None" "od_written (pw_out w') = od_written (pw_out w) @ frame zl t (WriteVarInt (PacketID lib p) @ b)"
    by (auto simp: wrote_def)
  with assms(12) have "pr_input r = frame zl t (WriteVarInt (PacketID lib p) @ b) @ s" by simp
  from sends_read [OF assms(3-6,10,11) this] obtain raw r1 r2 where
    step: "ReadPacket zl get r = Ret ((raw, None), r1)" "raw_ID raw = PacketID lib p"
      "Payload r1 = Ret ((Some b, None), r2)" "pr_input r2 = s" by blast
  from packet_reads_back [OF assms(1,2,14)] assms(3)
  have "Parse lib q b = Ret (read_back q p, None, [])" by (auto simp: sends_def)
  with step assms(13) w'(1) show ?thesis
    by (simp add: ParsePackets_def advance_payload_def)
qed

theorem parse_written_witness:
  "\<exists>w' r'. WritePacket unit_nbt stored_zlib hello True (NewPacketWriter open_dev True 512) = Ret (None, w')
    \<and> ParsePackets unit_nbt stored_zlib fresh_pool [P_PluginMessagePacketCB new_PluginMessagePacketCB]
        (NewPacketReader (od_written (pw_out w')) EOF 512) = Ret ((Some hello, None), r')"
proof -
  let ?w = "NewPacketWriter open_dev True 512"
  have c: "pw_compthres ?w = 512" by (simp add: NewPacketWriter_def)
  from WritePacket_wrote [of unit_nbt stored_zlib ?w hello _ True] hello_sends c concrete_ok(4)
  obtain w' where w': "WritePacket unit_nbt stored_zlib hello True ?w = Ret (None, w')" by auto
  let ?r = "NewPacketReader (od_written (pw_out w')) EOF 512"
  have r: "pr_err ?r = None" "pr_compthres ?r = word_of_int 512"
    "od_written (pw_out w') @ [] = od_written (pw_out ?w) @ pr_input ?r"
    by (simp_all add: NewPacketReader_def NewPacketWriter_def open_dev_def)
  have q: "find (\<lambda>q. PacketID unit_nbt hello = PacketID unit_nbt q)
      [P_PluginMessagePacketCB new_PluginMessagePacketCB]
      = Some (P_PluginMessagePacketCB new_PluginMessagePacketCB)"
    "receives (P_PluginMessagePacketCB new_PluginMessagePacketCB) hello" "packet_ok (\<lambda>_. True) hello"
    "read_back (P_PluginMessagePacketCB new_PluginMessagePacketCB) hello = hello"
    by (simp_all add: hello_def methods_defs receives_def read_back_def)
  have t: "threshold_ok 512" by (simp add: threshold_ok_def)
  from parse_written [OF q(3) concrete_ok(3) hello_sends concrete_ok(1,2) t concrete_ok(4) c w' r q(1,2)]
    w' q(4) show ?thesis by auto
qed

text \<open>Forwarding is transparent.  A packet the proxy has read on one side and writes raw to the
  other side arrives there as the same packet (id, length fields and payload, compressed or not),
  and its payload is read as on the first side, when both sides use the same threshold.\<close>

theorem forward_transparent:
  assumes "ReadPacket zl get r = Ret ((raw, None), r1)" "pool_gives get" "reliable w"
    and "WritePacket lib zl (P_RawPacket raw) flush w = Ret (err, w')"
    and "pr_err r' = None" "pr_compthres r' = pr_compthres r"
    and "od_written (pw_out w') @ s = od_written (pw_out w) @ pr_input r'"
  shows "err = None \<and> (\<exists>r1'. ReadPacket zl get r' = Ret ((raw, None), r1') \<and> pr_input r1' = s
    \<and> pr_payload r1' = pr_payload r1)"
proof -
  let ?b = "raw_Payload raw"
  let ?r = "r'\<lparr>pr_payload := reset_slicer [] (pr_payload r'), pr_input := s\<rparr>"
  from ReadPacket_ok [OF assms(1,2)] have
    len: "length ?b \<le> 131072" and
    same: "open_frame zl ?b ?r = Ret ((raw, None), ?r\<lparr>pr_payload := pr_payload r1\<rparr>)"
    using assms(6) by (auto simp: MaxPacketSize_def)
  define w1 where "w1 = write_out (WriteVarInt (word_of_nat (length ?b))) w"
  have w1: "wrote (WriteVarInt (word_of_nat (length ?b))) w w1"
    unfolding w1_def by (rule write_out_wrote [OF assms(3)])
  from finish_write_wrote [OF wrote_trans [OF w1 write_out_wrote [OF wrote_reliable [OF w1]]]]
  obtain w2 where "finish_write flush (write_out ?b w1) = (None, w2)"
    "wrote (WriteVarInt (word_of_nat (length ?b)) @ ?b) w w2" by blast
  with assms(3,4) w1 have w': "err = None"
    "od_written (pw_out w') = od_written (pw_out w) @ WriteVarInt (word_of_nat (length ?b)) @ ?b"
    by (simp_all add: WritePacket_def wrote_def reliable_def unless_err_def w1_def [symmetric])
  with assms(7) have "pr_input r' = WriteVarInt (word_of_nat (length ?b)) @ ?b @ s" by simp
  from ReadPacket_frame [OF assms(5) this len assms(2)] same w'(1) show ?thesis by simp
qed

theorem forward_transparent_witness:
  "\<exists>raw w' r1'. WritePacket unit_nbt stored_zlib (P_RawPacket raw) True (NewPacketWriter open_dev True 512)
      = Ret (None, w')
    \<and> ReadPacket stored_zlib fresh_pool (NewPacketReader (od_written (pw_out w')) EOF 512)
      = Ret ((raw, None), r1') \<and> raw_ID raw = 0x17"
proof -
  let ?w = "NewPacketWriter open_dev True 512"
  have c: "pw_compthres ?w = 512" by (simp add: NewPacketWriter_def)
  let ?f = "frame stored_zlib 512 (WriteVarInt (PacketID unit_nbt hello) @ WriteMinecraftString ''c'' @ [1, 2])"
  have "threshold_ok 512" by (simp add: threshold_ok_def)
  from sends_read [OF hello_sends concrete_ok(1,2) this, of "NewPacketReader (?f @ []) EOF 512" "[]"]
  obtain raw r1 where raw:
    "ReadPacket stored_zlib fresh_pool (NewPacketReader (?f @ []) EOF 512) = Ret ((raw, None), r1)"
    "raw_ID raw = PacketID unit_nbt hello"
    by (auto simp: NewPacketReader_def)
  obtain err w' where w': "WritePacket unit_nbt stored_zlib (P_RawPacket raw) True ?w = Ret (err, w')"
    by (auto simp: WritePacket_def NewPacketWriter_def intro: prod.exhaust)
  from forward_transparent [OF raw(1) concrete_ok(2) concrete_ok(4) w',
      of "NewPacketReader (od_written (pw_out w')) EOF 512" "[]"] w' raw(2)
  show ?thesis
    by (auto simp: NewPacketReader_def NewPacketWriter_def open_dev_def hello_def methods_defs)
qed

text \<open>C40: bounds.  The packet reader panics exactly when the connection announces a negative packet
  length (which a client can do); a packet it returns holds at most \<^verbatim>\<open>MaxPacketSize\<close> bytes and has an id
  between 0 and \<^verbatim>\<open>MaxPacketID\<close>, and the frame was consumed exactly.\<close>

theorem reader_bounds:
  assumes "pool_gives get"
  shows "(panics (ReadPacket zl get r) \<longleftrightarrow>
      pr_err r = None \<and> (\<exists>len s. ReadVarInt (pr_input r) = (len, None, s) \<and> sint len < 0))
    \<and> (\<forall>raw r1. ReadPacket zl get r = Ret ((raw, None), r1) \<longrightarrow>
        int (length (raw_Payload raw)) \<le> MaxPacketSize \<and> id_ok (raw_ID raw)
        \<and> (\<exists>len. ReadVarInt (pr_input r) = (len, None, raw_Payload raw @ pr_input r1)))"
proof (intro conjI allI impI)
  show "panics (ReadPacket zl get r) \<longleftrightarrow>
      pr_err r = None \<and> (\<exists>len s. ReadVarInt (pr_input r) = (len, None, s) \<and> sint len < 0)"
    by (rule ReadPacket_panics [OF assms])
  fix raw r1 assume "ReadPacket zl get r = Ret ((raw, None), r1)"
  from ReadPacket_ok [OF this assms]
  show "int (length (raw_Payload raw)) \<le> MaxPacketSize" "id_ok (raw_ID raw)"
    "\<exists>len. ReadVarInt (pr_input r) = (len, None, raw_Payload raw @ pr_input r1)" by auto
qed

text \<open>A writer that failed stays silent.  After an error of the device, or of the
  serialisation of a packet, every later \<^verbatim>\<open>WritePacket\<close> and \<^verbatim>\<open>Flush\<close> returns that error and sends
  nothing, so nothing is ever written behind a torn frame.\<close>

theorem writer_stops:
  assumes "WritePacket lib zl p flush w = Ret (Some e, w')"
  shows "write_packets lib zl ((q, f) # ps) w' = Ret (Some e, w') \<and> Flush w' = (Some e, w')"
  using WritePacket_result [OF assms] by (simp add: WritePacket_sticky Flush_def)


theorem reader_bounds_witness:
  "panics (ReadPacket stored_zlib fresh_pool (NewPacketReader (WriteVarInt (- 1) @ [7]) EOF 512))"
  using reader_bounds [OF concrete_ok(2), of stored_zlib "NewPacketReader (WriteVarInt (- 1) @ [7]) EOF 512"]
  by (simp add: NewPacketReader_def ReadVarInt_WriteVarInt)

theorem writer_stops_witness:
  "\<exists>w'. WritePacket unit_nbt stored_zlib hello False
      (NewPacketWriter (open_dev\<lparr>od_plan := [None, Some (1, ErrIO ''reset'')]\<rparr>) True 512)
      = Ret (Some (ErrIO ''reset''), w') \<and> Flush w' = (Some (ErrIO ''reset''), w')"
proof -
  let ?w = "NewPacketWriter (open_dev\<lparr>od_plan := [None, Some (1, ErrIO ''reset'')]\<rparr>) True 512"
  have "length (WriteVarInt i) \<le> 5" for i by (rule length_WriteVarInt)
  from this [of 23] this [of 1]
  have "\<exists>w'. WritePacket unit_nbt stored_zlib hello False ?w = Ret (Some (ErrIO ''reset''), w')"
    by (simp add: WritePacket_def NewPacketWriter_def open_dev_def hello_def methods_defs
        PluginMessagePacketCB_Serialize_def write_frame_def write_out_def dev_Write_def unless_err_def
        Let_def WriteMinecraftString_def)
  then obtain w' where w': "WritePacket unit_nbt stored_zlib hello False ?w = Ret (Some (ErrIO ''reset''), w')" ..
  from writer_stops [OF this, of hello False "[]"] w' show ?thesis by blast
qed

end
