(* ===== verification/Bitarray.thy ===== *)
theory Bitarray
  imports Prelude
begin

text \<open>
  src/utils/bitarray.go: a set of small integers in 64-bit words, and the contract of such a set
  that the packet filters rely on.
\<close>

unbundle bit_operations_syntax

section \<open>The contract\<close>

locale bit_set =
  fixes get :: "'b \<Rightarrow> int \<Rightarrow> bool go"
    and set_bit_at :: "'b \<Rightarrow> int \<Rightarrow> bool \<Rightarrow> 'b go"
    and bits :: "'b \<Rightarrow> int"
  assumes get_total: "0 \<le> i \<Longrightarrow> i < bits b \<Longrightarrow> \<exists>v. get b i = Ret v"
    and set_total: "0 \<le> i \<Longrightarrow> i < bits b \<Longrightarrow> \<exists>b'. set_bit_at b i v = Ret b' \<and> bits b' = bits b"
    and get_set: "0 \<le> i \<Longrightarrow> i < bits b \<Longrightarrow> 0 \<le> j \<Longrightarrow> j < bits b \<Longrightarrow> set_bit_at b i v = Ret b' \<Longrightarrow>
      get b' j = (if j = i then Ret v else get b j)"
begin

text \<open>Setting one bit after the other.\<close>

fun set_all :: "'b \<Rightarrow> int list \<Rightarrow> 'b go" where
  "set_all b [] = Ret b"
| "set_all b (i # is) = go_bind (set_bit_at b i True) (\<lambda>b'. set_all b' is)"

lemma set_all_total:
  "\<forall>i\<in>set is. 0 \<le> i \<and> i < bits b \<Longrightarrow> \<exists>b'. set_all b is = Ret b' \<and> bits b' = bits b"
proof (induction "is" arbitrary: b)
  case (Cons i "is")
  with set_total [of i b True] obtain b1 where "set_bit_at b i True = Ret b1" "bits b1 = bits b" by auto
  with Cons.IH [of b1] Cons.prems show ?case by auto
qed simp

lemma get_set_all:
  "\<forall>i\<in>set is. 0 \<le> i \<and> i < bits b \<Longrightarrow> 0 \<le> j \<Longrightarrow> j < bits b \<Longrightarrow> set_all b is = Ret b' \<Longrightarrow>
   get b' j = (if j \<in> set is then Ret True else get b j)"
proof (induction "is" arbitrary: b)
  case (Cons i "is")
  from Cons.prems(1) set_total [of i b True] obtain b1 where
    b1: "set_bit_at b i True = Ret b1" "bits b1 = bits b" by auto
  from Cons.prems b1(1) have "set_all b1 is = Ret b'" by simp
  with Cons.IH [of b1] Cons.prems b1(2) get_set [OF _ _ _ _ b1(1), of j] show ?case by auto
qed simp

end

section \<open>The implementation\<close>

type_synonym Bitarray = "64 word list"

definition NewBitarray :: "int \<Rightarrow> Bitarray go" where
  "NewBitarray n =
     (if n mod 64 \<noteq> 0 then Panic ''bits % 64 != 0''
      else if n < 0 then Panic ''makeslice: len out of range''
      else Ret (replicate (nat (n div 64)) 0))"

text \<open>Go's \<^verbatim>\<open>i / 64\<close> truncates toward zero; \<^verbatim>\<open>uint64(i) % 64\<close> is the residue of \<open>i\<close>.\<close>

definition word_index :: "int \<Rightarrow> int" where
  "word_index i = (if 0 \<le> i then i div 64 else - ((- i) div 64))"

definition bit_index :: "int \<Rightarrow> nat" where
  "bit_index i = nat (i mod 64)"

text \<open>
  The check is \<^verbatim>\<open>i/64 > len(b)\<close>; an index equal to the length passes it and panics in the access.
\<close>

definition in_slice :: "int \<Rightarrow> 'a list \<Rightarrow> bool" where
  "in_slice k xs \<longleftrightarrow> 0 \<le> k \<and> k < int (length xs)"

definition Get :: "Bitarray \<Rightarrow> int \<Rightarrow> bool go" where
  "Get b i =
     (if int (length b) < word_index i then Panic ''bad bit''
      else if \<not> in_slice (word_index i) b then Panic ''index out of range''
      else Ret ((b ! nat (word_index i)) AND push_bit (bit_index i) 1 \<noteq> 0))"

definition Set :: "Bitarray \<Rightarrow> int \<Rightarrow> bool \<Rightarrow> Bitarray go" where
  "Set b i v =
     (if int (length b) < word_index i then Panic ''bad bit''
      else if \<not> in_slice (word_index i) b then Panic ''index out of range''
      else
        (let bitSetVar = (if v then 1 else 0 :: 64 word); x = b ! nat (word_index i) in
           Ret (b[nat (word_index i) := x XOR ((- bitSetVar XOR x) AND push_bit (bit_index i) 1)])))"

section \<open>The implementation meets the contract\<close>

lemma bit_set_word:
  "m < 64 \<Longrightarrow> n < 64 \<Longrightarrow>
   bit ((x :: 64 word) XOR ((- (if v then 1 else 0) XOR x) AND push_bit n 1)) m
     \<longleftrightarrow> (if m = n then v else bit x m)"
  by (auto simp: bit_simps)

lemma bit_index_less: "bit_index i < 64"
  by (simp add: bit_index_def)

lemma same_bit:
  assumes "0 \<le> i" "0 \<le> j"
  shows "nat (word_index i) = nat (word_index j) \<and> bit_index i = bit_index j \<longleftrightarrow> i = j"
proof -
  have "i = 64 * (i div 64) + i mod 64" "j = 64 * (j div 64) + j mod 64" by simp_all
  then have "i div 64 = j div 64 \<Longrightarrow> i mod 64 = j mod 64 \<Longrightarrow> i = j" by metis
  with assms show ?thesis
    by (auto simp: word_index_def bit_index_def eq_nat_nat_iff pos_imp_zdiv_nonneg_iff)
qed

lemma in_slice_word_index:
  assumes "0 \<le> i" "i < 64 * int (length b)"
  shows "in_slice (word_index i) b \<and> \<not> int (length b) < word_index i"
  using assms by (auto simp: in_slice_def word_index_def)

lemma Get_bit:
  assumes "0 \<le> i" "i < 64 * int (length b)"
  shows "Get b i = Ret (bit (b ! nat (word_index i)) (bit_index i))"
  using in_slice_word_index [OF assms] by (simp add: Get_def and_exp_eq_0_iff_not_bit)

interpretation bitarray: bit_set Get Set "\<lambda>b. 64 * int (length b)"
proof
  fix i j :: int and b b' :: Bitarray and v :: bool
  assume i: "0 \<le> i" "i < 64 * int (length b)"
  show "\<exists>v. Get b i = Ret v" using Get_bit [OF i] by simp
  show "\<exists>b'. Set b i v = Ret b' \<and> 64 * int (length b') = 64 * int (length b)"
    using in_slice_word_index [OF i] by (simp add: Set_def Let_def)
  assume j: "0 \<le> j" "j < 64 * int (length b)" and set: "Set b i v = Ret b'"
  let ?x = "b ! nat (word_index i)"
  let ?y = "?x XOR ((- (if v then 1 else 0) XOR ?x) AND push_bit (bit_index i) 1)"
  from set in_slice_word_index [OF i] have b': "b' = b[nat (word_index i) := ?y]"
    by (auto simp: Set_def Let_def)
  have len: "nat (word_index i) < length b" "length b' = length b"
    using in_slice_word_index [OF i] by (auto simp: in_slice_def b')
  have "Get b' j = Ret (bit (b' ! nat (word_index j)) (bit_index j))"
    using j len by (intro Get_bit) simp_all
  also have "\<dots> = (if j = i then Ret v else Get b j)"
  proof (cases "nat (word_index i) = nat (word_index j)")
    case True
    with same_bit [OF i(1) j(1)] len(1) show ?thesis
      using Get_bit [OF j] bit_set_word [OF bit_index_less [of j] bit_index_less [of i], of ?x v]
      by (auto simp: b')
  next
    case False
    with same_bit [OF i(1) j(1)] show ?thesis using Get_bit [OF j] by (auto simp: b')
  qed
  finally show "Get b' j = (if j = i then Ret v else Get b j)" .
qed

lemma NewBitarray_empty:
  "NewBitarray 512 = Ret b \<Longrightarrow> length b = 8 \<and> (0 \<le> i \<longrightarrow> i < 512 \<longrightarrow> Get b i = Ret False)"
  by (auto simp: NewBitarray_def Get_bit word_index_def)

section \<open>Properties\<close>

text \<open>The bit array is a finite set of indices.  After setting any indices below its size, in any
  order and any number of times, exactly these and those set before are found.\<close>

theorem bitarray_set_all:
  assumes "\<forall>i\<in>set is. 0 \<le> i \<and> i < 64 * int (length b)" "0 \<le> j" "j < 64 * int (length b)"
  shows "\<exists>b'. bitarray.set_all b is = Ret b' \<and>
    Get b' j = (if j \<in> set is then Ret True else Get b j)"
  using bitarray.set_all_total [OF assms(1)] bitarray.get_set_all [OF assms] by auto

theorem bitarray_set_all_witness:
  "\<exists>b'. bitarray.set_all (replicate 8 0) [5, 511, 5] = Ret b' \<and> Get b' 511 = Ret True"
  using bitarray_set_all [of "[5, 511, 5]" "replicate 8 0" 511] by simp

end
