(* ===== verification/HandlerState.thy ===== *)
theory HandlerState
  imports FramingLaws Bitarray
begin

text \<open>
  The state of src/handler.go, the packet filters of src/filters.go and the commands of
  src/commands.go as data.  A handler serves one client; it owns the two ends of the proxied
  connection.  Packet tracing (a debugging aid) is left out: \<^verbatim>\<open>PacketTrace\<close> is nil.
\<close>

section \<open>Commands\<close>

text \<open>
  \<^verbatim>\<open>HandlerCommand\<close> and the types that implement it.  The payload of an injection is a Go slice;
  \<open>None\<close> is the nil slice, which a variadic call without packets passes.
\<close>

datatype 'n command =
    ReconnectCommand string string
  | InjectPacketCommand direction "'n packet list option" "gerr option"

section \<open>The handler\<close>

text \<open>
  A \<^verbatim>\<open>read_packets\<close> goroutine: the packets that it will still put on its channel, and how it ends
  (the error its tomb dies with, or a panic, which ends the process).
\<close>

datatype stream_end = Ended gerr | Crashed string

text \<open>
  \<open>h_DownstreamKey\<close>: once the connection to the client is encrypted, the key and how many bytes had
  been written in clear; \<open>h_DownstreamW\<close> and \<open>h_DownstreamR\<close> are about the bytes in clear.
\<close>

record 'n Handler =
  h_DownstreamR :: packetReader
  h_DownstreamW :: packetWriter
  h_DownstreamKey :: "(bytes \<times> nat) option"
  h_DownstreamAddr :: string
  h_downstream_packets :: "'n packet list \<times> stream_end"
  h_UpstreamW :: "packetWriter option"
  h_UpstreamPackets :: "'n packet list \<times> stream_end"
  h_UpstreamName :: string
  h_playerList :: "uuid \<rightharpoonup> PlayerListItem"
  h_Handshake :: HandshakePacket
  h_Nickname :: string
  h_UUID :: uuid
  h_hasAuthenticator :: bool
  h_AuthProperties :: "AuthProperty list"
  h_Permissions :: "(string \<Rightarrow> bool) option"
  h_commandChan :: "'n command list"
  h_ClientSettings :: "'n packet option"
  h_MCBrand :: "'n packet option"

definition nil_UUID :: uuid where
  "nil_UUID = replicate 16 0"

text \<open>\<^verbatim>\<open>NewHandler\<close>: the connection's bytes, what ends them, and the device to write to.\<close>

definition NewHandler :: "bytes \<Rightarrow> gerr \<Rightarrow> out_dev \<Rightarrow> string \<Rightarrow> bool \<Rightarrow> 'n Handler" where
  "NewHandler input en out addr hasAuth =
     \<lparr>h_DownstreamR = NewPacketReader input en 0, h_DownstreamW = NewPacketWriter out False 0,
      h_DownstreamKey = None,      h_DownstreamAddr = addr, h_downstream_packets = ([], Ended EOF), h_UpstreamW = None,
      h_UpstreamPackets = ([], Ended EOF), h_UpstreamName = '''', h_playerList = Map.empty,
      h_Handshake = new_HandshakePacket, h_Nickname = '''', h_UUID = nil_UUID,
      h_hasAuthenticator = hasAuth, h_AuthProperties = [], h_Permissions = None, h_commandChan = [],
      h_ClientSettings = None, h_MCBrand = None\<rparr>"

definition commandChan_size :: nat where "commandChan_size = 10"

text \<open>\<^verbatim>\<open>PushCommand\<close> without blocking, and \<^verbatim>\<open>InjectPackets\<close>: the channel has room or it does not.\<close>

definition PushCommand :: "'n command \<Rightarrow> 'n Handler \<Rightarrow> bool \<times> 'n Handler" where
  "PushCommand cmd h =
     (if length (h_commandChan h) < commandChan_size
      then (True, h\<lparr>h_commandChan := h_commandChan h @ [cmd]\<rparr>) else (False, h))"

definition InjectPackets ::
    "direction \<Rightarrow> gerr option \<Rightarrow> 'n packet list \<Rightarrow> 'n Handler \<Rightarrow> gerr option \<times> 'n Handler" where
  "InjectPackets d raise payload h =
     (let cmd = InjectPacketCommand d (if payload = [] then None else Some payload) raise in
      if length (h_commandChan h) < commandChan_size
      then (None, h\<lparr>h_commandChan := h_commandChan h @ [cmd]\<rparr>)
      else (Some (Errorf ''commandChan is full'' []), h))"

definition HasPermission :: "'n Handler \<Rightarrow> string \<Rightarrow> bool" where
  "HasPermission h perm = (case h_Permissions h of None \<Rightarrow> False | Some f \<Rightarrow> f perm)"

section \<open>Packet filters\<close>

text \<open>
  A filter gets the handler and a pointer to the packet, and may change both.  \<^verbatim>\<open>packetFilters\<close> has
  512 buckets; \<^verbatim>\<open>packetsParsed\<close> has a bit for each.
\<close>

type_synonym 'n PacketFilter =
  "'n Handler \<Rightarrow> 'n packet \<Rightarrow> (gerr option \<times> 'n Handler \<times> 'n packet) go"

record 'n filter_table =
  ft_packetFilters :: "'n PacketFilter list list"
  ft_packetsParsed :: Bitarray

definition no_filters :: "'n filter_table" where
  "no_filters = \<lparr>ft_packetFilters = replicate 512 [], ft_packetsParsed = replicate 8 0\<rparr>"

definition add_filter :: "int \<Rightarrow> 'n PacketFilter \<Rightarrow> 'n filter_table \<Rightarrow> 'n filter_table go" where
  "add_filter i callback ft =
     (if \<not> in_slice i (ft_packetFilters ft) then Panic ''index out of range''
      else
        (let fs = (ft_packetFilters ft)[nat i := (ft_packetFilters ft) ! nat i @ [callback]]
         in go_map (\<lambda>b. ft\<lparr>ft_packetFilters := fs, ft_packetsParsed := b\<rparr>)
              (Set (ft_packetsParsed ft) i True)))"

definition RegisterPacketFilter ::
    "'n nbt_lib \<Rightarrow> 'n packet \<Rightarrow> 'n PacketFilter \<Rightarrow> 'n filter_table \<Rightarrow> 'n filter_table go" where
  "RegisterPacketFilter lib ptype callback ft =
     go_bind (Direction lib ptype)
       (\<lambda>d. if d = ServerBound then add_filter (sint (PacketID lib ptype)) callback ft
            else if d = ClientBound then
              add_filter (sint (PacketID lib ptype + 256)) callback ft
            else Panic ''invalid direction'')"

text \<open>The bucket of a packet, as \<^verbatim>\<open>read_packets\<close> and \<^verbatim>\<open>dispatchPacket\<close> compute it.\<close>

definition bucket :: "direction \<Rightarrow> VarInt \<Rightarrow> int" where
  "bucket d i = uint (d - 1) * 256 + sint i"

fun run_filters ::
    "'n PacketFilter list \<Rightarrow> 'n Handler \<Rightarrow> 'n packet \<Rightarrow> (gerr option \<times> 'n Handler \<times> 'n packet) go" where
  "run_filters [] h p = Ret (None, h, p)"
| "run_filters (proc # procs) h p =
     (case proc h p of
        Panic m \<Rightarrow> Panic m
      | Ret (Some e, h', p') \<Rightarrow> Ret (Some e, h', p')
      | Ret (None, h', p') \<Rightarrow> run_filters procs h' p')"

definition dispatchPacket ::
    "'n nbt_lib \<Rightarrow> 'n filter_table \<Rightarrow> 'n Handler \<Rightarrow> 'n packet \<Rightarrow> (gerr option \<times> 'n Handler \<times> 'n packet) go" where
  "dispatchPacket lib ft h p =
     go_bind (Direction lib p)
       (\<lambda>d. let i = bucket d (PacketID lib p) in
            if in_slice i (ft_packetFilters ft)
            then run_filters ((ft_packetFilters ft) ! nat i) h p
            else Panic ''index out of range'')"

section \<open>The filters of the proxy itself\<close>

definition saveClientSettings :: "'n PacketFilter" where
  "saveClientSettings h packet =
     (case packet of
        P_ClientSettingsPacketSB p \<Rightarrow> Ret (None, h\<lparr>h_ClientSettings := Some packet\<rparr>, packet)
      | P_PluginMessagePacketSB p \<Rightarrow>
          Ret (None, (if pms_Channel p = ''minecraft:brand'' then h\<lparr>h_MCBrand := Some packet\<rparr> else h),
               packet)
      | _ \<Rightarrow> Panic ''unexpected packet'')"

text \<open>\<^verbatim>\<open>updatePlayerListItem\<close>: the items already known are changed, the others skipped.\<close>

fun updatePlayerListItem ::
    "(PlayerListItem \<Rightarrow> PlayerListItem \<Rightarrow> PlayerListItem) \<Rightarrow> PlayerListItem list \<Rightarrow>
     (uuid \<rightharpoonup> PlayerListItem) \<Rightarrow> (uuid \<rightharpoonup> PlayerListItem)" where
  "updatePlayerListItem changeData [] pl = pl"
| "updatePlayerListItem changeData (item # items) pl =
     (case pl (pi_UUID item) of
        None \<Rightarrow> updatePlayerListItem changeData items pl
      | Some saved \<Rightarrow>
          updatePlayerListItem changeData items (pl(pi_UUID item \<mapsto> changeData saved item)))"

fun store_items :: "PlayerListItem list \<Rightarrow> (uuid \<rightharpoonup> PlayerListItem) \<Rightarrow> (uuid \<rightharpoonup> PlayerListItem)" where
  "store_items [] pl = pl"
| "store_items (item # items) pl = store_items items (pl(pi_UUID item \<mapsto> item))"

fun delete_items :: "PlayerListItem list \<Rightarrow> (uuid \<rightharpoonup> PlayerListItem) \<Rightarrow> (uuid \<rightharpoonup> PlayerListItem)" where
  "delete_items [] pl = pl"
| "delete_items (item # items) pl = delete_items items (pl(pi_UUID item := None))"

definition update_list ::
    "PlayerListItemPacketCB \<Rightarrow> (uuid \<rightharpoonup> PlayerListItem) \<Rightarrow> (uuid \<rightharpoonup> PlayerListItem)" where
  "update_list p pl =
     (if pli_Action p = ADD_PLAYER then store_items (pli_Items p) pl
      else if pli_Action p = UPDATE_GAME_MODE then
        updatePlayerListItem (\<lambda>old new. old\<lparr>pi_GameMode := pi_GameMode new\<rparr>) (pli_Items p) pl
      else if pli_Action p = UPDATE_DISPLAY_NAME then
        updatePlayerListItem (\<lambda>old new. old\<lparr>pi_DisplayName := pi_DisplayName new\<rparr>) (pli_Items p) pl
      else if pli_Action p = UPDATE_LATENCY then
        updatePlayerListItem (\<lambda>old new. old\<lparr>pi_Ping := pi_Ping new\<rparr>) (pli_Items p) pl
      else if pli_Action p = REMOVE_PLAYER then delete_items (pli_Items p) pl
      else pl)"

definition savePlayerList :: "'n PacketFilter" where
  "savePlayerList h packet =
     (case packet of
        P_PlayerListItemPacketCB p \<Rightarrow> Ret (None, h\<lparr>h_playerList := update_list p (h_playerList h)\<rparr>, packet)
      | _ \<Rightarrow> Panic ''interface conversion'')"

text \<open>The registrations of \<^verbatim>\<open>init\<close>.\<close>

fun register_all ::
    "'n nbt_lib \<Rightarrow> ('n packet \<times> 'n PacketFilter) list \<Rightarrow> 'n filter_table \<Rightarrow> 'n filter_table go" where
  "register_all lib [] ft = Ret ft"
| "register_all lib ((t, f) # rs) ft =
     go_bind (RegisterPacketFilter lib t f ft) (\<lambda>ft'. register_all lib rs ft')"

definition init_filters :: "'n nbt_lib \<Rightarrow> 'n filter_table go" where
  "init_filters lib = register_all lib
     [(P_ClientSettingsPacketSB new_ClientSettingsPacketSB, saveClientSettings),
      (P_PluginMessagePacketSB new_PluginMessagePacketSB, saveClientSettings),
      (P_PlayerListItemPacketCB new_PlayerListItemPacketCB, savePlayerList)] no_filters"

end
