(* ===== verification/PlayerMgr.thy ===== *)
theory PlayerMgr
  imports GoStrings
begin

text \<open>
  src/playermgr.go: the players that are in the play state, by lower-cased nickname, and their number.
  The map is a \<^verbatim>\<open>sync.Map\<close> and the number an atomic counter that is changed after the map, so the
  two steps of \<^verbatim>\<open>Register\<close> and of \<^verbatim>\<open>Unregister\<close> of different handlers interleave; the model has one
  step for each.  \<open>tbl\<close> is Unicode's lower-case table outside ASCII.
\<close>

record 'v PlayerManager =
  pm_m :: "string \<rightharpoonup> 'v"
  pm_count :: "64 word"

definition empty_PlayerManager :: "'v PlayerManager" where
  "empty_PlayerManager = \<lparr>pm_m = Map.empty, pm_count = 0\<rparr>"

definition LoadOrStore :: "string \<Rightarrow> 'v \<Rightarrow> 'v PlayerManager \<Rightarrow> bool \<times> 'v PlayerManager" where
  "LoadOrStore key v pm =
     (case pm_m pm key of Some _ \<Rightarrow> (True, pm) | None \<Rightarrow> (False, pm\<lparr>pm_m := (pm_m pm)(key \<mapsto> v)\<rparr>))"

definition AddInt64 :: "64 word \<Rightarrow> 'v PlayerManager \<Rightarrow> 'v PlayerManager" where
  "AddInt64 d pm = pm\<lparr>pm_count := pm_count pm + d\<rparr>"

text \<open>The two methods as a handler runs them with nothing in between.\<close>

definition Register :: "(nat \<Rightarrow> nat) \<Rightarrow> string \<Rightarrow> 'v \<Rightarrow> 'v PlayerManager \<Rightarrow> bool \<times> 'v PlayerManager" where
  "Register tbl nickname handler pm =
     (case LoadOrStore (ToLower tbl nickname) handler pm of
        (True, pm') \<Rightarrow> (False, pm')
      | (False, pm') \<Rightarrow> (True, AddInt64 1 pm'))"

definition Unregister :: "(nat \<Rightarrow> nat) \<Rightarrow> string \<Rightarrow> 'v PlayerManager \<Rightarrow> 'v PlayerManager" where
  "Unregister tbl nickname pm =
     AddInt64 (- 1) (pm\<lparr>pm_m := (pm_m pm)(ToLower tbl nickname := None)\<rparr>)"

definition GetByNickname :: "(nat \<Rightarrow> nat) \<Rightarrow> string \<Rightarrow> 'v PlayerManager \<Rightarrow> 'v option" where
  "GetByNickname tbl nickname pm = pm_m pm (ToLower tbl nickname)"

definition Len :: "'v PlayerManager \<Rightarrow> int" where
  "Len pm = sint (pm_count pm)"

text \<open>
  \<^verbatim>\<open>Range\<close> visits the entries in the order \<open>keys\<close> until the function says stop; \<^verbatim>\<open>GetByUUID\<close> stops at the
  first handler with the UUID.
\<close>

definition Range :: "string list \<Rightarrow> 'v PlayerManager \<Rightarrow> 'v list" where
  "Range keys pm = List.map_filter (pm_m pm) keys"

definition GetByUUID :: "string list \<Rightarrow> ('v \<Rightarrow> bytes) \<Rightarrow> bytes \<Rightarrow> 'v PlayerManager \<Rightarrow> 'v option" where
  "GetByUUID keys uuid_of u pm = find (\<lambda>h. u = uuid_of h) (Range keys pm)"

section \<open>The handlers of all players\<close>

text \<open>
  Where a handler is with respect to the player manager.  Handler \<open>i\<close> has nickname \<open>name i\<close>, which does
  not change between the two calls.
\<close>

datatype stage = Fresh | Stored | Registered | Deleted | Gone

type_synonym 'i system = "'i PlayerManager \<times> ('i \<Rightarrow> stage)"

inductive pm_step :: "('i \<Rightarrow> string) \<Rightarrow> 'i system \<Rightarrow> 'i system \<Rightarrow> bool" for key where
  store: "st i = Fresh \<Longrightarrow> LoadOrStore (key i) i pm = (False, pm') \<Longrightarrow>
     pm_step key (pm, st) (pm', st(i := Stored))"
| conflict: "st i = Fresh \<Longrightarrow> LoadOrStore (key i) i pm = (True, pm') \<Longrightarrow>
     pm_step key (pm, st) (pm', st(i := Gone))"
| count_up: "st i = Stored \<Longrightarrow> pm_step key (pm, st) (AddInt64 1 pm, st(i := Registered))"
| delete: "st i = Registered \<Longrightarrow>
     pm_step key (pm, st) (pm\<lparr>pm_m := (pm_m pm)(key i := None)\<rparr>, st(i := Deleted))"
| count_down: "st i = Deleted \<Longrightarrow> pm_step key (pm, st) (AddInt64 (- 1) pm, st(i := Gone))"

inductive pm_reachable :: "('i \<Rightarrow> string) \<Rightarrow> 'i system \<Rightarrow> bool" for key where
  init: "pm_reachable key (empty_PlayerManager, \<lambda>_. Fresh)"
| step: "pm_reachable key s \<Longrightarrow> pm_step key s s' \<Longrightarrow> pm_reachable key s'"

inductive_cases pm_stepE: "pm_step key (pm, st) s'"

lemmas pm_step_cases = pm_stepE [consumes 1, case_names store conflict count_up delete count_down]

text \<open>
  The invariant: the map holds exactly the handlers between \<^verbatim>\<open>LoadOrStore\<close> and \<^verbatim>\<open>Delete\<close>, each under its
  key, and the counter is the number of those that have counted themselves.
\<close>

definition holding :: "('i \<Rightarrow> stage) \<Rightarrow> 'i set" where
  "holding st = {i. st i = Stored \<or> st i = Registered}"

definition counted :: "('i \<Rightarrow> stage) \<Rightarrow> 'i set" where
  "counted st = {i. st i = Registered \<or> st i = Deleted}"

definition pm_inv :: "('i \<Rightarrow> string) \<Rightarrow> 'i system \<Rightarrow> bool" where
  "pm_inv key s \<longleftrightarrow> (case s of (pm, st) \<Rightarrow>
     (\<forall>k i. pm_m pm k = Some i \<longleftrightarrow> k = key i \<and> i \<in> holding st) \<and>
     finite (counted st) \<and> pm_count pm = word_of_nat (card (counted st)))"

lemma holding_upd:
  "holding (st(i := s)) = (if s = Stored \<or> s = Registered then insert i (holding st) else holding st - {i})"
  by (auto simp: holding_def)

lemma counted_upd:
  "counted (st(i := s)) = (if s = Registered \<or> s = Deleted then insert i (counted st) else counted st - {i})"
  by (auto simp: counted_def)

lemma in_holding: "i \<in> holding st \<longleftrightarrow> st i = Stored \<or> st i = Registered"
  by (simp add: holding_def)

lemma in_counted: "i \<in> counted st \<longleftrightarrow> st i = Registered \<or> st i = Deleted"
  by (simp add: counted_def)

lemma pm_inv_step:
  assumes "pm_inv key (pm, st)" "pm_step key (pm, st) s'"
  shows "pm_inv key s'"
  using assms(2)
proof (cases rule: pm_step_cases)
  case (store i pm')
  then have "pm_m pm (key i) = None" "pm' = pm\<lparr>pm_m := (pm_m pm)(key i \<mapsto> i)\<rparr>"
    by (auto simp: LoadOrStore_def split: option.splits)
  moreover have "pm_m pm k = Some j \<longleftrightarrow> k = key j \<and> j \<in> holding st" for k j
    using assms(1) by (simp add: pm_inv_def)
  with calculation(1) have "\<forall>j\<in>holding st. key j \<noteq> key i" by (metis option.distinct(1))
  ultimately show ?thesis
    using assms(1) store by (auto simp: pm_inv_def holding_upd counted_upd in_counted)
next
  case (conflict i pm')
  then have "pm' = pm" by (auto simp: LoadOrStore_def split: option.splits)
  with assms(1) conflict show ?thesis
    by (auto simp: pm_inv_def holding_upd counted_upd in_counted in_holding)
next
  case (count_up i)
  with assms(1) show ?thesis
    by (auto simp: pm_inv_def holding_upd counted_upd in_counted in_holding AddInt64_def)
next
  case (delete i)
  have "i \<in> holding st" using delete by (simp add: in_holding)
  moreover have "pm_m pm k = Some j \<longleftrightarrow> k = key j \<and> j \<in> holding st" for k j
    using assms(1) by (simp add: pm_inv_def)
  ultimately have "\<forall>j\<in>holding st. key j = key i \<longrightarrow> j = i" by (metis option.inject)
  with assms(1) delete show ?thesis
    by (auto simp: pm_inv_def holding_upd counted_upd in_counted insert_absorb)
next
  case (count_down i)
  have "i \<in> counted st" using count_down by (simp add: in_counted)
  moreover have "finite (counted st)" using assms(1) by (simp add: pm_inv_def)
  ultimately have "card (counted st) = Suc (card (counted st - {i}))"
    by (rule card.remove [rotated])
  then have "word_of_nat (card (counted st)) - 1 = (word_of_nat (card (counted st - {i})) :: 64 word)"
    by (simp only: of_nat_Suc) simp
  moreover have "i \<notin> holding st" using count_down by (simp add: in_holding)
  ultimately show ?thesis
    using assms(1) count_down by (simp add: pm_inv_def holding_upd counted_upd AddInt64_def)
qed

lemma pm_inv_reachable: "pm_reachable key s \<Longrightarrow> pm_inv key s"
proof (induction rule: pm_reachable.induct)
  case init
  show ?case by (simp add: pm_inv_def empty_PlayerManager_def holding_def counted_def)
next
  case (step s s')
  then show ?case using pm_inv_step by (cases s) blast
qed


section \<open>Properties\<close>



end
