(* ===== verification/GoText.thy ===== *)
theory GoText
  imports GoStrings
begin

text \<open>
  More of Go's packages strings, strconv, unicode and regexp, as the filters use them: decimal numbers,
  white space, case folding, and matching of regular expressions by leftmost-first search.
\<close>

section \<open>Decoding is local\<close>

lemma decode_rune_append:
  assumes "a \<noteq> []" "b = [] \<or> \<not> is_cont (hd b)"
  shows "decode_rune (a @ b) = decode_rune a"
proof -
  from assms(1) obtain x s where a: "a = x # s" by (cases a) auto
  have two: "(case s @ b of [] \<Rightarrow> e | y # _ \<Rightarrow> if is_cont y then f y else e)
      = (case s of [] \<Rightarrow> e | y # _ \<Rightarrow> if is_cont y then f y else e)" for e :: "nat \<times> nat" and f
    using assms(2) by (cases s; cases b) auto
  have three: "(case s @ b of [] \<Rightarrow> e | [y] \<Rightarrow> e | y # z # _ \<Rightarrow> if is_cont y \<and> is_cont z \<and> P y then f y z else e)
      = (case s of [] \<Rightarrow> e | [y] \<Rightarrow> e | y # z # _ \<Rightarrow> if is_cont y \<and> is_cont z \<and> P y then f y z else e)"
    for e :: "nat \<times> nat" and f P
    using assms(2) by (cases s; cases "tl s"; cases b) (auto split: list.split)
  have four: "(case s @ b of [] \<Rightarrow> e | [y] \<Rightarrow> e | [y, z] \<Rightarrow> e
        | y # z # w # _ \<Rightarrow> if is_cont y \<and> is_cont z \<and> is_cont w \<and> P y then f y z w else e)
      = (case s of [] \<Rightarrow> e | [y] \<Rightarrow> e | [y, z] \<Rightarrow> e
        | y # z # w # _ \<Rightarrow> if is_cont y \<and> is_cont z \<and> is_cont w \<and> P y then f y z w else e)"
    for e :: "nat \<times> nat" and f P
    using assms(2) by (cases s; cases "tl s"; cases "tl (tl s)"; cases b) (auto split: list.split)
  show ?thesis
    unfolding a append_Cons decode_rune.simps
    by (simp only: two three [where P = "\<lambda>y. (x = 224 \<longrightarrow> 160 \<le> y) \<and> (x = 237 \<longrightarrow> y < 160)"]
        four [where P = "\<lambda>y. (x = 240 \<longrightarrow> 144 \<le> y) \<and> (x = 244 \<longrightarrow> y < 144)"])
qed

lemma runes_codes_append:
  assumes "b = [] \<or> \<not> is_cont (hd b)"
  shows "runes_codes (a @ b) = runes_codes a @ runes_codes b"
proof (induction a rule: length_induct)
  case (1 a)
  show ?case
  proof (cases "a = []")
    case True
    then show ?thesis by (simp add: runes_codes.simps [of "[]"])
  next
    case False
    let ?n = "snd (decode_rune a)"
    have n: "1 \<le> ?n" "?n \<le> length a" using decode_rune_size [OF False] by auto
    then have "length (drop ?n a) < length a" using False by (simp add: diff_less)
    with 1 have "runes_codes (drop ?n a @ b) = runes_codes (drop ?n a) @ runes_codes b" by blast
    then show ?thesis
      using False n decode_rune_append [OF False assms]
      by (simp add: runes_codes.simps [of "a @ b"] runes_codes.simps [of a])
  qed
qed

text \<open>A string may be cut anywhere before a byte that starts a rune.\<close>

lemma runes_of_append:
  "t = [] \<or> \<not> is_cont (code (hd t)) \<Longrightarrow> runes_of (s @ t) = runes_of s @ runes_of t"
  unfolding runes_of_def map_append by (rule runes_codes_append) (cases t; simp)

lemma runes_codes_ascii: "list_all (\<lambda>c. c < 128) s \<Longrightarrow> runes_codes s = s"
  by (induction s) (simp_all add: runes_codes.simps)

lemma runes_of_ascii: "list_all (\<lambda>c. code c < 128) s \<Longrightarrow> runes_of s = map code s"
  unfolding runes_of_def by (rule runes_codes_ascii) (simp add: list_all_iff)

lemma runes_of_Nil [simp]: "runes_of [] = []"
  by (simp add: runes_of_def runes_codes.simps)

section \<open>Runes with their bytes\<close>

function pieces :: "string \<Rightarrow> (nat \<times> string) list" where
  "pieces s =
     (if s = [] then []
      else (fst (decode_rune (map code s)), take (snd (decode_rune (map code s))) s)
             # pieces (drop (snd (decode_rune (map code s))) s))"
  by pat_completeness auto
termination
proof (relation "measure length")
  fix s :: string
  assume "s \<noteq> []"
  then show "(drop (snd (decode_rune (map code s))) s, s) \<in> measure length"
    using decode_rune_size [of "map code s"] by (cases s) (simp_all add: diff_less_Suc del: decode_rune.simps)
qed simp

declare pieces.simps [simp del]

lemma map_fst_pieces: "map fst (pieces s) = runes_of s"
proof (induction s rule: length_induct)
  case (1 s)
  show ?case
  proof (cases "s = []")
    case True
    then show ?thesis by (simp add: pieces.simps)
  next
    case False
    obtain r n where d: "decode_rune (map code s) = (r, n)" by fastforce
    with decode_rune_size [of "map code s"] False have "length (drop n s) < length s" by (simp add: diff_less)
    with 1 have "map fst (pieces (drop n s)) = runes_of (drop n s)" by blast
    with False d show ?thesis
      by (simp add: pieces.simps [of s] runes_of_def runes_codes.simps [of "map code s"] drop_map)
  qed
qed

lemma concat_pieces: "concat (map snd (pieces s)) = s"
proof (induction s rule: length_induct)
  case (1 s)
  show ?case
  proof (cases "s = []")
    case True
    then show ?thesis by (simp add: pieces.simps)
  next
    case False
    obtain r n where d: "decode_rune (map code s) = (r, n)" by fastforce
    with decode_rune_size [of "map code s"] False have "length (drop n s) < length s" by (simp add: diff_less)
    with 1 have "concat (map snd (pieces (drop n s))) = drop n s" by blast
    with False d show ?thesis by (simp add: pieces.simps [of s])
  qed
qed

text \<open>\<^verbatim>\<open>unicode.IsSpace\<close>; \<^verbatim>\<open>strings.Fields\<close>; \<^verbatim>\<open>strings.LastIndexFunc\<close>.\<close>

definition IsSpace :: "nat \<Rightarrow> bool" where
  "IsSpace r \<longleftrightarrow> r \<in> {9, 10, 11, 12, 13, 32, 133, 160, 5760, 8232, 8233, 8239, 8287, 12288}
     \<or> (8192 \<le> r \<and> r \<le> 8202)"

fun fields_of :: "(nat \<times> string) list \<Rightarrow> string \<Rightarrow> string list" where
  "fields_of [] cur = (if cur = [] then [] else [cur])"
| "fields_of ((r, bs) # ps) cur =
     (if IsSpace r then (if cur = [] then [] else [cur]) @ fields_of ps []
      else fields_of ps (cur @ bs))"

definition Fields :: "string \<Rightarrow> string list" where
  "Fields s = fields_of (pieces s) []"

fun last_index_func :: "(nat \<Rightarrow> bool) \<Rightarrow> int \<Rightarrow> (nat \<times> string) list \<Rightarrow> int \<Rightarrow> int" where
  "last_index_func P at [] found = found"
| "last_index_func P at ((r, bs) # ps) found =
     last_index_func P (at + int (length bs)) ps (if P r then at else found)"

definition LastIndexFunc :: "string \<Rightarrow> (nat \<Rightarrow> bool) \<Rightarrow> int" where
  "LastIndexFunc s P = last_index_func P 0 (pieces s) (- 1)"

lemma last_index_func_bounds:
  "-1 \<le> found \<Longrightarrow> found < at \<Longrightarrow> 0 \<le> at \<Longrightarrow> \<forall>p \<in> set ps. snd p \<noteq> [] \<Longrightarrow>
   -1 \<le> last_index_func P at ps found \<and> last_index_func P at ps found < at + int (length (concat (map snd ps)))"
proof (induction P at ps found rule: last_index_func.induct)
  case (2 P at r bs ps found)
  from "2.prems" have "0 < int (length bs)" by simp
  with 2 show ?case by (force split: if_splits)
qed simp

section \<open>Case folding, searching\<close>

text \<open>
  \<^verbatim>\<open>strings.EqualFold\<close>: \<open>tbl\<close> picks a representative of the folding orbit of a rune above ASCII.
\<close>

definition rune_fold :: "(nat \<Rightarrow> nat) \<Rightarrow> nat \<Rightarrow> nat" where
  "rune_fold tbl r = (if 65 \<le> r \<and> r \<le> 90 then r + 32 else if r < 128 then r else tbl r)"

definition EqualFold :: "(nat \<Rightarrow> nat) \<Rightarrow> string \<Rightarrow> string \<Rightarrow> bool" where
  "EqualFold tbl s t \<longleftrightarrow> map (rune_fold tbl) (runes_of s) = map (rune_fold tbl) (runes_of t)"

lemma EqualFold_refl [simp]: "EqualFold tbl s s"
  by (simp add: EqualFold_def)

lemma EqualFold_sym: "EqualFold tbl s t \<Longrightarrow> EqualFold tbl t s"
  by (simp add: EqualFold_def)

text \<open>\<^verbatim>\<open>strings.Contains\<close> and \<^verbatim>\<open>strings.Replace\<close>, all non-overlapping occurrences from the left or \<open>n\<close> of them.\<close>

fun Contains :: "string \<Rightarrow> string \<Rightarrow> bool" where
  "Contains [] w \<longleftrightarrow> w = []"
| "Contains (c # s) w \<longleftrightarrow> HasPrefix (c # s) w \<or> Contains s w"

function replace_n :: "nat option \<Rightarrow> string \<Rightarrow> string \<Rightarrow> string \<Rightarrow> string" where
  "replace_n n old new s =
     (if n = Some 0 \<or> old = [] \<or> s = [] then s
      else if HasPrefix s old then new @ replace_n (map_option (\<lambda>k. k - 1) n) old new (drop (length old) s)
      else hd s # replace_n n old new (tl s))"
  by pat_completeness auto
termination
  by (relation "measure (\<lambda>(n, old, new, s). length s)") (auto simp: neq_Nil_conv)

declare replace_n.simps [simp del]

section \<open>Decimal numbers\<close>

fun decimal :: "nat \<Rightarrow> string" where
  "decimal n = (if n < 10 then [chr (48 + n)] else decimal (n div 10) @ [chr (48 + n mod 10)])"

declare decimal.simps [simp del]

definition Itoa :: "int \<Rightarrow> string" where
  "Itoa n = (if n < 0 then CHR ''-'' # decimal (nat (- n)) else decimal (nat n))"

lemma is_digit_chr: "d < 10 \<Longrightarrow> is_digit (chr (48 + d)) \<and> code (chr (48 + d)) = 48 + d"
  by (simp add: is_digit_def)

lemma digits_value_snoc: "digits_value (s @ [c]) = 10 * digits_value s + (code c - 48)"
  by (simp add: digits_value_def)

lemma decimal_digits: "list_all is_digit (decimal n) \<and> decimal n \<noteq> [] \<and> digits_value (decimal n) = n"
proof (induction n rule: decimal.induct)
  case (1 n)
  show ?case
  proof (cases "n < 10")
    case True
    then show ?thesis by (simp add: decimal.simps [of n] is_digit_chr digits_value_def)
  next
    case False
    with 1 have "list_all is_digit (decimal (n div 10))" "digits_value (decimal (n div 10)) = n div 10"
      by auto
    with False show ?thesis
      by (simp add: decimal.simps [of n] is_digit_chr digits_value_snoc)
  qed
qed

lemma decimal_first: "hd (decimal n) \<noteq> CHR ''-'' \<and> hd (decimal n) \<noteq> CHR ''+''"
proof -
  have "is_digit (hd (decimal n))"
    using decimal_digits [of n] by (cases "decimal n") auto
  moreover have "\<not> is_digit CHR ''-''" "\<not> is_digit CHR ''+''"
    by (simp_all add: is_digit_def code_def)
  ultimately show ?thesis by auto
qed

lemma Atoi_Itoa: "-(2 ^ 63) \<le> n \<Longrightarrow> n < 2 ^ 63 \<Longrightarrow> Atoi (Itoa n) = (n, None)"
  using decimal_digits [of "nat n"] decimal_digits [of "nat (- n)"]
    decimal_first [of "nat n"] decimal_first [of "nat (- n)"]
  by (auto simp: Atoi_def Itoa_def parse_unsigned_def Let_def)

section \<open>Regular expressions\<close>

text \<open>
  Expressions over bytes, as far as the program uses them: character classes, sequences, and greedy
  \<^verbatim>\<open>?\<close> and \<^verbatim>\<open>*\<close>.  \<open>rests\<close> gives what each match at the start of a string leaves, in the
  order in which Go's leftmost-first semantics prefers them.
\<close>

datatype rx = Class "char \<Rightarrow> bool" | Cat rx rx | Opt rx | Star "char \<Rightarrow> bool"

fun star_rests :: "(char \<Rightarrow> bool) \<Rightarrow> string \<Rightarrow> string list" where
  "star_rests P [] = [[]]"
| "star_rests P (c # s) = (if P c then star_rests P s @ [c # s] else [c # s])"

fun rests :: "rx \<Rightarrow> string \<Rightarrow> string list" where
  "rests (Class P) s = (case s of [] \<Rightarrow> [] | c # t \<Rightarrow> if P c then [t] else [])"
| "rests (Cat a b) s = concat (map (rests b) (rests a s))"
| "rests (Opt a) s = rests a s @ [s]"
| "rests (Star P) s = star_rests P s"

definition rx_string :: "string \<Rightarrow> rx" where
  "rx_string w = foldr (\<lambda>c r. Cat (Class (\<lambda>d. d = c)) r) w (Star (\<lambda>_. False))"

definition Plus :: "(char \<Rightarrow> bool) \<Rightarrow> rx" where
  "Plus P = Cat (Class P) (Star P)"

fun FindStringIndex :: "rx \<Rightarrow> string \<Rightarrow> nat \<Rightarrow> (nat \<times> nat) option" where
  "FindStringIndex r [] at = (case rests r [] of [] \<Rightarrow> None | _ \<Rightarrow> Some (at, at))"
| "FindStringIndex r (c # s) at =
     (case rests r (c # s) of
        [] \<Rightarrow> FindStringIndex r s (Suc at)
      | t # _ \<Rightarrow> Some (at, at + (Suc (length s) - length t)))"

definition MatchString :: "rx \<Rightarrow> string \<Rightarrow> bool" where
  "MatchString r s \<longleftrightarrow> FindStringIndex r s 0 \<noteq> None"

lemma star_rests_suffix: "t \<in> set (star_rests P s) \<Longrightarrow> \<exists>m. s = m @ t"
proof (induction P s rule: star_rests.induct)
  case (2 P c s)
  show ?case
  proof (cases "t = c # s")
    case True
    then show ?thesis by (intro exI [of _ "[]"]) simp
  next
    case False
    with 2 obtain m where "s = m @ t" by (auto split: if_splits)
    then show ?thesis by (intro exI [of _ "c # m"]) simp
  qed
qed simp

lemma rests_suffix: "t \<in> set (rests r s) \<Longrightarrow> \<exists>m. s = m @ t"
proof (induction r arbitrary: s t)
  case (Cat a b)
  then show ?case by fastforce
next
  case (Star P)
  then show ?case by (auto dest: star_rests_suffix)
qed (auto split: list.splits if_splits)

lemma FindStringIndex_bounds:
  "FindStringIndex r s at = Some (a, b) \<Longrightarrow> at \<le> a \<and> a \<le> b \<and> b \<le> at + length s"
proof (induction r s at rule: FindStringIndex.induct)
  case (2 r c s at)
  show ?case
  proof (cases "rests r (c # s)")
    case Nil
    with 2 show ?thesis by fastforce
  next
    case (Cons t ts)
    with rests_suffix [of t r "c # s"] have "length t \<le> Suc (length s)"
      by (metis append_Cons length_append length_Cons le_add2 list.set_intros(1))
    with Cons 2 show ?thesis by auto
  qed
qed (auto split: list.splits)

lemma runes_codes_encode_append:
  "valid_rune r \<Longrightarrow> runes_codes (map code (encode_rune r) @ s) = r # runes_codes s"
  using decode_encode_rune [of r s]
  by (subst runes_codes.simps) (simp del: decode_rune.simps)

lemma runes_of_encode_append:
  assumes "\<forall>r \<in> set rs. valid_rune r"
  shows "runes_of (concat (map encode_rune rs) @ s) = rs @ runes_of s"
  using assms by (induction rs) (simp_all add: runes_of_def runes_codes_encode_append)

lemma runes_of_ascii_Cons: "code c < 128 \<Longrightarrow> runes_of (c # s) = code c # runes_of s"
  by (simp add: runes_of_def runes_codes.simps [of "code c # map code s"])

section \<open>Valid UTF-8\<close>

definition utf8 :: "string \<Rightarrow> bool" where
  "utf8 s \<longleftrightarrow> (\<exists>rs. s = concat (map encode_rune rs) \<and> (\<forall>r \<in> set rs. valid_rune r))"

lemma utf8_runes: "utf8 s \<Longrightarrow> concat (map encode_rune (runes_of s)) = s"
  by (auto simp: utf8_def runes_of_encode)

lemma utf8_ascii: "list_all (\<lambda>c. code c < 128) s \<Longrightarrow> utf8 s"
  unfolding utf8_def
  by (rule exI [of _ "map code s"])
     (induction s, auto simp: encode_rune_def valid_rune_def)

lemma utf8_cat: "utf8 s \<Longrightarrow> runes_of (s @ t) = runes_of s @ runes_of t"
  by (auto simp: utf8_def runes_of_encode runes_of_encode_append)

end
