(* ===== verification/ChatJson.thy ===== *)
theory ChatJson
  imports GoText
begin

text \<open>
  src/utils/chat.go: formatting codes (the section sign and a letter) become chat JSON with links.
  src/packets/chat_format.go: the color constants and \<^verbatim>\<open>Chatf\<close>.  Also what \<^verbatim>\<open>encoding/json\<close> writes for
  the chat types.
\<close>

section \<open>JSON strings\<close>

text \<open>
  A rune inside a string as \<^verbatim>\<open>encoding/json\<close> writes it, with the characters of HTML escaped.  Invalid
  bytes have become \<open>RuneError\<close>, which is written as an escape too.
\<close>

definition hex4 :: "nat \<Rightarrow> string" where
  "hex4 n = map (\<lambda>k. let d = n div 16 ^ k mod 16 in chr (if d < 10 then 48 + d else 87 + d)) [3, 2, 1, 0]"

definition json_rune :: "nat \<times> string \<Rightarrow> string" where
  "json_rune p =
     (case p of (r, bs) \<Rightarrow>
        if r = 34 \<or> r = 92 then chr 92 # bs
        else if r = 10 then [chr 92, CHR ''n'']
        else if r = 13 then [chr 92, CHR ''r'']
        else if r = 9 then [chr 92, CHR ''t'']
        else if r < 32 \<or> r = 60 \<or> r = 62 \<or> r = 38 \<or> r = 8232 \<or> r = 8233 \<or> (r = RuneError \<and> length bs = 1)
        then chr 92 # CHR ''u'' # hex4 r
        else bs)"

definition json_string :: "string \<Rightarrow> string" where
  "json_string s = chr 34 # concat (map json_rune (pieces s)) @ [chr 34]"

text \<open>\<^verbatim>\<open>json.Marshal\<close> of a struct: its fields in order, those with \<^verbatim>\<open>omitempty\<close> only when set.\<close>

definition json_field :: "string \<Rightarrow> string \<Rightarrow> string" where
  "json_field name value = json_string name @ '':'' @ value"

definition json_object :: "string list \<Rightarrow> string" where
  "json_object fields = ''{'' @ Join fields '','' @ ''}''"

definition json_array :: "string list \<Rightarrow> string" where
  "json_array xs = ''['' @ Join xs '','' @ '']''"

section \<open>Chat parts\<close>

record style =
  st_Color :: string
  st_Bold :: bool
  st_Italic :: bool
  st_Underlined :: bool
  st_Strikethrough :: bool
  st_Obfuscated :: bool

text \<open>
  \<^verbatim>\<open>ChatPart\<close>; \<^verbatim>\<open>Extra\<close> and \<^verbatim>\<open>HoverEvent\<close>, which \<open>Para2Json\<close> leaves nil, are not written.  A
  \<^verbatim>\<open>ChatAction\<close> is the pair of its action and its value.
\<close>

record ChatPart =
  cp_Text :: string
  cp_Style :: style
  cp_ClickEvent :: "(string \<times> string) option"

definition json_ChatAction :: "string \<times> string \<Rightarrow> string" where
  "json_ChatAction a = json_object
     [json_field ''action'' (json_string (fst a)), json_field ''value'' (json_string (snd a))]"

definition json_flag :: "string \<Rightarrow> bool \<Rightarrow> string list" where
  "json_flag name b = (if b then [json_field name ''true''] else [])"

definition json_ChatPart :: "ChatPart \<Rightarrow> string" where
  "json_ChatPart p =
     (let st = cp_Style p in
      json_object
        ([json_field ''text'' (json_string (cp_Text p))] @
         (if st_Color st \<noteq> '''' then [json_field ''color'' (json_string (st_Color st))] else []) @
         json_flag ''bold'' (st_Bold st) @ json_flag ''italic'' (st_Italic st) @
         json_flag ''underlined'' (st_Underlined st) @ json_flag ''strikethrough'' (st_Strikethrough st) @
         json_flag ''obfuscated'' (st_Obfuscated st) @
         (case cp_ClickEvent p of None \<Rightarrow> [] | Some a \<Rightarrow> [json_field ''clickEvent'' (json_ChatAction a)])))"

section \<open>Links\<close>

definition is_lower :: "char \<Rightarrow> bool" where "is_lower c \<longleftrightarrow> 97 \<le> code c \<and> code c \<le> 122"
definition is_alpha :: "char \<Rightarrow> bool" where "is_alpha c \<longleftrightarrow> is_lower c \<or> 65 \<le> code c \<and> code c \<le> 90"

definition is_host :: "char \<Rightarrow> bool" where
  "is_host c \<longleftrightarrow> is_alpha c \<or> is_digit c \<or> c = CHR ''-'' \<or> c = CHR ''.''"

definition not_space :: "char \<Rightarrow> bool" where
  "not_space c \<longleftrightarrow> code c \<notin> {9, 10, 12, 13, 32}"

definition http_prefix_expr :: rx where
  "http_prefix_expr = Cat (rx_string ''http'') (Cat (Opt (Class (\<lambda>c. c = CHR ''s''))) (rx_string ''://''))"

definition URL_EXPR :: rx where
  "URL_EXPR =
     Cat (Opt http_prefix_expr)
       (Cat (Plus is_host) (Cat (Class (\<lambda>c. c = CHR ''.''))
         (Cat (Class is_alpha) (Cat (Class is_alpha) (Cat (Opt (Class is_alpha))
           (Opt (Cat (Class (\<lambda>c. c = CHR ''/'')) (Star not_space))))))))"

section \<open>Para2Json\<close>

definition section_sign :: nat where "section_sign = 167"

text \<open>The parts for the buffered text, in the style so far: at most one link, the text before and after it.\<close>

definition flush_buf :: "style \<Rightarrow> string \<Rightarrow> ChatPart list" where
  "flush_buf st buf =
     (let part = (\<lambda>t click. \<lparr>cp_Text = t, cp_Style = st, cp_ClickEvent = click\<rparr>) in
      case (case FindStringIndex URL_EXPR buf 0 of
              None \<Rightarrow> ([], buf)
            | Some (a, b) \<Rightarrow>
                let shown = take (b - a) (drop a buf);
                    url = (if MatchString http_prefix_expr shown then shown else ''http://'' @ shown)
                in ((if take a buf \<noteq> '''' then [part (take a buf) None] else []) @
                    [part shown (Some (''open_url'', url))], drop b buf)) of
        (ps, rest) \<Rightarrow> ps @ (if rest \<noteq> '''' then [part rest None] else []))"

definition new_color :: "nat \<Rightarrow> string \<Rightarrow> string" where
  "new_color mode color =
     (if mode = 48 then ''black''
      else if mode = 49 then ''dark_blue''
      else if mode = 50 then ''dark_green''
      else if mode = 51 then ''dark_aqua''
      else if mode = 52 then ''dark_red''
      else if mode = 53 then ''dark_purple''
      else if mode = 54 then ''gold''
      else if mode = 55 then ''gray''
      else if mode = 56 then ''dark_gray''
      else if mode = 57 then ''blue''
      else if mode = 97 \<or> mode = 65 then ''green''
      else if mode = 98 \<or> mode = 66 then ''aqua''
      else if mode = 99 \<or> mode = 67 then ''red''
      else if mode = 100 \<or> mode = 68 then ''light_purple''
      else if mode = 101 \<or> mode = 69 then ''yellow''
      else if mode = 102 \<or> mode = 70 then ''white''
      else if mode = 114 \<or> mode = 82 then (if color \<noteq> ''white'' \<and> color \<noteq> '''' then ''white'' else color)
      else color)"

text \<open>What the rune after a section sign does to the style.  The code for obfuscated text is not known.\<close>

definition apply_mode :: "nat \<Rightarrow> style \<Rightarrow> style" where
  "apply_mode mode st =
     (if mode = 123 then st
      else if mode = 108 \<or> mode = 76 then st\<lparr>st_Bold := True\<rparr>
      else if mode = 109 \<or> mode = 77 then st\<lparr>st_Strikethrough := True\<rparr>
      else if mode = 110 \<or> mode = 78 then st\<lparr>st_Underlined := True\<rparr>
      else if mode = 111 \<or> mode = 79 then st\<lparr>st_Italic := True\<rparr>
      else st\<lparr>st_Bold := False, st_Strikethrough := False, st_Underlined := False, st_Italic := False,
              st_Color := new_color mode (st_Color st)\<rparr>)"

text \<open>The loop over the reader; a section sign at the very end is followed by an assumed \<^verbatim>\<open>r\<close>.\<close>

fun para_loop :: "nat list \<Rightarrow> style \<Rightarrow> string \<Rightarrow> ChatPart list \<Rightarrow> ChatPart list" where
  "para_loop [] st buf parts = parts"
| "para_loop [c] st buf parts = (if c \<noteq> section_sign then parts else parts @ flush_buf st buf)"
| "para_loop (c # mode # rest) st buf parts =
     (if c \<noteq> section_sign then para_loop (mode # rest) st (buf @ encode_rune c) parts
      else para_loop rest (apply_mode mode st) '''' (parts @ flush_buf st buf))"

definition plain :: style where
  "plain = \<lparr>st_Color = '''', st_Bold = False, st_Italic = False, st_Underlined = False,
            st_Strikethrough = False, st_Obfuscated = False\<rparr>"

definition section_r :: string where
  "section_r = encode_rune section_sign @ ''r''"

definition para_parts :: "string \<Rightarrow> ChatPart list" where
  "para_parts text = para_loop (runes_of (text @ section_r)) plain '''' []"

text \<open>\<^verbatim>\<open>json.Marshal\<close> of these values has no error; a nil slice is written as \<^verbatim>\<open>null\<close>.\<close>

definition Para2Json :: "string \<Rightarrow> string" where
  "Para2Json text =
     (case para_parts text of
        [] \<Rightarrow> ''null''
      | [p] \<Rightarrow> json_ChatPart p
      | ps \<Rightarrow> json_array (map json_ChatPart ps))"

section \<open>What is shown\<close>

text \<open>The characters of a formatted text, each with its style, without any buffering or links.\<close>

fun styled :: "nat list \<Rightarrow> style \<Rightarrow> (char \<times> style) list" where
  "styled [] st = []"
| "styled [c] st = (if c \<noteq> section_sign then map (\<lambda>b. (b, st)) (encode_rune c) else [])"
| "styled (c # mode # rest) st =
     (if c \<noteq> section_sign then map (\<lambda>b. (b, st)) (encode_rune c) @ styled (mode # rest) st
      else styled rest (apply_mode mode st))"

definition shown_chars :: "ChatPart list \<Rightarrow> (char \<times> style) list" where
  "shown_chars ps = concat (map (\<lambda>p. map (\<lambda>b. (b, cp_Style p)) (cp_Text p)) ps)"

lemma shown_chars_append [simp]: "shown_chars (ps @ qs) = shown_chars ps @ shown_chars qs"
  by (simp add: shown_chars_def)

lemma shown_flush_buf: "shown_chars (flush_buf st buf) = map (\<lambda>b. (b, st)) buf"
proof (cases "FindStringIndex URL_EXPR buf 0")
  case None
  then show ?thesis by (simp add: flush_buf_def shown_chars_def)
next
  case (Some ab)
  obtain a b where ab: "ab = (a, b)" by fastforce
  with Some FindStringIndex_bounds [of URL_EXPR buf 0 a b] have "a \<le> b" "b \<le> length buf" by auto
  then have "buf = take a buf @ take (b - a) (drop a buf) @ drop b buf"
    by (metis append_take_drop_id drop_drop le_add_diff_inverse2)
  then have "map (\<lambda>b. (b, st)) buf = map (\<lambda>b. (b, st)) (take a buf)
      @ map (\<lambda>b. (b, st)) (take (b - a) (drop a buf)) @ map (\<lambda>b. (b, st)) (drop b buf)"
    by (metis map_append)
  with Some ab show ?thesis
    by (auto simp: flush_buf_def shown_chars_def Let_def simp del: take_map drop_map)
qed

text \<open>
  The appended reset flushes the last buffer.  After a lone section sign at the end of the text, the
  appended section sign is taken as its mode and the letter is never flushed.
\<close>

lemma para_loop_shown:
  "shown_chars (para_loop (rs @ [section_sign, 114]) st buf parts)
   = shown_chars parts @ map (\<lambda>b. (b, st)) buf @ styled rs st"
proof (induction rs st arbitrary: buf parts rule: styled.induct)
  case (1 st)
  then show ?case by (simp add: shown_flush_buf)
next
  case (2 c st)
  then show ?case by (simp add: shown_flush_buf section_sign_def)
next
  case (3 c mode rest st)
  then show ?case by (simp add: shown_flush_buf)
qed

lemma chr_r: "chr 114 = CHR ''r''"
  by code_simp

lemma runes_of_section_r: "runes_of section_r = [section_sign, 114]"
  using runes_of_encode [of "[section_sign, 114]"]
  by (simp add: section_r_def section_sign_def valid_rune_def encode_rune_def [of 114] chr_r)

lemma shown_para_parts: "shown_chars (para_parts text) = styled (runes_of text) plain"
proof -
  have "\<not> is_cont (code (hd section_r))"
    by (simp add: section_r_def section_sign_def encode_rune_def valid_rune_def is_cont_def)
  then show ?thesis
    by (simp add: para_parts_def runes_of_append runes_of_section_r para_loop_shown shown_chars_def [of "[]"])
qed

section \<open>The property\<close>

text \<open>C27: The parts that are made of a text show exactly its characters without the formatting codes, none
  lost and none added, each in the style of the codes before it; links are marked within.\<close>

theorem para2json_shows:
  "shown_chars (para_parts msg) = styled (runes_of msg) plain"
  by (rule shown_para_parts)

end
