(* ===== verification/World.thy ===== *)
theory World
  imports HandlerState PlayerMgr ChatJson
begin

text \<open>
  The handlers of all players, as the filters and their commands see them: handler.go and playermgr.go
  seen from another player's goroutine.  A filter runs for the handler \<open>i\<close>; through the player manager
  it reaches the others, and talks to them by putting packets into their command channels.
  \<open>wo_upstreams\<close> is \<^verbatim>\<open>UpstreamServerMap\<close>: the names of the servers and their addresses, in the order in
  which Go visits the map.
\<close>

section \<open>Handlers and players\<close>

record ('i, 'n) world =
  wo_handlers :: "'i \<Rightarrow> 'n Handler"
  wo_players :: "'i PlayerManager"
  wo_upstreams :: "(string \<times> string) list"

definition on_handler :: "'i \<Rightarrow> ('n Handler \<Rightarrow> 'n Handler) \<Rightarrow> ('i, 'n) world \<Rightarrow> ('i, 'n) world" where
  "on_handler i f w = w\<lparr>wo_handlers := (wo_handlers w)(i := f (wo_handlers w i))\<rparr>"

text \<open>\<^verbatim>\<open>InjectPackets\<close> on the handler \<open>i\<close>.\<close>

definition inject_to ::
    "direction \<Rightarrow> gerr option \<Rightarrow> 'n packet list \<Rightarrow> 'i \<Rightarrow> ('i, 'n) world \<Rightarrow> gerr option \<times> ('i, 'n) world" where
  "inject_to d raise payload i w =
     (fst (InjectPackets d raise payload (wo_handlers w i)),
      on_handler i (snd \<circ> InjectPackets d raise payload) w)"

text \<open>A chat message in the old formatting; position 1 is a system message.\<close>

definition chat_packet :: "string \<Rightarrow> byte \<Rightarrow> 'n packet" where
  "chat_packet msg position =
     P_ChatMessagePacketCB \<lparr>cmc_Message = Para2Json msg, cmc_Position = position, cmc_Sender = nil_UUID\<rparr>"

definition SendChatMessage :: "'i \<Rightarrow> string \<Rightarrow> ('i, 'n) world \<Rightarrow> ('i, 'n) world" where
  "SendChatMessage i msg w = snd (inject_to ClientBound None [chat_packet msg 1] i w)"

text \<open>The players in the order in which \<^verbatim>\<open>Range\<close> visits the keys.\<close>

definition players :: "string list \<Rightarrow> ('i, 'n) world \<Rightarrow> 'i list" where
  "players keys w = Range keys (wo_players w)"

definition Broadcast :: "string list \<Rightarrow> string \<Rightarrow> string \<Rightarrow> ('i, 'n) world \<Rightarrow> ('i, 'n) world" where
  "Broadcast keys perm msg w =
     fold (\<lambda>i w. if perm = '''' \<or> HasPermission (wo_handlers w i) perm then SendChatMessage i msg w else w)
       (players keys w) w"

abbreviation may :: "('i, 'n) world \<Rightarrow> 'i \<Rightarrow> string \<Rightarrow> bool" where
  "may w i perm \<equiv> HasPermission (wo_handlers w i) perm"

abbreviation nick :: "('i, 'n) world \<Rightarrow> 'i \<Rightarrow> string" where
  "nick w i \<equiv> h_Nickname (wo_handlers w i)"

text \<open>The color constants: the section sign and a letter.\<close>

definition color :: "char \<Rightarrow> string" where
  "color c = encode_rune section_sign @ [c]"

definition COLOR_RED :: string where "COLOR_RED = color (CHR ''c'')"
definition COLOR_GREEN :: string where "COLOR_GREEN = color (CHR ''a'')"
definition COLOR_GRAY :: string where "COLOR_GRAY = color (CHR ''7'')"
definition COLOR_GOLD :: string where "COLOR_GOLD = color (CHR ''6'')"
definition COLOR_AQUA :: string where "COLOR_AQUA = color (CHR ''b'')"
definition COLOR_WHITE :: string where "COLOR_WHITE = color (CHR ''f'')"
definition COLOR_DARK_BLUE :: string where "COLOR_DARK_BLUE = color (CHR ''1'')"

definition INSUFFICIENT_PERMS :: string where
  "INSUFFICIENT_PERMS = COLOR_RED @ ''Insufficient permissions!''"

section \<open>Only queues change\<close>

text \<open>
  Putting packets into a queue leaves everything else of a handler alone, and either appends one
  command or, when the channel is full, does nothing.
\<close>

definition queued :: "'n command list \<Rightarrow> 'n Handler \<Rightarrow> 'n Handler" where
  "queued cs h = h\<lparr>h_commandChan := h_commandChan h @ take (commandChan_size - length (h_commandChan h)) cs\<rparr>"

definition send_command :: "direction \<Rightarrow> gerr option \<Rightarrow> 'n packet list \<Rightarrow> 'n command" where
  "send_command d raise payload = InjectPacketCommand d (if payload = [] then None else Some payload) raise"

lemma queued_Nil [simp]: "queued [] h = h"
  by (simp add: queued_def)

lemma queued_queued [simp]: "queued ds (queued cs h) = queued (cs @ ds) h"
proof (cases "length cs \<le> commandChan_size - length (h_commandChan h)")
  case True
  then show ?thesis by (simp add: queued_def diff_diff_left)
next
  case False
  then show ?thesis by (simp add: queued_def)
qed

lemma InjectPackets_queued: "snd (InjectPackets d raise payload h) = queued [send_command d raise payload] h"
  by (auto simp: InjectPackets_def queued_def send_command_def Let_def take_Cons')

lemma PushCommand_queued: "snd (PushCommand c h) = queued [c] h"
  by (auto simp: PushCommand_def queued_def take_Cons')

text \<open>A handler that differs from another at most in its queue.\<close>

lemma queued_keeps [simp]:
  "h_Nickname (queued cs h) = h_Nickname h" "h_UUID (queued cs h) = h_UUID h"
  "h_UpstreamName (queued cs h) = h_UpstreamName h" "h_Permissions (queued cs h) = h_Permissions h"
  "h_DownstreamAddr (queued cs h) = h_DownstreamAddr h"
  "h_hasAuthenticator (queued cs h) = h_hasAuthenticator h" "HasPermission (queued cs h) = HasPermission h"
  by (simp_all add: queued_def HasPermission_def fun_eq_iff)

definition sent :: "'i \<Rightarrow> 'n command list \<Rightarrow> ('i, 'n) world \<Rightarrow> ('i, 'n) world" where
  "sent i cs w = on_handler i (queued cs) w"

definition says :: "string \<Rightarrow> 'n command" where
  "says msg = send_command ClientBound None [chat_packet msg 1]"

lemma inject_to_sent: "snd (inject_to d raise payload i w) = sent i [send_command d raise payload] w"
  by (simp add: inject_to_def sent_def on_handler_def InjectPackets_queued)

lemma SendChatMessage_sent: "SendChatMessage i msg w = sent i [says msg] w"
  by (simp add: SendChatMessage_def inject_to_sent says_def)

lemma sent_Nil [simp]: "sent i [] w = w"
  by (simp add: sent_def on_handler_def)

lemma sent_sent [simp]: "sent i ds (sent i cs w) = sent i (cs @ ds) w"
  by (simp add: sent_def on_handler_def)

lemma players_sent [simp]: "players keys (sent i cs w) = players keys w"
  by (simp add: players_def sent_def on_handler_def)

lemma wo_players_sent [simp]:
  "wo_players (sent i cs w) = wo_players w" "wo_upstreams (sent i cs w) = wo_upstreams w"
  by (simp_all add: sent_def on_handler_def)

lemma handler_sent: "wo_handlers (sent i cs w) j = (if j = i then queued cs (wo_handlers w j) else wo_handlers w j)"
  by (simp add: sent_def on_handler_def)

lemma sent_keeps [simp]:
  "HasPermission (wo_handlers (sent i cs w) j) = HasPermission (wo_handlers w j)"
  "h_Nickname (wo_handlers (sent i cs w) j) = h_Nickname (wo_handlers w j)"
  "h_UpstreamName (wo_handlers (sent i cs w) j) = h_UpstreamName (wo_handlers w j)"
  "h_hasAuthenticator (wo_handlers (sent i cs w) j) = h_hasAuthenticator (wo_handlers w j)"
  by (simp_all add: handler_sent)

section \<open>One command to many players\<close>

text \<open>Every player of the list gets the commands that \<open>f\<close> has for it.\<close>

definition sent_all :: "'i list \<Rightarrow> ('i \<Rightarrow> 'n command list) \<Rightarrow> ('i, 'n) world \<Rightarrow> ('i, 'n) world" where
  "sent_all is f w = fold (\<lambda>i. sent i (f i)) is w"

lemma sent_all_keeps [simp]:
  "HasPermission (wo_handlers (sent_all is f w) j) = HasPermission (wo_handlers w j)"
  "h_Nickname (wo_handlers (sent_all is f w) j) = h_Nickname (wo_handlers w j)"
  "wo_players (sent_all is f w) = wo_players w" "wo_upstreams (sent_all is f w) = wo_upstreams w"
  by (induction "is" arbitrary: w) (simp_all add: sent_all_def)

lemma handler_sent_all:
  "distinct is \<Longrightarrow> wo_handlers (sent_all is f w) j
   = (if j \<in> set is then queued (f j) (wo_handlers w j) else wo_handlers w j)"
  by (induction "is" arbitrary: w) (auto simp: sent_all_def handler_sent)

text \<open>Worlds that differ at most in what the queues hold.\<close>

definition alike :: "('i, 'n) world \<Rightarrow> ('i, 'n) world \<Rightarrow> bool" where
  "alike w w' \<longleftrightarrow> wo_players w' = wo_players w \<and> (\<forall>j. \<exists>cs. wo_handlers w' j = queued cs (wo_handlers w j))"

lemma alike_refl [simp]: "alike w w"
  unfolding alike_def by (metis queued_Nil)

lemma alike_sent: "alike w w' \<Longrightarrow> alike w (sent i cs w')"
  unfolding alike_def by (metis handler_sent queued_queued wo_players_sent(1))

lemma alikeD:
  assumes "alike w w'"
  shows "wo_players w' = wo_players w" "players keys w' = players keys w"
    "HasPermission (wo_handlers w' j) = HasPermission (wo_handlers w j)"
    "h_Nickname (wo_handlers w' j) = h_Nickname (wo_handlers w j)"
    "h_UpstreamName (wo_handlers w' j) = h_UpstreamName (wo_handlers w j)"
    "h_hasAuthenticator (wo_handlers w' j) = h_hasAuthenticator (wo_handlers w j)"
proof -
  from assms obtain cs where "wo_handlers w' j = queued cs (wo_handlers w j)" "wo_players w' = wo_players w"
    unfolding alike_def by blast
  then show "wo_players w' = wo_players w" "players keys w' = players keys w"
    "HasPermission (wo_handlers w' j) = HasPermission (wo_handlers w j)"
    "h_Nickname (wo_handlers w' j) = h_Nickname (wo_handlers w j)"
    "h_UpstreamName (wo_handlers w' j) = h_UpstreamName (wo_handlers w j)"
    "h_hasAuthenticator (wo_handlers w' j) = h_hasAuthenticator (wo_handlers w j)"
    by (simp_all add: players_def)
qed

text \<open>A loop over players whose body sends what does not depend on queues.\<close>

lemma fold_sent_all:
  assumes "\<And>i w'. alike w w' \<Longrightarrow> g i w' = sent i (f i) w'"
  shows "fold g is w = sent_all is f w"
proof -
  have "alike w w' \<Longrightarrow> fold g is w' = fold (\<lambda>i. sent i (f i)) is w'" for w'
    by (induction "is" arbitrary: w') (simp_all add: assms alike_sent)
  then show ?thesis by (simp add: sent_all_def)
qed

lemma Broadcast_sent:
  "Broadcast keys perm msg w
   = sent_all (players keys w) (\<lambda>i. if perm = '''' \<or> may w i perm then [says msg] else []) w"
  unfolding Broadcast_def
  by (rule fold_sent_all) (simp add: SendChatMessage_sent alikeD)

section \<open>A sample\<close>

text \<open>Two players on one server, without any capability.\<close>

definition sample_handler :: "string \<Rightarrow> 'n Handler" where
  "sample_handler name = (NewHandler [] EOF \<lparr>od_written = [], od_plan = [], od_flushed = 0, od_flush_plan = []\<rparr> ''1.2.3.4'' False)
     \<lparr>h_Nickname := name, h_UpstreamName := ''lobby''\<rparr>"

definition sample_world :: "(bool, unit) world" where
  "sample_world =
     \<lparr>wo_handlers = (\<lambda>b. sample_handler (if b then ''Bob'' else ''Ann'')),
      wo_players = \<lparr>pm_m = [''bob'' \<mapsto> True, ''ann'' \<mapsto> False], pm_count = 2\<rparr>,
      wo_upstreams = [(''lobby'', ''1.1.1.1:1'')]\<rparr>"

lemma sample_handler_sel [simp]:
  "h_Nickname (sample_handler s) = s" "h_UpstreamName (sample_handler s) = ''lobby''"
  "h_commandChan (sample_handler s) = []" "HasPermission (sample_handler s) p = False"
  by (simp_all add: sample_handler_def NewHandler_def HasPermission_def)

end
