(* ===== verification/Permissions.thy ===== *)
theory Permissions
  imports GoStrings "HOL-Library.Char_ord" "HOL-Library.List_Lexorder"
begin

text \<open>
  src/filters/permissions/permset.go and permissions.go.  A permission set maps capabilities to
  booleans; a capability without an entry inherits the value of the next shorter dotted prefix.  Go
  visits a map in any order: \<open>ord\<close> gives the order of the keys, and the theorems hold for every one.
\<close>

section \<open>Permission sets\<close>

type_synonym PermSet = "string \<rightharpoonup> bool"

type_synonym key_order = "PermSet \<Rightarrow> string list"

function PermSet_HasPermission :: "PermSet \<Rightarrow> string \<Rightarrow> bool" where
  "PermSet_HasPermission ps perm =
     (case ps perm of
        Some v \<Rightarrow> v
      | None \<Rightarrow>
          (let li = LastIndex perm (CHR ''.'')
           in if li < 0 then False else PermSet_HasPermission ps (take (nat li) perm)))"
  by pat_completeness auto
termination
  by (relation "measure (length \<circ> snd)") (use LastIndex_bounds in \<open>auto simp: nat_less_iff\<close>)

declare PermSet_HasPermission.simps [simp del]

definition PermSet_SetPermission :: "string \<Rightarrow> bool \<Rightarrow> PermSet \<Rightarrow> PermSet" where
  "PermSet_SetPermission perm value ps = ps(perm \<mapsto> value)"

fun Apply_entries :: "(string \<times> bool) list \<Rightarrow> string \<Rightarrow> bool \<Rightarrow> PermSet \<Rightarrow> gerr option \<times> PermSet" where
  "Apply_entries [] root override ps = (None, ps)"
| "Apply_entries ((k, v) # es) root override ps =
     (if \<not> HasPrefix k (root @ ''.'') \<and> k \<noteq> root \<and> root \<noteq> '''' then
        (Some (Errorf ''Capability %s outside of root %s!'' [GStr k, GStr root]), ps)
      else if \<not> override \<and> ps k = Some (\<not> v) then
        (Some (Errorf ''Conflict on %s capability! %t != %t''
           [GStr k, GInt (of_bool (\<not> v)), GInt (of_bool v)]), ps)
      else Apply_entries es root override (ps(k \<mapsto> v)))"

definition entries :: "key_order \<Rightarrow> PermSet \<Rightarrow> (string \<times> bool) list" where
  "entries ord perms = map (\<lambda>k. (k, the (perms k))) (ord perms)"

definition Apply :: "key_order \<Rightarrow> PermSet \<Rightarrow> string \<Rightarrow> bool \<Rightarrow> PermSet \<Rightarrow> gerr option \<times> PermSet" where
  "Apply ord perms root override ps = Apply_entries (entries ord perms) root override ps"

section \<open>Groups and users\<close>

text \<open>
  A decoded YAML file is the error of \<^verbatim>\<open>loadAndUnmarshalYaml\<close> and the entries of the map that it filled.
\<close>

record perm_state =
  Groups :: "string \<rightharpoonup> PermSet"
  Users :: "string \<rightharpoonup> PermSet"

type_synonym 'a yaml = "gerr option \<times> (string \<times> 'a) list"

text \<open>\<^verbatim>\<open>%s\<close> of an error that may be nil.\<close>

definition err_arg :: "gerr option \<Rightarrow> garg" where
  "err_arg err = (case err of None \<Rightarrow> GStr ''%!s(<nil>)'' | Some e \<Rightarrow> GErr e)"

text \<open>\<^verbatim>\<open>loadAndUnmarshalYaml\<close>: opening the file, then decoding it; the errors name perm_users.yml for both files.\<close>

definition loadAndUnmarshalYaml :: "gerr + 'a yaml \<Rightarrow> 'a yaml" where
  "loadAndUnmarshalYaml file =
     (case file of
        Inl e \<Rightarrow> (Some (Errorf ''Error while reading perm_users.yml: %s'' [GErr e]), [])
      | Inr (Some e, m) \<Rightarrow> (Some (Errorf ''Error while parsing perm_users.yml: %s'' [GErr e]), m)
      | Inr (None, m) \<Rightarrow> (None, m))"

fun apply_groups ::
    "key_order \<Rightarrow> (string \<rightharpoonup> PermSet) \<Rightarrow> string \<Rightarrow> string list \<Rightarrow> PermSet \<Rightarrow> gerr + PermSet" where
  "apply_groups ord groups nickname [] u = Inr u"
| "apply_groups ord groups nickname (g # gs) u =
     (case groups g of
        None \<Rightarrow> Inl (Errorf ''Group %s not found for user %s!'' [GStr g, GStr nickname])
      | Some perms \<Rightarrow>
          (case Apply ord perms '''' True u of
             (Some e, _) \<Rightarrow> Inl (Errorf ''Error applying %s for user %s: %s'' [GStr g, GStr nickname, GErr e])
           | (None, u') \<Rightarrow> apply_groups ord groups nickname gs u'))"

fun user_sets ::
    "key_order \<Rightarrow> (nat \<Rightarrow> nat) \<Rightarrow> (string \<rightharpoonup> PermSet) \<Rightarrow> (string \<times> string list) list \<Rightarrow>
     (string \<rightharpoonup> PermSet) \<Rightarrow> gerr + (string \<rightharpoonup> PermSet)" where
  "user_sets ord tbl groups [] users = Inr users"
| "user_sets ord tbl groups ((nickname, grps) # rest) users =
     (case apply_groups ord groups nickname grps Map.empty of
        Inl e \<Rightarrow> Inl e
      | Inr u \<Rightarrow> user_sets ord tbl groups rest (users(ToLower tbl nickname \<mapsto> u)))"

definition LoadPermissions ::
    "key_order \<Rightarrow> (nat \<Rightarrow> nat) \<Rightarrow> gerr + PermSet yaml \<Rightarrow> gerr + string list yaml \<Rightarrow>
     perm_state \<Rightarrow> gerr option \<times> perm_state" where
  "LoadPermissions ord tbl groups_file users_file st =
     (case loadAndUnmarshalYaml groups_file of (err, tmp_groups) \<Rightarrow>
        if err \<noteq> None \<or> tmp_groups = [] then
          (Some (Errorf ''Error loading perm_groups.yml: %s'' [err_arg err]), st)
        else
          (case loadAndUnmarshalYaml users_file of (err, user_groups) \<Rightarrow>
             if err \<noteq> None \<or> user_groups = [] then
               (Some (Errorf ''Error loading perm_users.yml: %s'' [err_arg err]), st)
             else
               (case user_sets ord tbl (map_of tmp_groups) user_groups Map.empty of
                  Inl e \<Rightarrow> (Some e, st)
                | Inr tmp_users \<Rightarrow> (None, \<lparr>Groups = map_of tmp_groups, Users = tmp_users\<rparr>))))"

text \<open>A missing group or user is a nil map, over which \<^verbatim>\<open>Apply\<close> does nothing.\<close>

definition GetPlayerPermissions :: "key_order \<Rightarrow> (nat \<Rightarrow> nat) \<Rightarrow> perm_state \<Rightarrow> string \<Rightarrow> PermSet" where
  "GetPlayerPermissions ord tbl st nickname =
     (let at = (\<lambda>m k. case m k of None \<Rightarrow> Map.empty | Some ps \<Rightarrow> ps);
          ps1 = snd (Apply ord (at (Groups st) ''default'') '''' True Map.empty)
      in snd (Apply ord (at (Users st) (ToLower tbl nickname)) '''' True ps1))"

definition ApplyGroup ::
    "key_order \<Rightarrow> perm_state \<Rightarrow> string \<Rightarrow> bool \<Rightarrow> PermSet \<Rightarrow> gerr option \<times> PermSet" where
  "ApplyGroup ord st name override ps =
     (case Groups st name of
        None \<Rightarrow> (Some (Errorf ''Unkown permissions group: %s'' [GStr name]), ps)
      | Some g \<Rightarrow> Apply ord g '''' override ps)"

section \<open>Inheritance\<close>

text \<open>The capabilities that decide about a capability: itself, then its dotted prefixes, longest first.\<close>

definition levels :: "string \<Rightarrow> string list" where
  "levels perm =
     (let ws = Split (CHR ''.'') perm
      in map (\<lambda>k. Join (take k ws) ''.'') (rev [1..<Suc (length ws)]))"

definition inherited :: "PermSet \<Rightarrow> string list \<Rightarrow> bool" where
  "inherited ps ps_levels =
     (case find (\<lambda>p. ps p \<noteq> None) ps_levels of None \<Rightarrow> False | Some p \<Rightarrow> ps p = Some True)"

lemma Split_snoc: "c \<notin> set t \<Longrightarrow> Split c (q @ c # t) = Split c q @ [t]"
  by (induction q) (auto simp: Split_no_sep split: list.split)

lemma levels_no_dot: "CHR ''.'' \<notin> set perm \<Longrightarrow> levels perm = [perm]"
  by (simp add: levels_def Split_no_sep)

lemma levels_dot:
  assumes "CHR ''.'' \<notin> set t"
  shows "levels (q @ CHR ''.'' # t) = (q @ CHR ''.'' # t) # levels q"
proof -
  let ?ws = "Split (CHR ''.'') q"
  have whole: "Join (?ws @ [t]) ''.'' = q @ CHR ''.'' # t"
    using Join_Split [of "CHR ''.''" "q @ CHR ''.'' # t"] assms by (simp add: Split_snoc)
  have "map (\<lambda>k. Join (take k (?ws @ [t])) ''.'') (rev [1..<Suc (length ?ws)])
      = map (\<lambda>k. Join (take k ?ws) ''.'') (rev [1..<Suc (length ?ws)])"
    by (rule map_cong) auto
  with whole show ?thesis
    by (simp add: levels_def Split_snoc assms Let_def)
qed

lemma last_dot:
  assumes "CHR ''.'' \<in> set perm"
  obtains q t where "perm = q @ CHR ''.'' # t" "CHR ''.'' \<notin> set t"
  using split_list_last [OF assms] by blast

lemma HasPermission_inherited: "PermSet_HasPermission ps perm = inherited ps (levels perm)"
proof (induction perm rule: length_induct)
  case (1 perm)
  show ?case
  proof (cases "CHR ''.'' \<in> set perm")
    case False
    then have "LastIndex perm (CHR ''.'') < 0" by (simp add: LastIndex_neg)
    with False show ?thesis
      by (simp add: PermSet_HasPermission.simps [of ps perm] levels_no_dot inherited_def split: option.split)
  next
    case True
    then obtain q t where p: "perm = q @ CHR ''.'' # t" "CHR ''.'' \<notin> set t" by (rule last_dot)
    with 1 have "PermSet_HasPermission ps q = inherited ps (levels q)" by simp
    with p(2) show ?thesis unfolding p(1)
      by (simp add: PermSet_HasPermission.simps [of ps "q @ CHR ''.'' # t"] LastIndex_append levels_dot
          inherited_def split: option.split)
  qed
qed

section \<open>Applying permission sets\<close>

text \<open>An order of the keys of a map is a list of them without repetition.\<close>

definition orders :: "key_order \<Rightarrow> bool" where
  "orders ord \<longleftrightarrow> (\<forall>m. finite (dom m) \<longrightarrow> distinct (ord m) \<and> set (ord m) = dom m)"

definition inside :: "string \<Rightarrow> string \<Rightarrow> bool" where
  "inside root k \<longleftrightarrow> HasPrefix k (root @ ''.'') \<or> k = root \<or> root = ''''"

definition compatible :: "PermSet \<Rightarrow> PermSet \<Rightarrow> bool" where
  "compatible perms ps \<longleftrightarrow> (\<forall>k v. perms k = Some v \<longrightarrow> ps k \<noteq> Some (\<not> v))"

lemma inside_whole [simp]: "inside '''' k"
  by (simp add: inside_def)

lemma Apply_entries_iff:
  assumes "distinct (map fst es)"
  shows "Apply_entries es root override ps = (None, ps') \<longleftrightarrow>
    (\<forall>(k, v) \<in> set es. inside root k \<and> (override \<or> ps k \<noteq> Some (\<not> v))) \<and> ps' = ps ++ map_of es"
  using assms
proof (induction es arbitrary: ps)
  case Nil
  then show ?case by auto
next
  case (Cons e es)
  obtain k v where e: "e = (k, v)" by fastforce
  have other: "k' \<noteq> k" if "(k', v') \<in> set es" for k' v'
    using that Cons.prems by (auto simp: e intro: rev_image_eqI)
  have "map_of es k = None" using Cons.prems by (simp add: e map_of_eq_None_iff)
  then have sum: "ps(k \<mapsto> v) ++ map_of es = ps ++ map_of (e # es)"
    by (auto simp: e map_add_def fun_eq_iff split: option.split)
  have rest: "(\<forall>(k', v') \<in> set es. inside root k' \<and> (override \<or> (ps(k \<mapsto> v)) k' \<noteq> Some (\<not> v')))
      \<longleftrightarrow> (\<forall>(k', v') \<in> set es. inside root k' \<and> (override \<or> ps k' \<noteq> Some (\<not> v')))"
    using other by fastforce
  have "distinct (map fst es)" using Cons.prems by simp
  note IH = Cons.IH [OF this, of "ps(k \<mapsto> v)", unfolded rest sum]
  have step: "Apply_entries (e # es) root override ps = (None, ps') \<longleftrightarrow>
      inside root k \<and> (override \<or> ps k \<noteq> Some (\<not> v)) \<and>
      Apply_entries es root override (ps(k \<mapsto> v)) = (None, ps')"
    by (auto simp: e inside_def simp del: fun_upd_apply)
  have all: "(\<forall>(k', v') \<in> set (e # es). inside root k' \<and> (override \<or> ps k' \<noteq> Some (\<not> v'))) \<longleftrightarrow>
      inside root k \<and> (override \<or> ps k \<noteq> Some (\<not> v)) \<and>
      (\<forall>(k', v') \<in> set es. inside root k' \<and> (override \<or> ps k' \<noteq> Some (\<not> v')))"
    by (simp add: e)
  show ?case unfolding step all IH by blast
qed

lemma entries_of_order:
  assumes "orders ord" "finite (dom perms)"
  shows "distinct (map fst (entries ord perms))" "map_of (entries ord perms) = perms"
    "set (entries ord perms) = {(k, v). perms k = Some v}"
proof -
  from assms have o: "distinct (ord perms)" "set (ord perms) = dom perms"
    by (auto simp: orders_def)
  show d: "distinct (map fst (entries ord perms))"
    using o by (simp add: entries_def comp_def)
  show s: "set (entries ord perms) = {(k, v). perms k = Some v}"
    using o by (force simp: entries_def)
  show "map_of (entries ord perms) = perms"
  proof
    fix k
    show "map_of (entries ord perms) k = perms k"
    proof (cases "perms k")
      case None
      with o show ?thesis by (auto simp: entries_def map_of_eq_None_iff)
    next
      case (Some v)
      with s have "(k, v) \<in> set (entries ord perms)" by simp
      with d Some show ?thesis by simp
    qed
  qed
qed

lemma Apply_iff:
  assumes "orders ord" "finite (dom perms)"
  shows "Apply ord perms root override ps = (None, ps') \<longleftrightarrow>
    (\<forall>k \<in> dom perms. inside root k) \<and> (override \<or> compatible perms ps) \<and> ps' = ps ++ perms"
  unfolding Apply_def Apply_entries_iff [OF entries_of_order(1) [OF assms]] entries_of_order(2,3) [OF assms]
  by (auto simp: compatible_def)

lemma Apply_override:
  "orders ord \<Longrightarrow> finite (dom perms) \<Longrightarrow> Apply ord perms '''' True ps = (None, ps ++ perms)"
  by (simp add: Apply_iff)

section \<open>Loading\<close>

definition finite_sets :: "(string \<rightharpoonup> PermSet) \<Rightarrow> bool" where
  "finite_sets m \<longleftrightarrow> (\<forall>k ps. m k = Some ps \<longrightarrow> finite (dom ps))"

text \<open>The sets of the listed groups, later ones over earlier ones; a group that does not exist is empty.\<close>

definition group_set :: "(string \<rightharpoonup> PermSet) \<Rightarrow> string \<Rightarrow> PermSet" where
  "group_set groups g = (case groups g of None \<Rightarrow> Map.empty | Some ps \<Rightarrow> ps)"

definition layered :: "(string \<rightharpoonup> PermSet) \<Rightarrow> string list \<Rightarrow> PermSet" where
  "layered groups gs = foldl (++) Map.empty (map (group_set groups) gs)"

lemma foldl_map_add: "foldl (++) u ms = u ++ foldl (++) Map.empty ms"
proof (induction ms arbitrary: u)
  case Nil
  then show ?case by simp
next
  case (Cons m ms)
  have "foldl (++) (u ++ m) ms = (u ++ m) ++ foldl (++) Map.empty ms" by (rule Cons.IH)
  also have "\<dots> = u ++ (m ++ foldl (++) Map.empty ms)" by simp
  also have "m ++ foldl (++) Map.empty ms = foldl (++) m ms" by (rule Cons.IH [symmetric])
  finally show ?case by simp
qed

lemma layered_Cons: "layered groups (g # gs) = group_set groups g ++ layered groups gs"
  using foldl_map_add [of "group_set groups g"] by (simp add: layered_def)

lemma layered_Nil [simp]: "layered groups [] = Map.empty"
  by (simp add: layered_def)

lemma finite_group_set: "finite_sets groups \<Longrightarrow> finite (dom (group_set groups g))"
  by (auto simp: finite_sets_def group_set_def split: option.split)

lemma finite_layered: "finite_sets groups \<Longrightarrow> finite (dom (layered groups gs))"
  by (induction gs) (simp_all add: layered_Cons finite_group_set)

lemma apply_groups_layers:
  assumes "orders ord" "finite_sets groups" "apply_groups ord groups nickname gs u = Inr u'"
  shows "u' = u ++ layered groups gs"
  using assms(3)
proof (induction gs arbitrary: u)
  case Nil
  then show ?case by simp
next
  case (Cons g gs)
  then obtain perms where g: "groups g = Some perms" by (auto split: option.splits)
  with assms(2) have "finite (dom perms)" by (simp add: finite_sets_def)
  with Cons g assms(1) show ?case by (simp add: Apply_override layered_Cons group_set_def)
qed

lemma user_sets_keeps:
  "user_sets ord tbl groups us users = Inr users' \<Longrightarrow>
   k \<notin> (\<lambda>(n, _). ToLower tbl n) ` set us \<Longrightarrow> users' k = users k"
  by (induction us arbitrary: users) (auto split: sum.splits)

lemma user_sets_layers:
  assumes "orders ord" "finite_sets groups"
    and "user_sets ord tbl groups us users = Inr users'"
    and "distinct (map (\<lambda>(n, _). ToLower tbl n) us)" "(nickname, grps) \<in> set us"
  shows "users' (ToLower tbl nickname) = Some (layered groups grps)"
  using assms(3-5)
proof (induction us arbitrary: users)
  case Nil
  then show ?case by simp
next
  case (Cons x us)
  obtain n gs where x: "x = (n, gs)" by fastforce
  from Cons.prems obtain u where u: "apply_groups ord groups n gs Map.empty = Inr u"
    and rest: "user_sets ord tbl groups us (users(ToLower tbl n \<mapsto> u)) = Inr users'"
    by (auto simp: x split: sum.splits)
  show ?case
  proof (cases "(nickname, grps) = x")
    case True
    have "ToLower tbl n \<notin> (\<lambda>(n, _). ToLower tbl n) ` set us"
      using Cons.prems by (auto simp: x)
    from user_sets_keeps [OF rest this] have "users' (ToLower tbl n) = Some u" by simp
    moreover have "u = layered groups gs"
      using apply_groups_layers [OF assms(1,2) u] by simp
    ultimately show ?thesis using True x by simp
  next
    case False
    with Cons.prems rest x show ?thesis by (auto intro: Cons.IH)
  qed
qed

lemma user_sets_finite:
  assumes "orders ord" "finite_sets groups"
    and "user_sets ord tbl groups us users = Inr users'" "finite_sets users"
  shows "finite_sets users'"
  using assms(3,4)
proof (induction us arbitrary: users)
  case Nil
  then show ?case by simp
next
  case (Cons x us)
  obtain n gs where x: "x = (n, gs)" by fastforce
  from Cons.prems obtain u where u: "apply_groups ord groups n gs Map.empty = Inr u"
    and rest: "user_sets ord tbl groups us (users(ToLower tbl n \<mapsto> u)) = Inr users'"
    by (auto simp: x split: sum.splits)
  have "finite (dom u)" using apply_groups_layers [OF assms(1,2) u] finite_layered [OF assms(2)] by simp
  with Cons.prems(2) have "finite_sets (users(ToLower tbl n \<mapsto> u))" by (auto simp: finite_sets_def)
  with rest show ?case by (rule Cons.IH)
qed

lemma LoadPermissions_failed: "LoadPermissions ord tbl gf uf st = (Some e, st') \<Longrightarrow> st' = st"
  by (auto simp: LoadPermissions_def split: prod.splits if_splits sum.splits)

lemma LoadPermissions_loaded:
  assumes "LoadPermissions ord tbl (Inr (None, gs)) (Inr (None, us)) st = (None, st')"
  shows "Groups st' = map_of gs \<and> user_sets ord tbl (map_of gs) us Map.empty = Inr (Users st')"
  using assms by (auto simp: LoadPermissions_def loadAndUnmarshalYaml_def split: if_splits sum.splits)

lemma GetPlayerPermissions_layers:
  assumes "orders ord" "finite_sets (Groups st)" "finite_sets (Users st)"
  shows "GetPlayerPermissions ord tbl st nickname
    = group_set (Groups st) ''default'' ++ group_set (Users st) (ToLower tbl nickname)"
  using finite_group_set [OF assms(2)] finite_group_set [OF assms(3)]
  by (simp add: GetPlayerPermissions_def Let_def Apply_override [OF assms(1)] group_set_def [symmetric])

section \<open>The properties\<close>

text \<open>A capability is granted exactly when, among itself and its dotted prefixes, the longest one
  that the permission set has an entry for is set to true.\<close>

theorem permission_longest_prefix:
  "PermSet_HasPermission ps perm =
     (case find (\<lambda>p. ps p \<noteq> None) (levels perm) of None \<Rightarrow> False | Some p \<Rightarrow> ps p = Some True)"
  by (simp add: HasPermission_inherited inherited_def)

text \<open>Applying a permission set below a root succeeds exactly when every capability lies in the root
  and, unless overriding, none contradicts the set; the result is the union in which the new entries
  win.  The order in which Go visits the map does not matter.\<close>

theorem permission_apply_exact:
  assumes "orders ord" "finite (dom perms)"
  shows "Apply ord perms root override ps = (None, ps') \<longleftrightarrow>
    (\<forall>k \<in> dom perms. inside root k) \<and> (override \<or> compatible perms ps) \<and> ps' = ps ++ perms"
  by (rule Apply_iff [OF assms])

text \<open>C16: After the permission files have been loaded, what a listed player may do is decided by the
  entries of the default group and of the player's groups, later groups over earlier ones, at the
  longest dotted prefix that any of them has.\<close>

theorem loaded_permissions:
  assumes "orders ord"
    and "\<And>g ps. (g, ps) \<in> set groups \<Longrightarrow> finite (dom ps)"
    and "LoadPermissions ord tbl (Inr (None, groups)) (Inr (None, users)) st = (None, st')"
    and "distinct (map (\<lambda>(n, _). ToLower tbl n) users)"
    and "(nickname, grps) \<in> set users" "ToLower tbl name = ToLower tbl nickname"
  shows "PermSet_HasPermission (GetPlayerPermissions ord tbl st' name) perm
    = inherited (layered (map_of groups) (''default'' # grps)) (levels perm)"
proof -
  from LoadPermissions_loaded [OF assms(3)] have G: "Groups st' = map_of groups"
    and U: "user_sets ord tbl (map_of groups) users Map.empty = Inr (Users st')" by auto
  have fin: "finite_sets (map_of groups)"
    using assms(2) by (auto simp: finite_sets_def dest: map_of_SomeD)
  then have finU: "finite_sets (Users st')"
    by (rule user_sets_finite [OF assms(1) _ U]) (simp add: finite_sets_def)
  have "Users st' (ToLower tbl name) = Some (layered (map_of groups) grps)"
    using user_sets_layers [OF assms(1) fin U assms(4,5)] assms(6) by simp
  then have "GetPlayerPermissions ord tbl st' name = layered (map_of groups) (''default'' # grps)"
    using GetPlayerPermissions_layers [OF assms(1) fin [folded G] finU]
    by (simp add: G layered_Cons group_set_def)
  then show ?thesis by (simp add: HasPermission_inherited)
qed

section \<open>Witnesses\<close>

definition sorted_keys :: key_order where
  "sorted_keys m = sorted_list_of_set (dom m)"

lemma orders_sorted_keys: "orders sorted_keys"
  by (simp add: orders_def sorted_keys_def)

lemma permission_apply_exact_witness:
  "Apply sorted_keys [''chat.color'' \<mapsto> True] ''chat'' False [''chat'' \<mapsto> False]
     = (None, [''chat'' \<mapsto> False, ''chat.color'' \<mapsto> True])"
  by (subst permission_apply_exact [OF orders_sorted_keys])
     (auto simp: inside_def HasPrefix_def compatible_def)

definition sample_groups :: "(string \<times> PermSet) list" where
  "sample_groups = [(''default'', [''chat'' \<mapsto> True]), (''vip'', [''chat.color'' \<mapsto> False])]"

lemma sample_load:
  "LoadPermissions sorted_keys id (Inr (None, sample_groups)) (Inr (None, [(''Bob'', [''vip''])]))
     \<lparr>Groups = Map.empty, Users = Map.empty\<rparr>
   = (None, \<lparr>Groups = map_of sample_groups,
             Users = [ToLower id ''Bob'' \<mapsto> [''chat.color'' \<mapsto> False]]\<rparr>)"
  by (simp add: LoadPermissions_def loadAndUnmarshalYaml_def sample_groups_def
      Apply_override [OF orders_sorted_keys])

lemma loaded_permissions_witness:
  "\<exists>st'. \<not> PermSet_HasPermission (GetPlayerPermissions sorted_keys id st' ''Bob'') ''chat.color.red''
     \<and> PermSet_HasPermission (GetPlayerPermissions sorted_keys id st' ''Bob'') ''chat.bold''"
proof -
  have fin: "\<And>g ps. (g, ps) \<in> set sample_groups \<Longrightarrow> finite (dom ps)"
    by (auto simp: sample_groups_def)
  have lv: "levels ''chat.color.red'' = [''chat.color.red'', ''chat.color'', ''chat'']"
    "levels ''chat.bold'' = [''chat.bold'', ''chat'']"
    by code_simp+
  note at = loaded_permissions [OF orders_sorted_keys fin sample_load,
      where nickname = "''Bob''" and grps = "[''vip'']" and name = "''Bob''"]
  note evals = ex_bool_eq lv inherited_def layered_Cons group_set_def sample_groups_def
  have "\<not> PermSet_HasPermission (GetPlayerPermissions sorted_keys id
      \<lparr>Groups = map_of sample_groups, Users = [ToLower id ''Bob'' \<mapsto> [''chat.color'' \<mapsto> False]]\<rparr> ''Bob'')
      ''chat.color.red''"
    by (subst at) (simp_all add: evals)
  moreover have "PermSet_HasPermission (GetPlayerPermissions sorted_keys id
      \<lparr>Groups = map_of sample_groups, Users = [ToLower id ''Bob'' \<mapsto> [''chat.color'' \<mapsto> False]]\<rparr> ''Bob'')
      ''chat.bold''"
    by (subst at) (simp_all add: evals)
  ultimately show ?thesis by blast
qed

end
