(* ===== verification/JavaUTF.thy ===== *)
theory JavaUTF
  imports IOUtils GoText
begin

text \<open>
  src/filters/bungeecord/javautf.go: Java's modified UTF-8, with a length of two bytes in front.  The
  NUL character takes two bytes, and runes above U+FFFF cannot be written.
\<close>

section \<open>Reading\<close>

text \<open>
  The loop over the bytes from index \<open>i\<close> on: the runes with an error at the end of a cut-off rune, or an
  error alone for a byte that starts no rune.
\<close>

definition java_cons :: "nat \<Rightarrow> gerr + nat list \<times> gerr option \<Rightarrow> gerr + nat list \<times> gerr option" where
  "java_cons r res = (case res of Inl e \<Rightarrow> Inl e | Inr (rs, err) \<Rightarrow> Inr (r # rs, err))"

fun java_runes :: "nat \<Rightarrow> nat list \<Rightarrow> gerr + nat list \<times> gerr option" where
  "java_runes i [] = Inr ([], None)"
| "java_runes i (b # s) =
     (if b < 128 then java_cons b (java_runes (i + 1) s)
      else if 192 \<le> b \<and> b < 224 then
        (case s of
           [] \<Rightarrow> Inr ([], Some ErrUnexpectedEOF)
         | c # s' \<Rightarrow> java_cons (b mod 32 * 64 + c mod 64) (java_runes (i + 2) s'))
      else if 224 \<le> b \<and> b < 240 then
        (case s of
           c # d # s' \<Rightarrow>
             java_cons (b mod 16 * 4096 + c mod 64 * 64 + d mod 64) (java_runes (i + 3) s')
         | _ \<Rightarrow> Inr ([], Some ErrUnexpectedEOF))
      else Inl (Errorf ''Invalid first byte of rune at %d'' [GInt (int i)]))"

definition ReadJavaUTF :: "string reading" where
  "ReadJavaUTF s =
     (case binary_Read 2 Uint16 s of
        (size_prefix, Some e, s1) \<Rightarrow> ([], Some e, s1)
      | (size_prefix, None, s1) \<Rightarrow>
          (case ReadFull (unat size_prefix) s1 of
             (buf, Some e, s2) \<Rightarrow> ([], Some e, s2)
           | (buf, None, s2) \<Rightarrow>
               (case java_runes 0 (map unat buf) of
                  Inl e \<Rightarrow> ([], Some e, s2)
                | Inr (chars, err) \<Rightarrow> (concat (map encode_rune chars), err, s2))))"

section \<open>Writing\<close>

definition java_encode :: "nat \<Rightarrow> nat list option" where
  "java_encode c =
     (if c \<le> 127 \<and> c \<noteq> 0 then Some [c]
      else if c \<le> 2047 then Some [192 + c div 64 mod 32, 128 + c mod 64]
      else if c \<le> 65535 then Some [224 + c div 4096 mod 16, 128 + c div 64 mod 64, 128 + c mod 64]
      else None)"

fun java_encode_all :: "nat list \<Rightarrow> gerr + nat list" where
  "java_encode_all [] = Inr []"
| "java_encode_all (c # cs) =
     (case java_encode c of
        None \<Rightarrow> Inl (Errorf ''Char outside range: %X'' [GInt (int c)])
      | Some bs \<Rightarrow> (case java_encode_all cs of Inl e \<Rightarrow> Inl e | Inr rest \<Rightarrow> Inr (bs @ rest)))"

text \<open>What is written to a buffer that does not fail, and the error.\<close>

definition WriteJavaUTF :: "string \<Rightarrow> bytes \<times> gerr option" where
  "WriteJavaUTF s =
     (case java_encode_all (runes_of s) of
        Inl e \<Rightarrow> ([], Some e)
      | Inr buf \<Rightarrow>
          if 65535 < length buf then ([], Some (Errorf ''Encoded string too long!'' []))
          else (PutUint16 (word_of_nat (length buf)) @ map word_of_nat buf, None))"

section \<open>Round trip\<close>

lemma java_encode_bytes: "java_encode c = Some bs \<Longrightarrow> \<forall>b \<in> set bs. b < 256"
  by (auto simp: java_encode_def split: if_splits; presburger)

lemma java_encode_all_bytes: "java_encode_all cs = Inr buf \<Longrightarrow> \<forall>b \<in> set buf. b < 256"
  by (induction cs arbitrary: buf) (auto split: option.splits sum.splits dest!: java_encode_bytes)

lemma strip_marks:
  fixes q :: nat
  shows "q < 32 \<Longrightarrow> (192 + q) mod 32 = q" "q < 16 \<Longrightarrow> (224 + q) mod 16 = q" "q < 64 \<Longrightarrow> (128 + q) mod 64 = q"
  using mod_mult_self1 [of q 6 32] mod_mult_self1 [of q 14 16] mod_mult_self1 [of q 2 64]
  by (simp_all add: add.commute)

lemma java_decode_encode:
  assumes "java_encode c = Some bs"
  shows "java_runes i (bs @ s) = java_cons c (java_runes (i + length bs) s)"
proof -
  consider "c \<le> 127" "c \<noteq> 0" | "c = 0 \<or> 127 < c" "c \<le> 2047" | "2047 < c" "c \<le> 65535"
    using assms by (auto simp: java_encode_def split: if_splits)
  then show ?thesis
  proof cases
    case 1
    with assms show ?thesis by (auto simp: java_encode_def)
  next
    case 2
    then have q: "c div 64 < 32" by auto
    have "bs = [192 + c div 64, 128 + c mod 64]"
      using assms 2 q by (auto simp: java_encode_def split: if_splits)
    moreover have "(192 + c div 64) mod 32 * 64 + (128 + c mod 64) mod 64 = c"
      using q by (simp add: strip_marks)
    ultimately show ?thesis using q by simp
  next
    case 3
    then have q: "c div 4096 < 16" by auto
    have "bs = [224 + c div 4096, 128 + c div 64 mod 64, 128 + c mod 64]"
      using assms 3 q by (auto simp: java_encode_def split: if_splits)
    moreover have "(224 + c div 4096) mod 16 * 4096 + (128 + c div 64 mod 64) mod 64 * 64
        + (128 + c mod 64) mod 64 = c"
      using q base64_digits(2) [of c] by (simp add: strip_marks)
    ultimately show ?thesis using q by (simp add: numeral_3_eq_3)
  qed
qed

lemma java_runes_encoded: "java_encode_all cs = Inr buf \<Longrightarrow> java_runes i buf = Inr (cs, None)"
proof (induction cs arbitrary: i buf)
  case Nil
  then show ?case by simp
next
  case (Cons c cs)
  then obtain bs rest where b: "java_encode c = Some bs" "java_encode_all cs = Inr rest" "buf = bs @ rest"
    by (auto split: option.splits sum.splits)
  with Cons.IH [OF b(2)] java_decode_encode [OF b(1)] show ?case by (simp add: java_cons_def)
qed

lemma ReadJavaUTF_written:
  assumes "WriteJavaUTF s = (bs, None)"
  shows "ReadJavaUTF (bs @ t) = (concat (map encode_rune (runes_of s)), None, t)"
proof -
  from assms obtain buf where buf: "java_encode_all (runes_of s) = Inr buf" "length buf \<le> 65535"
    and bs: "bs = PutUint16 (word_of_nat (length buf)) @ map word_of_nat buf"
    by (auto simp: WriteJavaUTF_def split: sum.splits if_splits)
  have "map unat (map word_of_nat buf :: bytes) = buf"
    using java_encode_all_bytes [OF buf(1)] by (auto simp: unat_of_nat intro!: map_idI)
  then have "java_runes 0 (map unat (map word_of_nat buf :: bytes)) = Inr (runes_of s, None)"
    using java_runes_encoded [OF buf(1)] by simp
  moreover have "unat (word_of_nat (length buf) :: 16 word) = length buf"
    using buf(2) by (simp add: unat_of_nat)
  ultimately show ?thesis
    by (simp add: ReadJavaUTF_def bs)
qed

text \<open>Strings that are written without an error: valid UTF-8 of runes up to U+FFFF, and short enough.\<close>

definition java_ok :: "string \<Rightarrow> bool" where
  "java_ok s \<longleftrightarrow> utf8 s \<and> snd (WriteJavaUTF s) = None"

interpretation java_utf: codec "\<lambda>s. fst (WriteJavaUTF s)" ReadJavaUTF java_ok
proof
  fix s t
  assume "java_ok s"
  then have "utf8 s" "WriteJavaUTF s = (fst (WriteJavaUTF s), None)"
    by (auto simp: java_ok_def prod_eq_iff)
  with ReadJavaUTF_written show "ReadJavaUTF (fst (WriteJavaUTF s) @ t) = (s, None, t)"
    by (metis utf8_runes)
qed

lemma java_encode_all_ok: "\<forall>c \<in> set cs. c \<le> 65535 \<Longrightarrow> \<exists>buf. java_encode_all cs = Inr buf"
  by (induction cs) (auto simp: java_encode_def split: option.splits)

text \<open>The bytes that a rune takes.\<close>

definition java_size :: "nat \<Rightarrow> nat" where
  "java_size c = (if 0 < c \<and> c \<le> 127 then 1 else if c \<le> 2047 then 2 else 3)"

lemma java_encode_length: "java_encode c = Some bs \<Longrightarrow> length bs = java_size c"
  by (auto simp: java_encode_def java_size_def split: if_splits)

lemma java_encode_all_length: "java_encode_all cs = Inr buf \<Longrightarrow> length buf = sum_list (map java_size cs)"
  by (induction cs arbitrary: buf) (auto split: option.splits sum.splits dest: java_encode_length)

lemma WriteJavaUTF_ascii:
  assumes "list_all (\<lambda>c. 0 < code c \<and> code c < 128) s" "length s \<le> 65535"
  shows "WriteJavaUTF s = (PutUint16 (word_of_nat (length s)) @ bytes_of s, None)"
proof -
  have "list_all (\<lambda>c. code c < 128) s" using assms(1) by (simp add: list_all_iff)
  then have r: "runes_of s = map code s" by (rule runes_of_ascii)
  have "java_encode_all (map code s) = Inr (map code s)"
    using assms(1) by (induction s) (auto simp: java_encode_def)
  then show ?thesis
    using assms(2) by (simp add: WriteJavaUTF_def r bytes_of_def byte_of_char_def code_def comp_def)
qed

section \<open>The property\<close>

text \<open>Every valid string of runes up to U+FFFF whose encoding fits in 65535 bytes, NUL characters
  included, is written without an error and read back exactly, and what follows it is left alone.\<close>

theorem java_utf_roundtrip:
  assumes "\<forall>r \<in> set rs. valid_rune r \<and> r \<le> 65535" "sum_list (map java_size rs) \<le> 65535"
  shows "\<exists>bs. WriteJavaUTF (concat (map encode_rune rs)) = (bs, None)
    \<and> ReadJavaUTF (bs @ t) = (concat (map encode_rune rs), None, t)"
proof -
  let ?s = "concat (map encode_rune rs)"
  from assms(1) have r: "runes_of ?s = rs" by (simp add: runes_of_encode)
  from java_encode_all_ok [of rs] assms(1) obtain buf where buf: "java_encode_all rs = Inr buf" by auto
  with java_encode_all_length [OF buf] assms(2)
  have "\<exists>bs. WriteJavaUTF ?s = (bs, None)" by (simp add: WriteJavaUTF_def r)
  then obtain bs where bs: "WriteJavaUTF ?s = (bs, None)" by blast
  from ReadJavaUTF_written [OF bs, of t] r bs show ?thesis by auto
qed

lemma java_utf_roundtrip_witness:
  "\<exists>bs. WriteJavaUTF (concat (map encode_rune [0, 97, 321, 8364])) = (bs, None)
    \<and> ReadJavaUTF (bs @ [7]) = (concat (map encode_rune [0, 97, 321, 8364]), None, [7])"
  by (rule java_utf_roundtrip) (simp_all add: valid_rune_def java_size_def)

end
