(* ===== verification/Bungee.thy ===== *)
theory Bungee
  imports World Permissions JavaUTF
begin

text \<open>
  src/filters/bungeecord/: the plugin channel by which a server asks the proxy about players and
  servers, and the chat commands of the proxy; also \<^verbatim>\<open>LoadUpstreams\<close> of potoq.go.
\<close>

section \<open>The list of servers\<close>

text \<open>
  \<^verbatim>\<open>LoadUpstreams\<close>: the decoded file as a list in the order in which Go visits it; \<open>resolve\<close> is the
  error of \<^verbatim>\<open>net.ResolveTCPAddr\<close> for an address.
\<close>

fun check_upstreams :: "(string \<Rightarrow> gerr option) \<Rightarrow> (string \<times> string) list \<Rightarrow> gerr option" where
  "check_upstreams resolve [] = None"
| "check_upstreams resolve ((name, addr) # ups) =
     (case resolve addr of
        Some e \<Rightarrow> Some (Errorf ''RegisterUpstream %q %q tcp error %s'' [GStr name, GStr addr, GErr e])
      | None \<Rightarrow> check_upstreams resolve ups)"

definition LoadUpstreams ::
    "(string \<Rightarrow> gerr option) \<Rightarrow> gerr + gerr option \<times> (string \<times> string) list \<Rightarrow>
     (string \<times> string) list \<Rightarrow> gerr option \<times> (string \<times> string) list" where
  "LoadUpstreams resolve file current =
     (case file of
        Inl e \<Rightarrow> (Some e, current)
      | Inr (Some e, up) \<Rightarrow> (Some e, current)
      | Inr (None, up) \<Rightarrow>
          (case check_upstreams resolve up of
             Some e \<Rightarrow> (Some e, current)
           | None \<Rightarrow> if up = [] then (Some (Errorf ''Upstreams map len <= 0!'' []), current)
                     else (None, up)))"

section \<open>What the filters get from outside\<close>

text \<open>
  \<open>be_keys\<close> and \<open>be_order\<close> are the orders in which Go visits the players and the maps of the commands;
  \<open>be_permset\<close> is the dynamic value of \<^verbatim>\<open>handler.Permissions\<close>, if it is a \<^verbatim>\<open>PermSet\<close>.
\<close>

record 'i bungee_env =
  be_tbl :: "nat \<Rightarrow> nat"
  be_keys :: "string list"
  be_order :: "string set \<Rightarrow> string list"
  be_port :: "'i \<Rightarrow> 32 word"
  be_permset :: "'i \<Rightarrow> PermSet option"
  be_counts :: "'i \<Rightarrow> nat \<times> nat"
  be_file :: "gerr + gerr option \<times> (string \<times> string) list"
  be_resolve :: "string \<Rightarrow> gerr option"
  be_error_text :: "gerr \<Rightarrow> string"

definition the_player :: "'i bungee_env \<Rightarrow> ('i, 'n) world \<Rightarrow> string \<Rightarrow> 'i option" where
  "the_player env w nickname = GetByNickname (be_tbl env) nickname (wo_players w)"

definition on_server :: "string \<Rightarrow> ('i, 'n) world \<Rightarrow> 'i \<Rightarrow> bool" where
  "on_server server w p \<longleftrightarrow> server = ''ALL'' \<or> h_UpstreamName (wo_handlers w p) = server"

text \<open>
  \<^verbatim>\<open>PushCommand\<close>.  The blocking form waits until the channel has room; only the goroutine of the handler
  itself makes room, so when that goroutine is the caller and the channel is full it waits forever:
  the value is then \<open>None\<close>.
\<close>

definition push_wait :: "'i \<Rightarrow> 'n command \<Rightarrow> ('i, 'n) world \<Rightarrow> ('i, 'n) world option" where
  "push_wait i c w =
     (if length (h_commandChan (wo_handlers w i)) < commandChan_size
      then Some (on_handler i (snd \<circ> PushCommand c) w) else None)"

definition push_try :: "'i \<Rightarrow> 'n command \<Rightarrow> ('i, 'n) world \<Rightarrow> bool \<times> ('i, 'n) world" where
  "push_try i c w = (fst (PushCommand c (wo_handlers w i)), on_handler i (snd \<circ> PushCommand c) w)"

section \<open>The plugin channel\<close>

text \<open>
  One definition per subchannel: what is left of the payload, and then either an early return with
  an error or the bytes of the answer.
\<close>

definition utf_out :: "string \<Rightarrow> bytes" where
  "utf_out s = fst (WriteJavaUTF s)"

definition plugin_Connect ::
    "'i \<Rightarrow> bytes \<Rightarrow> ('i, 'n) world \<Rightarrow> ((gerr + bytes) \<times> ('i, 'n) world) option" where
  "plugin_Connect i rd w =
     (case ReadJavaUTF rd of
        (name, Some e, _) \<Rightarrow> Some (Inl e, w)
      | (name, None, _) \<Rightarrow>
          (case map_of (wo_upstreams w) name of
             None \<Rightarrow> Some (Inl (Errorf ''Unknown bungee upstream name: %s'' [GStr name]), w)
           | Some addr \<Rightarrow> map_option (\<lambda>w'. (Inr [], w')) (push_wait i (ReconnectCommand name addr) w)))"

definition plugin_ConnectOther ::
    "'i bungee_env \<Rightarrow> bytes \<Rightarrow> ('i, 'n) world \<Rightarrow> (gerr + bytes) \<times> ('i, 'n) world" where
  "plugin_ConnectOther env rd w =
     (case ReadJavaUTF rd of
        (nickname, Some e, _) \<Rightarrow> (Inl e, w)
      | (nickname, None, rd1) \<Rightarrow>
     (case ReadJavaUTF rd1 of
        (server, Some e, _) \<Rightarrow> (Inl e, w)
      | (server, None, _) \<Rightarrow>
     (case map_of (wo_upstreams w) server of
        None \<Rightarrow> (Inl (Errorf ''Unknown bungee upstream server: %s'' [GStr server]), w)
      | Some addr \<Rightarrow>
     (case the_player env w nickname of
        None \<Rightarrow> (Inl ErrDropPacket, w)
      | Some other \<Rightarrow> (Inr [], snd (push_try other (ReconnectCommand server addr) w))))))"

definition plugin_IP :: "'i bungee_env \<Rightarrow> 'i \<Rightarrow> ('i, 'n) world \<Rightarrow> bytes" where
  "plugin_IP env i w =
     utf_out ''IP'' @ utf_out (h_DownstreamAddr (wo_handlers w i)) @ WriteInt (be_port env i)"

definition plugin_PlayerCount :: "'i bungee_env \<Rightarrow> bytes \<Rightarrow> ('i, 'n) world \<Rightarrow> gerr + bytes" where
  "plugin_PlayerCount env rd w =
     (case ReadJavaUTF rd of
        (server, Some e, _) \<Rightarrow> Inl e
      | (server, None, _) \<Rightarrow>
          Inr (utf_out ''PlayerCount'' @ utf_out server @
               WriteInt (word_of_nat (length (filter (on_server server w) (players (be_keys env) w))))))"

definition plugin_PlayerList :: "'i bungee_env \<Rightarrow> bytes \<Rightarrow> ('i, 'n) world \<Rightarrow> gerr + bytes" where
  "plugin_PlayerList env rd w =
     (case ReadJavaUTF rd of
        (server, Some e, _) \<Rightarrow> Inl e
      | (server, None, _) \<Rightarrow>
          Inr (utf_out ''PlayerList'' @ utf_out server @
               utf_out (Join (map (nick w) (filter (on_server server w) (players (be_keys env) w))) '','')))"

definition plugin_GetServer :: "'i \<Rightarrow> ('i, 'n) world \<Rightarrow> bytes" where
  "plugin_GetServer i w = utf_out ''GetServer'' @ utf_out (h_UpstreamName (wo_handlers w i))"

definition plugin_GetServers :: "('i, 'n) world \<Rightarrow> bytes" where
  "plugin_GetServers w = utf_out ''GetServers'' @ utf_out (Join (map fst (wo_upstreams w)) '','')"

definition plugin_Message ::
    "'i bungee_env \<Rightarrow> bytes \<Rightarrow> ('i, 'n) world \<Rightarrow> (gerr + bytes) \<times> ('i, 'n) world" where
  "plugin_Message env rd w =
     (case ReadJavaUTF rd of
        (nickname, Some e, _) \<Rightarrow> (Inl e, w)
      | (nickname, None, rd1) \<Rightarrow>
     (case the_player env w nickname of
        None \<Rightarrow> (Inl ErrDropPacket, w)
      | Some other \<Rightarrow>
     (case ReadJavaUTF rd1 of
        (msg, Some e, _) \<Rightarrow> (Inl e, w)
      | (msg, None, _) \<Rightarrow> (Inr [], SendChatMessage other msg w))))"

definition plugin_Broadcast ::
    "'i bungee_env \<Rightarrow> bool \<Rightarrow> bytes \<Rightarrow> ('i, 'n) world \<Rightarrow> (gerr + bytes) \<times> ('i, 'n) world" where
  "plugin_Broadcast env with_perm rd w =
     (case ReadJavaUTF rd of
        (msg, Some e, _) \<Rightarrow> (Inl e, w)
      | (msg, None, rd1) \<Rightarrow>
          (case (if with_perm then ReadJavaUTF rd1 else ('''', None, rd1)) of
             (perm, Some e, _) \<Rightarrow> (Inl e, w)
           | (perm, None, _) \<Rightarrow> (Inr [], Broadcast (be_keys env) perm msg w)))"

definition plugin_sub ::
    "'i bungee_env \<Rightarrow> 'i \<Rightarrow> string \<Rightarrow> bytes \<Rightarrow> ('i, 'n) world \<Rightarrow> ((gerr + bytes) \<times> ('i, 'n) world) option" where
  "plugin_sub env i subchannel rd w =
     (if subchannel = ''Connect'' then plugin_Connect i rd w
      else if subchannel = ''ConnectOther'' then Some (plugin_ConnectOther env rd w)
      else if subchannel = ''IP'' then Some (Inr (plugin_IP env i w), w)
      else if subchannel = ''PlayerCount'' then Some (plugin_PlayerCount env rd w, w)
      else if subchannel = ''PlayerList'' then Some (plugin_PlayerList env rd w, w)
      else if subchannel = ''GetServer'' then Some (Inr (plugin_GetServer i w), w)
      else if subchannel = ''GetServers'' then Some (Inr (plugin_GetServers w), w)
      else if subchannel = ''Message'' then Some (plugin_Message env rd w)
      else if subchannel = ''Broadcast'' \<or> subchannel = ''Broadcast2'' then
        Some (plugin_Broadcast env (subchannel = ''Broadcast2'') rd w)
      else Some (Inl (Errorf ''Unknown BungeeCord subchannel: %s'' [GStr subchannel]), w))"

definition PluginMessage ::
    "'i bungee_env \<Rightarrow> 'i \<Rightarrow> PluginMessagePacketCB \<Rightarrow> ('i, 'n) world \<Rightarrow> (gerr option \<times> ('i, 'n) world) option" where
  "PluginMessage env i msg w =
     (if pmc_Channel msg \<noteq> ''bungeecord:main'' then Some (None, w)
      else
        (case ReadJavaUTF (pmc_Payload msg) of (subchannel, _, rd) \<Rightarrow>
         case plugin_sub env i subchannel rd w of
           None \<Rightarrow> None
         | Some (Inl e, w1) \<Rightarrow> Some (Some e, w1)
         | Some (Inr out, w1) \<Rightarrow>
             if out = [] then Some (Some ErrDropPacket, w1)
             else
               (case inject_to ServerBound None
                       [P_PluginMessagePacketSB \<lparr>pms_Channel = ''bungeecord:main'', pms_Payload = out\<rparr>] i w1 of
                  (Some e, w2) \<Rightarrow> Some (Some e, w2)
                | (None, w2) \<Rightarrow> Some (Some ErrDropPacket, w2))))"

text \<open>After joining a server the proxy registers for the channel.\<close>

definition joinFilter :: "'i \<Rightarrow> ('i, 'n) world \<Rightarrow> gerr option \<times> ('i, 'n) world" where
  "joinFilter i w =
     inject_to ServerBound None
       [P_PluginMessagePacketSB \<lparr>pms_Channel = ''minecraft:register'',
          pms_Payload = bytes_of ''bungeecord:main'' @ [0]\<rparr>] i w"

end
