(* ===== verification/BungeeCommands.thy ===== *)
theory BungeeCommands
  imports Bungee
begin

text \<open>
  src/filters/bungeecord/commands.go: the chat commands of the proxy.  A command returns the text for
  its sender, \<open>''''\<close> for none, and the world after it.
\<close>

section \<open>The commands\<close>

definition reloadupstreamsCmd ::
    "'i bungee_env \<Rightarrow> 'i \<Rightarrow> string list \<Rightarrow> ('i, 'n) world \<Rightarrow> string \<times> ('i, 'n) world" where
  "reloadupstreamsCmd env i args w =
     (if args \<noteq> [] then (COLOR_RED @ ''Poprawne uzycie: /greload'', w)
      else if \<not> may w i ''bungeecord.command.greload'' then (INSUFFICIENT_PERMS, w)
      else
        (case LoadUpstreams (be_resolve env) (be_file env) (wo_upstreams w) of
           (Some e, ups) \<Rightarrow>
             (''Blad podczas przeladowywania! Error: '' @ be_error_text env e, w\<lparr>wo_upstreams := ups\<rparr>)
         | (None, ups) \<Rightarrow> (''Przeladowano pomyslnie!'', w\<lparr>wo_upstreams := ups\<rparr>)))"

text \<open>\<^verbatim>\<open>/proxystats\<close> answers at once, and again a second later from a goroutine of its own.\<close>

definition proxystatsCmd ::
    "'i bungee_env \<Rightarrow> 'i \<Rightarrow> string list \<Rightarrow> ('i, 'n) world \<Rightarrow> string \<times> ('i, 'n) world" where
  "proxystatsCmd env i args w =
     (if args \<noteq> [] then (COLOR_RED @ ''Poprawne uzycie: /proxystats'', w)
      else if \<not> may w i ''bungeecord.command.proxystats'' then (INSUFFICIENT_PERMS, w)
      else
        (let say = (\<lambda>t. SendChatMessage i (COLOR_GREEN @ t)) in
         ('''', say ''Oczekiwanie na czasowe wyniki...''
           (say (''P -> S: '' @ decimal (snd (be_counts env i)))
             (say (''C -> P: '' @ decimal (fst (be_counts env i)))
               (say ''Lacznie przeslane pakiety:'' w))))))"

definition proxystats_later :: "'i \<Rightarrow> 64 word \<Rightarrow> 64 word \<Rightarrow> 64 word \<Rightarrow> 64 word \<Rightarrow> ('i, 'n) world \<Rightarrow> ('i, 'n) world" where
  "proxystats_later i downPack upPack cDownPack cUpPack w =
     (let say = (\<lambda>t. SendChatMessage i (COLOR_GREEN @ t)) in
      say (''P -> S: '' @ decimal (unat (cUpPack - upPack)))
        (say (''C -> P: '' @ decimal (unat (cDownPack - downPack)))
          (say ''Przeslane pakiety w ciagu ostatniej sekundy:'' w)))"

definition serverCmd ::
    "'i \<Rightarrow> string list \<Rightarrow> ('i, 'n) world \<Rightarrow> (string \<times> ('i, 'n) world) option" where
  "serverCmd i args w =
     (case args of
        [] \<Rightarrow>
          Some (COLOR_GREEN @ ''Your server is: '' @ h_UpstreamName (wo_handlers w i) @ [chr 10] @
                COLOR_GREEN @ ''Other servers: '' @
                (if may w i ''bungeecord.command.server'' then Join (map fst (wo_upstreams w)) '', ''
                 else ''<hidden>''), w)
      | [name] \<Rightarrow>
          if \<not> may w i ''bungeecord.command.server.switch'' then Some (INSUFFICIENT_PERMS, w)
          else
            (case map_of (wo_upstreams w) name of
               None \<Rightarrow> Some (''Unkown server: '' @ name, w)
             | Some addr \<Rightarrow>
                 map_option (\<lambda>w'. (''Reconnected to: '' @ name, w')) (push_wait i (ReconnectCommand name addr) w))
      | _ \<Rightarrow> Some (''Bad command syntax!'', w))"

text \<open>The loop over the players that are sent to another server, with the number of those that can go.\<close>

fun send_players :: "string \<Rightarrow> 'n command \<Rightarrow> 'i list \<Rightarrow> ('i, 'n) world \<Rightarrow> nat \<times> ('i, 'n) world" where
  "send_players upstream c [] w = (0, w)"
| "send_players upstream c (p # ps) w =
     (if h_UpstreamName (wo_handlers w p) = upstream \<or> upstream = '''' then
        (case push_try p c w of (ok, w1) \<Rightarrow>
         case send_players upstream c ps w1 of (n, w2) \<Rightarrow> (if ok then n + 1 else n, w2))
      else send_players upstream c ps w)"

definition sendCmd ::
    "'i bungee_env \<Rightarrow> 'i \<Rightarrow> string list \<Rightarrow> ('i, 'n) world \<Rightarrow> string \<times> ('i, 'n) world" where
  "sendCmd env i args w =
     (if \<not> may w i ''bungeecord.command.send'' then (INSUFFICIENT_PERMS, w)
      else
        (case args of
           [who, target] \<Rightarrow>
             (case map_of (wo_upstreams w) target of
                None \<Rightarrow> (COLOR_RED @ ''Unkown server: '' @ target, w)
              | Some addr \<Rightarrow>
                  let c = ReconnectCommand target addr in
                  if who = ''all'' \<or> who = ''current'' then
                    (case send_players (if who = ''current'' then h_UpstreamName (wo_handlers w i) else '''') c
                            (players (be_keys env) w) w of
                       (count, w') \<Rightarrow>
                         (COLOR_GREEN @ ''Sent '' @ decimal count @ '' players to '' @ target, w'))
                  else
                    (case the_player env w who of
                       None \<Rightarrow> (COLOR_RED @ ''Player not found: '' @ who, w)
                     | Some p \<Rightarrow>
                         (case push_try p c w of
                            (True, w') \<Rightarrow> (COLOR_GREEN @ ''Sent player '' @ nick w p @ '' to '' @ target, w')
                          | (False, w') \<Rightarrow>
                              (COLOR_RED @ ''Cannot send player '' @ nick w p @ '' to '' @ target, w'))))
         | _ \<Rightarrow> (COLOR_RED @ ''Bad command syntax! /send <player|current|all> <target>'', w)))"

definition alertCmd ::
    "'i bungee_env \<Rightarrow> 'i \<Rightarrow> string list \<Rightarrow> ('i, 'n) world \<Rightarrow> string \<times> ('i, 'n) world" where
  "alertCmd env i args w =
     (if \<not> may w i ''bungeecord.command.alert'' then (INSUFFICIENT_PERMS, w)
      else if args = [] then (COLOR_RED @ ''Bad command syntax! /alert <message...>'', w)
      else ('''', Broadcast (be_keys env) '''' (COLOR_RED @ ''UWAGA: '' @ Join args '' '') w))"

text \<open>\<^verbatim>\<open>/glist\<close>: the servers of the map and those that players are on, each with its players.\<close>

definition glistCmd :: "'i bungee_env \<Rightarrow> 'i \<Rightarrow> ('i, 'n) world \<Rightarrow> string" where
  "glistCmd env i w =
     (if \<not> may w i ''bungeecord.command.glist'' then INSUFFICIENT_PERMS
      else
        (let ps = players (be_keys env) w;
             servers = map (\<lambda>p. h_UpstreamName (wo_handlers w p)) ps;
             counts = (\<lambda>k. length (filter (\<lambda>s. s = k) servers));
             line = (\<lambda>k. COLOR_GREEN @ ''> '' @ k @ '': '' @ decimal (counts k))
         in Join ((COLOR_GREEN @ ''Upstream Servers:'')
              # map line (be_order env (fst ` set (wo_upstreams w) \<union> set servers))
              @ [COLOR_GREEN @ ''> ONLINE SUM: '' @ decimal (length ps)]) [chr 10]))"

definition ipCmd :: "'i bungee_env \<Rightarrow> 'i \<Rightarrow> string list \<Rightarrow> ('i, 'n) world \<Rightarrow> string" where
  "ipCmd env i args w =
     (case args of
        [] \<Rightarrow> COLOR_GREEN @ ''Your IP is: '' @ h_DownstreamAddr (wo_handlers w i)
      | name # _ \<Rightarrow>
          if \<not> may w i ''bungeecord.command.ip'' then INSUFFICIENT_PERMS
          else
            (case the_player env w name of
               None \<Rightarrow> COLOR_RED @ ''Player not found!''
             | Some p \<Rightarrow> COLOR_GREEN @ ''IP of '' @ nick w p @ '' is: '' @ h_DownstreamAddr (wo_handlers w p)))"

definition permsCmd :: "'i bungee_env \<Rightarrow> 'i \<Rightarrow> string list \<Rightarrow> ('i, 'n) world \<Rightarrow> string" where
  "permsCmd env i args w =
     (if \<not> may w i ''bungeecord.command.perms'' then INSUFFICIENT_PERMS
      else
        (case (case args of [] \<Rightarrow> Some i | name # _ \<Rightarrow> the_player env w name) of
           None \<Rightarrow> COLOR_RED @ ''Player not found!''
         | Some p \<Rightarrow>
             (case be_permset env p of
                None \<Rightarrow> COLOR_RED @ ''Invalid handler.Permissions type''
              | Some ps \<Rightarrow>
                  COLOR_GREEN @ ''Permissions of '' @ nick w p @ '':'' @ [chr 10] @
                  concat (map (\<lambda>k. COLOR_GREEN @ ''> '' @ k @ '': '' @
                      (if ps k = Some True then ''true'' else ''false'') @ [chr 10]) (be_order env (dom ps))))))"

definition findCmd :: "'i bungee_env \<Rightarrow> 'i \<Rightarrow> string list \<Rightarrow> ('i, 'n) world \<Rightarrow> string" where
  "findCmd env i args w =
     (if \<not> may w i ''bungeecord.command.find'' then INSUFFICIENT_PERMS
      else
        (case args of
           [name] \<Rightarrow>
             (case the_player env w name of
                None \<Rightarrow> COLOR_RED @ ''Player not found!''
              | Some p \<Rightarrow>
                  COLOR_GREEN @ ''Player '' @ nick w p @ '' is on '' @ h_UpstreamName (wo_handlers w p))
         | _ \<Rightarrow> COLOR_RED @ ''Bad command syntax! /find <nickname>''))"

section \<open>The filter\<close>

text \<open>The answer of a known command; \<open>Inl ()\<close> for a message that is none.\<close>

definition bungee_command ::
    "'i bungee_env \<Rightarrow> 'i \<Rightarrow> string list \<Rightarrow> ('i, 'n) world \<Rightarrow> (unit + string \<times> ('i, 'n) world) option" where
  "bungee_command env i words w =
     (let cmd = ToLower (be_tbl env) (hd words); args = tl words in
      if cmd = ''/server'' then map_option Inr (serverCmd i args w)
      else Some
        (if cmd = ''/send'' then Inr (sendCmd env i args w)
         else if cmd = ''/alert'' then Inr (alertCmd env i args w)
         else if cmd = ''/glist'' then Inr (glistCmd env i w, w)
         else if cmd = ''/ip'' then Inr (ipCmd env i args w, w)
         else if cmd = ''/find'' then Inr (findCmd env i args w, w)
         else if cmd = ''/gperms'' then Inr (permsCmd env i args w, w)
         else if cmd = ''/proxystats'' then Inr (proxystatsCmd env i args w)
         else if cmd = ''/greload'' then Inr (reloadupstreamsCmd env i args w)
         else if cmd = ''/bungee'' then Inr (COLOR_RED @ ''To nie bungee, czego tu szukasz? :P'', w)
         else Inl ()))"

definition ChatCommands ::
    "'i bungee_env \<Rightarrow> 'i \<Rightarrow> ChatMessagePacketSB \<Rightarrow> ('i, 'n) world \<Rightarrow> (gerr option \<times> ('i, 'n) world) option" where
  "ChatCommands env i msg w =
     map_option (\<lambda>res.
       case res of
         Inl _ \<Rightarrow> (None, w)
       | Inr (resp, w1) \<Rightarrow>
           (Some ErrDropPacket, if resp \<noteq> '''' then SendChatMessage i resp w1 else w1))
       (bungee_command env i (Split (CHR '' '') (cms_Message msg)) w)"

section \<open>Commands and permissions\<close>

text \<open>The capabilities that let a command reach beyond its sender.\<close>

definition bungee_powers :: "string list" where
  "bungee_powers = [''bungeecord.command.greload'', ''bungeecord.command.proxystats'',
     ''bungeecord.command.server'', ''bungeecord.command.server.switch'', ''bungeecord.command.send'',
     ''bungeecord.command.alert'', ''bungeecord.command.glist'', ''bungeecord.command.ip'',
     ''bungeecord.command.perms'', ''bungeecord.command.find'']"

lemma powerless_command:
  assumes "\<forall>perm \<in> set bungee_powers. \<not> may w i perm"
  shows "\<exists>res. bungee_command env i words w = Some res \<and> (case res of Inl _ \<Rightarrow> True | Inr (resp, w') \<Rightarrow> w' = w)"
proof -
  have no: "\<not> may w i ''bungeecord.command.greload''" "\<not> may w i ''bungeecord.command.proxystats''"
    "\<not> may w i ''bungeecord.command.server.switch''" "\<not> may w i ''bungeecord.command.send''"
    "\<not> may w i ''bungeecord.command.alert''"
    using assms by (auto simp: bungee_powers_def)
  show ?thesis
    by (auto simp: bungee_command_def Let_def no serverCmd_def sendCmd_def alertCmd_def proxystatsCmd_def
        reloadupstreamsCmd_def split: list.split)
qed

section \<open>The plugin channel\<close>

lemma inject_to_room:
  assumes "length (h_commandChan (wo_handlers w i)) < commandChan_size"
  shows "inject_to d raise payload i w = (None, sent i [send_command d raise payload] w)"
  using assms by (simp add: prod_eq_iff inject_to_sent) (simp add: inject_to_def InjectPackets_def Let_def)

lemma utf_out_read: "java_ok s \<Longrightarrow> ReadJavaUTF (utf_out s @ t) = (s, None, t)"
  unfolding utf_out_def by (rule java_utf.dec_enc)

lemma java_ok_ascii:
  assumes "list_all (\<lambda>c. 0 < code c \<and> code c < 128) s" "length s \<le> 65535"
  shows "java_ok s"
proof -
  have "utf8 s" using assms(1) by (intro utf8_ascii) (simp add: list_all_iff)
  with WriteJavaUTF_ascii [OF assms] show ?thesis by (simp add: java_ok_def)
qed

lemma plugin_names_ok [simp]:
  "java_ok ''PlayerList''" "java_ok ''PlayerCount''" "java_ok ''GetServer''" "java_ok ''Connect''"
  by (rule java_ok_ascii; simp add: code_def)+

lemma utf_out_nonempty: "java_ok s \<Longrightarrow> utf_out s \<noteq> []"
  by (auto simp: utf_out_def java_ok_def WriteJavaUTF_def PutUint16_def split: sum.splits if_splits)

section \<open>The properties\<close>

text \<open>A player with none of the capabilities of the proxy's commands can, whatever message it sends,
  change nothing but its own queue, to which at most texts for itself are added: nobody is moved or told
  anything, and the list of servers stays.\<close>

theorem powerless_commands:
  assumes "\<forall>perm \<in> set bungee_powers. \<not> may w i perm"
  shows "\<exists>err texts. ChatCommands env i msg w = Some (err, sent i (map says texts) w)"
proof -
  obtain res where res: "bungee_command env i (Split (CHR '' '') (cms_Message msg)) w = Some res"
    "case res of Inl _ \<Rightarrow> True | Inr (resp, w') \<Rightarrow> w' = w"
    using powerless_command [OF assms] by blast
  show ?thesis
  proof (cases res)
    case (Inl u)
    with res(1) show ?thesis by (intro exI [of _ None] exI [of _ "[]"]) (simp add: ChatCommands_def)
  next
    case (Inr r)
    with res have "ChatCommands env i msg w
        = Some (Some ErrDropPacket, sent i (map says (if fst r \<noteq> '''' then [fst r] else [])) w)"
      by (auto simp: ChatCommands_def SendChatMessage_sent)
    then show ?thesis by blast
  qed
qed


text \<open>A server that asks for the players of a server, or of all of them, is sent one plugin message
  that reads as the name of the question, the server asked about and the nicknames of exactly the players
  there; the question itself is not forwarded to the client.\<close>

theorem player_list_answer:
  assumes "pmc_Channel msg = ''bungeecord:main''" "pmc_Payload msg = utf_out ''PlayerList'' @ utf_out server"
    and "java_ok server"
    and "java_ok (Join (map (nick w) (filter (on_server server w) (players (be_keys env) w))) '','')"
    and "length (h_commandChan (wo_handlers w i)) < commandChan_size"
  shows "\<exists>answer r1 r2.
    PluginMessage env i msg w = Some (Some ErrDropPacket, sent i [send_command ServerBound None
      [P_PluginMessagePacketSB \<lparr>pms_Channel = ''bungeecord:main'', pms_Payload = answer\<rparr>]] w) \<and>
    ReadJavaUTF answer = (''PlayerList'', None, r1) \<and> ReadJavaUTF r1 = (server, None, r2) \<and>
    ReadJavaUTF r2 = (Join (map (nick w) (filter (on_server server w) (players (be_keys env) w))) '','', None, [])"
proof -
  let ?nicks = "Join (map (nick w) (filter (on_server server w) (players (be_keys env) w))) '',''"
  let ?answer = "utf_out ''PlayerList'' @ utf_out server @ utf_out ?nicks"
  have q: "ReadJavaUTF (utf_out server) = (server, None, [])"
    using utf_out_read [OF assms(3), of "[]"] by simp
  have "plugin_sub env i ''PlayerList'' (utf_out server) w = Some (Inr ?answer, w)"
    by (simp add: plugin_sub_def plugin_PlayerList_def q)
  then have "PluginMessage env i msg w = Some (Some ErrDropPacket, sent i [send_command ServerBound None
      [P_PluginMessagePacketSB \<lparr>pms_Channel = ''bungeecord:main'', pms_Payload = ?answer\<rparr>]] w)"
    using assms(1,2) by (simp add: PluginMessage_def utf_out_read utf_out_nonempty inject_to_room [OF assms(5)])
  moreover have "ReadJavaUTF ?answer = (''PlayerList'', None, utf_out server @ utf_out ?nicks)"
    by (simp add: utf_out_read)
  moreover have "ReadJavaUTF (utf_out server @ utf_out ?nicks) = (server, None, utf_out ?nicks)"
    by (simp add: utf_out_read assms(3))
  moreover have "ReadJavaUTF (utf_out ?nicks) = (?nicks, None, [])"
    using utf_out_read [OF assms(4), of "[]"] by simp
  ultimately show ?thesis by blast
qed

section \<open>Witnesses\<close>

definition sample_bungee :: "bool bungee_env" where
  "sample_bungee =
     \<lparr>be_tbl = id, be_keys = [''ann'', ''bob''], be_order = sorted_list_of_set, be_port = (\<lambda>_. 1),
      be_permset = (\<lambda>_. None), be_counts = (\<lambda>_. (0, 0)), be_file = Inr (None, []),
      be_resolve = (\<lambda>_. None), be_error_text = (\<lambda>_. ''error'')\<rparr>"

lemma powerless_commands_witness:
  "\<exists>err texts. ChatCommands sample_bungee True \<lparr>cms_Message = ''/send all lobby''\<rparr> sample_world
    = Some (err, sent True (map says texts) sample_world)"
  by (rule powerless_commands) (simp add: sample_world_def)

lemma player_list_answer_witness:
  "\<exists>answer r1 r2.
    PluginMessage sample_bungee True
      \<lparr>pmc_Channel = ''bungeecord:main'', pmc_Payload = utf_out ''PlayerList'' @ utf_out ''ALL''\<rparr> sample_world
    = Some (Some ErrDropPacket, sent True [send_command ServerBound None
      [P_PluginMessagePacketSB \<lparr>pms_Channel = ''bungeecord:main'', pms_Payload = answer\<rparr>]] sample_world) \<and>
    ReadJavaUTF answer = (''PlayerList'', None, r1) \<and> ReadJavaUTF r1 = (''ALL'', None, r2) \<and>
    ReadJavaUTF r2 = (''Ann,Bob'', None, [])"
proof -
  have ps: "players (be_keys sample_bungee) sample_world = [False, True]"
    by (simp add: players_def Range_def sample_world_def sample_bungee_def List.map_filter_simps)
  have "Join (map (nick sample_world) (filter (on_server ''ALL'' sample_world)
      (players (be_keys sample_bungee) sample_world))) '','' = ''Ann,Bob''"
    by (simp add: ps on_server_def) (simp add: sample_world_def)
  moreover have "java_ok ''Ann,Bob''" "java_ok ''ALL''"
    by (rule java_ok_ascii; simp add: code_def)+
  ultimately show ?thesis
    using player_list_answer [of "\<lparr>pmc_Channel = ''bungeecord:main'',
        pmc_Payload = utf_out ''PlayerList'' @ utf_out ''ALL''\<rparr>" "''ALL''" sample_world sample_bungee True]
    by (simp add: sample_world_def commandChan_size_def)
qed

end
