(* ===== verification/PermCommands.thy ===== *)
theory PermCommands
  imports World Permissions
begin

text \<open>
  src/filters/permissions/commands.go: the chat command \<^verbatim>\<open>/gperm\<close>, which loads the files again or
  counts who has a capability.  What the commands get from outside is an argument: the files at the
  moment of a reload, the order of the players, and the text of a percentage (\<^verbatim>\<open>%.2f\<close> of a quotient of
  floats).
\<close>

record perm_env =
  pe_ord :: key_order
  pe_tbl :: "nat \<Rightarrow> nat"
  pe_keys :: "string list"
  pe_groups_file :: "gerr + PermSet yaml"
  pe_users_file :: "gerr + string list yaml"
  pe_percent :: "nat \<Rightarrow> nat \<Rightarrow> string"
  pe_error_text :: "gerr \<Rightarrow> string"

definition perm_reloadCmd ::
    "perm_env \<Rightarrow> 'i \<Rightarrow> string list \<Rightarrow> ('i, 'n) world \<Rightarrow> perm_state \<Rightarrow> string \<times> perm_state" where
  "perm_reloadCmd env i args w st =
     (if \<not> may w i ''permissions.reload'' then (INSUFFICIENT_PERMS, st)
      else
        (case LoadPermissions (pe_ord env) (pe_tbl env) (pe_groups_file env) (pe_users_file env) st of
           (Some e, st1) \<Rightarrow> (COLOR_RED @ ''Permission loading error: '' @ pe_error_text env e, st1)
         | (None, st1) \<Rightarrow> (COLOR_GREEN @ ''Permissions reloaded!'', st1)))"

text \<open>The counters of all players and of those with the capability, in the loop over the players.\<close>

definition count_players :: "string \<Rightarrow> 'i list \<Rightarrow> ('i, 'n) world \<Rightarrow> nat \<times> nat" where
  "count_players perm is w =
     fold (\<lambda>i (all, has). (Suc all, if may w i perm then Suc has else has)) is (0, 0)"

definition statsCmd :: "perm_env \<Rightarrow> 'i \<Rightarrow> string list \<Rightarrow> ('i, 'n) world \<Rightarrow> string" where
  "statsCmd env i args w =
     (if \<not> may w i ''permissions.stats'' then INSUFFICIENT_PERMS
      else
        (case args of
           [perm] \<Rightarrow>
             (case count_players perm (players (pe_keys env) w) w of
                (all, has) \<Rightarrow> COLOR_GREEN @ ''Permission '' @ perm @ '': '' @ decimal has @ '' / '' @ decimal all
                  @ '' -> '' @ pe_percent env has all @ ''%'')
         | _ \<Rightarrow> COLOR_RED @ ''Usage: /gperm stats <permission>''))"

definition onChatMessage ::
    "perm_env \<Rightarrow> 'i \<Rightarrow> ChatMessagePacketSB \<Rightarrow> perm_state \<Rightarrow> ('i, 'n) world \<Rightarrow>
     gerr option \<times> perm_state \<times> ('i, 'n) world" where
  "onChatMessage env i msg st w =
     (if \<not> HasPrefix (cms_Message msg) ''/gperm '' then (None, st, w)
      else
        (case (case Fields (cms_Message msg) of
                 _ # sub # args \<Rightarrow>
                   (let cmd = ToLower (pe_tbl env) sub in
                    if cmd = ''reload'' then perm_reloadCmd env i args w st
                    else if cmd = ''stats'' then (statsCmd env i args w, st)
                    else (COLOR_RED @ ''Unkown /gperm subcommand!'', st))
               | _ \<Rightarrow> (COLOR_RED @ ''Usage: /gperm <subcommand>!'', st)) of
           (resp, st1) \<Rightarrow> (Some ErrDropPacket, st1, SendChatMessage i resp w)))"

section \<open>What the command changes\<close>

lemma count_players_exact: "count_players perm is w = (length is, length (filter (\<lambda>i. may w i perm) is))"
proof -
  have "fold (\<lambda>i (all, has). (Suc all, if may w i perm then Suc has else has)) is (n, k)
      = (n + length is, k + length (filter (\<lambda>i. may w i perm) is))" for n k
    by (induction "is" arbitrary: n k) auto
  then show ?thesis by (simp add: count_players_def)
qed

lemma LoadPermissions_error_keeps:
  "LoadPermissions ord tbl groups_file users_file st = (Some e, st') \<Longrightarrow> st' = st"
  by (auto simp: LoadPermissions_def split: prod.split_asm if_split_asm sum.split_asm)

text \<open>
  The command never reaches the server, tells its sender one text, and changes the permissions only for a
  sender who may reload them and only by loading both files without an error.
\<close>

theorem gperm_effect:
  assumes "HasPrefix (cms_Message msg) ''/gperm ''"
  shows "\<exists>resp st'. onChatMessage env i msg st w = (Some ErrDropPacket, st', sent i [says resp] w) \<and>
    (st' = st \<or> may w i ''permissions.reload'' \<and>
      LoadPermissions (pe_ord env) (pe_tbl env) (pe_groups_file env) (pe_users_file env) st = (None, st'))"
proof -
  have reload: "snd (perm_reloadCmd env i args w st) = st \<or> may w i ''permissions.reload'' \<and>
      LoadPermissions (pe_ord env) (pe_tbl env) (pe_groups_file env) (pe_users_file env) st
        = (None, snd (perm_reloadCmd env i args w st))" for args
    by (cases "LoadPermissions (pe_ord env) (pe_tbl env) (pe_groups_file env) (pe_users_file env) st")
       (auto simp: perm_reloadCmd_def split: option.split dest: LoadPermissions_error_keeps)
  define r where "r = (case Fields (cms_Message msg) of
                 _ # sub # args \<Rightarrow>
                   (let cmd = ToLower (pe_tbl env) sub in
                    if cmd = ''reload'' then perm_reloadCmd env i args w st
                    else if cmd = ''stats'' then (statsCmd env i args w, st)
                    else (COLOR_RED @ ''Unkown /gperm subcommand!'', st))
               | _ \<Rightarrow> (COLOR_RED @ ''Usage: /gperm <subcommand>!'', st))"
  have "snd r = st \<or> may w i ''permissions.reload'' \<and>
      LoadPermissions (pe_ord env) (pe_tbl env) (pe_groups_file env) (pe_users_file env) st = (None, snd r)"
    using reload unfolding r_def Let_def by (auto split: list.split)
  moreover have "onChatMessage env i msg st w = (Some ErrDropPacket, snd r, sent i [says (fst r)] w)"
    using assms by (simp add: onChatMessage_def r_def [symmetric] SendChatMessage_sent split: prod.split)
  ultimately show ?thesis by blast
qed

end
