(* ===== verification/FilterLaws.thy ===== *)
theory FilterLaws
  imports HandlerState
begin

text \<open>
  What src/filters.go guarantees: the bit of a packet is set exactly when some filter is registered
  for it, filters run in the order of their registration up to the first error, and the player list
  the proxy keeps mirrors the packets that went by.
\<close>

section \<open>The filter table\<close>

definition ft_ok :: "'n filter_table \<Rightarrow> bool" where
  "ft_ok ft \<longleftrightarrow> length (ft_packetFilters ft) = 512 \<and> length (ft_packetsParsed ft) = 8 \<and>
     (\<forall>i. 0 \<le> i \<and> i < 512 \<longrightarrow> Get (ft_packetsParsed ft) i = Ret (ft_packetFilters ft ! nat i \<noteq> []))"

lemma no_filters_ok: "ft_ok no_filters"
proof -
  have "NewBitarray 512 = Ret (replicate 8 0)" by (simp add: NewBitarray_def)
  from NewBitarray_empty [OF this] show ?thesis
    by (simp add: ft_ok_def no_filters_def nat_less_iff)
qed

lemma add_filter_ok:
  assumes "ft_ok ft" "0 \<le> i" "i < 512"
  shows "\<exists>ft'. add_filter i f ft = Ret ft' \<and> ft_ok ft' \<and>
    ft_packetFilters ft' = (ft_packetFilters ft)[nat i := ft_packetFilters ft ! nat i @ [f]]"
proof -
  have b: "i < 64 * int (length (ft_packetsParsed ft))" "in_slice i (ft_packetFilters ft)"
    using assms by (auto simp: ft_ok_def in_slice_def)
  from bitarray.set_total [OF assms(2) b(1), of True] obtain p where
    p: "Set (ft_packetsParsed ft) i True = Ret p" "length p = length (ft_packetsParsed ft)" by auto
  have "Get p j = (if j = i then Ret True else Get (ft_packetsParsed ft) j)" if "0 \<le> j" "j < 512" for j
    using bitarray.get_set [OF assms(2) b(1) that(1) _ p(1)] assms(1) that(2) by (simp add: ft_ok_def)
  with assms p b(2) show ?thesis
    by (auto simp: add_filter_def Let_def ft_ok_def nth_list_update)
qed

text \<open>Every packet type but the raw container can be registered.\<close>

lemma packet_ids:
  assumes "packet_type p \<noteq> 0"
  shows "0 \<le> sint (PacketID lib p) \<and> sint (PacketID lib p) < 256
    \<and> (Direction lib p = Ret ServerBound \<or> Direction lib p = Ret ClientBound)"
  using assms by (cases p) (simp_all add: methods_defs)

lemma sint_add_256: "0 \<le> sint i \<Longrightarrow> sint i < 256 \<Longrightarrow> sint (i + 256 :: 32 word) = sint i + 256"
  by (simp add: sint_word_ariths(1) signed_take_bit_int_eq_self)

lemma bucket_dir:
  "bucket ServerBound i = sint i" "bucket ClientBound i = 256 + sint i"
  by (simp_all add: bucket_def ServerBound_def ClientBound_def)

lemma SB_not_CB [simp]: "ServerBound \<noteq> ClientBound" "ClientBound \<noteq> ServerBound"
  by (simp_all add: ServerBound_def ClientBound_def)

definition filters_of :: "'n filter_table \<Rightarrow> direction \<Rightarrow> VarInt \<Rightarrow> 'n PacketFilter list" where
  "filters_of ft d i = ft_packetFilters ft ! nat (bucket d i)"

lemma sint_inject: "sint i = sint j \<longleftrightarrow> i = (j :: 32 word)"
  by (auto intro: signed_word_eqI)

lemma bucket_inject:
  assumes "0 \<le> sint i" "sint i < 256" "0 \<le> sint j" "sint j < 256"
    and "d \<in> {ServerBound, ClientBound}" "e \<in> {ServerBound, ClientBound}"
  shows "nat (bucket d i) = nat (bucket e j) \<longleftrightarrow> d = e \<and> i = j"
  using assms sint_inject [of i j] by (auto simp: bucket_dir eq_nat_nat_iff)

lemma RegisterPacketFilter_ok:
  assumes "ft_ok ft" "packet_type p \<noteq> 0" "Direction lib p = Ret d"
  shows "\<exists>ft'. RegisterPacketFilter lib p f ft = Ret ft' \<and> ft_ok ft' \<and>
    ft_packetFilters ft' = (ft_packetFilters ft)
      [nat (bucket d (PacketID lib p)) := filters_of ft d (PacketID lib p) @ [f]]"
proof -
  from packet_ids [of p lib] assms(2,3) have
    i: "0 \<le> sint (PacketID lib p)" "sint (PacketID lib p) < 256" and
    d: "d = ServerBound \<or> d = ClientBound" by auto
  have "RegisterPacketFilter lib p f ft = add_filter (bucket d (PacketID lib p)) f ft"
    using d i by (auto simp: RegisterPacketFilter_def assms(3) bucket_dir sint_add_256 add.commute)
  moreover have "0 \<le> bucket d (PacketID lib p)" "bucket d (PacketID lib p) < 512"
    using d i by (auto simp: bucket_dir)
  ultimately show ?thesis
    using add_filter_ok [OF assms(1), of "bucket d (PacketID lib p)" f] by (simp add: filters_of_def)
qed

lemma filters_of_register:
  assumes "ft_ok ft" "RegisterPacketFilter lib p f ft = Ret ft'" "Direction lib p = Ret d"
    and "0 \<le> sint j" "sint j < 256" "e \<in> {ServerBound, ClientBound}"
  shows "ft_ok ft' \<and> filters_of ft' e j =
    filters_of ft e j @ (if e = d \<and> j = PacketID lib p then [f] else [])"
proof -
  have raw: "packet_type p \<noteq> 0" using assms(3) by (cases p) auto
  from packet_ids [OF raw, of lib] assms(3) have
    i: "0 \<le> sint (PacketID lib p)" "sint (PacketID lib p) < 256" and
    d: "d \<in> {ServerBound, ClientBound}" by auto
  from RegisterPacketFilter_ok [OF assms(1) raw assms(3), of f] assms(2) have
    ok: "ft_ok ft'" and
    upd: "ft_packetFilters ft' = (ft_packetFilters ft)
      [nat (bucket d (PacketID lib p)) := filters_of ft d (PacketID lib p) @ [f]]" by auto
  have "nat (bucket d (PacketID lib p)) < length (ft_packetFilters ft)"
    using assms(1) i d by (auto simp: ft_ok_def bucket_dir)
  with bucket_inject [OF i assms(4,5) d assms(6)] show ?thesis
    by (auto simp: ok filters_of_def upd nth_list_update)
qed

text \<open>The filters that a list of registrations asks for, in order.\<close>

definition wanted ::
    "'n nbt_lib \<Rightarrow> ('n packet \<times> 'n PacketFilter) list \<Rightarrow> direction \<Rightarrow> VarInt \<Rightarrow> 'n PacketFilter list" where
  "wanted lib rs d i =
     map snd (filter (\<lambda>(t, f). Direction lib t = Ret d \<and> PacketID lib t = i) rs)"

lemma register_all_ok:
  assumes "\<forall>(t, f)\<in>set rs. packet_type t \<noteq> 0" "ft_ok ft"
  shows "\<exists>ft'. register_all lib rs ft = Ret ft' \<and> ft_ok ft' \<and>
    (\<forall>d j. d \<in> {ServerBound, ClientBound} \<longrightarrow> 0 \<le> sint j \<longrightarrow> sint j < 256 \<longrightarrow>
       filters_of ft' d j = filters_of ft d j @ wanted lib rs d j)"
  using assms
proof (induction rs arbitrary: ft)
  case Nil
  then show ?case by (simp add: wanted_def)
next
  case (Cons a rs)
  obtain t f where a: "a = (t, f)" by force
  with Cons.prems(1) have raw: "packet_type t \<noteq> 0" by auto
  from packet_ids [OF raw, of lib] obtain d0 where d0: "Direction lib t = Ret d0" by auto
  from RegisterPacketFilter_ok [OF Cons.prems(2) raw d0, of f] obtain ft1 where
    ft1: "RegisterPacketFilter lib t f ft = Ret ft1" "ft_ok ft1" by blast
  from Cons.prems(1) have "\<forall>(t, f)\<in>set rs. packet_type t \<noteq> 0" by auto
  from Cons.IH [OF this ft1(2)] obtain ft' where
    ft': "register_all lib rs ft1 = Ret ft'" "ft_ok ft'"
      "\<And>d j. d \<in> {ServerBound, ClientBound} \<Longrightarrow> 0 \<le> sint j \<Longrightarrow> sint j < 256 \<Longrightarrow>
         filters_of ft' d j = filters_of ft1 d j @ wanted lib rs d j" by blast
  have "filters_of ft' d j = filters_of ft d j @ wanted lib (a # rs) d j"
    if "d \<in> {ServerBound, ClientBound}" "0 \<le> sint j" "sint j < 256" for d j
    using ft'(3) [OF that] filters_of_register [OF Cons.prems(2) ft1(1) d0 that(2,3,1)]
    by (auto simp: a d0 wanted_def)
  with ft1 ft' a show ?case by auto
qed

section \<open>Dispatch\<close>

lemma dispatchPacket_bucket:
  assumes "ft_ok ft" "Direction lib p = Ret d"
  shows "dispatchPacket lib ft h p = run_filters (filters_of ft d (PacketID lib p)) h p"
proof -
  have raw: "packet_type p \<noteq> 0" using assms(2) by (cases p) auto
  from packet_ids [OF raw, of lib] assms have
    "in_slice (bucket d (PacketID lib p)) (ft_packetFilters ft)"
    by (auto simp: in_slice_def ft_ok_def bucket_dir)
  with assms(2) show ?thesis by (simp add: dispatchPacket_def Let_def filters_of_def)
qed

lemma run_filters_append:
  "run_filters (fs @ gs) h p =
     (case run_filters fs h p of
        Panic m \<Rightarrow> Panic m
      | Ret (Some e, h', p') \<Rightarrow> Ret (Some e, h', p')
      | Ret (None, h', p') \<Rightarrow> run_filters gs h' p')"
  by (induction fs arbitrary: h p) (auto split: go.split option.split)

section \<open>The player list\<close>

text \<open>The key of an entry is the UUID of its item.\<close>

definition keyed :: "(uuid \<rightharpoonup> PlayerListItem) \<Rightarrow> bool" where
  "keyed pl \<longleftrightarrow> (\<forall>u v. pl u = Some v \<longrightarrow> pi_UUID v = u)"

lemma keyed_upd: "keyed pl \<Longrightarrow> pi_UUID v = u \<Longrightarrow> keyed (pl(u \<mapsto> v))"
  unfolding keyed_def by (metis fun_upd_apply option.inject)

lemma keyed_del: "keyed pl \<Longrightarrow> keyed (pl(u := None))"
  unfolding keyed_def by (metis fun_upd_apply option.distinct(1))

lemma keyed_lookup: "keyed pl \<Longrightarrow> pl u = Some v \<Longrightarrow> pi_UUID v = u"
  unfolding keyed_def by blast

lemma store_items_keyed: "keyed pl \<Longrightarrow> keyed (store_items items pl)"
proof (induction items arbitrary: pl)
  case (Cons item items)
  from Cons.IH [OF keyed_upd [OF Cons.prems refl]] show ?case by (simp only: store_items.simps)
qed simp

lemma delete_items_keyed: "keyed pl \<Longrightarrow> keyed (delete_items items pl)"
proof (induction items arbitrary: pl)
  case (Cons item items)
  from Cons.IH [OF keyed_del [OF Cons.prems]] show ?case by (simp only: delete_items.simps)
qed simp

lemma updatePlayerListItem_keyed:
  assumes "\<And>a b. pi_UUID (f a b) = pi_UUID a"
  shows "keyed pl \<Longrightarrow> keyed (updatePlayerListItem f items pl)"
proof (induction items arbitrary: pl)
  case (Cons item items)
  show ?case
  proof (cases "pl (pi_UUID item)")
    case None
    with Cons show ?thesis by (simp only: updatePlayerListItem.simps option.case)
  next
    case (Some saved)
    have "pi_UUID (f saved item) = pi_UUID item"
      by (simp only: assms keyed_lookup [OF Cons.prems Some])
    from Cons.IH [OF keyed_upd [OF Cons.prems this]] Some show ?thesis
      by (simp only: updatePlayerListItem.simps option.case)
  qed
qed simp

lemma dom_store_items: "dom (store_items items pl) = dom pl \<union> pi_UUID ` set items"
proof (induction items arbitrary: pl)
  case (Cons item items)
  have "dom (store_items (item # items) pl) = dom (pl(pi_UUID item \<mapsto> item)) \<union> pi_UUID ` set items"
    by (simp only: store_items.simps Cons.IH)
  then show ?case
    by (simp only: dom_fun_upd option.distinct if_False list.set image_insert Un_insert_left
        Un_insert_right)
qed simp

lemma dom_delete_items: "dom (delete_items items pl) = dom pl - pi_UUID ` set items"
proof (induction items arbitrary: pl)
  case (Cons item items)
  have "dom (delete_items (item # items) pl) = dom (pl(pi_UUID item := None)) - pi_UUID ` set items"
    by (simp only: delete_items.simps Cons.IH)
  then show ?case by (simp only: dom_fun_upd refl if_True list.set image_insert
      Diff_insert2 [of _ _ "pi_UUID ` set items"])
qed simp

lemma dom_updatePlayerListItem: "dom (updatePlayerListItem f items pl) = dom pl"
proof (induction items arbitrary: pl)
  case (Cons item items)
  show ?case
  proof (cases "pl (pi_UUID item)")
    case None
    then show ?thesis by (simp only: updatePlayerListItem.simps option.case Cons.IH)
  next
    case (Some saved)
    then have "dom (pl(pi_UUID item \<mapsto> f saved item)) = dom pl"
      by (simp only: dom_fun_upd option.distinct if_False insert_absorb [OF domI [of pl]])
    with Some show ?thesis by (simp only: updatePlayerListItem.simps option.case Cons.IH)
  qed
qed simp

lemma update_list_keyed: "keyed pl \<Longrightarrow> keyed (update_list p pl)"
  unfolding update_list_def
  by (auto intro!: store_items_keyed delete_items_keyed updatePlayerListItem_keyed)

text \<open>The players a client knows after a packet, given those it knew before.\<close>

definition known_after :: "PlayerListItemPacketCB \<Rightarrow> uuid set \<Rightarrow> uuid set" where
  "known_after p known =
     (if pli_Action p = ADD_PLAYER then known \<union> pi_UUID ` set (pli_Items p)
      else if pli_Action p = REMOVE_PLAYER then known - pi_UUID ` set (pli_Items p)
      else known)"

lemma dom_update_list: "dom (update_list p pl) = known_after p (dom pl)"
  by (simp add: update_list_def known_after_def dom_store_items dom_delete_items
      dom_updatePlayerListItem list_actions)

lemma update_lists:
  "keyed pl \<Longrightarrow> keyed (fold update_list ps pl) \<and> dom (fold update_list ps pl) = fold known_after ps (dom pl)"
  by (induction ps arbitrary: pl) (simp_all add: update_list_keyed dom_update_list)

section \<open>Properties\<close>

text \<open>C19: the filter table is exact.  After any registrations of filters for packet types (from the
  empty table, in any order) the bit of a packet type is set, so that it is parsed, exactly when
  some filter was registered for its id and direction; and dispatching a packet runs exactly the
  filters registered for its id and direction, in the order of registration.\<close>

theorem filter_table_exact:
  assumes "\<forall>(t, f)\<in>set rs. packet_type t \<noteq> 0" "packet_type p \<noteq> 0"
  shows "\<exists>ft d. register_all lib rs no_filters = Ret ft \<and> Direction lib p = Ret d
    \<and> Get (ft_packetsParsed ft) (bucket d (PacketID lib p)) = Ret (wanted lib rs d (PacketID lib p) \<noteq> [])
    \<and> (\<forall>h. dispatchPacket lib ft h p = run_filters (wanted lib rs d (PacketID lib p)) h p)"
proof -
  from register_all_ok [OF assms(1) no_filters_ok] obtain ft where
    ft: "register_all lib rs no_filters = Ret ft" "ft_ok ft" and
    exact: "\<And>d j. d \<in> {ServerBound, ClientBound} \<Longrightarrow> 0 \<le> sint j \<Longrightarrow> sint j < 256 \<Longrightarrow>
       filters_of ft d j = filters_of no_filters d j @ wanted lib rs d j" by blast
  from packet_ids [OF assms(2), of lib] obtain d where
    d: "Direction lib p = Ret d" "d \<in> {ServerBound, ClientBound}" and
    i: "0 \<le> sint (PacketID lib p)" "sint (PacketID lib p) < 256" by auto
  have b: "0 \<le> bucket d (PacketID lib p)" "bucket d (PacketID lib p) < 512"
    using d(2) i by (auto simp: bucket_dir)
  then have "filters_of no_filters d (PacketID lib p) = []"
    by (simp add: filters_of_def no_filters_def nat_less_iff)
  with exact [OF d(2) i] have f: "filters_of ft d (PacketID lib p) = wanted lib rs d (PacketID lib p)"
    by simp
  have "Get (ft_packetsParsed ft) (bucket d (PacketID lib p)) = Ret (wanted lib rs d (PacketID lib p) \<noteq> [])"
    using ft(2) b f unfolding ft_ok_def filters_of_def by metis
  moreover have "dispatchPacket lib ft h p = run_filters (wanted lib rs d (PacketID lib p)) h p" for h
    using dispatchPacket_bucket [OF ft(2) d(1)] f by simp
  ultimately show ?thesis using ft(1) d(1) by blast
qed

theorem filter_table_exact_witness:
  "\<exists>ft. init_filters unit_nbt = Ret ft \<and> Get (ft_packetsParsed ft) (bucket ServerBound 0x05) = Ret True"
proof -
  let ?rs = "[(P_ClientSettingsPacketSB new_ClientSettingsPacketSB, saveClientSettings),
      (P_PluginMessagePacketSB new_PluginMessagePacketSB, saveClientSettings),
      (P_PlayerListItemPacketCB new_PlayerListItemPacketCB, savePlayerList)]
      :: (unit packet \<times> unit PacketFilter) list"
  let ?p = "P_ClientSettingsPacketSB new_ClientSettingsPacketSB :: unit packet"
  have "\<forall>(t, f)\<in>set ?rs. packet_type t \<noteq> 0" "packet_type ?p \<noteq> 0" by simp_all
  from filter_table_exact [OF this, of unit_nbt] obtain ft d where
    ft: "register_all unit_nbt ?rs no_filters = Ret ft" "Direction unit_nbt ?p = Ret d"
      "Get (ft_packetsParsed ft) (bucket d (PacketID unit_nbt ?p)) = Ret (wanted unit_nbt ?rs d (PacketID unit_nbt ?p) \<noteq> [])"
    by blast
  have "PacketID unit_nbt ?p = 0x05" "d = ServerBound"
    using ft(2) by (simp_all add: methods_defs)
  with ft(3) have "Get (ft_packetsParsed ft) (bucket ServerBound 0x05) = Ret True"
    by (simp add: wanted_def methods_defs)
  with ft(1) show ?thesis unfolding init_filters_def by blast
qed

text \<open>C31: the proxy's player list mirrors what the client was told.  After any sequence of player
  list packets the keys of the list are exactly the players that the packets have added and not
  removed, and every entry is stored under its own UUID (so removing the listed items, as a server
  switch does, removes exactly the players the client knows).\<close>

theorem player_list_mirror:
  shows "dom (fold update_list ps Map.empty) = fold known_after ps {}
    \<and> (\<forall>u v. fold update_list ps Map.empty u = Some v \<longrightarrow> pi_UUID v = u)"
proof -
  have "keyed Map.empty" by (simp add: keyed_def)
  from update_lists [OF this, of ps] show ?thesis by (simp add: keyed_def)
qed

theorem player_list_mirror_witness:
  "pi_UUID (the (fold update_list
      [\<lparr>pli_Action = ADD_PLAYER, pli_Items = [zero_PlayerListItem\<lparr>pi_UUID := [1]\<rparr>]\<rparr>] Map.empty [1])) = [1]"
proof -
  let ?ps = "[\<lparr>pli_Action = ADD_PLAYER, pli_Items = [zero_PlayerListItem\<lparr>pi_UUID := [1]\<rparr>]\<rparr>]"
  have "fold update_list ?ps Map.empty [1] = Some (zero_PlayerListItem\<lparr>pi_UUID := [1]\<rparr>)"
    by (simp add: update_list_def)
  with player_list_mirror [of ?ps] show ?thesis by (metis option.sel)
qed

end
