(* ===== verification/JsonValid.thy ===== *)
theory JsonValid
  imports ChatJson
begin

text \<open>
  \<^verbatim>\<open>json.Valid\<close> of Go's encoding/json: a text is split into tokens, and an automaton with a stack of
  open objects and arrays accepts them.  What \<^verbatim>\<open>json.Marshal\<close> writes for the chat types is valid.
\<close>

section \<open>Tokens\<close>

text \<open>Strings, numbers and literals are one kind of token: a value.  Only a string can be a key.\<close>

datatype token = TString | TValue | TOpen bool | TClose bool | TColon | TComma

text \<open>The open bracket of \<open>TOpen\<close> and \<open>TClose\<close> belongs to an object or, with \<open>False\<close>, to an array.\<close>

definition is_hex :: "char \<Rightarrow> bool" where
  "is_hex c \<longleftrightarrow> is_digit c \<or> 97 \<le> code c \<and> code c \<le> 102 \<or> 65 \<le> code c \<and> code c \<le> 70"

text \<open>The rest behind the closing quote of a string; control characters must be escaped.\<close>

fun string_rest :: "string \<Rightarrow> string option" where
  "string_rest [] = None"
| "string_rest (c # s) =
     (if code c = 34 then Some s
      else if code c = 92 then
        (case s of
           [] \<Rightarrow> None
         | e # s1 \<Rightarrow>
             if code e \<in> {34, 92, 47, 98, 102, 110, 114, 116} then string_rest s1
             else if code e = 117 then
               (case s1 of
                  h1 # h2 # h3 # h4 # s2 \<Rightarrow>
                    if is_hex h1 \<and> is_hex h2 \<and> is_hex h3 \<and> is_hex h4 then string_rest s2 else None
                | _ \<Rightarrow> None)
             else None)
      else if code c < 32 then None
      else string_rest s)"

definition digits_rest :: "string \<Rightarrow> string option" where
  "digits_rest s = (case s of c # _ \<Rightarrow> if is_digit c then Some (dropWhile is_digit s) else None | [] \<Rightarrow> None)"

definition frac_rest :: "string \<Rightarrow> string option" where
  "frac_rest s = (case s of c # t \<Rightarrow> if c = CHR ''.'' then digits_rest t else Some s | [] \<Rightarrow> Some s)"

definition exp_rest :: "string \<Rightarrow> string option" where
  "exp_rest s =
     (case s of
        c # t \<Rightarrow>
          if c = CHR ''e'' \<or> c = CHR ''E'' then
            (case t of d # u \<Rightarrow> if d = CHR ''+'' \<or> d = CHR ''-'' then digits_rest u else digits_rest t
             | [] \<Rightarrow> None)
          else Some s
      | [] \<Rightarrow> Some s)"

definition number_rest :: "string \<Rightarrow> string option" where
  "number_rest s =
     (let s1 = (case s of c # t \<Rightarrow> if c = CHR ''-'' then t else s | [] \<Rightarrow> s) in
      case (case s1 of c # t \<Rightarrow> if c = CHR ''0'' then Some t else digits_rest s1 | [] \<Rightarrow> None) of
        None \<Rightarrow> None
      | Some s2 \<Rightarrow> (case frac_rest s2 of None \<Rightarrow> None | Some s3 \<Rightarrow> exp_rest s3))"

definition value_rest :: "string \<Rightarrow> string option" where
  "value_rest s =
     (if HasPrefix s ''true'' \<or> HasPrefix s ''null'' then Some (drop 4 s)
      else if HasPrefix s ''false'' then Some (drop 5 s)
      else number_rest s)"

definition next_token :: "string \<Rightarrow> (token \<times> string) option" where
  "next_token s =
     (case s of
        [] \<Rightarrow> None
      | c # t \<Rightarrow>
          if c = CHR ''{'' then Some (TOpen True, t)
          else if c = CHR ''['' then Some (TOpen False, t)
          else if c = CHR ''}'' then Some (TClose True, t)
          else if c = CHR '']'' then Some (TClose False, t)
          else if c = CHR '':'' then Some (TColon, t)
          else if c = CHR '','' then Some (TComma, t)
          else if code c = 34 then map_option (Pair TString) (string_rest t)
          else map_option (Pair TValue) (value_rest s))"

definition is_blank :: "char \<Rightarrow> bool" where
  "is_blank c \<longleftrightarrow> code c \<in> {9, 10, 13, 32}"

lemma string_rest_length: "string_rest s = Some r \<Longrightarrow> length r < length s"
proof (induction s arbitrary: r rule: length_induct)
  case (1 s)
  then have IH: "string_rest t = Some r \<Longrightarrow> length t < length s \<Longrightarrow> length r < length s" for t
    by (meson less_trans)
  from "1.prems" show ?case
    by (cases s) (auto split: if_split_asm list.split_asm dest!: IH)
qed

lemma digits_rest_length: "digits_rest s = Some r \<Longrightarrow> length r < length s"
  by (auto simp: digits_rest_def length_dropWhile_le le_imp_less_Suc split: list.split_asm if_split_asm)

lemma number_rest_length: "number_rest s = Some r \<Longrightarrow> length r < length s"
  by (auto simp: number_rest_def frac_rest_def exp_rest_def Let_def
      split: list.split_asm if_split_asm option.split_asm dest!: digits_rest_length)

lemma value_rest_length: "value_rest s = Some r \<Longrightarrow> length r < length s"
  by (cases s) (auto simp: value_rest_def HasPrefix_def split: if_split_asm dest!: number_rest_length)

lemma next_token_length:
  assumes "next_token s = Some (t, r)"
  shows "length r < length s"
proof (cases s)
  case Nil
  with assms show ?thesis by (simp add: next_token_def)
next
  case (Cons c u)
  with assms have "s = c # r \<or> string_rest u = Some r \<or> value_rest s = Some r"
    by (auto simp: next_token_def split: if_split_asm)
  with Cons show ?thesis by (auto dest: string_rest_length value_rest_length)
qed

function tokens :: "string \<Rightarrow> token list option" where
  "tokens s =
     (case s of
        [] \<Rightarrow> Some []
      | c # t \<Rightarrow>
          if is_blank c then tokens t
          else (case next_token s of None \<Rightarrow> None | Some (k, r) \<Rightarrow> map_option (Cons k) (tokens r)))"
  by pat_completeness auto
termination
  by (relation "measure length") (auto dest: next_token_length)

declare tokens.simps [simp del]

section \<open>Grammar\<close>

text \<open>
  What may come next: a value, the first element of an array or its end, a key or the end of the object,
  a key, a colon, or what follows a value.  Go limits the depth.
\<close>

datatype expect = Value | First | KeyOrEnd | Key | Colon | After

definition max_depth :: nat where "max_depth = 10000"

fun accepts :: "expect \<Rightarrow> bool list \<Rightarrow> token list \<Rightarrow> bool" where
  "accepts e st [] \<longleftrightarrow> e = After \<and> st = []"
| "accepts e st (TString # ts) \<longleftrightarrow>
     (e = Value \<or> e = First) \<and> accepts After st ts \<or> (e = KeyOrEnd \<or> e = Key) \<and> accepts Colon st ts"
| "accepts e st (TValue # ts) \<longleftrightarrow> (e = Value \<or> e = First) \<and> accepts After st ts"
| "accepts e st (TOpen b # ts) \<longleftrightarrow>
     (e = Value \<or> e = First) \<and> length st < max_depth \<and> accepts (if b then KeyOrEnd else First) (b # st) ts"
| "accepts e st (TClose b # ts) \<longleftrightarrow>
     (e = After \<or> e = (if b then KeyOrEnd else First)) \<and>
     (case st of [] \<Rightarrow> False | b' # st' \<Rightarrow> b' = b \<and> accepts After st' ts)"
| "accepts e st (TColon # ts) \<longleftrightarrow> e = Colon \<and> accepts Value st ts"
| "accepts e st (TComma # ts) \<longleftrightarrow>
     e = After \<and> (case st of [] \<Rightarrow> False | b # _ \<Rightarrow> accepts (if b then Key else Value) st ts)"

definition json_Valid :: "string \<Rightarrow> bool" where
  "json_Valid s = (case tokens s of None \<Rightarrow> False | Some ts \<Rightarrow> accepts Value [] ts)"

section \<open>What is written is valid\<close>

lemma next_token_simps [simp]:
  "next_token (CHR ''{'' # t) = Some (TOpen True, t)" "next_token (CHR ''['' # t) = Some (TOpen False, t)"
  "next_token (CHR ''}'' # t) = Some (TClose True, t)" "next_token (CHR '']'' # t) = Some (TClose False, t)"
  "next_token (CHR '':'' # t) = Some (TColon, t)" "next_token (CHR '','' # t) = Some (TComma, t)"
  by (simp_all add: next_token_def)

lemma tokens_Nil [simp]: "tokens [] = Some []"
  by (simp add: tokens.simps)

lemma tokens_step:
  "\<not> is_blank c \<Longrightarrow> next_token (c # t) = Some (k, r) \<Longrightarrow> tokens (c # t) = map_option (Cons k) (tokens r)"
  by (simp add: tokens.simps [of "c # t"])

lemma tokens_brackets [simp]:
  "tokens (CHR ''{'' # t) = map_option (Cons (TOpen True)) (tokens t)"
  "tokens (CHR ''['' # t) = map_option (Cons (TOpen False)) (tokens t)"
  "tokens (CHR ''}'' # t) = map_option (Cons (TClose True)) (tokens t)"
  "tokens (CHR '']'' # t) = map_option (Cons (TClose False)) (tokens t)"
  "tokens (CHR '':'' # t) = map_option (Cons TColon) (tokens t)"
  "tokens (CHR '','' # t) = map_option (Cons TComma) (tokens t)"
  by (simp_all add: tokens_step is_blank_def code_def)

subsection \<open>Strings\<close>

lemma decode_rune_shape:
  assumes "decode_rune (a # s) = (r, n)"
  shows "a < 128 \<and> r = a \<and> n = 1 \<or> 128 \<le> r \<and> (\<forall>x \<in> set (take n (a # s)). 128 \<le> x)"
  using assms
  by (auto simp: RuneError_def is_cont_def split: if_split_asm list.split_asm)

lemma decode_rune_codes:
  assumes "decode_rune (map code (c # t)) = (r, n)"
  shows "code c < 128 \<and> r = code c \<and> n = 1 \<or> 128 \<le> r \<and> (\<forall>x \<in> set (take n (c # t)). 128 \<le> code x)"
proof -
  have "set (take n (code c # map code t)) = code ` set (take n (c # t))"
    by (simp add: take_map flip: list.simps(9))
  with decode_rune_shape [of "code c" "map code t" r n] assms show ?thesis
    by (simp del: decode_rune.simps take_Suc_Cons)
qed

definition plain_piece :: "nat \<times> string \<Rightarrow> bool" where
  "plain_piece p \<longleftrightarrow> (fst p < 128 \<and> (\<exists>c. snd p = [c] \<and> code c = fst p)) \<or>
     (128 \<le> fst p \<and> (\<forall>c \<in> set (snd p). 128 \<le> code c))"

lemma pieces_plain: "p \<in> set (pieces s) \<Longrightarrow> plain_piece p"
proof (induction s arbitrary: p rule: length_induct)
  case (1 s)
  show ?case
  proof (cases s)
    case Nil
    with "1.prems" show ?thesis by (simp add: pieces.simps)
  next
    case (Cons c t)
    obtain r n where d: "decode_rune (map code s) = (r, n)" by fastforce
    with decode_rune_size [of "map code s"] Cons have n: "1 \<le> n" by simp
    with Cons have "length (drop n s) < length s" by simp
    with "1.IH" have tail: "p \<in> set (pieces (drop n s)) \<Longrightarrow> plain_piece p" by blast
    from decode_rune_codes [of c t r n] d Cons have "plain_piece (r, take n s)"
      by (auto simp: plain_piece_def simp del: decode_rune.simps)
    moreover have "pieces s = (r, take n s) # pieces (drop n s)"
      using Cons d pieces.simps [of s] by (simp del: decode_rune.simps)
    ultimately show ?thesis using "1.prems" tail by auto
  qed
qed

lemma string_rest_high: "\<forall>c \<in> set bs. 128 \<le> code c \<Longrightarrow> string_rest (bs @ t) = string_rest t"
  by (induction bs) auto

lemma hex4_digits: "\<exists>a b c d. hex4 n = [a, b, c, d] \<and> is_hex a \<and> is_hex b \<and> is_hex c \<and> is_hex d"
proof -
  have "is_hex (let d = m mod 16 in chr (if d < 10 then 48 + d else 87 + d))" for m
  proof -
    have "m mod 16 < 16" by simp
    then show ?thesis by (auto simp: is_hex_def is_digit_def Let_def)
  qed
  then show ?thesis by (simp add: hex4_def)
qed

lemma string_rest_json_rune:
  assumes "plain_piece p"
  shows "string_rest (json_rune p @ t) = string_rest t"
proof -
  obtain r bs where p: "p = (r, bs)" by fastforce
  have u: "string_rest (chr 92 # CHR ''u'' # hex4 r @ t) = string_rest t"
  proof -
    obtain a b c d where h: "hex4 r = [a, b, c, d]" "is_hex a" "is_hex b" "is_hex c" "is_hex d"
      using hex4_digits by blast
    moreover have "code (CHR ''u'') = 117" by (simp add: code_def)
    ultimately show ?thesis by simp
  qed
  from assms p consider c where "bs = [c]" "code c = r" "r < 128" | "128 \<le> r" "\<forall>c \<in> set bs. 128 \<le> code c"
    by (auto simp: plain_piece_def)
  then show ?thesis
  proof cases
    case (1 c)
    have "code (CHR ''n'') = 110" "code (CHR ''r'') = 114" "code (CHR ''t'') = 116" by (simp_all add: code_def)
    with 1 u p show ?thesis by (auto simp: json_rune_def RuneError_def)
  next
    case 2
    then show ?thesis using u p string_rest_high [OF 2(2)] by (auto simp: json_rune_def)
  qed
qed

lemma tokens_json_string: "tokens (json_string s @ t) = map_option (Cons TString) (tokens t)"
proof -
  have "\<forall>p \<in> set ps. plain_piece p \<Longrightarrow> string_rest (concat (map json_rune ps) @ u) = string_rest u" for ps u
    by (induction ps) (simp_all add: string_rest_json_rune)
  then have "string_rest (concat (map json_rune (pieces s)) @ chr 34 # t) = Some t"
    using pieces_plain [of _ s] by simp
  moreover have "chr 34 = CHR 0x22" by code_simp
  ultimately show ?thesis
    unfolding json_string_def append_Cons append_assoc append_Nil
    by (intro tokens_step) (simp_all add: is_blank_def next_token_def code_def)
qed

subsection \<open>Values\<close>

text \<open>A text is a value of some depth when it leads the automaton over it, whatever comes behind it.\<close>

definition writes :: "nat \<Rightarrow> string \<Rightarrow> bool" where
  "writes d s \<longleftrightarrow> (\<forall>t ts. tokens t = Some ts \<longrightarrow> (\<exists>us. tokens (s @ t) = Some us \<and>
     (\<forall>e st. e = Value \<or> e = First \<longrightarrow> length st + d \<le> max_depth \<longrightarrow> accepts After st ts \<longrightarrow> accepts e st us)))"

lemma writesD:
  assumes "writes d s" "tokens t = Some ts"
  obtains us where "tokens (s @ t) = Some us"
    "\<And>e st. e = Value \<or> e = First \<Longrightarrow> length st + d \<le> max_depth \<Longrightarrow> accepts After st ts \<Longrightarrow> accepts e st us"
  using assms unfolding writes_def by blast

lemma writes_valid: "writes d s \<Longrightarrow> d \<le> max_depth \<Longrightarrow> json_Valid s"
  by (auto simp: writes_def json_Valid_def dest!: spec [of _ "[]"])

lemma writes_mono: "writes d s \<Longrightarrow> d \<le> d' \<Longrightarrow> writes d' s"
  unfolding writes_def by (meson add_left_mono le_trans)

lemma writes_string: "writes 0 (json_string s)"
  by (auto simp: writes_def tokens_json_string)

lemma writes_literal: "writes 0 ''true''" "writes 0 ''null''"
proof -
  have "tokens (''true'' @ t) = map_option (Cons TValue) (tokens t)" for t
    by (simp add: tokens.simps [of "CHR ''t'' # _"] is_blank_def next_token_def value_rest_def HasPrefix_def code_def)
  moreover have "tokens (''null'' @ t) = map_option (Cons TValue) (tokens t)" for t
    by (simp add: tokens.simps [of "CHR ''n'' # _"] is_blank_def next_token_def value_rest_def HasPrefix_def code_def)
  ultimately show "writes 0 ''true''" "writes 0 ''null''" by (auto simp: writes_def)
qed

text \<open>The inside of an object and of an array, up to the closing bracket.\<close>

lemma object_tail:
  assumes "\<And>f. f \<in> set members \<Longrightarrow> \<exists>name v. f = json_field name v \<and> writes d v" "members \<noteq> []" "tokens t = Some ts"
  shows "\<exists>us. tokens (Join members '','' @ CHR ''}'' # t) = Some us \<and>
    (\<forall>e st. e = KeyOrEnd \<or> e = Key \<longrightarrow> Suc (length st) + d \<le> max_depth \<longrightarrow> accepts After st ts \<longrightarrow>
      accepts e (True # st) us)"
  using assms(1,2)
proof (induction members)
  case (Cons f fs)
  from Cons.prems(1) [of f] obtain name v where f: "f = json_field name v" "writes d v" by auto
  define tail where "tail = (if fs = [] then CHR ''}'' # t else CHR '','' # Join fs '','' @ CHR ''}'' # t)"
  have whole: "Join (f # fs) '','' @ CHR ''}'' # t = json_string name @ CHR '':'' # v @ tail"
    by (cases fs) (simp_all add: f(1) json_field_def tail_def)
  obtain vs where vs: "tokens tail = Some vs"
    "\<And>st. Suc (length st) + d \<le> max_depth \<Longrightarrow> accepts After st ts \<Longrightarrow> accepts After (True # st) vs"
  proof (cases "fs = []")
    case True
    with that assms(3) show thesis by (simp add: tail_def)
  next
    case False
    with Cons obtain us where "tokens (Join fs '','' @ CHR ''}'' # t) = Some us"
      "\<forall>e st. e = KeyOrEnd \<or> e = Key \<longrightarrow> Suc (length st) + d \<le> max_depth \<longrightarrow> accepts After st ts \<longrightarrow>
        accepts e (True # st) us" by auto
    with that [of "TComma # us"] False show thesis by (simp add: tail_def)
  qed
  from writesD [OF f(2) vs(1)] obtain ws where ws: "tokens (v @ tail) = Some ws"
    "\<And>e st. e = Value \<or> e = First \<Longrightarrow> length st + d \<le> max_depth \<Longrightarrow> accepts After st vs \<Longrightarrow> accepts e st ws" by blast
  show ?case
    unfolding whole using ws vs(2) by (auto simp: tokens_json_string)
qed simp

lemma writes_object:
  assumes "\<And>f. f \<in> set members \<Longrightarrow> \<exists>name v. f = json_field name v \<and> writes d v" "members \<noteq> []"
  shows "writes (Suc d) (json_object members)"
  unfolding writes_def
proof (intro allI impI)
  fix t ts
  assume "tokens t = Some ts"
  from object_tail [OF assms this] obtain us where "tokens (Join members '','' @ CHR ''}'' # t) = Some us"
    "\<forall>e st. e = KeyOrEnd \<or> e = Key \<longrightarrow> Suc (length st) + d \<le> max_depth \<longrightarrow> accepts After st ts \<longrightarrow>
      accepts e (True # st) us" by blast
  then show "\<exists>us. tokens (json_object members @ t) = Some us \<and> (\<forall>e st. e = Value \<or> e = First \<longrightarrow>
      length st + Suc d \<le> max_depth \<longrightarrow> accepts After st ts \<longrightarrow> accepts e st us)"
    by (intro exI [of _ "TOpen True # us"]) (auto simp: json_object_def)
qed

lemma writes_fields:
  "writes d v1 \<Longrightarrow> writes d v2 \<Longrightarrow> writes (Suc d) (json_object [json_field n1 v1, json_field n2 v2])"
  "writes d v1 \<Longrightarrow> writes d v2 \<Longrightarrow> writes d v3 \<Longrightarrow>
    writes (Suc d) (json_object [json_field n1 v1, json_field n2 v2, json_field n3 v3])"
  by (rule writes_object; auto)+

lemma array_tail:
  assumes "\<And>v. v \<in> set xs \<Longrightarrow> writes d v" "xs \<noteq> []" "tokens t = Some ts"
  shows "\<exists>us. tokens (Join xs '','' @ CHR '']'' # t) = Some us \<and>
    (\<forall>e st. e = Value \<or> e = First \<longrightarrow> Suc (length st) + d \<le> max_depth \<longrightarrow> accepts After st ts \<longrightarrow>
      accepts e (False # st) us)"
  using assms(1,2)
proof (induction xs)
  case (Cons v vs)
  define tail where "tail = (if vs = [] then CHR '']'' # t else CHR '','' # Join vs '','' @ CHR '']'' # t)"
  have whole: "Join (v # vs) '','' @ CHR '']'' # t = v @ tail"
    by (cases vs) (simp_all add: tail_def)
  obtain ks where ks: "tokens tail = Some ks"
    "\<And>st. Suc (length st) + d \<le> max_depth \<Longrightarrow> accepts After st ts \<Longrightarrow> accepts After (False # st) ks"
  proof (cases "vs = []")
    case True
    with that assms(3) show thesis by (simp add: tail_def)
  next
    case False
    with Cons obtain us where "tokens (Join vs '','' @ CHR '']'' # t) = Some us"
      "\<forall>e st. e = Value \<or> e = First \<longrightarrow> Suc (length st) + d \<le> max_depth \<longrightarrow> accepts After st ts \<longrightarrow>
        accepts e (False # st) us" by auto
    with that [of "TComma # us"] False show thesis by (simp add: tail_def)
  qed
  have "writes d v" using Cons.prems by simp
  from writesD [OF this ks(1)] obtain ws where "tokens (v @ tail) = Some ws"
    "\<And>e st. e = Value \<or> e = First \<Longrightarrow> length st + d \<le> max_depth \<Longrightarrow> accepts After st ks \<Longrightarrow> accepts e st ws" by blast
  with ks(2) show ?case unfolding whole by auto
qed simp

lemma writes_array:
  assumes "\<And>v. v \<in> set xs \<Longrightarrow> writes d v" "xs \<noteq> []"
  shows "writes (Suc d) (json_array xs)"
  unfolding writes_def
proof (intro allI impI)
  fix t ts
  assume "tokens t = Some ts"
  from array_tail [OF assms this] obtain us where "tokens (Join xs '','' @ CHR '']'' # t) = Some us"
    "\<forall>e st. e = Value \<or> e = First \<longrightarrow> Suc (length st) + d \<le> max_depth \<longrightarrow> accepts After st ts \<longrightarrow>
      accepts e (False # st) us" by blast
  then show "\<exists>us. tokens (json_array xs @ t) = Some us \<and> (\<forall>e st. e = Value \<or> e = First \<longrightarrow>
      length st + Suc d \<le> max_depth \<longrightarrow> accepts After st ts \<longrightarrow> accepts e st us)"
    by (intro exI [of _ "TOpen False # us"]) (auto simp: json_array_def)
qed

section \<open>Chat types\<close>

lemma writes_ChatAction: "writes 1 (json_ChatAction a)"
  unfolding json_ChatAction_def One_nat_def
  by (intro writes_fields writes_string)

lemma writes_ChatPart: "writes 2 (json_ChatPart p)"
proof -
  have lit: "writes 1 (json_string s)" "writes 1 ''true''" for s
    by (rule writes_mono [OF writes_string] writes_mono [OF writes_literal(1)], simp)+
  show ?thesis
    unfolding json_ChatPart_def Let_def numeral_2_eq_2
    by (rule writes_object)
       (use lit writes_ChatAction in \<open>fastforce simp: json_flag_def split: if_split_asm option.split_asm\<close>)+
qed

lemma writes_Para2Json: "writes 3 (Para2Json msg)"
proof -
  have part: "writes 3 (json_ChatPart p)" for p by (rule writes_mono [OF writes_ChatPart]) simp
  have "writes (Suc 2) (json_array (map json_ChatPart (p # ps)))" for p ps
    by (rule writes_array) (use writes_ChatPart in auto)
  then have parts: "writes 3 (json_array (json_ChatPart p # map json_ChatPart ps))" for p ps by simp
  show ?thesis
    unfolding Para2Json_def
    using part parts [of _ "_ # _"] by (auto simp: writes_mono [OF writes_literal(2)] split: list.split)
qed


end
