(* ===== verification/ChatFormat.thy ===== *)
theory ChatFormat
  imports JsonValid Packets
begin

text \<open>
  src/packets/chat_format.go: \<^verbatim>\<open>Chatf\<close> and the chat message of the packets package; and the
  methods of the packets that carry one as JSON (login_packets.go, play_clientbound.go).
\<close>

section \<open>Messages\<close>

text \<open>\<^verbatim>\<open>ChatMessage\<close>; a \<^verbatim>\<open>ChatAction\<close> is the pair of its action and its value, both always written.\<close>

record ChatMessage =
  cg_Text :: string
  cg_Click :: "string \<times> string"
  cg_Hover :: "string \<times> string"

definition json_ChatMessage :: "ChatMessage \<Rightarrow> string" where
  "json_ChatMessage m =
     json_object [json_field ''text'' (json_string (cg_Text m)),
       json_field ''clickEvent'' (json_ChatAction (cg_Click m)),
       json_field ''hoverEvent'' (json_ChatAction (cg_Hover m))]"

definition text_message :: "string \<Rightarrow> ChatMessage" where
  "text_message t = \<lparr>cg_Text = t, cg_Click = ('''', ''''), cg_Hover = ('''', '''')\<rparr>"

text \<open>Marshalling strings has no error, so the error of the setters is nil and the constructors do not panic.\<close>

definition LoginKickPacket_SetText :: "ChatMessage \<Rightarrow> LoginKickPacket \<Rightarrow> gerr option \<times> LoginKickPacket" where
  "LoginKickPacket_SetText m p = (None, p\<lparr>lk_Message := json_ChatMessage m\<rparr>)"

definition KickPacketCB_SetText :: "ChatMessage \<Rightarrow> KickPacketCB \<Rightarrow> gerr option \<times> KickPacketCB" where
  "KickPacketCB_SetText m p = (None, p\<lparr>kk_Message := json_ChatMessage m\<rparr>)"

definition ChatMessagePacketCB_SetMsg ::
    "ChatMessage \<Rightarrow> ChatMessagePacketCB \<Rightarrow> gerr option \<times> ChatMessagePacketCB" where
  "ChatMessagePacketCB_SetMsg m p = (None, p\<lparr>cmc_Message := json_ChatMessage m\<rparr>)"

definition ChatMessagePacketCB_SetText ::
    "string \<Rightarrow> ChatMessagePacketCB \<Rightarrow> gerr option \<times> ChatMessagePacketCB" where
  "ChatMessagePacketCB_SetText t = ChatMessagePacketCB_SetMsg (text_message t)"

definition NewLoginKick :: "ChatMessage \<Rightarrow> 'n packet" where
  "NewLoginKick m = P_LoginKickPacket (snd (LoginKickPacket_SetText m new_LoginKickPacket))"

definition NewIngameKick :: "ChatMessage \<Rightarrow> 'n packet" where
  "NewIngameKick m = P_KickPacketCB (snd (KickPacketCB_SetText m new_KickPacketCB))"

definition NewIngameKickTxt :: "string \<Rightarrow> 'n packet" where
  "NewIngameKickTxt t = NewIngameKick (text_message t)"

lemma writes_ChatMessage: "writes 2 (json_ChatMessage m)"
proof -
  have "writes 1 (json_string s)" for s by (rule writes_mono [OF writes_string]) simp
  then have "writes (Suc 1) (json_ChatMessage m)"
    unfolding json_ChatMessage_def by (intro writes_fields) (simp_all only: writes_ChatAction)
  then show ?thesis by (simp only: one_add_one Suc_eq_plus1)
qed

lemma json_ChatMessage_valid: "json_Valid (json_ChatMessage m)"
  by (rule writes_valid [OF writes_ChatMessage]) (simp add: max_depth_def)

section \<open>Chatf\<close>

text \<open>
  What the standard library needs: \<open>fe_IsPrint\<close> is \<^verbatim>\<open>unicode.IsPrint\<close> above ASCII, and \<open>fe_other\<close> is what
  \<^verbatim>\<open>Sprintf\<close> makes of the rest of a format from a directive on that is neither \<^verbatim>\<open>%s\<close>, \<^verbatim>\<open>%v\<close> nor \<^verbatim>\<open>%%\<close>.
\<close>

record fmt_env =
  fe_IsPrint :: "nat \<Rightarrow> bool"
  fe_other :: "string \<Rightarrow> string list \<Rightarrow> string"

definition upper_hex :: "nat \<Rightarrow> nat \<Rightarrow> string" where
  "upper_hex k n = map (\<lambda>j. let d = n div 16 ^ j mod 16 in chr (if d < 10 then 48 + d else 55 + d)) (rev [0..<k])"

text \<open>\<^verbatim>\<open>template.JSEscapeString\<close>, with \<^verbatim>\<open>%04X\<close> for runes that are not printable.\<close>

definition js_piece :: "(nat \<Rightarrow> bool) \<Rightarrow> nat \<times> string \<Rightarrow> string" where
  "js_piece is_print p =
     (case p of (r, bs) \<Rightarrow>
        if r < 128 then
          (if r = 92 \<or> r = 39 \<or> r = 34 then chr 92 # bs
           else if r = 60 \<or> r = 62 \<or> r = 38 \<or> r = 61 \<or> r < 32 then chr 92 # CHR ''u'' # upper_hex 4 r
           else bs)
        else if is_print r then bs
        else chr 92 # CHR ''u'' # upper_hex (if r < 65536 then 4 else if r < 1048576 then 5 else 6) r)"

definition JSEscapeString :: "(nat \<Rightarrow> bool) \<Rightarrow> string \<Rightarrow> string" where
  "JSEscapeString is_print s = concat (map (js_piece is_print) (pieces s))"

text \<open>\<^verbatim>\<open>fmt.Sprintf\<close> with arguments that are strings.\<close>

definition extra_args :: "string list \<Rightarrow> string" where
  "extra_args args =
     (if args = [] then '''' else ''%!(EXTRA '' @ Join (map (\<lambda>a. ''string='' @ a) args) '', '' @ '')'')"

fun sprintf :: "(string \<Rightarrow> string list \<Rightarrow> string) \<Rightarrow> string \<Rightarrow> string list \<Rightarrow> string" where
  "sprintf other [] args = extra_args args"
| "sprintf other (c # s) args =
     (if c \<noteq> CHR ''%'' then c # sprintf other s args
      else
        (case s of
           [] \<Rightarrow> ''%!(NOVERB)'' @ extra_args args
         | v # t \<Rightarrow>
             if v = CHR ''%'' then CHR ''%'' # sprintf other t args
             else if v = CHR ''s'' \<or> v = CHR ''v'' then
               (case args of
                  [] \<Rightarrow> ''%!'' @ v # ''(MISSING)'' @ sprintf other t []
                | a # as \<Rightarrow> a @ sprintf other t as)
             else other (c # s) args))"

definition invalid_text :: string where
  "invalid_text = (let q = chr 34 in
     CHR ''{'' # q # ''text'' @ q # CHR '':'' # q # ''ErrChatJsonInvalid'' @ q # CHR '','' #
     q # ''color'' @ q # CHR '':'' # q # ''red'' @ [q, CHR ''}''])"

definition Chatf :: "fmt_env \<Rightarrow> string \<Rightarrow> string list \<Rightarrow> string" where
  "Chatf fe json_format args =
     (let data = sprintf (fe_other fe) json_format (map (JSEscapeString (fe_IsPrint fe)) args)
      in if \<not> json_Valid data then invalid_text else data)"

lemma invalid_text_valid: "json_Valid invalid_text"
  by code_simp

lemma Chatf_valid: "json_Valid (Chatf fe fmt args)"
  by (simp add: Chatf_def Let_def invalid_text_valid)

subsection \<open>A text in a message\<close>

text \<open>The format of a message with one text: what is before and behind its directive.\<close>

definition text_before :: string where
  "text_before = CHR ''{'' # chr 34 # ''text'' @ [chr 34, CHR '':'', chr 34]"

definition text_after :: string where
  "text_after = [chr 34, CHR ''}'']"

lemma sprintf_literal: "CHR ''%'' \<notin> set s \<Longrightarrow> sprintf other (s @ t) args = s @ sprintf other t args"
  by (induction s) auto

lemma upper_hex_digits: "c \<in> set (upper_hex k n) \<Longrightarrow> is_hex c"
proof -
  have "is_hex (chr (if d < 10 then 48 + d else 55 + d))" if "d < 16" for d
    using that by (auto simp: is_hex_def is_digit_def)
  then show "c \<in> set (upper_hex k n) \<Longrightarrow> is_hex c"
    by (auto simp: upper_hex_def Let_def)
qed

lemma length_upper_hex [simp]: "length (upper_hex k n) = k"
  by (simp add: upper_hex_def)

lemma string_rest_plain:
  "\<forall>c \<in> set s. is_hex c \<Longrightarrow> string_rest (s @ t) = string_rest t"
  by (induction s) (auto simp: is_hex_def is_digit_def)

lemma string_rest_unicode:
  assumes "4 \<le> k"
  shows "string_rest (chr 92 # CHR ''u'' # upper_hex k n @ t) = string_rest t"
proof -
  have "\<exists>a b c d s. upper_hex k n = a # b # c # d # s"
    using assms length_upper_hex [of k n]
    by (cases "upper_hex k n" rule: list.exhaust [case_product list.exhaust]) (auto simp: Suc_le_length_iff neq_Nil_conv eval_nat_numeral)
  then obtain a b c d s where h: "upper_hex k n = a # b # c # d # s" by blast
  with upper_hex_digits [of _ k n] have "is_hex a" "is_hex b" "is_hex c" "is_hex d" "\<forall>x \<in> set s. is_hex x" by auto
  moreover have "code (CHR ''u'') = 117" by (simp add: code_def)
  ultimately show ?thesis by (simp add: h string_rest_plain)
qed

lemma string_rest_js_piece:
  assumes "plain_piece p"
  shows "string_rest (js_piece ip p @ t) = (if fst p = 39 then None else string_rest t)"
proof -
  obtain r bs where p: "p = (r, bs)" by fastforce
  from assms p consider c where "bs = [c]" "code c = r" "r < 128" | "128 \<le> r" "\<forall>c \<in> set bs. 128 \<le> code c"
    by (auto simp: plain_piece_def)
  then show ?thesis
  proof cases
    case (1 c)
    then show ?thesis
      using p string_rest_unicode [of 4 r t] by (auto simp: js_piece_def)
  next
    case 2
    then show ?thesis
      using p string_rest_high [OF 2(2)] string_rest_unicode [of _ r t] by (auto simp: js_piece_def)
  qed
qed

lemma apostrophe_piece: "(\<exists>p \<in> set (pieces s). fst p = 39) \<longleftrightarrow> chr 39 \<in> set s"
proof -
  have "chr 39 = c \<longleftrightarrow> code c = 39" for c
    using chr_code [of c] by fastforce
  then have "fst p = 39 \<longleftrightarrow> chr 39 \<in> set (snd p)" if "p \<in> set (pieces s)" for p
    using pieces_plain [OF that] by (auto simp: plain_piece_def)
  moreover have "set s = (\<Union>p \<in> set (pieces s). set (snd p))"
    using arg_cong [OF concat_pieces [of s], of set] by simp
  ultimately show ?thesis by auto
qed

lemma string_rest_JSEscape:
  "string_rest (JSEscapeString ip s @ t) = (if chr 39 \<in> set s then None else string_rest t)"
proof -
  have "string_rest (concat (map (js_piece ip) ps) @ t) =
      (if \<exists>p \<in> set ps. fst p = 39 then None else string_rest t)" if "\<forall>p \<in> set ps. plain_piece p" for ps
    using that by (induction ps) (simp_all add: string_rest_js_piece)
  with pieces_plain [of _ s] show ?thesis by (simp add: JSEscapeString_def apostrophe_piece)
qed

lemma tokens_text_format:
  "tokens (text_before @ u) = (case string_rest u of None \<Rightarrow> None
     | Some r \<Rightarrow> map_option (\<lambda>ts. TOpen True # TString # TColon # TString # ts) (tokens r))"
proof -
  have "chr 34 = CHR 0x22" by code_simp
  then have quote: "tokens (chr 34 # v) = (case string_rest v of None \<Rightarrow> None
      | Some r \<Rightarrow> map_option (Cons TString) (tokens r))" for v
    by (simp add: tokens.simps [of "CHR 0x22 # _"] is_blank_def next_token_def code_def split: option.split)
  have "string_rest (''text'' @ chr 34 # v) = Some v" for v
    by (simp add: code_def flip: \<open>chr 34 = _\<close>) (simp add: \<open>chr 34 = _\<close> of_char_def)
  then show ?thesis
    by (simp add: text_before_def quote option.map_comp comp_def split: option.split)
qed

lemma text_format_valid:
  "json_Valid (text_before @ JSEscapeString ip t @ text_after) \<longleftrightarrow> chr 39 \<notin> set t"
proof -
  have "string_rest text_after = Some ''}''" by (simp add: text_after_def)
  then show ?thesis
    by (simp add: json_Valid_def tokens_text_format string_rest_JSEscape max_depth_def)
qed

text \<open>A message with a text is the escaped text between quotes, unless the
  text has an apostrophe: its escape is not JSON, and the message is the one of an error.\<close>

theorem chatf_text_exact:
  "Chatf fe (text_before @ ''%s'' @ text_after) [t] =
     (if chr 39 \<in> set t then invalid_text
      else text_before @ JSEscapeString (fe_IsPrint fe) t @ text_after)"
proof -
  have "chr 34 \<noteq> CHR ''%''" by code_simp
  then have "CHR ''%'' \<notin> set text_before" "sprintf other text_after [] = text_after" for other
    by (simp_all add: text_before_def text_after_def extra_args_def not_sym)
  then show ?thesis
    by (simp add: Chatf_def Let_def sprintf_literal text_format_valid)
qed

end
