(* ===== verification/Tab.thy ===== *)
theory Tab
  imports World FilterLaws ChatFormat
begin

text \<open>
  src/filters/tab/: completion of nicknames, and a tab list of 80 cells that is sent to one client.
\<close>

section \<open>Completion\<close>

text \<open>\<open>fold_tbl\<close> is Unicode's simple case folding above ASCII, \<open>keys\<close> the order of the players.\<close>

definition hasPrefixFold :: "(nat \<Rightarrow> nat) \<Rightarrow> string \<Rightarrow> string \<Rightarrow> bool" where
  "hasPrefixFold fold_tbl s prefix =
     (if length s < length prefix then False else EqualFold fold_tbl (take (length prefix) s) prefix)"

definition tab_matches :: "(nat \<Rightarrow> nat) \<Rightarrow> bool \<Rightarrow> string \<Rightarrow> ('i, 'n) world \<Rightarrow> 'i \<Rightarrow> bool" where
  "tab_matches fold_tbl ignore_exempt word w h \<longleftrightarrow>
     hasPrefixFold fold_tbl (nick w h) word \<and> \<not> (may w h ''tabcomplete.exempt'' \<and> \<not> ignore_exempt)"

definition tabFilter ::
    "(nat \<Rightarrow> nat) \<Rightarrow> string list \<Rightarrow> 'i \<Rightarrow> TabCompletePacketSB \<Rightarrow> ('i, 'n) world \<Rightarrow> gerr option \<times> ('i, 'n) world" where
  "tabFilter fold_tbl keys i query w =
     (if \<not> may w i ''tabcomplete.enable'' then (Some ErrDropPacket, w)
      else
        (let txt = tcs_Text query; k = LastIndexFunc txt IsSpace in
         if k < 1 then
           (Some (Errorf ''tabFilter: i: %d len: %d'' [GInt k, GInt (int (length txt))]), w)
         else
           (let word = drop (nat k + 1) txt;
                matches = map (\<lambda>h. \<lparr>tm_Match = nick w h, tm_Tooltip = ''''\<rparr>)
                  (filter (tab_matches fold_tbl (may w i ''tabcomplete.ignore_exempt'') word w) (players keys w))
            in if matches = [] then (Some ErrDropPacket, w)
               else
                 (case inject_to ClientBound None
                    [P_TabCompletePacketCB \<lparr>tcc_TransactionId = tcs_TransactionId query,
                       tcc_Start = word_of_int (k + 1), tcc_Length = word_of_int (int (length txt) - (k + 1)),
                       tcc_Count = 0, tcc_Matches = matches\<rparr>] i w of
                    (Some e, w') \<Rightarrow> (Some e, w')
                  | (None, w') \<Rightarrow> (Some ErrDropPacket, w')))))"

section \<open>The tab list\<close>

definition DefaultTextures :: AuthProperty where
  "DefaultTextures = \<lparr>ap_Name = ''textures'',
     ap_Value =
     ''eyJ0aW1lc3RhbXAiOjE0MTEyNjg3OTI3NjUsInByb2ZpbGVJZCI6IjNmYmVjN2RkMGE1ZjQwYmY5ZDExODg1YTU0'' @
     ''NTA3MTEyIiwicHJvZmlsZU5hbWUiOiJsYXN0X3VzZXJuYW1lIiwidGV4dHVyZXMiOnsiU0tJTiI6eyJ1cmwiOiJo'' @
     ''dHRwOi8vdGV4dHVyZXMubWluZWNyYWZ0Lm5ldC90ZXh0dXJlLzg0N2I1Mjc5OTg0NjUxNTRhZDZjMjM4YTFlM2My'' @
     ''ZGQzZTMyOTY1MzUyZTNhNjRmMzZlMTZhOTQwNWFiOCJ9fX0='',
     ap_Signature =
     ''u8sG8tlbmiekrfAdQjy4nXIcCfNdnUZzXSx9BE1X5K27NiUvE1dDNIeBBSPdZzQG1kHGijuokuHPdNi/KXHZkQM7'' @
     ''OJ4aCu5JiUoOY28uz3wZhW4D+KG3dH4ei5ww2KwvjcqVL7LFKfr/ONU5Hvi7MIIty1eKpoGDYpWj3WjnbN4ye5Zo'' @
     ''88I2ZEkP1wBw2eDDN4P3YEDYTumQndcbXFPuRRTntoGdZq3N5EBKfDZxlw4L3pgkcSLU5rWkd5UH4ZUOHAP/VaJ0'' @
     ''4mpFLsFXzzdU4xNZ5fthCwxwVBNLtHRWO26k/qcVBzvEXtKGFJmxfLGCzXScET/OjUBak/JEkkRG2m+kpmBMgFRN'' @
     ''tjyZgQ1w08U6HHnLTiAiio3JswPlW5v56pGWRHQT5XWSkfnrXDalxtSmPnB5LmacpIImKgL8V9wLnWvBzI7SHjly'' @
     ''Qbbgd+kUOkLlu7+717ySDEJwsFJekfuR6N/rpcYgNZYrxDwe4w57uDPlwNL6cJPfNUHV7WEbIU1pMgxsxaXe8WSv'' @
     ''V87qLsR7H06xocl2C0JFfe2jZR4Zh3k9xzEnfCeFKBgGb4lrOWBu1eDWYgtKV67M2Y+B3W5pjuAjwAxn0waODtEn'' @
     ''/3jKPbc/sxbPvljUCw65X+ok0UUN1eOwXV5l2EGzn05t3Yhwq19/GxARg63ISGE8CKw=''\<rparr>"

record 'i TabList =
  tl_handler :: 'i
  tl_send_full :: bool
  tl_cells :: "PlayerListItem list"
  tl_changed_dn :: "PlayerListItem list"
  tl_changed_ping :: "PlayerListItem list"
  tl_title :: "PlayerListTitlePacketCB option"

text \<open>The UUID with the decimal digits of \<open>k\<close> in its third group.\<close>

definition cell_uuid :: "nat \<Rightarrow> uuid" where
  "cell_uuid k = replicate 6 0 @
     [word_of_nat (k div 1000 mod 10 * 16 + k div 100 mod 10), word_of_nat (k div 10 mod 10 * 16 + k mod 10)]
     @ replicate 8 0"

definition empty_text :: string where
  "empty_text = ''{'' @ chr 34 # ''text'' @ chr 34 # '':'' @ [chr 34, chr 34] @ ''}''"

definition new_cell :: "nat \<Rightarrow> PlayerListItem" where
  "new_cell k = \<lparr>pi_UUID = cell_uuid k, pi_Name = '''', pi_Properties = [DefaultTextures],
     pi_GameMode = 0, pi_Ping = 1, pi_DisplayName = empty_text\<rparr>"

definition NewTabList :: "'i \<Rightarrow> 'i TabList" where
  "NewTabList handler =
     \<lparr>tl_handler = handler, tl_send_full = True, tl_cells = map new_cell [0..<80],
      tl_changed_dn = [], tl_changed_ping = [], tl_title = None\<rparr>"

text \<open>\<^verbatim>\<open>cell\<close>: a pointer into the array is the index.\<close>

definition cell :: "int \<Rightarrow> int \<Rightarrow> 'i TabList \<Rightarrow> nat go" where
  "cell x y tb =
     (let k = x * 20 + y in
      if 3 < x \<or> x < 0 \<or> 19 < y \<or> y < 0 \<or> int (length (tl_cells tb)) \<le> k
      then Panic ''Invalid cell: %d, %d'' else Ret (nat k))"

definition SetProperties :: "int \<Rightarrow> int \<Rightarrow> AuthProperty list option \<Rightarrow> 'i TabList \<Rightarrow> 'i TabList go" where
  "SetProperties x y properties tb =
     go_map (\<lambda>k.
       let ps = (case properties of None \<Rightarrow> [DefaultTextures] | Some ps \<Rightarrow> ps) in
       if pi_Properties (tl_cells tb ! k) \<noteq> ps then
         tb\<lparr>tl_cells := (tl_cells tb)[k := (tl_cells tb ! k)\<lparr>pi_Properties := ps\<rparr>], tl_send_full := True\<rparr>
       else tb) (cell x y tb)"

definition SetPing :: "int \<Rightarrow> int \<Rightarrow> int \<Rightarrow> 'i TabList \<Rightarrow> 'i TabList go" where
  "SetPing x y ping tb =
     go_map (\<lambda>k.
       if pi_Ping (tl_cells tb ! k) = word_of_int ping then tb
       else
         (let c = (tl_cells tb ! k)\<lparr>pi_Ping := word_of_int ping\<rparr> in
          tb\<lparr>tl_cells := (tl_cells tb)[k := c], tl_changed_ping := tl_changed_ping tb @ [c]\<rparr>)) (cell x y tb)"

definition too_long :: string where
  "too_long = ''{'' @ chr 34 # ''text'' @ chr 34 # '':'' @ chr 34 # ''TOO_LONG_STR'' @ chr 34 # ''}''"

definition SetCell ::
    "fmt_env \<Rightarrow> int \<Rightarrow> int \<Rightarrow> string \<Rightarrow> string list \<Rightarrow> 'i TabList \<Rightarrow> 'i TabList go" where
  "SetCell fe x y chat_format args tb =
     go_map (\<lambda>k.
       let d1 = (if args \<noteq> [] then Chatf fe chat_format args else chat_format);
           display_name = (if 64 < length d1 then too_long else d1) in
       if pi_DisplayName (tl_cells tb ! k) = display_name then tb
       else
         (let c = (tl_cells tb ! k)\<lparr>pi_DisplayName := display_name\<rparr> in
          tb\<lparr>tl_cells := (tl_cells tb)[k := c], tl_changed_dn := tl_changed_dn tb @ [c]\<rparr>)) (cell x y tb)"

definition SetTitle :: "string \<Rightarrow> string \<Rightarrow> 'i TabList \<Rightarrow> 'i TabList" where
  "SetTitle header footer tb = tb\<lparr>tl_title := Some \<lparr>plt_Header = header, plt_Footer = footer\<rparr>\<rparr>"

text \<open>
  The packets that \<^verbatim>\<open>Flush\<close> makes, and the list with nothing pending.  The full packet shares the
  array of cells with the list; here it holds the cells of the moment.
\<close>

definition flush_packets :: "'i TabList \<Rightarrow> 'n packet list \<times> 'i TabList" where
  "flush_packets tb =
     (let full = (if tl_send_full tb then
            [P_PlayerListItemPacketCB \<lparr>pli_Action = ADD_PLAYER, pli_Items = tl_cells tb\<rparr>] else []);
          tb1 = (if tl_send_full tb then tb\<lparr>tl_send_full := False, tl_changed_dn := [], tl_changed_ping := []\<rparr>
                 else tb);
          dn = (if tl_changed_dn tb1 \<noteq> [] then
            [P_PlayerListItemPacketCB \<lparr>pli_Action = UPDATE_DISPLAY_NAME, pli_Items = tl_changed_dn tb1\<rparr>] else []);
          ping = (if tl_changed_ping tb1 \<noteq> [] then
            [P_PlayerListItemPacketCB \<lparr>pli_Action = UPDATE_LATENCY, pli_Items = tl_changed_ping tb1\<rparr>] else []);
          title = (case tl_title tb1 of None \<Rightarrow> [] | Some t \<Rightarrow> [P_PlayerListTitlePacketCB t])
      in (full @ dn @ ping @ title, tb1\<lparr>tl_changed_dn := [], tl_changed_ping := [], tl_title := None\<rparr>))"

definition tab_Flush :: "'i TabList \<Rightarrow> ('i, 'n) world \<Rightarrow> (gerr option \<times> 'i TabList) \<times> ('i, 'n) world" where
  "tab_Flush tb w =
     (case flush_packets tb of (p, tb1) \<Rightarrow>
        if p = [] then ((None, tb1), w)
        else (case inject_to ClientBound None p (tl_handler tb) w of (err, w1) \<Rightarrow> ((err, tb1), w1)))"

section \<open>The client's list\<close>

text \<open>Operations on a tab list, and the packets that they make when every \<^verbatim>\<open>Flush\<close> finds room.\<close>

datatype tab_op =
    OpProperties int int "AuthProperty list option"
  | OpPing int int int
  | OpCell int int string "string list"
  | OpTitle string string
  | OpFlush

definition tab_step ::
    "fmt_env \<Rightarrow> tab_op \<Rightarrow> 'i TabList \<Rightarrow> ('n packet list \<times> 'i TabList) go" where
  "tab_step fe oper tb =
     (case oper of
        OpProperties x y ps \<Rightarrow> go_map (Pair []) (SetProperties x y ps tb)
      | OpPing x y p \<Rightarrow> go_map (Pair []) (SetPing x y p tb)
      | OpCell x y f args \<Rightarrow> go_map (Pair []) (SetCell fe x y f args tb)
      | OpTitle h f \<Rightarrow> Ret ([], SetTitle h f tb)
      | OpFlush \<Rightarrow> Ret (flush_packets tb))"

fun tab_run ::
    "fmt_env \<Rightarrow> tab_op list \<Rightarrow> 'i TabList \<Rightarrow> ('n packet list \<times> 'i TabList) go" where
  "tab_run fe [] tb = Ret ([], tb)"
| "tab_run fe (x # xs) tb =
     go_bind (tab_step fe x tb) (\<lambda>(ps, tb1). go_map (\<lambda>(qs, tb2). (ps @ qs, tb2)) (tab_run fe xs tb1))"

text \<open>What a client that has the list \<open>m\<close> has after it got packets; a packet of another kind leaves the list.\<close>

fun client_sees :: "'n packet list \<Rightarrow> (uuid \<rightharpoonup> PlayerListItem) \<Rightarrow> (uuid \<rightharpoonup> PlayerListItem)" where
  "client_sees [] m = m"
| "client_sees (P_PlayerListItemPacketCB p # ps) m = client_sees ps (update_list p m)"
| "client_sees (_ # ps) m = client_sees ps m"

lemma client_sees_append: "client_sees (ps @ qs) m = client_sees qs (client_sees ps m)"
  by (induction ps m rule: client_sees.induct) simp_all

definition table_of :: "PlayerListItem list \<Rightarrow> (uuid \<rightharpoonup> PlayerListItem)" where
  "table_of cells = map_of (map (\<lambda>c. (pi_UUID c, c)) cells)"

text \<open>The pending changes of display names and of pings.\<close>

definition apply_dn :: "PlayerListItem list \<Rightarrow> (uuid \<rightharpoonup> PlayerListItem) \<Rightarrow> (uuid \<rightharpoonup> PlayerListItem)" where
  "apply_dn = updatePlayerListItem (\<lambda>old new. old\<lparr>pi_DisplayName := pi_DisplayName new\<rparr>)"

definition apply_ping :: "PlayerListItem list \<Rightarrow> (uuid \<rightharpoonup> PlayerListItem) \<Rightarrow> (uuid \<rightharpoonup> PlayerListItem)" where
  "apply_ping = updatePlayerListItem (\<lambda>old new. old\<lparr>pi_Ping := pi_Ping new\<rparr>)"

definition change :: "uuid \<Rightarrow> (PlayerListItem \<Rightarrow> PlayerListItem) \<Rightarrow> (uuid \<rightharpoonup> PlayerListItem) \<Rightarrow> (uuid \<rightharpoonup> PlayerListItem)" where
  "change u f m = m(u := map_option f (m u))"

lemma update_change:
  "updatePlayerListItem f (item # items) m = updatePlayerListItem f items (change (pi_UUID item) (\<lambda>v. f v item) m)"
  by (cases "m (pi_UUID item)") (simp_all add: change_def fun_upd_idem)

lemma update_snoc:
  "updatePlayerListItem f (items @ [item]) m
   = change (pi_UUID item) (\<lambda>v. f v item) (updatePlayerListItem f items m)"
proof (induction items arbitrary: m)
  case Nil
  then show ?case by (simp only: append_Nil update_change updatePlayerListItem.simps(1))
next
  case (Cons x xs)
  then show ?case by (simp only: append_Cons update_change)
qed

lemma change_comm:
  "(\<And>v. f (g v) = g (f v)) \<Longrightarrow> change u f (change u' g m) = change u' g (change u f m)"
  by (rule ext) (simp add: change_def option.map_comp comp_def)

lemma apply_ping_change:
  "apply_ping items (change u (\<lambda>v. v\<lparr>pi_DisplayName := d\<rparr>) m)
   = change u (\<lambda>v. v\<lparr>pi_DisplayName := d\<rparr>) (apply_ping items m)"
  unfolding apply_ping_def
proof (induction items arbitrary: m)
  case Nil
  then show ?case by (simp only: updatePlayerListItem.simps(1))
next
  case (Cons x xs)
  have "change (pi_UUID x) (\<lambda>v. v\<lparr>pi_Ping := pi_Ping x\<rparr>) (change u (\<lambda>v. v\<lparr>pi_DisplayName := d\<rparr>) m)
      = change u (\<lambda>v. v\<lparr>pi_DisplayName := d\<rparr>) (change (pi_UUID x) (\<lambda>v. v\<lparr>pi_Ping := pi_Ping x\<rparr>) m)"
    by (rule change_comm) simp
  then show ?case by (simp only: update_change Cons.IH)
qed

section \<open>The cells as a table\<close>

definition well_keyed :: "PlayerListItem list \<Rightarrow> bool" where
  "well_keyed cells \<longleftrightarrow> length cells = 80 \<and> (\<forall>k < 80. pi_UUID (cells ! k) = cell_uuid k)"

lemma word_of_nat_small: "(word_of_nat a :: byte) = word_of_nat b \<Longrightarrow> a < 256 \<Longrightarrow> b < 256 \<Longrightarrow> a = b"
  by (simp add: word_of_nat_eq_iff take_bit_nat_eq_self)

lemma nibbles: "a * 16 + e = b * 16 + f \<Longrightarrow> e < 16 \<Longrightarrow> f < 16 \<Longrightarrow> a = b \<and> e = f" for a b e f :: nat
  by presburger

lemma map_of_rev: "distinct (map fst l) \<Longrightarrow> map_of (rev l) = map_of l"
proof (induction l)
  case (Cons x l)
  obtain a b where x: "x = (a, b)" by fastforce
  have none: "map_of l a = None" and "map_of (rev l) = map_of l"
    using Cons by (auto simp: x map_of_eq_None_iff)
  then show ?case
    by (intro ext) (auto simp: x map_of_append map_add_def split: option.split)
qed simp

lemma cell_uuid_inject:
  assumes "j < 80" "k < 80" "cell_uuid j = cell_uuid k"
  shows "j = k"
proof -
  have small: "n div 10 mod 10 * 16 + n mod 10 < 256" if "n < 80" for n :: nat
  proof -
    have "n div 10 mod 10 < 10" "n mod 10 < 10" by auto
    then show ?thesis by linarith
  qed
  have "(word_of_nat (j div 10 mod 10 * 16 + j mod 10) :: byte) = word_of_nat (k div 10 mod 10 * 16 + k mod 10)"
    using assms(3) by (simp add: cell_uuid_def)
  then have "j div 10 mod 10 * 16 + j mod 10 = k div 10 mod 10 * 16 + k mod 10"
    using small [OF assms(1)] small [OF assms(2)] by (rule word_of_nat_small)
  then have "j div 10 mod 10 = k div 10 mod 10 \<and> j mod 10 = k mod 10"
    by (rule nibbles) auto
  moreover have "j div 10 mod 10 = j div 10" "k div 10 mod 10 = k div 10"
    using assms(1,2) by auto
  ultimately show ?thesis by (metis div_mult_mod_eq)
qed

lemma well_keyed_distinct: "well_keyed cells \<Longrightarrow> distinct (map pi_UUID cells)"
  unfolding distinct_conv_nth well_keyed_def using cell_uuid_inject by auto

lemma table_of_nth: "well_keyed cells \<Longrightarrow> k < 80 \<Longrightarrow> table_of cells (cell_uuid k) = Some (cells ! k)"
proof -
  assume wk: "well_keyed cells" "k < 80"
  then have "(cell_uuid k, cells ! k) \<in> set (map (\<lambda>c. (pi_UUID c, c)) cells)"
    by (auto simp: well_keyed_def intro!: image_eqI [of _ _ "cells ! k"])
  with well_keyed_distinct [OF wk(1)] show ?thesis
    by (simp add: table_of_def comp_def)
qed

lemma table_of_None: "well_keyed cells \<Longrightarrow> u \<notin> cell_uuid ` {..<80} \<Longrightarrow> table_of cells u = None"
  by (auto simp: table_of_def map_of_eq_None_iff well_keyed_def in_set_conv_nth)

lemma table_change:
  assumes "well_keyed cells" "k < 80" "\<And>v. pi_UUID (f v) = pi_UUID v"
  shows "change (cell_uuid k) f (table_of cells) = table_of (cells[k := f (cells ! k)])"
    and "well_keyed (cells[k := f (cells ! k)])"
proof -
  show wk: "well_keyed (cells[k := f (cells ! k)])"
    using assms by (auto simp: well_keyed_def nth_list_update)
  show "change (cell_uuid k) f (table_of cells) = table_of (cells[k := f (cells ! k)])"
  proof
    fix u
    show "change (cell_uuid k) f (table_of cells) u = table_of (cells[k := f (cells ! k)]) u"
    proof (cases "u \<in> cell_uuid ` {..<80}")
      case False
      with assms(2) have "u \<noteq> cell_uuid k" by auto
      with False show ?thesis
        by (simp add: change_def table_of_None [OF assms(1)] table_of_None [OF wk])
    next
      case True
      then obtain j where j: "j < 80" "u = cell_uuid j" by auto
      show ?thesis
        using j assms(2) cell_uuid_inject [of j k] assms(1)
        by (auto simp: change_def table_of_nth [OF assms(1)] table_of_nth [OF wk] well_keyed_def nth_list_update)
    qed
  qed
qed

lemma store_items_table:
  "store_items items m u = (case map_of (rev (map (\<lambda>c. (pi_UUID c, c)) items)) u of None \<Rightarrow> m u | Some v \<Rightarrow> Some v)"
proof (induction items arbitrary: m)
  case Nil
  then show ?case by simp
next
  case (Cons x xs)
  then show ?case by (simp only: store_items.simps) (auto simp: map_of_append split: option.split)
qed

lemma store_cells:
  assumes "well_keyed cells" "dom m \<subseteq> cell_uuid ` {..<80}"
  shows "store_items cells m = table_of cells"
proof
  fix u
  let ?l = "map (\<lambda>c. (pi_UUID c, c)) cells"
  have "distinct (map fst ?l)" using well_keyed_distinct [OF assms(1)] by (simp add: comp_def)
  then have "map_of (rev ?l) u = map_of ?l u" by (simp only: map_of_rev)
  then have "store_items cells m u = (case table_of cells u of None \<Rightarrow> m u | Some v \<Rightarrow> Some v)"
    by (simp only: store_items_table table_of_def)
  then show "store_items cells m u = table_of cells u"
    using assms(2) table_of_None [OF assms(1), of u] table_of_nth [OF assms(1)]
    by (cases "u \<in> cell_uuid ` {..<80}") (auto split: option.split)
qed

lemma flush_cells: "flush_packets tb = (ps, tb') \<Longrightarrow> tl_cells tb' = tl_cells tb"
  by (auto simp: flush_packets_def Let_def)

section \<open>The property\<close>

text \<open>
  What the client has, with what is pending, is the table of cells, unless the whole list is going to be
  sent again.
\<close>

definition tab_inv :: "'i TabList \<Rightarrow> (uuid \<rightharpoonup> PlayerListItem) \<Rightarrow> bool" where
  "tab_inv tb m \<longleftrightarrow> well_keyed (tl_cells tb) \<and> dom m \<subseteq> cell_uuid ` {..<80} \<and>
     (\<not> tl_send_full tb \<longrightarrow>
        apply_ping (tl_changed_ping tb) (apply_dn (tl_changed_dn tb) m) = table_of (tl_cells tb))"

lemma cell_Ret: "cell x y tb = Ret k \<Longrightarrow> well_keyed (tl_cells tb) \<Longrightarrow> k < 80 \<and> k = nat (x * 20 + y)"
  by (auto simp: cell_def Let_def well_keyed_def split: if_splits)

lemma uuid_at: "well_keyed cells \<Longrightarrow> k < 80 \<Longrightarrow> pi_UUID (cells ! k) = cell_uuid k"
  by (simp add: well_keyed_def)

lemma tab_inv_SetProperties:
  assumes "tab_inv tb m" "SetProperties x y ps tb = Ret tb'"
  shows "tab_inv tb' m"
proof -
  from assms(2) obtain k where k: "cell x y tb = Ret k" by (auto simp: SetProperties_def)
  have wk: "well_keyed (tl_cells tb)" using assms(1) by (simp add: tab_inv_def)
  with k have "k < 80" using cell_Ret by blast
  note wk' = table_change(2) [OF wk this, of "\<lambda>v. v\<lparr>pi_Properties := qs\<rparr>" for qs]
  show ?thesis
    using assms k wk' by (auto simp: SetProperties_def Let_def tab_inv_def)
qed

lemma tab_inv_SetPing:
  assumes "tab_inv tb m" "SetPing x y p tb = Ret tb'"
  shows "tab_inv tb' m"
proof -
  from assms(2) obtain k where k: "cell x y tb = Ret k" by (auto simp: SetPing_def)
  have wk: "well_keyed (tl_cells tb)" using assms(1) by (simp add: tab_inv_def)
  with k have k80: "k < 80" using cell_Ret by blast
  let ?f = "\<lambda>v. v\<lparr>pi_Ping := word_of_int p\<rparr>"
  note tc = table_change [OF wk k80, of ?f, simplified]
  show ?thesis
    using assms k tc uuid_at [OF wk k80]
    by (auto simp: SetPing_def Let_def tab_inv_def apply_ping_def update_snoc)
qed

lemma tab_inv_SetCell:
  assumes "tab_inv tb m" "SetCell fe x y fmt args tb = Ret tb'"
  shows "tab_inv tb' m"
proof -
  from assms(2) obtain k where k: "cell x y tb = Ret k" by (auto simp: SetCell_def)
  have wk: "well_keyed (tl_cells tb)" using assms(1) by (simp add: tab_inv_def)
  with k have k80: "k < 80" using cell_Ret by blast
  note tc = table_change [OF wk k80, of "\<lambda>v. v\<lparr>pi_DisplayName := d\<rparr>" for d, simplified]
  have dn: "apply_ping ps (apply_dn (cs @ [c]) m) = change (pi_UUID c) (\<lambda>v. v\<lparr>pi_DisplayName := pi_DisplayName c\<rparr>)
      (apply_ping ps (apply_dn cs m))" for ps cs c
    unfolding apply_dn_def update_snoc by (rule apply_ping_change)
  define d where "d = (let d1 = (if args \<noteq> [] then Chatf fe fmt args else fmt) in
      if 64 < length d1 then too_long else d1)"
  have "tb' = tb \<or> tb' = tb\<lparr>tl_cells := (tl_cells tb)[k := (tl_cells tb ! k)\<lparr>pi_DisplayName := d\<rparr>],
      tl_changed_dn := tl_changed_dn tb @ [(tl_cells tb ! k)\<lparr>pi_DisplayName := d\<rparr>]\<rparr>"
    using assms(2) unfolding SetCell_def k go_map.simps d_def [symmetric] Let_def by (auto split: if_splits simp: d_def Let_def)
  with assms(1) tc uuid_at [OF wk k80] show ?thesis
    by (auto simp: tab_inv_def dn)
qed

lemma dom_update_item: "dom (updatePlayerListItem f items m) = dom m"
  by (rule dom_updatePlayerListItem)

lemma flush_mirror:
  assumes "tab_inv tb m" "flush_packets tb = (ps, tb')"
  shows "tl_cells tb' = tl_cells tb \<and> client_sees ps m = table_of (tl_cells tb') \<and> tab_inv tb' (client_sees ps m)"
proof -
  have wk: "well_keyed (tl_cells tb)" and dom: "dom m \<subseteq> cell_uuid ` {..<80}"
    using assms(1) by (auto simp: tab_inv_def)
  have titles: "client_sees (case t of None \<Rightarrow> [] | Some t \<Rightarrow> [P_PlayerListTitlePacketCB t]) m = m" for t m
    by (cases t) simp_all
  have dn: "client_sees (if cs \<noteq> [] then
      [P_PlayerListItemPacketCB \<lparr>pli_Action = UPDATE_DISPLAY_NAME, pli_Items = cs\<rparr>] else []) m = apply_dn cs m" for cs m
    by (simp add: update_list_def list_actions apply_dn_def)
  have ping: "client_sees (if cs \<noteq> [] then
      [P_PlayerListItemPacketCB \<lparr>pli_Action = UPDATE_LATENCY, pli_Items = cs\<rparr>] else []) m = apply_ping cs m" for cs m
    by (simp add: update_list_def list_actions apply_ping_def)
  have add: "update_list \<lparr>pli_Action = ADD_PLAYER, pli_Items = tl_cells tb\<rparr> m = table_of (tl_cells tb)"
    by (simp add: update_list_def store_cells [OF wk dom])
  have none: "apply_dn [] m' = m'" "apply_ping [] m' = m'" for m'
    by (simp_all add: apply_dn_def apply_ping_def)
  have sees: "client_sees ps m = table_of (tl_cells tb)"
  proof (cases "tl_send_full tb")
    case True
    then have "ps = [P_PlayerListItemPacketCB \<lparr>pli_Action = ADD_PLAYER, pli_Items = tl_cells tb\<rparr>]
        @ (case tl_title tb of None \<Rightarrow> [] | Some t \<Rightarrow> [P_PlayerListTitlePacketCB t])"
      using assms(2) by (auto simp: flush_packets_def Let_def)
    then show ?thesis by (simp only: client_sees_append titles) (simp add: add)
  next
    case False
    then have "ps = (if tl_changed_dn tb \<noteq> [] then
        [P_PlayerListItemPacketCB \<lparr>pli_Action = UPDATE_DISPLAY_NAME, pli_Items = tl_changed_dn tb\<rparr>] else [])
      @ (if tl_changed_ping tb \<noteq> [] then
        [P_PlayerListItemPacketCB \<lparr>pli_Action = UPDATE_LATENCY, pli_Items = tl_changed_ping tb\<rparr>] else [])
      @ (case tl_title tb of None \<Rightarrow> [] | Some t \<Rightarrow> [P_PlayerListTitlePacketCB t])"
      using assms(2) by (simp add: flush_packets_def Let_def)
    with False assms(1) show ?thesis by (simp only: client_sees_append titles dn ping) (simp add: tab_inv_def)
  qed
  moreover have "tl_cells tb' = tl_cells tb \<and> tl_changed_dn tb' = [] \<and> tl_changed_ping tb' = [] \<and> \<not> tl_send_full tb'"
    using assms(2) by (auto simp: flush_packets_def Let_def split: if_splits)
  moreover have "dom (table_of (tl_cells tb)) \<subseteq> cell_uuid ` {..<80}"
    using table_of_None [OF wk] by (metis domIff subsetI)
  ultimately show ?thesis using wk by (simp add: tab_inv_def none)
qed

lemma tab_inv_step:
  assumes "tab_inv tb m" "tab_step fe x tb = Ret (ps, tb')"
  shows "tab_inv tb' (client_sees ps m)"
proof (cases x)
  case (OpTitle h f)
  with assms show ?thesis by (auto simp: tab_step_def SetTitle_def tab_inv_def)
next
  case OpFlush
  with assms flush_mirror show ?thesis by (auto simp: tab_step_def)
qed (use assms in \<open>auto simp: tab_step_def dest: tab_inv_SetProperties tab_inv_SetPing tab_inv_SetCell\<close>)

lemma tab_inv_run:
  "tab_inv tb m \<Longrightarrow> tab_run fe xs tb = Ret (ps, tb') \<Longrightarrow> tab_inv tb' (client_sees ps m)"
proof (induction xs arbitrary: tb m ps)
  case (Cons x xs)
  then obtain ps1 tb1 ps2 where "tab_step fe x tb = Ret (ps1, tb1)" "tab_run fe xs tb1 = Ret (ps2, tb')"
    "ps = ps1 @ ps2" by (auto split: prod.splits)
  with Cons tab_inv_step show ?case by (fastforce simp: client_sees_append)
qed simp

lemma tab_inv_new: "tab_inv (NewTabList i) Map.empty"
  by (simp add: tab_inv_def NewTabList_def well_keyed_def new_cell_def)


text \<open>Sample library functions.\<close>

definition plain_fmt :: fmt_env where
  "plain_fmt = \<lparr>fe_IsPrint = (\<lambda>_. True), fe_other = (\<lambda>s _. s)\<rparr>"


section \<open>Texts of the cells\<close>

definition good_text :: "string \<Rightarrow> bool" where
  "good_text d \<longleftrightarrow> json_Valid d \<and> length d \<le> 64"

definition good_cells :: "'i TabList \<Rightarrow> bool" where
  "good_cells tb \<longleftrightarrow> length (tl_cells tb) = 80 \<and> (\<forall>c \<in> set (tl_cells tb). good_text (pi_DisplayName c))"

lemma good_cells_change:
  "good_cells tb \<Longrightarrow> k < 80 \<Longrightarrow> good_text (pi_DisplayName c) \<Longrightarrow>
   tl_cells tb' = (tl_cells tb)[k := c] \<Longrightarrow> good_cells tb'"
  using set_update_subset_insert [of "tl_cells tb" k c] by (auto simp: good_cells_def)

lemma good_cells_nth: "good_cells tb \<Longrightarrow> k < 80 \<Longrightarrow> good_text (pi_DisplayName (tl_cells tb ! k))"
  by (simp add: good_cells_def)

lemma good_cells_same: "good_cells tb \<Longrightarrow> tl_cells tb' = tl_cells tb \<Longrightarrow> good_cells tb'"
  by (simp add: good_cells_def)

lemma cell_good: "good_cells tb \<Longrightarrow> cell x y tb = Ret k \<Longrightarrow> k < 80"
  by (auto simp: cell_def good_cells_def Let_def split: if_split_asm)

lemma good_literals: "good_text too_long" "good_text empty_text"
  unfolding good_text_def by code_simp+

text \<open>A text that is set as it is, without arguments, is not checked by the code.\<close>

definition raw_valid :: "tab_op \<Rightarrow> bool" where
  "raw_valid oper = (case oper of OpCell x y f args \<Rightarrow> args = [] \<longrightarrow> json_Valid f | _ \<Rightarrow> True)"

lemma good_cells_step:
  assumes "good_cells tb" "raw_valid oper" "tab_step fe oper tb = Ret (ps, tb')"
  shows "good_cells tb'"
proof (cases oper)
  case (OpProperties x y qs)
  with assms(3) obtain k where k: "cell x y tb = Ret k" by (auto simp: tab_step_def SetProperties_def)
  with assms(3) OpProperties have "tl_cells tb' = tl_cells tb \<or>
      (\<exists>v. tl_cells tb' = (tl_cells tb)[k := (tl_cells tb ! k)\<lparr>pi_Properties := v\<rparr>])"
    by (auto simp: tab_step_def SetProperties_def Let_def split: if_split_asm)
  note k this
  with assms(1) show ?thesis
    by (elim disjE exE; intro good_cells_change [of tb k _ tb'] good_cells_same [of tb tb'])
       (auto dest: cell_good intro: good_cells_nth)
next
  case (OpPing x y p)
  with assms(3) obtain k where k: "cell x y tb = Ret k" by (auto simp: tab_step_def SetPing_def)
  with assms(3) OpPing have "tl_cells tb' = tl_cells tb \<or>
      tl_cells tb' = (tl_cells tb)[k := (tl_cells tb ! k)\<lparr>pi_Ping := word_of_int p\<rparr>]"
    by (auto simp: tab_step_def SetPing_def Let_def split: if_split_asm)
  note k this
  with assms(1) show ?thesis
    by (elim disjE exE; intro good_cells_change [of tb k _ tb'] good_cells_same [of tb tb'])
       (auto dest: cell_good intro: good_cells_nth)
next
  case (OpCell x y f args)
  define d1 where "d1 = (if args \<noteq> [] then Chatf fe f args else f)"
  define d where "d = (if 64 < length d1 then too_long else d1)"
  have "json_Valid d1"
    using assms(2) OpCell by (auto simp: d1_def raw_valid_def Chatf_valid)
  then have "good_text d"
    using good_literals(1) by (simp add: d_def good_text_def)
  moreover from assms(3) OpCell obtain k where k: "cell x y tb = Ret k" by (auto simp: tab_step_def SetCell_def)
  moreover from k assms(3) OpCell have "tl_cells tb' = tl_cells tb \<or>
      tl_cells tb' = (tl_cells tb)[k := (tl_cells tb ! k)\<lparr>pi_DisplayName := d\<rparr>]"
    unfolding tab_step_def SetCell_def d_def d1_def by (auto simp: Let_def split: if_split_asm)
  ultimately show ?thesis
    using assms(1) by (elim disjE; intro good_cells_change [of tb k _ tb'] good_cells_same [of tb tb'])
       (auto dest: cell_good)
next
  case (OpTitle h f)
  with assms show ?thesis by (auto simp: tab_step_def SetTitle_def good_cells_def)
next
  case OpFlush
  with assms show ?thesis by (auto simp: tab_step_def good_cells_def dest: flush_cells)
qed

lemma good_cells_new: "good_cells (NewTabList i)"
  by (simp add: good_cells_def NewTabList_def new_cell_def good_literals)

lemma good_cells_run:
  "list_all raw_valid ops \<Longrightarrow> tab_run fe ops tb = Ret (ps, tb') \<Longrightarrow> good_cells tb \<Longrightarrow> good_cells tb'"
proof (induction ops arbitrary: tb ps)
  case (Cons x xs)
  then show ?case by (fastforce split: prod.splits intro: good_cells_step)
qed simp

text \<open>C26: Whatever is done to a tab list, as long as the texts set without arguments are JSON themselves, the
  text of every cell is valid JSON of at most 64 bytes, so no argument of a format breaks the list of a client.\<close>

theorem tab_cells_valid:
  assumes "list_all raw_valid ops" "tab_run fe ops (NewTabList i) = Ret (ps, tb)" "c \<in> set (tl_cells tb)"
  shows "json_Valid (pi_DisplayName c) \<and> length (pi_DisplayName c) \<le> 64"
  using good_cells_run [OF assms(1,2) good_cells_new] assms(3) by (simp add: good_cells_def good_text_def)

lemma tab_cells_valid_witness:
  "\<exists>ps tb. tab_run plain_fmt [OpTitle ''a'' ''b'', OpCell 0 0 (text_before @ ''%s'' @ text_after) [[chr 34]]] (NewTabList ())
      = Ret (ps :: unit packet list, tb)
    \<and> json_Valid (pi_DisplayName (tl_cells tb ! 0)) \<and> length (pi_DisplayName (tl_cells tb ! 0)) \<le> 64"
proof -
  let ?ops = "[OpTitle ''a'' ''b'', OpCell 0 0 (text_before @ ''%s'' @ text_after) [[chr 34]]]"
  have "cell 0 0 (SetTitle ''a'' ''b'' (NewTabList ())) = Ret 0"
    by (simp add: cell_def SetTitle_def NewTabList_def)
  then obtain tb where run: "tab_run plain_fmt ?ops (NewTabList ()) = Ret ([] :: unit packet list, tb)"
    by (auto simp: tab_step_def SetCell_def Let_def)
  have raw: "list_all raw_valid ?ops" by (simp add: raw_valid_def)
  from good_cells_run [OF this run good_cells_new]
  have "tl_cells tb ! 0 \<in> set (tl_cells tb)" by (auto simp: good_cells_def intro: nth_mem)
  from tab_cells_valid [OF raw run this] run show ?thesis by blast
qed

end
