(* ===== verification/Cache.thy ===== *)
theory Cache
  imports Prelude "HOL-Library.AList"
begin

text \<open>
  src/utils/cache.go: a cache whose entries expire, and a cache of one value.  Times are nanoseconds;
  every call of \<^verbatim>\<open>time.Now()\<close> is an argument.  A value of type \<^verbatim>\<open>interface{}\<close> has the dynamic type \<open>ty v\<close>.
  The methods hold the lock from the first to the last statement, so each is one atomic step.
\<close>

section \<open>The contract of a cache\<close>

text \<open>
  What a client of a cache may rely on: an answer is what was stored last, it has not expired, and a
  dropped key is gone.  A cache may forget.
\<close>

locale expiring_store =
  fixes peek :: "'c \<Rightarrow> 'k \<Rightarrow> int \<Rightarrow> 'v option"
    and look :: "'k \<Rightarrow> int \<Rightarrow> 'c \<Rightarrow> 'v option \<times> 'c"
    and put :: "'k \<Rightarrow> 'v \<Rightarrow> int \<Rightarrow> int \<Rightarrow> 'c \<Rightarrow> 'c go"
    and forget :: "'k \<Rightarrow> 'c \<Rightarrow> 'c"
  assumes look_peek: "fst (look k now c) = peek c k now"
    and peek_look: "peek (snd (look k now c)) k' t = Some v \<Longrightarrow> peek c k' t = Some v"
    and peek_put: "put k v e now c = Ret c' \<Longrightarrow> peek c' k' t = Some w \<Longrightarrow>
      (k' = k \<and> w = v \<and> t \<le> e) \<or> peek c k' t = Some w"
    and peek_forget: "peek (forget k c) k' t = Some w \<Longrightarrow> k' \<noteq> k \<and> peek c k' t = Some w"
begin

text \<open>Every answer of the cache is one that \<open>src\<close> allows.\<close>

definition agrees :: "('k \<Rightarrow> 'v \<Rightarrow> bool) \<Rightarrow> 'c \<Rightarrow> bool" where
  "agrees src c \<longleftrightarrow> (\<forall>k t v. peek c k t = Some v \<longrightarrow> src k v)"

lemma agrees_look: "agrees src c \<Longrightarrow> agrees src (snd (look k now c))"
  unfolding agrees_def using peek_look by blast

lemma look_agrees: "agrees src c \<Longrightarrow> look k now c = (Some v, c') \<Longrightarrow> src k v"
  unfolding agrees_def using look_peek by (metis fst_conv)

lemma agrees_put: "agrees src c \<Longrightarrow> src k v \<Longrightarrow> put k v e now c = Ret c' \<Longrightarrow> agrees src c'"
  unfolding agrees_def using peek_put by blast

text \<open>When the source changes at one key, forgetting that key is enough.\<close>

lemma agrees_forget:
  assumes "agrees src c" "\<And>k' v. k' \<noteq> k \<Longrightarrow> src k' v \<Longrightarrow> src' k' v"
  shows "agrees src' (forget k c)"
  using assms peek_forget unfolding agrees_def by blast

lemma forget_misses: "peek (forget k c) k t = None"
  using peek_forget by (metis not_None_eq)

end

section \<open>ExpiringCache\<close>

record 'v cacheEntry =
  ce_value :: 'v
  ce_expires :: int

record ('t, 'v) ExpiringCache =
  ec_t :: 't
  ec_s :: int
  ec_m :: "(string \<times> 'v cacheEntry) list"

definition NewExpiringCache :: "('v \<Rightarrow> 't) \<Rightarrow> 'v \<Rightarrow> int \<Rightarrow> ('t, 'v) ExpiringCache" where
  "NewExpiringCache ty valid_type s = \<lparr>ec_t = ty valid_type, ec_s = s, ec_m = []\<rparr>"

definition ExpiringCache_Get ::
    "string \<Rightarrow> int \<Rightarrow> ('t, 'v) ExpiringCache \<Rightarrow> 'v option \<times> ('t, 'v) ExpiringCache" where
  "ExpiringCache_Get key now c =
     (case map_of (ec_m c) key of
        None \<Rightarrow> (None, c)
      | Some entry \<Rightarrow>
          if ce_expires entry < now then (None, c\<lparr>ec_m := AList.delete key (ec_m c)\<rparr>)
          else (Some (ce_value entry), c))"

definition SetTime ::
    "('v \<Rightarrow> 't) \<Rightarrow> string \<Rightarrow> 'v \<Rightarrow> int \<Rightarrow> int \<Rightarrow> ('t, 'v) ExpiringCache \<Rightarrow> ('t, 'v) ExpiringCache go" where
  "SetTime ty key value expire_time now c =
     (if ty value \<noteq> ec_t c then Panic ''Invalid type in cache Set(): %s != %s''
      else if expire_time < now then Ret c
      else
        (let m = (if ec_s c < int (length (ec_m c)) + 1 then [] else ec_m c)
         in Ret (c\<lparr>ec_m := AList.update key \<lparr>ce_value = value, ce_expires = expire_time\<rparr> m\<rparr>)))"

definition SetDelay ::
    "('v \<Rightarrow> 't) \<Rightarrow> string \<Rightarrow> 'v \<Rightarrow> int \<Rightarrow> int \<Rightarrow> int \<Rightarrow> ('t, 'v) ExpiringCache \<Rightarrow> ('t, 'v) ExpiringCache go" where
  "SetDelay ty key value expire_delay now0 now c = SetTime ty key value (now0 + expire_delay) now c"

definition Invalidate :: "string \<Rightarrow> ('t, 'v) ExpiringCache \<Rightarrow> ('t, 'v) ExpiringCache" where
  "Invalidate key c = c\<lparr>ec_m := AList.delete key (ec_m c)\<rparr>"

definition InvalidateAll :: "('t, 'v) ExpiringCache \<Rightarrow> ('t, 'v) ExpiringCache" where
  "InvalidateAll c = c\<lparr>ec_m := []\<rparr>"

text \<open>What a lookup would answer, without its effect.\<close>

definition fresh :: "('t, 'v) ExpiringCache \<Rightarrow> string \<Rightarrow> int \<Rightarrow> 'v option" where
  "fresh c key now =
     (case map_of (ec_m c) key of
        None \<Rightarrow> None
      | Some entry \<Rightarrow> if ce_expires entry < now then None else Some (ce_value entry))"

lemma fresh_Some:
  "fresh c k t = Some v \<longleftrightarrow> (\<exists>e. map_of (ec_m c) k = Some e \<and> t \<le> ce_expires e \<and> ce_value e = v)"
  by (auto simp: fresh_def split: option.splits)

lemma fresh_Get: "fst (ExpiringCache_Get k now c) = fresh c k now"
  by (simp add: ExpiringCache_Get_def fresh_def split: option.split)

lemma SetTime_map:
  "SetTime ty k v e now c = Ret c' \<Longrightarrow> ty v = ec_t c \<and>
   (c' = c \<and> e < now \<or>
    now \<le> e \<and> (map_of (ec_m c') = (map_of (ec_m c))(k \<mapsto> \<lparr>ce_value = v, ce_expires = e\<rparr>)
             \<or> map_of (ec_m c') = [k \<mapsto> \<lparr>ce_value = v, ce_expires = e\<rparr>]))"
  by (auto simp: SetTime_def Let_def update_conv' split: if_splits)

interpretation expiring:
  expiring_store fresh ExpiringCache_Get "SetTime ty" Invalidate for ty :: "'v \<Rightarrow> 't"
proof unfold_locales
  fix k :: string and now and c :: "('t, 'v) ExpiringCache"
  show "fst (ExpiringCache_Get k now c) = fresh c k now" by (rule fresh_Get)
  fix k' t v
  show "fresh (snd (ExpiringCache_Get k now c)) k' t = Some v \<Longrightarrow> fresh c k' t = Some v"
    by (auto simp: fresh_Some ExpiringCache_Get_def delete_conv' split: option.splits if_splits)
  show "fresh (Invalidate k c) k' t = Some v \<Longrightarrow> k' \<noteq> k \<and> fresh c k' t = Some v"
    by (auto simp: fresh_Some Invalidate_def delete_conv' split: if_splits)
  fix c' e w
  show "SetTime ty k v e now c = Ret c' \<Longrightarrow> fresh c' k' t = Some w \<Longrightarrow>
      (k' = k \<and> w = v \<and> t \<le> e) \<or> fresh c k' t = Some w"
    by (auto dest!: SetTime_map simp: fresh_Some split: if_splits)
qed

section \<open>Histories of a cache\<close>

datatype 'v cache_op =
    OpGet string int
  | OpSet string 'v int int
  | OpInvalidate string
  | OpInvalidateAll

fun cache_run :: "('v \<Rightarrow> 't) \<Rightarrow> 'v cache_op list \<Rightarrow> ('t, 'v) ExpiringCache \<Rightarrow> ('t, 'v) ExpiringCache go" where
  "cache_run ty [] c = Ret c"
| "cache_run ty (OpGet k now # ops) c = cache_run ty ops (snd (ExpiringCache_Get k now c))"
| "cache_run ty (OpSet k v e now # ops) c = go_bind (SetTime ty k v e now c) (cache_run ty ops)"
| "cache_run ty (OpInvalidate k # ops) c = cache_run ty ops (Invalidate k c)"
| "cache_run ty (OpInvalidateAll # ops) c = cache_run ty ops (InvalidateAll c)"

text \<open>The entry that a history leaves for a key, were nothing forgotten and nothing expired.\<close>

fun last_set :: "'v cache_op list \<Rightarrow> string \<Rightarrow> ('v \<times> int) option \<Rightarrow> ('v \<times> int) option" where
  "last_set [] key l = l"
| "last_set (OpGet k now # ops) key l = last_set ops key l"
| "last_set (OpSet k v e now # ops) key l =
     last_set ops key (if k = key \<and> now \<le> e then Some (v, e) else l)"
| "last_set (OpInvalidate k # ops) key l = last_set ops key (if k = key then None else l)"
| "last_set (OpInvalidateAll # ops) key l = last_set ops key None"

lemma cache_run_last_set:
  assumes "cache_run ty ops c = Ret c'"
    and "\<And>e. map_of (ec_m c) key = Some e \<Longrightarrow> l = Some (ce_value e, ce_expires e)"
    and "map_of (ec_m c') key = Some e"
  shows "last_set ops key l = Some (ce_value e, ce_expires e)"
  using assms
proof (induction ty ops c arbitrary: l rule: cache_run.induct)
  case (2 ty k now ops c)
  from "2.prems" show ?case
    by (auto intro!: "2.IH" simp: ExpiringCache_Get_def delete_conv' split: option.splits if_splits)
next
  case (3 ty k v e' now ops c)
  then obtain c1 where c1: "SetTime ty k v e' now c = Ret c1" "cache_run ty ops c1 = Ret c'" by auto
  show ?case
    using SetTime_map [OF c1(1)] "3.prems"(2,3)
    by (auto intro!: "3.IH" [OF c1(2)] split: if_splits)
qed (auto simp: Invalidate_def InvalidateAll_def delete_conv' split: if_splits)

lemma SetTime_bound:
  assumes "SetTime ty k v e now c = Ret c'" "int (length (ec_m c)) \<le> max 1 (ec_s c)"
  shows "int (length (ec_m c')) \<le> max 1 (ec_s c') \<and> ec_s c' = ec_s c"
proof -
  let ?x = "\<lparr>ce_value = v, ce_expires = e\<rparr>"
  have grow: "length (AList.update k ?x m) \<le> Suc (length m)" for m
    by (induction m) auto
  show ?thesis
  proof (cases "e < now")
    case True
    with assms show ?thesis by (auto simp: SetTime_def split: if_splits)
  next
    case False
    then have "c' = c\<lparr>ec_m := AList.update k ?x (if ec_s c < int (length (ec_m c)) + 1 then [] else ec_m c)\<rparr>"
      using assms(1) by (auto simp: SetTime_def Let_def split: if_splits)
    with grow [of "ec_m c"] show ?thesis by auto
  qed
qed

lemma cache_run_bound:
  "cache_run ty ops c = Ret c' \<Longrightarrow> int (length (ec_m c)) \<le> max 1 (ec_s c) \<Longrightarrow>
   int (length (ec_m c')) \<le> max 1 (ec_s c') \<and> ec_s c' = ec_s c"
proof (induction ty ops c rule: cache_run.induct)
  case (3 ty k v e' now ops c)
  then obtain c1 where c1: "SetTime ty k v e' now c = Ret c1" "cache_run ty ops c1 = Ret c'" by auto
  with "3.IH" [OF c1(2)] SetTime_bound [OF c1(1) "3.prems"(2)] show ?case by auto
next
  case (2 ty k now ops c)
  then show ?case
    using length_delete_le [of k "ec_m c"]
    by (fastforce simp: ExpiringCache_Get_def split: option.splits if_splits)
next
  case (4 ty k ops c)
  then show ?case using length_delete_le [of k "ec_m c"] by (fastforce simp: Invalidate_def)
qed (auto simp: InvalidateAll_def)

section \<open>ValueCache\<close>

text \<open>
  \<^verbatim>\<open>vc_e\<close> is \<open>None\<close> for the zero time.  A method that has to wait for the lock does not return: its
  value is \<open>None\<close>.
\<close>

record ('t, 'v) ValueCache =
  vc_t :: "'t option"
  vc_l :: bool
  vc_e :: "int option"
  vc_v :: "'v option"

definition zero_ValueCache :: "('t, 'v) ValueCache" where
  "zero_ValueCache = \<lparr>vc_t = None, vc_l = False, vc_e = None, vc_v = None\<rparr>"

definition vc_Lock :: "('t, 'v) ValueCache \<Rightarrow> ('t, 'v) ValueCache option" where
  "vc_Lock c = (if vc_l c then None else Some (c\<lparr>vc_l := True\<rparr>))"

definition Unlock :: "('t, 'v) ValueCache \<Rightarrow> ('t, 'v) ValueCache go" where
  "Unlock c = (if vc_l c then Ret (c\<lparr>vc_l := False\<rparr>) else Panic ''sync: unlock of unlocked mutex'')"

definition GetOrLock ::
    "int \<Rightarrow> ('t, 'v) ValueCache \<Rightarrow> (('v option \<times> bool) \<times> ('t, 'v) ValueCache) go option" where
  "GetOrLock now c =
     map_option (\<lambda>c1.
       if (case vc_e c1 of None \<Rightarrow> True | Some e \<Rightarrow> e < now) then Ret ((None, False), c1)
       else go_map (\<lambda>c2. ((vc_v c2, True), c2)) (Unlock c1)) (vc_Lock c)"

definition ValueCache_Get ::
    "int \<Rightarrow> ('t, 'v) ValueCache \<Rightarrow> (('v option \<times> bool) \<times> ('t, 'v) ValueCache) go option" where
  "ValueCache_Get now c =
     map_option (\<lambda>r. go_bind r (\<lambda>((value, found), c1).
       if \<not> found then go_map (\<lambda>c2. ((value, found), c2)) (Unlock c1) else Ret ((value, found), c1)))
       (GetOrLock now c)"

definition setv :: "('v \<Rightarrow> 't) \<Rightarrow> 'v \<Rightarrow> ('t, 'v) ValueCache \<Rightarrow> ('t, 'v) ValueCache go" where
  "setv ty value c =
     (case vc_t c of
        Some t \<Rightarrow> if ty value \<noteq> t then Panic ''Invalid type in cache SetDelay(): %s != %s''
                  else Ret (c\<lparr>vc_v := Some value\<rparr>)
      | None \<Rightarrow> Ret (c\<lparr>vc_t := Some (ty value), vc_v := Some value\<rparr>))"

definition SetUnsafe ::
    "('v \<Rightarrow> 't) \<Rightarrow> 'v \<Rightarrow> int \<Rightarrow> int \<Rightarrow> ('t, 'v) ValueCache \<Rightarrow> ('t, 'v) ValueCache go" where
  "SetUnsafe ty value ttl now c = setv ty value (c\<lparr>vc_e := Some (now + ttl)\<rparr>)"

definition ValueCache_SetDelay ::
    "('v \<Rightarrow> 't) \<Rightarrow> 'v \<Rightarrow> int \<Rightarrow> int \<Rightarrow> ('t, 'v) ValueCache \<Rightarrow> ('t, 'v) ValueCache go option" where
  "ValueCache_SetDelay ty value ttl now c =
     map_option (\<lambda>c1. go_bind (SetUnsafe ty value ttl now c1) Unlock) (vc_Lock c)"

text \<open>
  Goroutines that share a \<^verbatim>\<open>ValueCache\<close>.  One that missed with \<open>GetOrLock\<close> is fetching the
  value; it then stores the value without locking and unlocks, or just unlocks when it could not fetch.
\<close>

inductive vc_step ::
    "('v \<Rightarrow> 't) \<Rightarrow> ('t, 'v) ValueCache \<times> 'i set \<Rightarrow> ('t, 'v) ValueCache \<times> 'i set \<Rightarrow> bool" for ty where
  miss: "i \<notin> F \<Longrightarrow> GetOrLock now c = Some (Ret ((v, False), c')) \<Longrightarrow> vc_step ty (c, F) (c', insert i F)"
| hit: "i \<notin> F \<Longrightarrow> GetOrLock now c = Some (Ret ((v, True), c')) \<Longrightarrow> vc_step ty (c, F) (c', F)"
| get: "i \<notin> F \<Longrightarrow> ValueCache_Get now c = Some (Ret (r, c')) \<Longrightarrow> vc_step ty (c, F) (c', F)"
| put: "i \<notin> F \<Longrightarrow> ValueCache_SetDelay ty v ttl now c = Some (Ret c') \<Longrightarrow> vc_step ty (c, F) (c', F)"
| fill: "i \<in> F \<Longrightarrow> SetUnsafe ty v ttl now c = Ret c1 \<Longrightarrow> Unlock c1 = Ret c' \<Longrightarrow>
    vc_step ty (c, F) (c', F - {i})"
| give_up: "i \<in> F \<Longrightarrow> Unlock c = Ret c' \<Longrightarrow> vc_step ty (c, F) (c', F - {i})"

inductive vc_reachable :: "('v \<Rightarrow> 't) \<Rightarrow> ('t, 'v) ValueCache \<times> 'i set \<Rightarrow> bool" for ty where
  start: "vc_reachable ty (zero_ValueCache, {})"
| step: "vc_reachable ty s \<Longrightarrow> vc_step ty s s' \<Longrightarrow> vc_reachable ty s'"

lemmas vc_defs = GetOrLock_def ValueCache_Get_def SetUnsafe_def setv_def ValueCache_SetDelay_def vc_Lock_def
  Unlock_def

text \<open>What the operations do to the lock.\<close>

lemma Unlock_lock: "Unlock c = Ret c' \<Longrightarrow> vc_l c \<and> \<not> vc_l c'"
  by (auto simp: Unlock_def split: if_splits)

lemma setv_lock: "setv ty v c = Ret c' \<Longrightarrow> vc_l c' = vc_l c"
  by (auto simp: setv_def split: option.splits if_splits)

lemma SetUnsafe_lock: "SetUnsafe ty v ttl now c = Ret c' \<Longrightarrow> vc_l c' = vc_l c"
  by (auto simp: SetUnsafe_def dest: setv_lock)

lemma GetOrLock_lock:
  "GetOrLock now c = Some (Ret ((v, found), c')) \<Longrightarrow> \<not> vc_l c \<and> (vc_l c' \<longleftrightarrow> \<not> found)"
  by (auto simp: GetOrLock_def vc_Lock_def Unlock_def split: if_splits)

lemma Get_lock:
  assumes "ValueCache_Get now c = Some (Ret (r, c'))"
  shows "\<not> vc_l c \<and> \<not> vc_l c'"
proof -
  from assms obtain v found c1 where g: "GetOrLock now c = Some (Ret ((v, found), c1))"
    and rest: "(if \<not> found then go_map (\<lambda>c2. ((v, found), c2)) (Unlock c1) else Ret ((v, found), c1)) = Ret (r, c')"
    by (auto simp: ValueCache_Get_def)
  from rest GetOrLock_lock [OF g] show ?thesis by (auto dest: Unlock_lock split: if_splits)
qed

lemma SetDelay_lock: "ValueCache_SetDelay ty v ttl now c = Some (Ret c') \<Longrightarrow> \<not> vc_l c \<and> \<not> vc_l c'"
  by (auto simp: ValueCache_SetDelay_def vc_Lock_def dest: Unlock_lock split: if_splits)

lemma vc_step_lock:
  assumes "vc_step ty (c, F) (c', F')" "vc_l c \<longleftrightarrow> F \<noteq> {}" "\<forall>i \<in> F. \<forall>j \<in> F. i = j"
  shows "(vc_l c' \<longleftrightarrow> F' \<noteq> {}) \<and> (\<forall>i \<in> F'. \<forall>j \<in> F'. i = j)"
  using assms(1)
proof (cases rule: vc_step.cases)
  case (miss i now v)
  with assms(2) GetOrLock_lock [OF miss(3)] show ?thesis by auto
next
  case (hit i now v)
  with assms(2,3) GetOrLock_lock [OF hit(3)] show ?thesis by auto
next
  case (get i now r)
  with assms(2,3) Get_lock [OF get(3)] show ?thesis by auto
next
  case (put i v ttl now)
  with assms(2,3) SetDelay_lock [OF put(3)] show ?thesis by auto
next
  case (fill i v ttl now c1)
  have "F' = {}" using assms(3) fill(1,2) by blast
  with Unlock_lock [OF fill(4)] show ?thesis by auto
next
  case (give_up i)
  have "F' = {}" using assms(3) give_up(1,2) by blast
  with Unlock_lock [OF give_up(3)] show ?thesis by auto
qed

lemma vc_reachable_lock:
  "vc_reachable ty (c, F) \<Longrightarrow> (vc_l c \<longleftrightarrow> F \<noteq> {}) \<and> (\<forall>i \<in> F. \<forall>j \<in> F. i = j)"
proof (induction "(c, F)" arbitrary: c F rule: vc_reachable.induct)
  case start
  then show ?case by (simp add: zero_ValueCache_def)
next
  case (step s)
  obtain c1 F1 where s: "s = (c1, F1)" by fastforce
  from step.hyps(2) [OF s] have "vc_l c1 \<longleftrightarrow> F1 \<noteq> {}" "\<forall>i \<in> F1. \<forall>j \<in> F1. i = j" by auto
  with step.hyps(3) show ?case unfolding s by (rule vc_step_lock)
qed

section \<open>The properties\<close>

text \<open>C32: Whatever operations a cache has seen, a hit returns the value that the last accepted
  \<^verbatim>\<open>SetTime\<close> stored for the key, not yet expired, with no invalidation after it.\<close>

theorem cache_never_stale:
  assumes "cache_run ty ops (NewExpiringCache ty z size_limit) = Ret c"
    and "ExpiringCache_Get key now c = (Some v, c')"
  shows "\<exists>e. last_set ops key None = Some (v, e) \<and> now \<le> e"
proof -
  from assms(2) obtain e where e: "map_of (ec_m c) key = Some e" "now \<le> ce_expires e" "ce_value e = v"
    by (auto simp: ExpiringCache_Get_def split: option.splits if_splits)
  from cache_run_last_set [OF assms(1) _ e(1), of None] e(2,3) show ?thesis
    by (simp add: NewExpiringCache_def)
qed

lemma cache_never_stale_witness:
  "\<exists>e. last_set [OpSet ''a'' (7::int) 10 1, OpSet ''b'' 8 20 2, OpSet ''a'' 9 30 3] ''a'' None = Some (9, e)
    \<and> 5 \<le> e"
proof (rule cache_never_stale [where ty = "\<lambda>_. ()" and z = 0 and size_limit = 2 and key = "''a''"])
  show "cache_run (\<lambda>_. ()) [OpSet ''a'' (7::int) 10 1, OpSet ''b'' 8 20 2, OpSet ''a'' 9 30 3]
      (NewExpiringCache (\<lambda>_. ()) 0 2)
    = Ret \<lparr>ec_t = (), ec_s = 2, ec_m = [(''a'', \<lparr>ce_value = 9, ce_expires = 30\<rparr>)]\<rparr>"
    by (simp add: SetTime_def NewExpiringCache_def)
  show "ExpiringCache_Get ''a'' 5 \<lparr>ec_t = (), ec_s = 2, ec_m = [(''a'', \<lparr>ce_value = 9::int, ce_expires = 30\<rparr>)]\<rparr>
    = (Some 9, \<lparr>ec_t = (), ec_s = 2, ec_m = [(''a'', \<lparr>ce_value = 9, ce_expires = 30\<rparr>)]\<rparr>)"
    by (simp add: ExpiringCache_Get_def)
qed

text \<open>A cache of limit \<open>n\<close> never holds more than \<open>n\<close> entries, or one when the limit is below one.\<close>

theorem cache_size_bound:
  assumes "cache_run ty ops (NewExpiringCache ty z n) = Ret c"
  shows "int (length (ec_m c)) \<le> max 1 n"
  using cache_run_bound [OF assms] by (auto simp: NewExpiringCache_def le_max_iff_disj)

lemma cache_size_bound_witness:
  "int (length [(''a'', \<lparr>ce_value = 9::int, ce_expires = 30\<rparr>)]) \<le> max 1 0"
  using cache_size_bound [of "\<lambda>_. ()" "[OpSet ''b'' (7::int) 10 1, OpSet ''a'' 9 30 3]" 0 0
      "\<lparr>ec_t = (), ec_s = 0, ec_m = [(''a'', \<lparr>ce_value = 9, ce_expires = 30\<rparr>)]\<rparr>"]
  by (simp add: SetTime_def NewExpiringCache_def)



end
