(* ===== verification/CloudyChat.thy ===== *)
theory CloudyChat
  imports World Cache
begin

text \<open>
  src/filters/cloudychat/: the chat of all players.  Logging and the optional message hook are left out.
  Times and durations are nanoseconds; a time counts from Go's zero time.
\<close>

section \<open>State\<close>

record chatUser =
  cu_MsgRecipient :: string
  cu_LastChatTime :: int
  cu_LastHelpopTime :: int
  cu_SentPrivMsgs :: "string list option"
  cu_Ignored :: "(string \<times> bool) list"

definition zero_chatUser :: chatUser where
  "zero_chatUser = \<lparr>cu_MsgRecipient = '''', cu_LastChatTime = 0, cu_LastHelpopTime = 0,
     cu_SentPrivMsgs = None, cu_Ignored = []\<rparr>"

text \<open>
  The configuration; a compiled expression of \<^verbatim>\<open>censorshipRegexp\<close> with its replacement is a function.
  The multiplier is a \<^verbatim>\<open>float32\<close> by its bits.
\<close>

record chatConfig =
  cc_Censorship :: "(string \<times> string) list"
  cc_Automessage_delay :: int
  cc_Automessage_prefix :: string
  cc_Automessage :: "string list"
  cc_censorshipRegexp :: "(string \<Rightarrow> string) list"
  cc_ChatOff :: bool
  cc_RateLimitHz :: int
  cc_RateLimitBurst :: int
  cc_Slots :: int
  cc_OnlineMultiplier :: "32 word"
  cc_MOTD :: string
  cc_faviconData :: string
  cc_ResourcePack_Url :: string
  cc_ResourcePack_Hash :: string

text \<open>The global variables and what the plugin keeps in the \<^verbatim>\<open>FilterData\<close> of the handlers.\<close>

record 'i chat_state =
  ch_config :: chatConfig
  ch_users :: "'i \<Rightarrow> chatUser"
  ch_socialspies :: "string list"
  ch_helpopHistory :: "string list"
  ch_nextAutoMessage :: int
  ch_motdCache :: "(unit, string) ValueCache"
  ch_textureApplied :: "'i set"

definition initial_chat :: "chatConfig \<Rightarrow> 'i chat_state" where
  "initial_chat config =
     \<lparr>ch_config = config, ch_users = (\<lambda>_. zero_chatUser), ch_socialspies = [],
      ch_helpopHistory = replicate 20 '''', ch_nextAutoMessage = 0, ch_motdCache = zero_ValueCache,
      ch_textureApplied = {}\<rparr>"

text \<open>
  What comes from outside at one call: the clock, the limiter's verdict, texts of numbers and times, the
  order of the players, and the arithmetic on \<^verbatim>\<open>float32\<close>.
\<close>

record ('i, 'n) chat_env =
  ce_tbl :: "nat \<Rightarrow> nat"
  ce_keys :: "string list"
  ce_now :: int
  ce_allow :: bool
  ce_slow :: "int \<Rightarrow> int"
  ce_secs_text :: "int \<Rightarrow> string"
  ce_dur_text :: "int \<Rightarrow> string"
  ce_time_text :: "int \<Rightarrow> string"
  ce_Formatter :: "('i, 'n) world \<Rightarrow> 'i \<Rightarrow> 'i \<Rightarrow> string \<Rightarrow> string"
  ce_LoadConfig :: "gerr + chatConfig"

section \<open>Users (chatusers.go)\<close>

definition SetMsgRecipient :: "string \<Rightarrow> chatUser \<Rightarrow> chatUser" where
  "SetMsgRecipient nickname u = u\<lparr>cu_MsgRecipient := nickname\<rparr>"

definition AddPrivMsgHistory :: "string \<Rightarrow> string \<Rightarrow> chatUser \<Rightarrow> chatUser" where
  "AddPrivMsgHistory recipient msg u =
     (let sent_msgs = (case cu_SentPrivMsgs u of None \<Rightarrow> replicate 20 '''' | Some l \<Rightarrow> l) in
      u\<lparr>cu_SentPrivMsgs := Some (tl sent_msgs @ [msg]), cu_MsgRecipient := recipient\<rparr>)"

definition GetIgnored :: "(nat \<Rightarrow> nat) \<Rightarrow> string \<Rightarrow> chatUser \<Rightarrow> bool" where
  "GetIgnored tbl nickname u \<longleftrightarrow> map_of (cu_Ignored u) (ToLower tbl nickname) = Some True"

definition SetIgnored :: "(nat \<Rightarrow> nat) \<Rightarrow> string \<Rightarrow> bool \<Rightarrow> chatUser \<Rightarrow> chatUser" where
  "SetIgnored tbl nickname val u =
     (if 256 \<le> length (cu_Ignored u) then u
      else u\<lparr>cu_Ignored := AList.update (ToLower tbl nickname) val (cu_Ignored u)\<rparr>)"

definition on_user :: "'i \<Rightarrow> (chatUser \<Rightarrow> chatUser) \<Rightarrow> 'i chat_state \<Rightarrow> 'i chat_state" where
  "on_user i f s = s\<lparr>ch_users := (ch_users s)(i := f (ch_users s i))\<rparr>"

section \<open>Checks (cloudychat.go)\<close>

definition checkMessage :: "string \<Rightarrow> gerr option" where
  "checkMessage msg =
     (if msg = '''' \<or> 256 < length msg then Some (Errorf ''Invalid message length!'' [])
      else
        (case find (\<lambda>r. r = 167 \<or> r < 32) (runes_of msg) of
           None \<Rightarrow> None
         | Some r \<Rightarrow> Some (Errorf (''Invalid character in message ('' @ decimal r @ '')!'') [])))"

definition censorship :: "'i chat_state \<Rightarrow> string \<Rightarrow> string" where
  "censorship s msg = fold (\<lambda>f m. f m) (cc_censorshipRegexp (ch_config s)) msg"

text \<open>\<^verbatim>\<open>time.Time.Sub\<close> saturates; \<open>ce_slow\<close> is the duration for a number of players.\<close>

definition time_Sub :: "int \<Rightarrow> int \<Rightarrow> int" where
  "time_Sub t u = max (- (2 ^ 63)) (min (2 ^ 63 - 1) (t - u))"

definition checkSlowmode :: "('i, 'n) chat_env \<Rightarrow> ('i, 'n) world \<Rightarrow> int \<Rightarrow> int \<times> bool" where
  "checkSlowmode env w t =
     (let d = ce_slow env (Len (wo_players w)); dur = (if d < 3000000000 then 3000000000 else d)
      in (dur, dur < time_Sub (ce_now env) t))"

definition DefaultFormatter :: "('i, 'n) world \<Rightarrow> 'i \<Rightarrow> 'i \<Rightarrow> string \<Rightarrow> string" where
  "DefaultFormatter w recipient sender msg =
     (let n1 = nick w sender;
          n2 = (if \<not> h_hasAuthenticator (wo_handlers w sender) then ''~'' @ n1 else n1);
          n3 = (if may w sender ''cloudychat.color'' then COLOR_RED @ n2 else n2)
      in COLOR_GRAY @ n3 @ '':'' @ COLOR_WHITE @ '' '' @ msg)"

definition supervisorMessage :: "('i, 'n) chat_env \<Rightarrow> 'i \<Rightarrow> string \<Rightarrow> ('i, 'n) world \<Rightarrow> ('i, 'n) world" where
  "supervisorMessage env i msg w =
     (if \<not> may w i ''cloudychat.supervisor.send'' then w
      else Broadcast (ce_keys env) ''cloudychat.supervisor.receive''
             (COLOR_GRAY @ nick w i @ '': '' @ msg) w)"

section \<open>Commands\<close>

type_synonym ('i, 'n) chat_result = "gerr option \<times> 'i chat_state \<times> ('i, 'n) world"

text \<open>Tell the sender something and drop the message.\<close>

definition answer :: "'i \<Rightarrow> string \<Rightarrow> 'i chat_state \<Rightarrow> ('i, 'n) world \<Rightarrow> ('i, 'n) chat_result" where
  "answer i t s w = (Some ErrDropPacket, s, SendChatMessage i t w)"

definition player_named :: "('i, 'n) chat_env \<Rightarrow> string \<Rightarrow> ('i, 'n) world \<Rightarrow> 'i option" where
  "player_named env name w = GetByNickname (ce_tbl env) name (wo_players w)"

definition MSG_FORMAT :: "string \<Rightarrow> string \<Rightarrow> string \<Rightarrow> string" where
  "MSG_FORMAT a b msg = COLOR_GOLD @ ''['' @ a @ '' -> '' @ b @ ''] '' @ COLOR_GRAY @ msg"

definition ADMIN_MSG_FORMAT :: "string \<Rightarrow> string \<Rightarrow> string \<Rightarrow> string" where
  "ADMIN_MSG_FORMAT a b msg = COLOR_RED @ ''['' @ a @ '' -> '' @ b @ ''] '' @ COLOR_WHITE @ msg"

definition SOCIALSPY_FORMAT :: "string \<Rightarrow> string \<Rightarrow> string \<Rightarrow> string" where
  "SOCIALSPY_FORMAT a b msg = COLOR_GRAY @ ''['' @ a @ '' -> '' @ b @ ''] '' @ COLOR_GRAY @ msg"

text \<open>The spies who are online and still may spy get a copy.\<close>

definition tell_spies :: "('i, 'n) chat_env \<Rightarrow> string \<Rightarrow> string list \<Rightarrow> ('i, 'n) world \<Rightarrow> ('i, 'n) world" where
  "tell_spies env msg spies w =
     fold (\<lambda>spy w.
       case player_named env spy w of
         None \<Rightarrow> w
       | Some h \<Rightarrow> if may w h ''cloudychat.socialspy'' then SendChatMessage h msg w else w) spies w"

text \<open>Both sides of a private message.\<close>

definition tell_both :: "'i \<Rightarrow> 'i \<Rightarrow> string \<Rightarrow> ('i, 'n) world \<Rightarrow> ('i, 'n) world" where
  "tell_both i recipient msg w =
     SendChatMessage i (MSG_FORMAT ''ja'' (nick w recipient) msg)
       (SendChatMessage recipient
          (if may w i ''cloudychat.color'' then ADMIN_MSG_FORMAT (nick w i) ''ja'' msg
           else MSG_FORMAT (nick w i) ''ja'' msg) w)"

definition unreachable :: "'i \<Rightarrow> 'i \<Rightarrow> ('i, 'n) world \<Rightarrow> bool" where
  "unreachable i recipient w \<longleftrightarrow>
     may w recipient ''cloudychat.msg.disallow'' \<and> \<not> may w i ''cloudychat.msg.bypass''"

definition msgCommand ::
    "('i, 'n) chat_env \<Rightarrow> 'i \<Rightarrow> string list \<Rightarrow> 'i chat_state \<Rightarrow> ('i, 'n) world \<Rightarrow> ('i, 'n) chat_result" where
  "msgCommand env i args s w =
     (if \<not> may w i ''cloudychat.msg.use'' then
        answer i (COLOR_RED @ ''Nie masz uprawnien do tej komendy!'') s w
      else if length args < 3 then
        answer i (COLOR_RED @ ''Poprawne uzycie: /msg <nick> <wiadomosc>'') s w
      else
        (case player_named env (args ! 1) w of
           None \<Rightarrow> answer i (COLOR_RED @ ''Gracz nie jest online!'') s w
         | Some recipient \<Rightarrow>
             if unreachable i recipient w then answer i (COLOR_RED @ ''Gracz nie jest online!'') s w
             else if GetIgnored (ce_tbl env) (nick w i) (ch_users s recipient)
                 \<and> \<not> may w i ''cloudychat.ignore.bypass'' then
               answer i (COLOR_RED @
                 ''Ten gracz dodal cie do listy ignorowanych! Nie mozesz wysylac mu wiadomosci!'') s w
             else
               (let msg = Join (drop 2 args) '' '';
                    spy = SOCIALSPY_FORMAT (nick w i) (nick w recipient) msg;
                    s1 = on_user i (AddPrivMsgHistory (nick w recipient) spy) s;
                    s2 = on_user recipient (SetMsgRecipient (nick w i)) s1
                in (Some ErrDropPacket, s2, tell_spies env spy (ch_socialspies s) (tell_both i recipient msg w)))))"

definition replyCommand ::
    "('i, 'n) chat_env \<Rightarrow> 'i \<Rightarrow> string list \<Rightarrow> 'i chat_state \<Rightarrow> ('i, 'n) world \<Rightarrow> ('i, 'n) chat_result" where
  "replyCommand env i args s w =
     (if \<not> may w i ''cloudychat.reply.use'' then
        answer i (COLOR_RED @ ''Nie masz permisji do tej komendy!'') s w
      else if length args < 2 then answer i (COLOR_RED @ ''Poprawne uzycie: /r <wiadomosc>'') s w
      else
        (case player_named env (cu_MsgRecipient (ch_users s i)) w of
           None \<Rightarrow> answer i (COLOR_RED @ ''Gracz nie jest online!'') s w
         | Some recipient \<Rightarrow>
             if unreachable i recipient w then answer i (COLOR_RED @ ''Gracz nie jest online!'') s w
             else
               (let msg = Join (drop 1 args) '' '';
                    spy = SOCIALSPY_FORMAT (nick w i) (nick w recipient) msg;
                    s1 = on_user i (SetMsgRecipient (nick w recipient)) s;
                    s2 = on_user recipient (SetMsgRecipient (nick w i)) s1
                in (Some ErrDropPacket, s2, tell_spies env spy (ch_socialspies s) (tell_both i recipient msg w)))))"

definition ignoreCommand ::
    "('i, 'n) chat_env \<Rightarrow> 'i \<Rightarrow> string list \<Rightarrow> 'i chat_state \<Rightarrow> ('i, 'n) world \<Rightarrow> ('i, 'n) chat_result" where
  "ignoreCommand env i args s w =
     (if \<not> may w i ''cloudychat.ignore.use'' then
        answer i (COLOR_RED @ ''Nie masz uprawnien do tej komendy!'') s w
      else if length args < 2 then answer i (COLOR_RED @ ''Poprawne uzycie: /ignore <nick>'') s w
      else
        (let val = (\<not> GetIgnored (ce_tbl env) (args ! 1) (ch_users s i));
             s1 = on_user i (SetIgnored (ce_tbl env) (args ! 1) val) s
         in answer i (COLOR_GREEN @ (if val then ''Gracz jest teraz ignorowany''
                                     else ''Gracz nie jest juz ignorowany'')) s1 w))"

definition history_text :: "string list \<Rightarrow> string" where
  "history_text history = concat (map (\<lambda>t. if t \<noteq> '''' then chr 10 # t else '''') history)"

definition helpopCommand ::
    "('i, 'n) chat_env \<Rightarrow> 'i \<Rightarrow> string list \<Rightarrow> 'i chat_state \<Rightarrow> ('i, 'n) world \<Rightarrow> ('i, 'n) chat_result" where
  "helpopCommand env i args s w =
     (if \<not> may w i ''cloudychat.helpop.use'' then
        answer i (COLOR_RED @ ''Nie masz uprawnien do tej komendy!'') s w
      else if length args < 2 then
        (if may w i ''cloudychat.helpop.history'' then answer i (history_text (ch_helpopHistory s)) s w
         else answer i (COLOR_RED @ ''Poprawne uzycie: /helpop <wiadomosc>'') s w)
      else
        (let bypass = may w i ''cloudychat.slowmode.bypass'';
             slow = checkSlowmode env w (cu_LastHelpopTime (ch_users s i))
         in if \<not> bypass \<and> \<not> snd slow then
              answer i (COLOR_RED @ ''Mozesz napisac na helpop za '' @ ce_dur_text env (fst slow)) s w
            else
              (let s1 = (if bypass then s else on_user i (\<lambda>u. u\<lparr>cu_LastHelpopTime := ce_now env\<rparr>) s);
                   txt = Join (drop 1 args) '' '';
                   body = COLOR_GRAY @ ''['' @ h_UpstreamName (wo_handlers w i) @ ''] '' @ nick w i @ '':''
                     @ COLOR_WHITE @ '' '' @ txt;
                   msg = COLOR_AQUA @ ''[HelpOp] '' @ body;
                   w1 = (if may w i ''cloudychat.helpop.view'' then w else SendChatMessage i msg w);
                   w2 = Broadcast (ce_keys env) ''cloudychat.helpop.view'' msg w1;
                   entry = COLOR_RED @ ce_time_text env (ce_now env) @ '' '' @ body
               in (Some ErrDropPacket, s1\<lparr>ch_helpopHistory := tl (ch_helpopHistory s1) @ [entry]\<rparr>, w2))))"

definition socialspyCommand ::
    "('i, 'n) chat_env \<Rightarrow> 'i \<Rightarrow> string list \<Rightarrow> 'i chat_state \<Rightarrow> ('i, 'n) world \<Rightarrow> ('i, 'n) chat_result" where
  "socialspyCommand env i args s w =
     (if \<not> may w i ''cloudychat.socialspy'' then
        answer i (COLOR_RED @ ''Nie masz uprawnien do tej komendy!'') s w
      else if 1 < length args then
        (case player_named env (args ! 1) w of
           None \<Rightarrow> answer i (COLOR_RED @ ''Nie odnaleziono gracza online!'') s w
         | Some h \<Rightarrow>
             answer i (''Wyslane przez '' @ nick w h @ '': '' @ chr 10 # COLOR_DARK_BLUE @
               Join (case cu_SentPrivMsgs (ch_users s h) of None \<Rightarrow> [] | Some l \<Rightarrow> l)
                 (chr 10 # COLOR_DARK_BLUE)) s w)
      else if nick w i \<in> set (ch_socialspies s) then
        answer i (COLOR_GOLD @ ''Socialspy wylaczony!'')
          (s\<lparr>ch_socialspies := filter (\<lambda>n. n \<noteq> nick w i) (ch_socialspies s)\<rparr>) w
      else
        answer i (COLOR_GOLD @ ''Socialspy wlaczony!'') (s\<lparr>ch_socialspies := nick w i # ch_socialspies s\<rparr>) w)"

definition reloadCommand ::
    "('i, 'n) chat_env \<Rightarrow> 'i \<Rightarrow> 'i chat_state \<Rightarrow> ('i, 'n) world \<Rightarrow> ('i, 'n) chat_result" where
  "reloadCommand env i s w =
     (if \<not> may w i ''cloudychat.reload'' then
        answer i (COLOR_RED @ ''Nie masz uprawnien do tej komendy!'') s w
      else
        (case ce_LoadConfig env of
           Inl e \<Rightarrow> answer i (COLOR_RED @ ''Blad podczas reloadowania configu!'') s w
         | Inr config \<Rightarrow> answer i (COLOR_GOLD @ ''Config reloaded!'') (s\<lparr>ch_config := config\<rparr>) w))"

definition chatoffCommand ::
    "('i, 'n) chat_env \<Rightarrow> 'i \<Rightarrow> string list \<Rightarrow> 'i chat_state \<Rightarrow> ('i, 'n) world \<Rightarrow> ('i, 'n) chat_result" where
  "chatoffCommand env i args s w =
     (if \<not> may w i ''cloudychat.chatoff.use'' then
        answer i (COLOR_RED @ ''Nie masz uprawnien do tej komendy!'') s w
      else if length args \<noteq> 2 then answer i (COLOR_RED @ ''Poprawne uzycie: /chat off|on'') s w
      else if ToLower (ce_tbl env) (args ! 1) = ''off'' then
        answer i (COLOR_GOLD @ ''Chat wylaczony!'') (s\<lparr>ch_config := (ch_config s)\<lparr>cc_ChatOff := True\<rparr>\<rparr>) w
      else if ToLower (ce_tbl env) (args ! 1) = ''on'' then
        answer i (COLOR_GOLD @ ''Chat wlaczony!'') (s\<lparr>ch_config := (ch_config s)\<lparr>cc_ChatOff := False\<rparr>\<rparr>) w
      else answer i (COLOR_RED @ ''Poprawne uzycie: /chat off|on'') s w)"

section \<open>The chat filter\<close>

text \<open>The command of a message that starts with a slash; \<open>None\<close> when the server shall have it.\<close>

definition chat_command ::
    "('i, 'n) chat_env \<Rightarrow> 'i \<Rightarrow> string list \<Rightarrow> 'i chat_state \<Rightarrow> ('i, 'n) world \<Rightarrow> ('i, 'n) chat_result option" where
  "chat_command env i words s w =
     (let cmd = ToLower (ce_tbl env) (hd words) in
      if cmd \<in> {''/msg'', ''/m'', ''/tell'', ''/t''} then Some (msgCommand env i words s w)
      else if cmd \<in> {''/reply'', ''/r''} then Some (replyCommand env i words s w)
      else if cmd = ''/ignore'' then Some (ignoreCommand env i words s w)
      else if cmd = ''/helpop'' then Some (helpopCommand env i words s w)
      else if cmd = ''/socialspy'' then Some (socialspyCommand env i words s w)
      else if cmd = ''/chatreload'' then Some (reloadCommand env i s w)
      else if cmd = ''/chat'' then Some (chatoffCommand env i words s w)
      else None)"

text \<open>The last step: a copy for every player, as the formatter makes it for that player.\<close>

definition deliver :: "('i, 'n) chat_env \<Rightarrow> 'i \<Rightarrow> string \<Rightarrow> ('i, 'n) world \<Rightarrow> ('i, 'n) world" where
  "deliver env i msg w =
     fold (\<lambda>recipient w.
       let fmt_msg = ce_Formatter env w recipient i msg in
       if fmt_msg = '''' then w
       else snd (inject_to ClientBound None [chat_packet fmt_msg 0] recipient w)) (players (ce_keys env) w) w"

text \<open>Ordinary chat, after censorship.\<close>

definition public_chat ::
    "('i, 'n) chat_env \<Rightarrow> 'i \<Rightarrow> string \<Rightarrow> 'i chat_state \<Rightarrow> ('i, 'n) world \<Rightarrow> ('i, 'n) chat_result" where
  "public_chat env i msg s w =
     (if cc_ChatOff (ch_config s) \<and> \<not> may w i ''cloudychat.chatoff.bypass'' then
        answer i (COLOR_RED @ ''Chat jest zablokowany!'') s w
      else
        (let bypass = may w i ''cloudychat.slowmode.bypass'';
             slow = checkSlowmode env w (cu_LastChatTime (ch_users s i))
         in if \<not> bypass \<and> \<not> snd slow then
              answer i (COLOR_RED @ ''Mozesz napisac na chacie za '' @ ce_secs_text env (fst slow)) s w
            else
              (let s1 = (if bypass then s else on_user i (\<lambda>u. u\<lparr>cu_LastChatTime := ce_now env\<rparr>) s) in
               if \<not> may w i ''cloudychat.ratelimiter.bypass'' \<and> \<not> ce_allow env then
                 answer i (COLOR_RED @ ''Wykryto spam na chacie! Poczekaj chwile!'') s1 w
               else (Some ErrDropPacket, s1, deliver env i msg w))))"

definition ChatFilter ::
    "('i, 'n) chat_env \<Rightarrow> 'i \<Rightarrow> ChatMessagePacketSB \<Rightarrow> 'i chat_state \<Rightarrow> ('i, 'n) world \<Rightarrow>
     gerr option \<times> ChatMessagePacketSB \<times> 'i chat_state \<times> ('i, 'n) world" where
  "ChatFilter env i packet s w =
     (let msg = cms_Message packet in
      case checkMessage msg of
        Some e \<Rightarrow> (Some e, packet, s, w)
      | None \<Rightarrow>
          if HasPrefix msg ''/'' then
            (let w1 = supervisorMessage env i msg w in
             case chat_command env i (Split (CHR '' '') msg) s w1 of
               None \<Rightarrow> (None, packet, s, w1)
             | Some (err, s2, w2) \<Rightarrow> (err, packet, s2, w2))
          else if HasPrefix msg [chr 92] \<and> may w i ''cloudychat.command_forward'' then
            (None, packet\<lparr>cms_Message := replace_n (Some 1) [chr 92] ''/'' msg\<rparr>, s, supervisorMessage env i msg w)
          else
            (let msg1 = (if may w i ''cloudychat.censorship.bypass'' then msg else censorship s msg) in
             if \<not> may w i ''cloudychat.censorship.bypass'' \<and> msg1 = '''' then (Some ErrDropPacket, packet, s, w)
             else (case public_chat env i msg1 s w of (err, s2, w2) \<Rightarrow> (err, packet, s2, w2))))"

section \<open>Automatic messages\<close>

text \<open>
  \<^verbatim>\<open>getNextAutoMessage\<close>, with the message, the delay in nanoseconds and the new state; an index beyond
  the list, which a reload can leave behind, panics.
\<close>

definition getNextAutoMessage :: "'i chat_state \<Rightarrow> ((string \<times> int) \<times> 'i chat_state) go" where
  "getNextAutoMessage s =
     (let msgs = cc_Automessage (ch_config s); delay = cc_Automessage_delay (ch_config s) * 1000000000;
          n = ch_nextAutoMessage s in
      if msgs = [] then Ret (('''', delay), s)
      else if n < 0 \<or> int (length msgs) \<le> n then Panic ''index out of range''
      else Ret ((msgs ! nat n, delay), s\<lparr>ch_nextAutoMessage := (n + 1) mod int (length msgs)\<rparr>))"

text \<open>One round of the loop of \<^verbatim>\<open>automessage\<close>.\<close>

definition automessage :: "string list \<Rightarrow> 'i chat_state \<Rightarrow> ('i, 'n) world \<Rightarrow> ('i chat_state \<times> ('i, 'n) world) go" where
  "automessage keys s w =
     go_map (\<lambda>((message, delay), s1).
       (s1, if message \<noteq> '''' then Broadcast keys '''' (cc_Automessage_prefix (ch_config s1) @ message) w else w))
       (getNextAutoMessage s)"

section \<open>Status and resource pack\<close>

text \<open>
  \<^verbatim>\<open>GetPingData\<close>: the text from the cache, or from the database (\<open>''''\<close> when it has none) and then
  cached for five seconds.  A call that would wait for the lock of the cache is \<open>None\<close>.
\<close>

definition GetPingData ::
    "int \<Rightarrow> string \<Rightarrow> 'i chat_state \<Rightarrow> ((string \<times> int \<times> 32 word \<times> string) \<times> 'i chat_state) go option" where
  "GetPingData now redis_motd s =
     (let c = ch_config s;
          result = (\<lambda>motd cache. ((motd, cc_Slots c, cc_OnlineMultiplier c, cc_faviconData c),
             s\<lparr>ch_motdCache := cache\<rparr>)) in
      case ValueCache_Get now (ch_motdCache s) of
        None \<Rightarrow> None
      | Some (Panic m) \<Rightarrow> Some (Panic m)
      | Some (Ret ((v, True), cache)) \<Rightarrow> Some (Ret (result (the v) cache))
      | Some (Ret ((_, False), cache)) \<Rightarrow>
          (let motd = (if redis_motd = '''' then cc_MOTD c else redis_motd) in
           map_option (go_map (result motd)) (ValueCache_SetDelay (\<lambda>_. ()) motd 5000000000 now cache)))"

text \<open>\<open>scale\<close> is the product of a number of players and a \<^verbatim>\<open>float32\<close>, cut to an integer.\<close>

definition PingHandler ::
    "(int \<Rightarrow> 32 word \<Rightarrow> int) \<Rightarrow> int \<Rightarrow> string \<Rightarrow> 'i chat_state \<Rightarrow> ('i, 'n) world \<Rightarrow>
     (ServerStatus \<times> 'i chat_state) go option" where
  "PingHandler scale now redis_motd s w =
     map_option (go_map (\<lambda>((motd, _, omul, favicondata), s1).
       let p = scale (Len (wo_players w)) omul in
       (\<lparr>ss_Version = GameVersion, ss_Players = \<lparr>ssp_Online = p, ssp_Max = p + 1\<rparr>,
         ss_Description = motd, ss_Favicon = favicondata\<rparr>, s1)))
       (GetPingData now redis_motd s)"

text \<open>
  \<^verbatim>\<open>resFilter\<close>: once per player a goroutine is started that sends the resource pack a second later; the
  packet it will inject is part of the result.
\<close>

definition resFilter :: "'i \<Rightarrow> 'i chat_state \<Rightarrow> 'n packet option \<times> 'i chat_state" where
  "resFilter i s =
     (let c = ch_config s in
      if cc_ResourcePack_Url c = '''' then (None, s)
      else if i \<in> ch_textureApplied s then (None, s)
      else (Some (P_ResourcePackSendCB \<lparr>rp_Url = cc_ResourcePack_Url c, rp_Hash = cc_ResourcePack_Hash c\<rparr>),
            s\<lparr>ch_textureApplied := insert i (ch_textureApplied s)\<rparr>))"

definition res_later :: "'i \<Rightarrow> 'n packet \<Rightarrow> ('i, 'n) world \<Rightarrow> ('i, 'n) world" where
  "res_later i p w = snd (inject_to ClientBound None [p] i w)"

section \<open>Configuration (config.go)\<close>

text \<open>
  \<^verbatim>\<open>LoadConfig\<close>: the decoded file, \<open>compile\<close> for \<^verbatim>\<open>regexp.Compile\<close> with the replacement of all matches,
  and the favicon as a data URL.  On an error the configuration is dropped by every caller.
\<close>

fun compile_all ::
    "(string \<Rightarrow> gerr + (string \<Rightarrow> string \<Rightarrow> string)) \<Rightarrow> (string \<times> string) list \<Rightarrow> gerr + (string \<Rightarrow> string) list" where
  "compile_all compile [] = Inr []"
| "compile_all compile ((expr, repl) # rest) =
     (case compile expr of
        Inl e \<Rightarrow> Inl e
      | Inr f \<Rightarrow> (case compile_all compile rest of Inl e \<Rightarrow> Inl e | Inr fs \<Rightarrow> Inr (f repl # fs)))"

definition section_text :: string where
  "section_text = encode_rune section_sign"

definition is_zero_float :: "32 word \<Rightarrow> bool" where
  "is_zero_float b \<longleftrightarrow> b = 0 \<or> b = 0x80000000"

definition LoadConfig ::
    "(string \<Rightarrow> gerr + (string \<Rightarrow> string \<Rightarrow> string)) \<Rightarrow> gerr + string \<Rightarrow> gerr + gerr + chatConfig \<Rightarrow>
     gerr + chatConfig" where
  "LoadConfig compile favicon file =
     (case file of
        Inl e \<Rightarrow> Inl e
      | Inr (Inl e) \<Rightarrow> Inl e
      | Inr (Inr c0) \<Rightarrow>
          (let c1 = c0\<lparr>cc_Automessage_prefix := ReplaceAll (cc_Automessage_prefix c0) (CHR ''&'') section_text,
                       cc_Automessage := map (\<lambda>m. ReplaceAll m (CHR ''&'') section_text) (cc_Automessage c0)\<rparr>
           in case compile_all compile (cc_Censorship c1) of
                Inl e \<Rightarrow> Inl e
              | Inr fs \<Rightarrow>
                  (let c2 = c1\<lparr>cc_censorshipRegexp := fs\<rparr>;
                       c3 = (if cc_RateLimitHz c2 = 0 then c2\<lparr>cc_RateLimitHz := 2, cc_RateLimitBurst := 10\<rparr> else c2);
                       c4 = (if is_zero_float (cc_OnlineMultiplier c3)
                             then c3\<lparr>cc_OnlineMultiplier := 0x3F800000\<rparr> else c3)
                   in Inr (case favicon of Inl e \<Rightarrow> c4 | Inr url \<Rightarrow> c4\<lparr>cc_faviconData := url\<rparr>))))"

end
