(* ===== verification/ChatLaws.thy ===== *)
theory ChatLaws
  imports CloudyChat
begin

text \<open>
  What the chat guarantees: what reaches the server, who hears a message, how it looks, who can be
  reached by private messages, and the bounds of the state.
\<close>

section \<open>Checked messages\<close>

lemma checkMessage_None:
  "checkMessage msg = None \<longleftrightarrow> msg \<noteq> '''' \<and> length msg \<le> 256 \<and> (\<forall>r \<in> set (runes_of msg). r \<noteq> 167 \<and> 32 \<le> r)"
  by (auto simp: checkMessage_def find_None_iff not_less option.case_eq_if)

section \<open>How a message looks\<close>

lemma styled_plain_runes:
  "section_sign \<notin> set rs \<Longrightarrow> styled (rs @ section_sign # mode # rest) st
     = map (\<lambda>b. (b, st)) (concat (map encode_rune rs)) @ styled rest (apply_mode mode st)"
proof (induction rs)
  case Nil
  then show ?case by simp
next
  case (Cons c rs)
  then show ?case by (cases rs) (auto simp: section_sign_def)
qed

lemma styled_no_codes:
  "section_sign \<notin> set rs \<Longrightarrow> styled rs st = map (\<lambda>b. (b, st)) (concat (map encode_rune rs))"
proof (induction rs)
  case (Cons c rs)
  then show ?case by (cases rs) (auto simp: section_sign_def)
qed simp

text \<open>A color constant in front of a text starts a new style.\<close>

lemma runes_of_color: "code c < 128 \<Longrightarrow> runes_of (color c @ s) = section_sign # code c # runes_of s"
  using runes_of_encode_append [of "[section_sign]" "c # s"]
  by (simp add: color_def section_sign_def valid_rune_def runes_of_ascii_Cons)

definition in_color :: "string \<Rightarrow> style" where
  "in_color c = plain\<lparr>st_Color := c\<rparr>"

lemma digit_codes: "code (CHR ''7'') = 55" "code (CHR ''f'') = 102" "code (CHR '':'') = 58" "code (CHR '' '') = 32"
  "code (CHR ''~'') = 126"
  by (simp_all add: code_def)

lemma encode_ascii: "code c < 128 \<Longrightarrow> encode_rune (code c) = [c]"
  by (simp add: encode_rune_def valid_rune_def)

lemma shown_colored:
  assumes "utf8 s" "section_sign \<notin> set (runes_of s)" "section_sign \<notin> set (runes_of t)"
  shows "shown_chars (para_parts (COLOR_GRAY @ s @ '':'' @ COLOR_WHITE @ '' '' @ t))
    = map (\<lambda>b. (b, in_color ''gray'')) (s @ '':'')
      @ map (\<lambda>b. (b, in_color ''white'')) ('' '' @ concat (map encode_rune (runes_of t)))"
proof -
  have runes: "runes_of (COLOR_GRAY @ s @ '':'' @ COLOR_WHITE @ '' '' @ t)
      = section_sign # 55 # (runes_of s @ [58]) @ section_sign # 102 # 32 # runes_of t"
    using assms(1)
    by (simp add: COLOR_GRAY_def COLOR_WHITE_def runes_of_color utf8_cat runes_of_ascii_Cons digit_codes)
  have modes: "apply_mode 55 plain = in_color ''gray''" "apply_mode 102 (in_color ''gray'') = in_color ''white''"
    by (simp_all add: apply_mode_def new_color_def in_color_def plain_def)
  have plain_text: "section_sign \<notin> set (runes_of s @ [58])" "section_sign \<notin> set (32 # runes_of t)"
    using assms(2,3) by (simp_all add: section_sign_def)
  have enc: "encode_rune 58 = '':''" "encode_rune 32 = '' ''"
    using encode_ascii [of "CHR '':''"] encode_ascii [of "CHR '' ''"] by (simp_all add: digit_codes)
  have "shown_chars (para_parts (COLOR_GRAY @ s @ '':'' @ COLOR_WHITE @ '' '' @ t))
      = styled ((runes_of s @ [58]) @ section_sign # 102 # 32 # runes_of t) (in_color ''gray'')"
    by (simp only: shown_para_parts runes styled.simps modes(1)) simp
  also have "\<dots> = map (\<lambda>b. (b, in_color ''gray'')) (concat (map encode_rune (runes_of s @ [58])))
      @ styled (32 # runes_of t) (in_color ''white'')"
    unfolding styled_plain_runes [OF plain_text(1)] modes(2) by (rule refl)
  also have "concat (map encode_rune (runes_of s @ [58])) = s @ '':''"
    using utf8_runes [OF assms(1)] enc by simp
  also have "styled (32 # runes_of t) (in_color ''white'')
      = map (\<lambda>b. (b, in_color ''white'')) ('' '' @ concat (map encode_rune (runes_of t)))"
    unfolding styled_no_codes [OF plain_text(2)] using enc by simp
  finally show ?thesis by simp
qed

section \<open>Where a message goes\<close>

lemma replace_first: "HasPrefix s old \<Longrightarrow> old \<noteq> [] \<Longrightarrow> replace_n (Some 1) old new s = new @ drop (length old) s"
proof -
  assume p: "HasPrefix s old" "old \<noteq> []"
  then have "s \<noteq> []" by (auto simp: HasPrefix_def)
  with p have "replace_n (Some 1) old new s = new @ replace_n (Some 0) old new (drop (length old) s)"
    by (subst replace_n.simps) simp
  then show ?thesis by (simp add: replace_n.simps [of "Some 0"])
qed

lemma answer_drops [simp]: "fst (answer i t s w) = Some ErrDropPacket"
  by (simp add: answer_def)

lemma commands_drop:
  "chat_command env i words s w = Some (err, s', w') \<Longrightarrow> err = Some ErrDropPacket"
proof -
  assume "chat_command env i words s w = Some (err, s', w')"
  moreover have "fst (msgCommand env i words s w) = Some ErrDropPacket"
    "fst (replyCommand env i words s w) = Some ErrDropPacket"
    "fst (ignoreCommand env i words s w) = Some ErrDropPacket"
    "fst (socialspyCommand env i words s w) = Some ErrDropPacket"
    "fst (reloadCommand env i s w) = Some ErrDropPacket"
    "fst (chatoffCommand env i words s w) = Some ErrDropPacket"
    by (simp_all add: msgCommand_def replyCommand_def ignoreCommand_def socialspyCommand_def
        reloadCommand_def chatoffCommand_def Let_def split: option.split sum.split)
  moreover have "fst (helpopCommand env i words s w) = Some ErrDropPacket"
    by (simp add: helpopCommand_def Let_def)
  ultimately show ?thesis
    by (auto simp: chat_command_def Let_def split: if_splits dest!: arg_cong [where f = fst])
qed

lemma public_chat_drops: "fst (public_chat env i msg s w) = Some ErrDropPacket"
  by (simp add: public_chat_def Let_def)

text \<open>The ways through the filter.\<close>

lemma ChatFilter_cases:
  assumes "ChatFilter env i packet s w = (err, packet', s', w')"
  obtains
    (bad) e where "checkMessage (cms_Message packet) = Some e" "err = Some e" "packet' = packet" "s' = s" "w' = w"
  | (command) w1 where "HasPrefix (cms_Message packet) ''/''" "packet' = packet"
      "chat_command env i (Split (CHR '' '') (cms_Message packet)) s w1 = Some (err, s', w')"
  | (unknown) "HasPrefix (cms_Message packet) ''/''" "err = None" "packet' = packet" "s' = s"
      "chat_command env i (Split (CHR '' '') (cms_Message packet)) s
         (supervisorMessage env i (cms_Message packet) w) = None"
  | (forward) "HasPrefix (cms_Message packet) [chr 92]" "may w i ''cloudychat.command_forward''" "err = None"
      "packet' = packet\<lparr>cms_Message := replace_n (Some 1) [chr 92] ''/'' (cms_Message packet)\<rparr>" "s' = s"
  | (censored) "err = Some ErrDropPacket" "packet' = packet" "s' = s" "w' = w"
  | (chat) msg where "public_chat env i msg s w = (err, s', w')" "packet' = packet"
proof (cases "checkMessage (cms_Message packet)")
  case (Some e)
  then have "ChatFilter env i packet s w = (Some e, packet, s, w)"
    by (simp only: ChatFilter_def Let_def option.case)
  with assms have "err = Some e" "packet' = packet" "s' = s" "w' = w" by simp_all
  with Some bad show ?thesis by blast
next
  case None
  show ?thesis
  proof (cases "HasPrefix (cms_Message packet) ''/''")
    case True
    show ?thesis
    proof (cases "chat_command env i (Split (CHR '' '') (cms_Message packet)) s
        (supervisorMessage env i (cms_Message packet) w)")
      case none: None
      then have "ChatFilter env i packet s w = (None, packet, s, supervisorMessage env i (cms_Message packet) w)"
        by (simp only: ChatFilter_def Let_def None option.case True if_True)
      with assms have "err = None" "packet' = packet" "s' = s" by simp_all
      with True none unknown show ?thesis by blast
    next
      case (Some r)
      then have "ChatFilter env i packet s w = (case r of (err, s2, w2) \<Rightarrow> (err, packet, s2, w2))"
        by (simp only: ChatFilter_def Let_def None option.case True if_True)
      with assms have "r = (err, s', w')" "packet' = packet"
        by (simp_all split: prod.splits)
      with True Some command show ?thesis by blast
    qed
  next
    case no_slash: False
    show ?thesis
    proof (cases "HasPrefix (cms_Message packet) [chr 92] \<and> may w i ''cloudychat.command_forward''")
      case True
      then have "ChatFilter env i packet s w = (None, packet\<lparr>cms_Message := replace_n (Some 1) [chr 92] ''/''
          (cms_Message packet)\<rparr>, s, supervisorMessage env i (cms_Message packet) w)"
        by (simp only: ChatFilter_def Let_def None option.case no_slash simp_thms if_True if_False)
      with assms have "err = None" "s' = s"
        "packet' = packet\<lparr>cms_Message := replace_n (Some 1) [chr 92] ''/'' (cms_Message packet)\<rparr>" by simp_all
      with True forward show ?thesis by blast
    next
      case False
      define msg1 where "msg1 = (if may w i ''cloudychat.censorship.bypass'' then cms_Message packet
        else censorship s (cms_Message packet))"
      have "ChatFilter env i packet s w =
          (if \<not> may w i ''cloudychat.censorship.bypass'' \<and> msg1 = '''' then (Some ErrDropPacket, packet, s, w)
           else (case public_chat env i msg1 s w of (err, s2, w2) \<Rightarrow> (err, packet, s2, w2)))"
        unfolding msg1_def by (simp only: ChatFilter_def Let_def None option.case no_slash False if_False)
      with assms have "(err = Some ErrDropPacket \<and> packet' = packet \<and> s' = s \<and> w' = w)
          \<or> (public_chat env i msg1 s w = (err, s', w') \<and> packet' = packet)"
        by (simp split: if_splits prod.splits)
      with censored chat show ?thesis by blast
    qed
  qed
qed

section \<open>Who hears a message\<close>

definition allowed :: "('i, 'n) chat_env \<Rightarrow> 'i \<Rightarrow> 'i chat_state \<Rightarrow> ('i, 'n) world \<Rightarrow> bool" where
  "allowed env i s w \<longleftrightarrow>
     (cc_ChatOff (ch_config s) \<longrightarrow> may w i ''cloudychat.chatoff.bypass'') \<and>
     (may w i ''cloudychat.slowmode.bypass'' \<or> snd (checkSlowmode env w (cu_LastChatTime (ch_users s i)))) \<and>
     (may w i ''cloudychat.ratelimiter.bypass'' \<or> ce_allow env)"

lemma DefaultFormatter_alike: "alike w w' \<Longrightarrow> DefaultFormatter w' r i msg = DefaultFormatter w r i msg"
  by (simp add: DefaultFormatter_def alikeD)

lemma DefaultFormatter_nonempty: "DefaultFormatter w r i msg \<noteq> ''''"
  by (simp add: DefaultFormatter_def COLOR_GRAY_def color_def Let_def)

definition hears :: "('i, 'n) world \<Rightarrow> 'i \<Rightarrow> string \<Rightarrow> 'i \<Rightarrow> 'n command list" where
  "hears w i msg r = [send_command ClientBound None [chat_packet (DefaultFormatter w r i msg) 0]]"

lemma deliver_sent_all:
  assumes "ce_Formatter env = DefaultFormatter"
  shows "deliver env i msg w = sent_all (players (ce_keys env) w) (hears w i msg) w"
  unfolding deliver_def
  by (rule fold_sent_all)
     (simp add: assms DefaultFormatter_alike DefaultFormatter_nonempty inject_to_sent hears_def Let_def)

lemma public_chat_result:
  assumes "ce_Formatter env = DefaultFormatter"
  shows "\<exists>s'. if allowed env i s w
    then public_chat env i msg s w = (Some ErrDropPacket, s', sent_all (players (ce_keys env) w) (hears w i msg) w)
    else \<exists>t. public_chat env i msg s w = (Some ErrDropPacket, s', sent i [says t] w)"
proof (cases "allowed env i s w")
  case True
  then have "\<not> (cc_ChatOff (ch_config s) \<and> \<not> may w i ''cloudychat.chatoff.bypass'')"
    "\<not> (\<not> may w i ''cloudychat.slowmode.bypass'' \<and> \<not> snd (checkSlowmode env w (cu_LastChatTime (ch_users s i))))"
    "\<not> (\<not> may w i ''cloudychat.ratelimiter.bypass'' \<and> \<not> ce_allow env)"
    by (auto simp: allowed_def)
  then have "\<exists>s'. public_chat env i msg s w = (Some ErrDropPacket, s', deliver env i msg w)"
    by (simp only: public_chat_def Let_def if_False) blast
  with True show ?thesis by (simp add: deliver_sent_all [OF assms])
next
  case False
  have "\<exists>s' t. public_chat env i msg s w = answer i t s' w"
  proof (cases "cc_ChatOff (ch_config s) \<and> \<not> may w i ''cloudychat.chatoff.bypass''")
    case True
    then show ?thesis by (simp only: public_chat_def simp_thms if_True) blast
  next
    case on: False
    show ?thesis
    proof (cases "\<not> may w i ''cloudychat.slowmode.bypass''
        \<and> \<not> snd (checkSlowmode env w (cu_LastChatTime (ch_users s i)))")
      case True
      with on show ?thesis by (simp only: public_chat_def Let_def simp_thms if_True if_False) blast
    next
      case fast: False
      with on False have "\<not> may w i ''cloudychat.ratelimiter.bypass'' \<and> \<not> ce_allow env"
        by (auto simp: allowed_def)
      with on fast show ?thesis by (simp only: public_chat_def Let_def simp_thms if_True if_False) blast
    qed
  qed
  with False show ?thesis by (auto simp: answer_def SendChatMessage_sent)
qed

section \<open>Bounds of the state\<close>

definition user_ok :: "chatUser \<Rightarrow> bool" where
  "user_ok u \<longleftrightarrow> (\<forall>l. cu_SentPrivMsgs u = Some l \<longrightarrow> length l = 20)
     \<and> length (cu_Ignored u) \<le> 256 \<and> distinct (map fst (cu_Ignored u))"

definition chat_ok :: "'i chat_state \<Rightarrow> bool" where
  "chat_ok s \<longleftrightarrow> length (ch_helpopHistory s) = 20 \<and> (\<forall>i. user_ok (ch_users s i))"

lemma chat_ok_on_user: "chat_ok s \<Longrightarrow> (\<And>u. user_ok u \<Longrightarrow> user_ok (f u)) \<Longrightarrow> chat_ok (on_user i f s)"
  by (simp add: chat_ok_def on_user_def)

lemma chat_ok_cong:
  "ch_helpopHistory s' = ch_helpopHistory s \<Longrightarrow> ch_users s' = ch_users s \<Longrightarrow> chat_ok s' = chat_ok s"
  by (simp add: chat_ok_def)

lemma user_ok_AddPrivMsgHistory: "user_ok u \<Longrightarrow> user_ok (AddPrivMsgHistory r m u)"
  by (auto simp: user_ok_def AddPrivMsgHistory_def Let_def split: option.split)

lemma user_ok_SetIgnored: "user_ok u \<Longrightarrow> user_ok (SetIgnored tbl n v u)"
proof -
  have "length (AList.update k x m) \<le> Suc (length m)" for k :: string and x :: bool and m
    by (induction m) auto
  note this [of "ToLower tbl n" v "cu_Ignored u"]
  then show "user_ok u \<Longrightarrow> user_ok (SetIgnored tbl n v u)"
    by (auto simp: user_ok_def SetIgnored_def distinct_update)
qed

lemma user_ok_fields [simp]:
  "user_ok (u\<lparr>cu_LastChatTime := t\<rparr>) = user_ok u" "user_ok (u\<lparr>cu_LastHelpopTime := t\<rparr>) = user_ok u"
  "user_ok (SetMsgRecipient r u) = user_ok u"
  by (simp_all add: user_ok_def SetMsgRecipient_def)

lemma answer_state [simp]: "fst (snd (answer i t s w)) = s"
  by (simp add: answer_def)

lemma chat_ok_update [simp]:
  "chat_ok (s\<lparr>ch_config := c\<rparr>) = chat_ok s" "chat_ok (s\<lparr>ch_socialspies := l\<rparr>) = chat_ok s"
  "chat_ok (s\<lparr>ch_nextAutoMessage := n\<rparr>) = chat_ok s"
  by (simp_all add: chat_ok_def)

lemma chat_ok_history: "chat_ok s \<Longrightarrow> chat_ok (s\<lparr>ch_helpopHistory := tl (ch_helpopHistory s) @ [e]\<rparr>)"
  by (simp add: chat_ok_def)

lemma chat_ok_commands:
  assumes "chat_ok s"
  shows "chat_ok (fst (snd (msgCommand env i words s w)))" "chat_ok (fst (snd (replyCommand env i words s w)))"
    "chat_ok (fst (snd (ignoreCommand env i words s w)))" "chat_ok (fst (snd (helpopCommand env i words s w)))"
    "chat_ok (fst (snd (socialspyCommand env i words s w)))" "chat_ok (fst (snd (reloadCommand env i s w)))"
    "chat_ok (fst (snd (chatoffCommand env i words s w)))"
  using assms
  by (auto simp: msgCommand_def replyCommand_def ignoreCommand_def helpopCommand_def socialspyCommand_def
      reloadCommand_def chatoffCommand_def Let_def user_ok_AddPrivMsgHistory user_ok_SetIgnored
      split: option.split sum.split intro!: chat_ok_on_user chat_ok_history)

lemma chat_ok_ChatFilter:
  assumes "chat_ok s" "ChatFilter env i packet s w = (err, packet', s', w')"
  shows "chat_ok s'"
proof -
  have pub: "chat_ok (fst (snd (public_chat env i msg s w)))" for msg
    using assms(1) by (auto simp: public_chat_def Let_def intro!: chat_ok_on_user)
  have com: "chat_command env i words s w1 = Some r \<Longrightarrow> chat_ok (fst (snd r))" for words w1 r
    using chat_ok_commands [OF assms(1)] by (auto simp: chat_command_def Let_def split: if_splits)
  from assms(2) show ?thesis
  proof (cases rule: ChatFilter_cases)
    case (command w1)
    with com [of _ w1 "(err, s', w')"] show ?thesis by simp
  next
    case (chat msg)
    with pub [of msg] show ?thesis by simp
  qed (use assms(1) in simp_all)
qed

text \<open>The chat state under any sequence of messages, reloads and automatic messages, while players come and go.\<close>

inductive chat_reachable :: "'i chat_state \<Rightarrow> ('i, 'n) world \<Rightarrow> bool" where
  start: "chat_reachable (initial_chat config) w"
| message: "chat_reachable s w \<Longrightarrow> ChatFilter env i packet s w = (err, packet', s', w') \<Longrightarrow> chat_reachable s' w'"
| auto: "chat_reachable s w \<Longrightarrow> automessage keys s w = Ret (s', w') \<Longrightarrow> chat_reachable s' w'"
| others: "chat_reachable s w \<Longrightarrow> chat_reachable s w'"

lemma chat_reachable_ok: "chat_reachable s w \<Longrightarrow> chat_ok s"
proof (induction rule: chat_reachable.induct)
  case (start config w)
  then show ?case by (simp add: chat_ok_def initial_chat_def user_ok_def zero_chatUser_def)
next
  case (message s w env i packet err packet' s' w')
  from message.IH message.hyps(2) show ?case by (rule chat_ok_ChatFilter)
next
  case (auto s w keys s' w')
  then show ?case by (auto simp: automessage_def getNextAutoMessage_def Let_def split: if_splits)
qed

section \<open>The properties\<close>

text \<open>C14: Nothing that a player types in the chat reaches the server except a command that the proxy does
  not know, unchanged, or a text after a backslash from a player who may forward commands, as a command.\<close>

theorem chat_stays_on_proxy:
  assumes "ChatFilter env i packet s w = (None, packet', s', w')"
  shows "HasPrefix (cms_Message packet) ''/'' \<and> packet' = packet
    \<and> chat_command env i (Split (CHR '' '') (cms_Message packet)) s
        (supervisorMessage env i (cms_Message packet) w) = None
    \<or> HasPrefix (cms_Message packet) [chr 92] \<and> may w i ''cloudychat.command_forward''
    \<and> cms_Message packet' = ''/'' @ drop 1 (cms_Message packet)"
proof -
  show ?thesis using assms
  proof (cases rule: ChatFilter_cases)
    case (command w1)
    with commands_drop show ?thesis by fastforce
  next
    case forward
    with replace_first [of "cms_Message packet" "[chr 92]" "''/''"] show ?thesis by simp
  next
    case (chat msg)
    with public_chat_drops [of env i msg s w] show ?thesis by simp
  qed simp_all
qed

text \<open>With the formatter of the proxy, an ordinary chat message is either heard by every player,
  once and in the sender's name, or by nobody, and then only the sender is told why; it is allowed exactly
  when the chat is on, the player is not too fast and the limiter agrees, or the player may bypass that.\<close>

theorem chat_all_or_nobody:
  assumes "ce_Formatter env = DefaultFormatter" "checkMessage (cms_Message packet) = None"
    and "\<not> HasPrefix (cms_Message packet) ''/''"
    and "\<not> (HasPrefix (cms_Message packet) [chr 92] \<and> may w i ''cloudychat.command_forward'')"
    and "msg = (if may w i ''cloudychat.censorship.bypass'' then cms_Message packet
                else censorship s (cms_Message packet))" "msg \<noteq> ''''"
  shows "\<exists>s'. if allowed env i s w
    then ChatFilter env i packet s w = (Some ErrDropPacket, packet, s',
           sent_all (players (ce_keys env) w) (hears w i msg) w)
    else \<exists>t. ChatFilter env i packet s w = (Some ErrDropPacket, packet, s', sent i [says t] w)"
proof -
  have "ChatFilter env i packet s w
      = (case public_chat env i msg s w of (err, s2, w2) \<Rightarrow> (err, packet, s2, w2))"
    using assms(6) unfolding assms(5)
    by (simp only: ChatFilter_def Let_def assms(2-4) option.case if_False simp_thms)
  then show ?thesis
    using public_chat_result [OF assms(1), of i s w msg] by fastforce
qed


text \<open>However the chat is used, the history of help requests and every history of private messages has
  twenty entries, and nobody's list of ignored players exceeds 256.\<close>

theorem chat_state_bounds:
  assumes "chat_reachable s w"
  shows "length (ch_helpopHistory s) = 20 \<and> length (cu_Ignored (ch_users s i)) \<le> 256
    \<and> (\<forall>l. cu_SentPrivMsgs (ch_users s i) = Some l \<longrightarrow> length l = 20)"
  using chat_reachable_ok [OF assms] by (simp add: chat_ok_def user_ok_def)

text \<open>A reply reaches a player who ignores its sender: the ignore list is looked at for new messages only.\<close>

lemma reply_bypasses_ignore:
  assumes "may w i ''cloudychat.reply.use''" "2 \<le> length args"
    and "player_named env (cu_MsgRecipient (ch_users s i)) w = Some r" "\<not> unreachable i r w"
    and "GetIgnored (ce_tbl env) (nick w i) (ch_users s r)" "\<not> may w i ''cloudychat.ignore.bypass''"
  shows "\<exists>s'. replyCommand env i args s w = (Some ErrDropPacket, s',
    tell_spies env (SOCIALSPY_FORMAT (nick w i) (nick w r) (Join (drop 1 args) '' '')) (ch_socialspies s)
      (tell_both i r (Join (drop 1 args) '' '') w))"
  using assms by (simp add: replyCommand_def Let_def)

section \<open>Witnesses\<close>

definition sample_chat_env :: "(bool, unit) chat_env" where
  "sample_chat_env =
     \<lparr>ce_tbl = id, ce_keys = [''ann'', ''bob''], ce_now = 10000000000, ce_allow = True,
      ce_slow = (\<lambda>n. 100 * n), ce_secs_text = (\<lambda>_. ''3''), ce_dur_text = (\<lambda>_. ''3s''),
      ce_time_text = (\<lambda>_. ''12:00:00''), ce_Formatter = DefaultFormatter, ce_LoadConfig = Inl EOF\<rparr>"

definition sample_config :: chatConfig where
  "sample_config =
     \<lparr>cc_Censorship = [], cc_Automessage_delay = 60, cc_Automessage_prefix = '''', cc_Automessage = [''hello''],
      cc_censorshipRegexp = [], cc_ChatOff = False, cc_RateLimitHz = 2, cc_RateLimitBurst = 10, cc_Slots = 100,
      cc_OnlineMultiplier = 0x3F800000, cc_MOTD = ''potoq'', cc_faviconData = '''', cc_ResourcePack_Url = '''',
      cc_ResourcePack_Hash = ''''\<rparr>"

lemma sample_messages: "checkMessage ''/help'' = None" "checkMessage ''hi'' = None"
  by code_simp+

lemma sample_players: "players [''ann'', ''bob''] sample_world = [False, True]"
  by (simp add: players_def Range_def sample_world_def List.map_filter_simps)

lemma sample_may [simp]: "HasPermission (wo_handlers sample_world i) p = False"
  by (simp add: sample_world_def)

lemma chat_stays_on_proxy_witness:
  "\<exists>s'. ChatFilter sample_chat_env True \<lparr>cms_Message = ''/help''\<rparr> (initial_chat sample_config) sample_world
      = (None, \<lparr>cms_Message = ''/help''\<rparr>, s', sample_world)
    \<and> chat_command sample_chat_env True [''/help''] (initial_chat sample_config) sample_world = None"
proof -
  let ?p = "\<lparr>cms_Message = ''/help''\<rparr>"
  have split: "Split (CHR '' '') ''/help'' = [''/help'']" by code_simp
  have low: "ToLower id ''/help'' = ''/help''" by code_simp
  have sup: "supervisorMessage sample_chat_env True ''/help'' sample_world = sample_world"
    by (simp add: supervisorMessage_def)
  have none: "chat_command sample_chat_env True [''/help''] s sample_world = None" for s
    using low by (simp add: chat_command_def sample_chat_env_def)
  have run: "ChatFilter sample_chat_env True ?p (initial_chat sample_config) sample_world
      = (None, ?p, initial_chat sample_config, sample_world)"
    by (simp add: ChatFilter_def sample_messages split sup none HasPrefix_def)
  with chat_stays_on_proxy [OF run] show ?thesis
    by (auto simp: split sup HasPrefix_def)
qed

lemma chat_all_or_nobody_witness:
  "\<exists>s'. ChatFilter sample_chat_env True \<lparr>cms_Message = ''hi''\<rparr> (initial_chat sample_config) sample_world
    = (Some ErrDropPacket, \<lparr>cms_Message = ''hi''\<rparr>, s',
       sent_all [False, True] (hears sample_world True ''hi'') sample_world)"
proof -
  have "Len (wo_players sample_world) = 2" by (simp add: Len_def sample_world_def)
  then have "allowed sample_chat_env True (initial_chat sample_config) sample_world"
    by (simp add: allowed_def checkSlowmode_def time_Sub_def Let_def sample_chat_env_def initial_chat_def
        sample_config_def zero_chatUser_def)
  moreover have "''hi'' = censorship (initial_chat sample_config) ''hi''"
    by (simp add: censorship_def initial_chat_def sample_config_def)
  moreover have "ce_Formatter sample_chat_env = DefaultFormatter" "ce_keys sample_chat_env = [''ann'', ''bob'']"
    by (simp_all add: sample_chat_env_def)
  ultimately show ?thesis
    using chat_all_or_nobody [of sample_chat_env "\<lparr>cms_Message = ''hi''\<rparr>" sample_world True "''hi''"
        "initial_chat sample_config"]
    by (simp add: sample_messages sample_players HasPrefix_def)
qed


lemma chat_state_bounds_witness:
  "length (ch_helpopHistory (initial_chat sample_config :: bool chat_state)) = 20
   \<and> length (cu_Ignored (ch_users (initial_chat sample_config :: bool chat_state) True)) \<le> 256"
  using chat_state_bounds [OF chat_reachable.start [of sample_config sample_world]] by blast

end
