(* ===== verification/CloudyBans.thy ===== *)
theory CloudyBans
  imports World Cache JavaUTF
begin

text \<open>
  src/filters/cloudybans/: bans, mutes and kicks, and the record of logins.  The database and the text
  of times, UUIDs and errors are parameters; a time is nanoseconds since Go's zero time.
\<close>

section \<open>Records (abuse.go, tracker.go)\<close>

record Abuse =
  ab_Id :: int
  ab_Kind :: string
  ab_UUID :: uuid
  ab_Player :: string
  ab_Moderator :: string
  ab_Ts :: int
  ab_Comment :: string
  ab_IP :: string
  ab_Expires :: int
  ab_Pardon_moderator :: "string option"
  ab_Pardon_comment :: "string option"
  ab_Pardon_ts :: "int option"

record Login =
  lo_Id :: int
  lo_Player :: string
  lo_UUID :: uuid
  lo_Premium :: bool
  lo_IP :: string
  lo_Ts :: int
  lo_AuthProperties :: "bytes option"

section \<open>The database\<close>

text \<open>
  The statements that the code sends, one field each; the insertion of an abuse also gives its new id.
\<close>

record 'db db_ops =
  db_last_login :: "'db \<Rightarrow> string \<Rightarrow> gerr + Login"
  db_first_login :: "'db \<Rightarrow> string \<Rightarrow> gerr + Login"
  db_list_abuses :: "'db \<Rightarrow> string \<Rightarrow> string \<Rightarrow> gerr + Abuse list"
  db_insert_abuse :: "Abuse \<Rightarrow> 'db \<Rightarrow> gerr option \<times> int \<times> 'db"
  db_get_abuse :: "'db \<Rightarrow> int \<Rightarrow> Abuse option \<times> gerr option"
  db_update_abuse :: "Abuse \<Rightarrow> 'db \<Rightarrow> gerr option \<times> 'db"
  db_abuses_by_id :: "'db \<Rightarrow> int \<Rightarrow> gerr + Abuse list"
  db_abuses_of :: "'db \<Rightarrow> string \<Rightarrow> gerr + Abuse list"
  db_insert_login :: "Login \<Rightarrow> 'db \<Rightarrow> gerr option \<times> int \<times> 'db"
  db_end_login :: "int \<Rightarrow> 'db \<Rightarrow> gerr option \<times> 'db"
  db_accounts_on :: "'db \<Rightarrow> string \<Rightarrow> int \<times> gerr option"
  db_logins_of :: "'db \<Rightarrow> string \<Rightarrow> gerr + (string \<times> int) list"
  db_others_on :: "'db \<Rightarrow> string \<Rightarrow> string \<Rightarrow> gerr + (string \<times> int) list"
  db_players_on :: "'db \<Rightarrow> string \<Rightarrow> gerr + (string \<times> int) list"
  db_ips_of :: "'db \<Rightarrow> string \<Rightarrow> string \<Rightarrow> gerr + (string \<times> int) list"

text \<open>
  \<open>bn_now k\<close> is the \<open>k\<close>-th reading of the clock in a call; \<open>bn_group\<close> is \<^verbatim>\<open>GroupFinder\<close>, if set;
  \<open>bn_upper\<close> is \<^verbatim>\<open>unicode.ToUpper\<close> above ASCII, \<open>bn_pointer\<close> the text of an address.
\<close>

record 'db ban_env =
  bn_db :: "'db db_ops"
  bn_tbl :: "nat \<Rightarrow> nat"
  bn_fold :: "nat \<Rightarrow> nat"
  bn_upper :: "nat \<Rightarrow> nat"
  bn_keys :: "string list"
  bn_now :: "nat \<Rightarrow> int"
  bn_time :: "string \<Rightarrow> int \<Rightarrow> string"
  bn_uuid_text :: "uuid \<Rightarrow> string"
  bn_error_text :: "gerr \<Rightarrow> string"
  bn_group :: "(string \<Rightarrow> gerr + uuid list) option"
  bn_lookup :: "string \<Rightarrow> gerr + string list"
  bn_authprops :: "AuthProperty list \<Rightarrow> gerr + bytes"
  bn_pointer :: string

text \<open>The players, the database, and the cache of abuses; a nil abuse is cached too.\<close>

record ('i, 'n, 'db) bans =
  bs_world :: "('i, 'n) world"
  bs_db :: 'db
  bs_cache :: "(unit, Abuse option) ExpiringCache"

definition TIME_FORMAT :: string where "TIME_FORMAT = ''06.01.02_15:04''"
definition PLAYER_TIME_FORMAT :: string where "PLAYER_TIME_FORMAT = ''02.01.2006 15:04''"
definition RFC822 :: string where "RFC822 = ''02 Jan 06 15:04 MST''"

section \<open>Texts\<close>

definition rune_ToUpper :: "(nat \<Rightarrow> nat) \<Rightarrow> nat \<Rightarrow> nat" where
  "rune_ToUpper up r = (if r \<le> 127 then (if 97 \<le> r \<and> r \<le> 122 then r - 32 else r) else up r)"

definition upperFirstChar :: "(nat \<Rightarrow> nat) \<Rightarrow> string \<Rightarrow> string" where
  "upperFirstChar up s = (case runes_of s of [] \<Rightarrow> ''?'' | r # _ \<Rightarrow> encode_rune (rune_ToUpper up r))"

definition Abuse_String :: "'db ban_env \<Rightarrow> Abuse \<Rightarrow> string" where
  "Abuse_String env b =
     (let tm = bn_time env TIME_FORMAT;
          head0 = ''#'' @ Itoa (ab_Id b) @ upperFirstChar (bn_upper env) (ab_Kind b) @ '' '' @ ab_Player b @ '' ''
            @ tm (ab_Ts b) @ ''->'' @ tm (ab_Expires b) @ '' ['' @ ab_Moderator b @ '']'' @ chr 10 #
            ''> '' @ chr 39 # ab_Comment b @ chr 39 # '' '';
          head1 = (if ab_Expires b < bn_now env 9 then head0 @ ''EXPIRED'' else head0)
      in case ab_Pardon_moderator b of
           None \<Rightarrow> head1
         | Some m \<Rightarrow> head1 @ chr 10 # ''> PARDONED '' @ tm (the (ab_Pardon_ts b)) @ '' ['' @ m @ ''] ''
             @ chr 39 # the (ab_Pardon_comment b) @ [chr 39])"

definition ban_text :: "'db ban_env \<Rightarrow> Abuse \<Rightarrow> string" where
  "ban_text env b = COLOR_RED @ ''Zostales zbanowany przez '' @ ab_Moderator b @ '' do ''
     @ bn_time env PLAYER_TIME_FORMAT (ab_Expires b) @ '' z powodu: '' @ ab_Comment b"

definition BanKickMsg :: "'db ban_env \<Rightarrow> Abuse \<Rightarrow> string go" where
  "BanKickMsg env b =
     (if ab_Kind b \<noteq> ''ban'' then Panic ''getBanKickMsg() is valid only for Abuses with 'ban' kind!''
      else Ret (Para2Json (ban_text env b)))"

definition BanMsg :: "'db ban_env \<Rightarrow> Abuse \<Rightarrow> string go" where
  "BanMsg env b =
     (if ab_Kind b \<noteq> ''ban'' then Panic ''getBanKickMsg() is valid only for Abuses with 'ban' kind!''
      else Ret (ban_text env b))"

definition formatIp :: "string \<Rightarrow> bool \<Rightarrow> string" where
  "formatIp ip shadowed =
     (if \<not> shadowed then ip
      else
        (let parts = Split (CHR ''.'') ip in
         if length parts < 4 then ip else Join (parts[3 := ''X'']) ''.''))"

section \<open>Durations\<close>

text \<open>\<^verbatim>\<open>^(\\d+)([smhdM])$\<close>: digits and a unit.  A number out of range is cut to the largest, and the product wraps.\<close>

definition duration_unit :: "char \<Rightarrow> int option" where
  "duration_unit u =
     (if u = CHR ''s'' then Some 1000000000
      else if u = CHR ''m'' then Some (60 * 1000000000)
      else if u = CHR ''h'' then Some (3600 * 1000000000)
      else if u = CHR ''d'' then Some (86400 * 1000000000)
      else if u = CHR ''M'' then Some (2592000 * 1000000000)
      else None)"

definition parseDuration :: "string \<Rightarrow> gerr + int" where
  "parseDuration s =
     (case rev s of
        [] \<Rightarrow> Inl (Errorf ''Bad duration format!'' [])
      | u # ds \<Rightarrow>
          (case duration_unit u of
             None \<Rightarrow> Inl (Errorf ''Bad duration format!'' [])
           | Some k \<Rightarrow>
               if ds = [] \<or> \<not> list_all is_digit ds then Inl (Errorf ''Bad duration format!'' [])
               else Inr (sint (word_of_int (fst (Atoi (rev ds))) * word_of_int k :: 64 word))))"

section \<open>The cache of abuses (cloudybans.go)\<close>

definition cache_key :: "'db ban_env \<Rightarrow> string \<Rightarrow> string \<Rightarrow> string" where
  "cache_key env kind name = ToLower (bn_tbl env) (kind @ '':'' @ name)"

definition no_type :: "Abuse option \<Rightarrow> unit" where "no_type _ = ()"

text \<open>\<^verbatim>\<open>GetAbuse\<close>: the pointer may be nil without an error.\<close>

definition GetAbuse ::
    "'db ban_env \<Rightarrow> string \<Rightarrow> string \<Rightarrow> bool \<Rightarrow> ('i, 'n, 'db) bans \<Rightarrow>
     ((Abuse option \<times> gerr option) \<times> ('i, 'n, 'db) bans) go" where
  "GetAbuse env kind name use_cache s =
     (let key = cache_key env kind name;
          hit = (if use_cache then ExpiringCache_Get key (bn_now env 0) (bs_cache s) else (None, bs_cache s));
          s1 = s\<lparr>bs_cache := snd hit\<rparr>
      in case fst hit of
           Some v \<Rightarrow> Ret ((v, None), s1)
         | None \<Rightarrow>
             (case db_list_abuses (bn_db env) (bs_db s1) kind name of
                Inl e \<Rightarrow> Ret ((None, Some e), s1)
              | Inr abuses \<Rightarrow>
                  (let abuse = (case abuses of [] \<Rightarrow> None | a # _ \<Rightarrow> Some a);
                       ttl0 = bn_now env 1 + 300 * 1000000000;
                       ttl = (case abuse of None \<Rightarrow> ttl0
                              | Some a \<Rightarrow> if ab_Expires a < ttl0 then ab_Expires a else ttl0)
                   in go_map (\<lambda>c. ((abuse, None), s1\<lparr>bs_cache := c\<rparr>))
                        (SetTime no_type key abuse ttl (bn_now env 2) (bs_cache s1)))))"

text \<open>\<^verbatim>\<open>invalidateCaches\<close>; the message to the other proxies is left out.\<close>

definition invalidateCaches :: "'db ban_env \<Rightarrow> Abuse \<Rightarrow> ('i, 'n, 'db) bans \<Rightarrow> ('i, 'n, 'db) bans" where
  "invalidateCaches env b s =
     s\<lparr>bs_cache := Invalidate (cache_key env (ab_Kind b) (bn_uuid_text env (ab_UUID b)))
        (Invalidate (cache_key env (ab_Kind b) (ab_Player b)) (bs_cache s))\<rparr>"

section \<open>Muted players (mute.go)\<close>

definition on_world :: "(('i, 'n) world \<Rightarrow> ('i, 'n) world) \<Rightarrow> ('i, 'n, 'db) bans \<Rightarrow> ('i, 'n, 'db) bans" where
  "on_world f s = s\<lparr>bs_world := f (bs_world s)\<rparr>"

definition MuteFilter ::
    "'db ban_env \<Rightarrow> 'i \<Rightarrow> ChatMessagePacketSB \<Rightarrow> ('i, 'n, 'db) bans \<Rightarrow>
     (gerr option \<times> ('i, 'n, 'db) bans) go" where
  "MuteFilter env i msg s =
     (if HasPrefix (cms_Message msg) ''/'' then Ret (None, s)
      else go_map (\<lambda>((mute, _), s1).
        case mute of
          None \<Rightarrow> (None, s1)
        | Some m \<Rightarrow>
            (Some ErrDropPacket,
             on_world (SendChatMessage i (COLOR_RED @
               ''Nie mozesz pisac na chacie! Zostales wyciszony przez '' @ ab_Moderator m @ '' do ''
               @ bn_time env RFC822 (ab_Expires m) @ '' z powodu '' @ chr 39 # ab_Comment m @ [chr 39])) s1))
        (GetAbuse env ''mute'' (nick (bs_world s) i) True s))"

section \<open>Commands (commands.go)\<close>

text \<open>\<^verbatim>\<open>CommandSender\<close>: a player, or the console of the command line tool.\<close>

record ('i, 'n) CommandSender =
  cs_Nickname :: string
  cs_HasPermission :: "string \<Rightarrow> bool"
  cs_SendChatMessage :: "string \<Rightarrow> ('i, 'n) world \<Rightarrow> ('i, 'n) world"

type_synonym ('i, 'n, 'db) reply = "(string \<times> ('i, 'n, 'db) bans) go"

definition db_error :: "'db ban_env \<Rightarrow> gerr option \<Rightarrow> string" where
  "db_error env err = COLOR_RED @ ''Database error: '' @
     (case err of None \<Rightarrow> ''%!s(<nil>)'' | Some e \<Rightarrow> bn_error_text env e)"

definition bad_duration :: string where
  "bad_duration = COLOR_RED @ ''Error while parsing duration! Valid format: '' @ chr 92 #
     ''d+[smhdM], eg. 5d == 5 days''"

definition expires_after :: "'db ban_env \<Rightarrow> int \<Rightarrow> int" where
  "expires_after env dur = (if 0 < dur then bn_now env 3 + dur else 0)"

definition new_abuse :: "'db ban_env \<Rightarrow> string \<Rightarrow> Login \<Rightarrow> string \<Rightarrow> string \<Rightarrow> int \<Rightarrow> Abuse" where
  "new_abuse env kind login moderator comment expires =
     \<lparr>ab_Id = 0, ab_Kind = kind, ab_UUID = lo_UUID login, ab_Player = lo_Player login,
      ab_Moderator = moderator, ab_Ts = bn_now env 4, ab_Comment = comment, ab_IP = lo_IP login,
      ab_Expires = expires, ab_Pardon_moderator = None, ab_Pardon_comment = None, ab_Pardon_ts = None\<rparr>"

text \<open>A player who is online is kicked with a packet and the end of the connection.\<close>

definition kick_player :: "string \<Rightarrow> 'i \<Rightarrow> ('i, 'n) world \<Rightarrow> gerr option \<times> ('i, 'n) world" where
  "kick_player json i w = inject_to ClientBound (Some EOF) [P_KickPacketCB \<lparr>kk_Message = json\<rparr>] i w"

definition announce_ban :: "'db ban_env \<Rightarrow> Abuse \<Rightarrow> ('i, 'n, 'db) bans \<Rightarrow> ('i, 'n, 'db) bans" where
  "announce_ban env ban s =
     on_world (Broadcast (bn_keys env) '''' (COLOR_RED @ ''BAN: '' @ ab_Player ban @ '' do ''
       @ bn_time env PLAYER_TIME_FORMAT (ab_Expires ban) @ '' -> '' @ ab_Comment ban @ '' ['' @ ab_Moderator ban
       @ '']'')) s"

definition banCmd ::
    "'db ban_env \<Rightarrow> string \<Rightarrow> bool \<Rightarrow> ('i, 'n) CommandSender \<Rightarrow> string list \<Rightarrow> ('i, 'n, 'db) bans \<Rightarrow>
     ('i, 'n, 'db) reply" where
  "banCmd env kind silent sender args s =
     (if \<not> cs_HasPermission sender (''cloudybans.'' @ kind) then Ret (INSUFFICIENT_PERMS, s)
      else if length args < 3 then
        Ret (COLOR_RED @ ''Bad command syntax! /'' @ kind @ '' <nickname> <duration> comment [comment...]'', s)
      else
        (case db_last_login (bn_db env) (bs_db s) (args ! 0) of
           Inl e \<Rightarrow> Ret (db_error env (Some e), s)
         | Inr last_login \<Rightarrow>
        (case parseDuration (args ! 1) of
           Inl _ \<Rightarrow> Ret (bad_duration, s)
         | Inr dur \<Rightarrow>
        (let ban0 = new_abuse env kind last_login (cs_Nickname sender) (Join (drop 2 args) '' '')
               (expires_after env dur)
         in case db_insert_abuse (bn_db env) ban0 (bs_db s) of
              (Some e, _, db) \<Rightarrow> Ret (db_error env (Some e), s\<lparr>bs_db := db\<rparr>)
            | (None, n, db) \<Rightarrow>
                (let ban = ban0\<lparr>ab_Id := n\<rparr>;
                     s1 = invalidateCaches env ban (s\<lparr>bs_db := db\<rparr>);
                     done_text = COLOR_GREEN @ Abuse_String env ban
                 in if kind \<noteq> ''ban'' then Ret (done_text, s1)
                    else
                      (let s2 = (if silent then s1 else announce_ban env ban s1) in
                       case GetByNickname (bn_tbl env) (ab_Player ban) (wo_players (bs_world s2)) of
                         None \<Rightarrow> Ret (done_text, s2)
                       | Some player \<Rightarrow>
                           go_map (\<lambda>json.
                             case kick_player json player (bs_world s2) of
                               (Some e, w) \<Rightarrow> (COLOR_RED @ ''Error while kicking player: '' @ bn_error_text env e,
                                               s2\<lparr>bs_world := w\<rparr>)
                             | (None, w) \<Rightarrow> (done_text, s2\<lparr>bs_world := w\<rparr>)) (BanKickMsg env ban)))))))"

text \<open>
  The loop of \<^verbatim>\<open>/bang\<close> from index \<open>k\<close> on: a text that ends it early, the nicknames so far, and the
  players whom a timer kicks half a second later.
\<close>

definition ban_message :: "'db ban_env \<Rightarrow> Abuse \<Rightarrow> 'n packet" where
  "ban_message env ban = P_PluginMessagePacketSB \<lparr>pms_Channel = ''BungeeCord'',
     pms_Payload = fst (WriteJavaUTF ''Ban'') @ fst (WriteJavaUTF (ab_Player ban)) @ fst (WriteJavaUTF (ban_text env ban))\<rparr>"

fun bang_loop ::
    "'db ban_env \<Rightarrow> ('i, 'n) CommandSender \<Rightarrow> string \<Rightarrow> int \<Rightarrow> nat \<Rightarrow> nat \<Rightarrow> uuid list \<Rightarrow> ('i, 'n, 'db) bans \<Rightarrow>
     string option \<times> string list \<times> ('i \<times> Abuse) list \<times> ('i, 'n, 'db) bans" where
  "bang_loop env sender comment expires n k [] s = (None, [], [], s)"
| "bang_loop env sender comment expires n k (u # us) s =
     (case db_last_login (bn_db env) (bs_db s) (bn_uuid_text env u) of
        Inl e \<Rightarrow> (Some (db_error env (Some e) @ '', '' @ bn_uuid_text env u), [], [], s)
      | Inr last_login \<Rightarrow>
        (let ban0 = new_abuse env ''ban'' last_login (cs_Nickname sender) comment expires in
         case db_insert_abuse (bn_db env) ban0 (bs_db s) of
           (Some e, _, db) \<Rightarrow>
             (Some (COLOR_RED @ ''Database error ('' @ decimal k @ ''/'' @ decimal n @ ''): '' @ bn_error_text env e),
              [], [], s\<lparr>bs_db := db\<rparr>)
         | (None, i, db) \<Rightarrow>
             (let ban = ban0\<lparr>ab_Id := i\<rparr>;
                  s1 = invalidateCaches env ban (s\<lparr>bs_db := db\<rparr>);
                  online = GetByNickname (bn_tbl env) (ab_Player ban) (wo_players (bs_world s1));
                  s2 = (case online of
                          None \<Rightarrow> s1
                        | Some p \<Rightarrow> on_world (snd \<circ> inject_to ServerBound None [ban_message env ban] p) s1);
                  later = (case online of None \<Rightarrow> [] | Some p \<Rightarrow> [(p, ban)])
              in case bang_loop env sender comment expires n (k + 1) us s2 of
                   (err, nicks, kicks, s3) \<Rightarrow> (err, ab_Player ban # nicks, later @ kicks, s3))))"

text \<open>What the timer does: the kick goes towards the server.\<close>

definition bang_later :: "'db ban_env \<Rightarrow> 'i \<Rightarrow> Abuse \<Rightarrow> ('i, 'n) world \<Rightarrow> ('i, 'n) world go" where
  "bang_later env p ban w =
     go_map (\<lambda>json. snd (inject_to ServerBound (Some EOF) [P_KickPacketCB \<lparr>kk_Message = json\<rparr>] p w))
       (BanKickMsg env ban)"

definition bangCmd ::
    "'db ban_env \<Rightarrow> ('i, 'n) CommandSender \<Rightarrow> string list \<Rightarrow> ('i, 'n, 'db) bans \<Rightarrow>
     string \<times> ('i \<times> Abuse) list \<times> ('i, 'n, 'db) bans" where
  "bangCmd env sender args s =
     (if \<not> cs_HasPermission sender ''cloudybans.bang'' then (INSUFFICIENT_PERMS, [], s)
      else if length args < 3 then
        (COLOR_RED @ ''Bad command syntax! /bang <group_id> <duration> comment [comment...]'', [], s)
      else
        (case parseDuration (args ! 1) of
           Inl _ \<Rightarrow> (bad_duration, [], s)
         | Inr dur \<Rightarrow>
        (case bn_group env of
           None \<Rightarrow> (COLOR_RED @ ''Error finding group '' @ args ! 0 @ '': GroupFinder is not implemented!'', [], s)
         | Some finder \<Rightarrow>
        (case finder (args ! 0) of
           Inl e \<Rightarrow> (COLOR_RED @ ''Error finding group '' @ args ! 0 @ '': '' @ bn_error_text env e, [], s)
         | Inr uuids \<Rightarrow>
             (let expires = expires_after env dur; comment = Join (drop 2 args) '' '' in
              case bang_loop env sender comment expires (length uuids) 0 uuids s of
                (Some err, nicks, kicks, s1) \<Rightarrow> (err, kicks, s1)
              | (None, nicks, kicks, s1) \<Rightarrow>
                  ('''', kicks, on_world (Broadcast (bn_keys env) '''' (COLOR_RED @ ''BAN GRUPOWY: '' @ args ! 0 @ '' ''
                     @ COLOR_GRAY @ ''('' @ decimal (length nicks) @ '':'' @ Join nicks '','' @ '')'' @ COLOR_RED
                     @ '' do '' @ bn_time env PLAYER_TIME_FORMAT expires @ '' -> '' @ comment @ '' [''
                     @ cs_Nickname sender @ '']'')) s1))))))"

definition unbanCmd ::
    "'db ban_env \<Rightarrow> string \<Rightarrow> ('i, 'n) CommandSender \<Rightarrow> string list \<Rightarrow> ('i, 'n, 'db) bans \<Rightarrow>
     string \<times> ('i, 'n, 'db) bans" where
  "unbanCmd env kind sender args s =
     (if \<not> cs_HasPermission sender (''cloudybans.un'' @ kind) then (INSUFFICIENT_PERMS, s)
      else if length args < 2 then
        (COLOR_RED @ ''Bad command syntax! /un'' @ kind @ '' <ban_id> <nickname> <reason...>'', s)
      else
        (case Atoi (args ! 0) of
           (_, Some e) \<Rightarrow> (COLOR_RED @ ''Error while parsing ban_id! '' @ bn_error_text env e, s)
         | (ban_id, None) \<Rightarrow>
        (case db_get_abuse (bn_db env) (bs_db s) ban_id of
           (None, _) \<Rightarrow> (COLOR_RED @ ''Ban #'' @ Itoa ban_id @ '' not found!'', s)
         | (Some _, Some _) \<Rightarrow> (COLOR_RED @ ''Database error(1): %!s(<nil>)'', s)
         | (Some ban, None) \<Rightarrow>
             if \<not> EqualFold (bn_fold env) (ab_Player ban) (args ! 1) then
               (COLOR_RED @ ''Ban #'' @ Itoa ban_id @ '' nickname mismatch! '' @ ab_Player ban @ '' != '' @ args ! 1, s)
             else if ab_Pardon_moderator ban \<noteq> None then
               (COLOR_RED @ ''Ban #'' @ Itoa ban_id @ '' has been already pardoned by %!s(*string='' @ bn_pointer env
                 @ '') on '' @ bn_time env '''' (the (ab_Pardon_ts ban)) @ '' with reason: %!s(*string='' @ bn_pointer env
                 @ '')'', s)
             else if \<not> (EqualFold (bn_fold env) (ab_Moderator ban) (cs_Nickname sender)
                 \<or> cs_HasPermission sender (''cloudybans.un'' @ kind @ ''.others'')) then
               (COLOR_RED @ ''Ban #'' @ Itoa ban_id @ '' has been added by %!s(*string=<nil>) on <nil>. You don'' @ chr 39 #
                 ''t have sufficient permissions to remove other'' @ chr 39 # ''s bans.'', s)
             else
               (let ban1 = ban\<lparr>ab_Pardon_moderator := Some (cs_Nickname sender),
                      ab_Pardon_comment := Some (Join (drop 2 args) '' ''), ab_Pardon_ts := Some (bn_now env 5)\<rparr>
                in case db_update_abuse (bn_db env) ban1 (bs_db s) of
                     (Some _, db) \<Rightarrow> (COLOR_RED @ ''Database error(2): %!s(<nil>)'', s\<lparr>bs_db := db\<rparr>)
                   | (None, db) \<Rightarrow>
                       (COLOR_GREEN @ Abuse_String env ban1, invalidateCaches env ban1 (s\<lparr>bs_db := db\<rparr>))))))"

definition baninfoCmd ::
    "'db ban_env \<Rightarrow> ('i, 'n) CommandSender \<Rightarrow> string list \<Rightarrow> ('i, 'n, 'db) bans \<Rightarrow> string" where
  "baninfoCmd env sender args s =
     (if \<not> cs_HasPermission sender ''cloudybans.baninfo'' then INSUFFICIENT_PERMS
      else
        (case args of
           [] \<Rightarrow> COLOR_RED @ ''Bad command syntax! /baninfo <#banid or nickname or uuid>''
         | name # _ \<Rightarrow>
             (case (if HasPrefix name ''#'' then
                      (case Atoi (drop 1 name) of
                         (_, Some e) \<Rightarrow> Inl (COLOR_RED @ ''Error while parsing ban_id! '' @ bn_error_text env e)
                       | (ban_id, None) \<Rightarrow>
                           (case db_abuses_by_id (bn_db env) (bs_db s) ban_id of
                              Inl e \<Rightarrow> Inl (COLOR_RED @ ''Database error(1): '' @ bn_error_text env e)
                            | Inr bans \<Rightarrow> Inr bans))
                    else
                      (case db_abuses_of (bn_db env) (bs_db s) name of
                         Inl e \<Rightarrow> Inl (COLOR_RED @ ''Database error(2): '' @ bn_error_text env e)
                       | Inr bans \<Rightarrow> Inr bans)) of
                Inl txt \<Rightarrow> txt
              | Inr bans \<Rightarrow>
                  if bans = [] then COLOR_GREEN @ ''No matching bans found!''
                  else Join (map (\<lambda>b. (if ab_Pardon_moderator b \<noteq> None then COLOR_GRAY else COLOR_GREEN)
                         @ Abuse_String env b) bans) [chr 10])))"

definition kickCmd ::
    "'db ban_env \<Rightarrow> ('i, 'n) CommandSender \<Rightarrow> bool \<Rightarrow> string list \<Rightarrow> ('i, 'n, 'db) bans \<Rightarrow>
     string \<times> ('i, 'n, 'db) bans" where
  "kickCmd env sender silent args s =
     (if \<not> cs_HasPermission sender ''cloudybans.kick'' then (INSUFFICIENT_PERMS, s)
      else if length args < 2 then (COLOR_RED @ ''Bad command syntax! /kick <nickname> <reason...>'', s)
      else
        (case GetByNickname (bn_tbl env) (args ! 0) (wo_players (bs_world s)) of
           None \<Rightarrow> (COLOR_RED @ ''Player not found!'', s)
         | Some player \<Rightarrow>
        (let h = wo_handlers (bs_world s) player; msg = Join (drop 1 args) '' '';
             ban = \<lparr>ab_Id = 0, ab_Kind = ''kick'', ab_UUID = h_UUID h, ab_Player = h_Nickname h,
                    ab_Moderator = cs_Nickname sender, ab_Ts = bn_now env 6, ab_Comment = msg,
                    ab_IP = h_DownstreamAddr h, ab_Expires = bn_now env 7, ab_Pardon_moderator = None,
                    ab_Pardon_comment = None, ab_Pardon_ts = None\<rparr>
         in case db_insert_abuse (bn_db env) ban (bs_db s) of
              (Some e, _, db) \<Rightarrow> (db_error env (Some e), s\<lparr>bs_db := db\<rparr>)
            | (None, _, db) \<Rightarrow>
                (case kick_player (Para2Json (COLOR_RED @ ''KICKED BY '' @ cs_Nickname sender @ chr 10 # msg)) player
                        (bs_world s) of
                   (Some e, w) \<Rightarrow>
                     (COLOR_RED @ ''Error while trying to kick player: '' @ bn_error_text env e,
                      s\<lparr>bs_db := db, bs_world := w\<rparr>)
                 | (None, w) \<Rightarrow>
                     if silent then (COLOR_GREEN @ ''Kicked!'', s\<lparr>bs_db := db, bs_world := w\<rparr>)
                     else ('''', s\<lparr>bs_db := db, bs_world := Broadcast (bn_keys env) '''' (COLOR_RED @ ''KICK: ''
                       @ h_Nickname h @ '' -> '' @ msg @ '' ['' @ cs_Nickname sender @ '']'') w\<rparr>)))))"

section \<open>The record of logins (tracker.go)\<close>

definition track_line :: "string \<Rightarrow> int \<Rightarrow> nat \<Rightarrow> string" where
  "track_line who c n = COLOR_GREEN @ who @ '': '' @ Itoa c @ '' logins, others ('' @ decimal n @ ''): ''"

text \<open>The loop of both tracking commands: one message per row, until a statement fails.\<close>

fun track_loop ::
    "('i, 'n) CommandSender \<Rightarrow> (string \<Rightarrow> gerr + (string \<times> int) list) \<Rightarrow> (string \<Rightarrow> int \<Rightarrow> nat \<Rightarrow> string) \<Rightarrow>
     (string \<Rightarrow> string) \<Rightarrow> (string \<times> int) list \<Rightarrow> ('i, 'n) world \<Rightarrow> string \<times> ('i, 'n) world" where
  "track_loop sender others line shown [] w = ('''', w)"
| "track_loop sender others line shown ((who, c) # rows) w =
     (case others who of
        Inl e \<Rightarrow> (COLOR_RED @ ''Error while trying to track player'', w)
      | Inr os \<Rightarrow>
          track_loop sender others line shown rows
            (cs_SendChatMessage sender (line who c (length os)
               @ concat (map (\<lambda>(other, k). shown other @ ''('' @ Itoa k @ '') '') os)) w))"

text \<open>The format of \<^verbatim>\<open>/track\<close> has one verb more than arguments.\<close>

definition trackCmd ::
    "'db ban_env \<Rightarrow> ('i, 'n) CommandSender \<Rightarrow> string list \<Rightarrow> ('i, 'n, 'db) bans \<Rightarrow> string \<times> ('i, 'n, 'db) bans" where
  "trackCmd env sender args s =
     (if \<not> cs_HasPermission sender ''cloudybans.track'' then (INSUFFICIENT_PERMS, s)
      else
        (case args of
           [name] \<Rightarrow>
             (case db_logins_of (bn_db env) (bs_db s) name of
                Inl e \<Rightarrow> (COLOR_RED @ ''Error while trying to track player'', s)
              | Inr logins \<Rightarrow>
                  if logins = [] then (COLOR_RED @ ''No data about this player!'', s)
                  else
                    (let hide = (\<not> cs_HasPermission sender ''cloudybans.showfullip'') in
                     case track_loop sender (\<lambda>ip. db_others_on (bn_db env) (bs_db s) ip name)
                            (\<lambda>ip c n. track_line (formatIp ip hide) c n @ ''%!s(MISSING)'') id logins (bs_world s) of
                       (resp, w) \<Rightarrow> (resp, s\<lparr>bs_world := w\<rparr>)))
         | _ \<Rightarrow> (COLOR_RED @ ''Bad command syntax! /track <nickname or uuid>'', s)))"

definition trackipCmd ::
    "'db ban_env \<Rightarrow> ('i, 'n) CommandSender \<Rightarrow> string list \<Rightarrow> ('i, 'n, 'db) bans \<Rightarrow> string \<times> ('i, 'n, 'db) bans" where
  "trackipCmd env sender args s =
     (if \<not> cs_HasPermission sender ''cloudybans.trackip'' then (INSUFFICIENT_PERMS, s)
      else
        (case args of
           [ip] \<Rightarrow>
             (case db_players_on (bn_db env) (bs_db s) ip of
                Inl e \<Rightarrow> (COLOR_RED @ ''Error while trying to track player'', s)
              | Inr logins \<Rightarrow>
                  if logins = [] then (COLOR_RED @ ''No data about this ip!'', s)
                  else
                    (let hide = (\<not> cs_HasPermission sender ''cloudybans.showfullip'') in
                     case track_loop sender (\<lambda>p. db_ips_of (bn_db env) (bs_db s) p ip) track_line
                            (\<lambda>other. formatIp other hide) logins (bs_world s) of
                       (resp, w) \<Rightarrow> (resp, s\<lparr>bs_world := w\<rparr>)))
         | _ \<Rightarrow> (COLOR_RED @ ''Bad command syntax! /trackip <ip>'', s)))"

definition revdnsCmd :: "'db ban_env \<Rightarrow> ('i, 'n) CommandSender \<Rightarrow> string list \<Rightarrow> string" where
  "revdnsCmd env sender args =
     (if \<not> cs_HasPermission sender ''cloudybans.revdns'' then INSUFFICIENT_PERMS
      else
        (case args of
           [ip] \<Rightarrow>
             (case bn_lookup env ip of
                Inl e \<Rightarrow> COLOR_RED @ ''Lookup error''
              | Inr hosts \<Rightarrow> COLOR_GREEN @ ''Host: '' @ Join hosts '', '')
         | _ \<Rightarrow> COLOR_RED @ ''Bad command syntax! /revdns <ip>''))"

text \<open>
  \<^verbatim>\<open>TrackPlayerLogin\<close>: the login with its id, or an error; the closing hook that it installs is
  \<open>end_login\<close>.
\<close>

definition TrackPlayerLogin ::
    "'db ban_env \<Rightarrow> 'i \<Rightarrow> ('i, 'n, 'db) bans \<Rightarrow> (Login \<times> gerr option) \<times> ('i, 'n, 'db) bans" where
  "TrackPlayerLogin env i s =
     (let h = wo_handlers (bs_world s) i;
          login0 = \<lparr>lo_Id = 0, lo_Player = h_Nickname h, lo_UUID = h_UUID h, lo_Premium = h_hasAuthenticator h,
                    lo_IP = h_DownstreamAddr h, lo_Ts = bn_now env 0, lo_AuthProperties = None\<rparr>
      in case (if h_hasAuthenticator h \<and> h_AuthProperties h \<noteq> []
               then (case bn_authprops env (h_AuthProperties h) of
                       Inl e \<Rightarrow> Inl e | Inr bs \<Rightarrow> Inr (login0\<lparr>lo_AuthProperties := Some bs\<rparr>))
               else Inr login0) of
           Inl e \<Rightarrow> ((login0, Some e), s)
         | Inr login \<Rightarrow>
             (case db_insert_login (bn_db env) login (bs_db s) of
                (Some e, _, db) \<Rightarrow>
                  ((login, Some (Errorf ''cloudyBans: error in LoginInfo insert: %+v, %w'' [GStr ''login'', GErr e])),
                   s\<lparr>bs_db := db\<rparr>)
              | (None, n, db) \<Rightarrow>
                  (let s1 = s\<lparr>bs_db := db\<rparr>; logins = fst (db_accounts_on (bn_db env) db (h_DownstreamAddr h)) in
                   ((login\<lparr>lo_Id := n\<rparr>, None),
                    if 1 < logins then
                      on_world (Broadcast (bn_keys env) ''cloudybans.track'' (COLOR_RED @ ''Gracz '' @ h_Nickname h
                        @ '' logowal sie w tym miesiacu na IP: ''
                        @ formatIp (h_DownstreamAddr h) (\<not> HasPermission h ''cloudybans.showfullip'')
                        @ '' na '' @ Itoa logins @ '' roznych kont!'')) s1
                    else s1))))"

definition end_login :: "'db ban_env \<Rightarrow> Login \<Rightarrow> ('i, 'n, 'db) bans \<Rightarrow> ('i, 'n, 'db) bans" where
  "end_login env login s = s\<lparr>bs_db := snd (db_end_login (bn_db env) (lo_Id login) (bs_db s))\<rparr>"

section \<open>Dispatch\<close>

text \<open>
  \<^verbatim>\<open>HandleCommand\<close>: whether the command was one, the kicks for later, and the state; no words at all
  make it panic.
\<close>

definition ban_command ::
    "'db ban_env \<Rightarrow> ('i, 'n) CommandSender \<Rightarrow> string list \<Rightarrow> ('i, 'n, 'db) bans \<Rightarrow>
     (string \<times> ('i \<times> Abuse) list \<times> ('i, 'n, 'db) bans) go option" where
  "ban_command env sender words s =
     (let cmd = ToLower (bn_tbl env) (hd words); args = tl words;
          now = (\<lambda>(resp, s'). (resp, [], s'))
      in if cmd = ''/ban'' then Some (go_map now (banCmd env ''ban'' False sender args s))
         else if cmd = ''/sban'' then Some (go_map now (banCmd env ''ban'' True sender args s))
         else if cmd = ''/unban'' then Some (Ret (now (unbanCmd env ''ban'' sender args s)))
         else if cmd = ''/bang'' then Some (Ret (bangCmd env sender args s))
         else if cmd = ''/mute'' then Some (go_map now (banCmd env ''mute'' False sender args s))
         else if cmd = ''/unmute'' then Some (Ret (now (unbanCmd env ''mute'' sender args s)))
         else if cmd = ''/baninfo'' then Some (Ret (baninfoCmd env sender args s, [], s))
         else if cmd = ''/kick'' then Some (Ret (now (kickCmd env sender False args s)))
         else if cmd = ''/skick'' then Some (Ret (now (kickCmd env sender True args s)))
         else if cmd = ''/track'' then Some (Ret (now (trackCmd env sender args s)))
         else if cmd = ''/trackip'' then Some (Ret (now (trackipCmd env sender args s)))
         else if cmd = ''/revdns'' then Some (Ret (revdnsCmd env sender args, [], s))
         else None)"

definition HandleCommand ::
    "'db ban_env \<Rightarrow> ('i, 'n) CommandSender \<Rightarrow> string list \<Rightarrow> ('i, 'n, 'db) bans \<Rightarrow>
     (bool \<times> ('i \<times> Abuse) list \<times> ('i, 'n, 'db) bans) go" where
  "HandleCommand env sender words s =
     (if words = [] then Panic ''index out of range''
      else
        (case ban_command env sender words s of
           None \<Rightarrow> Ret (False, [], s)
         | Some r \<Rightarrow>
             go_map (\<lambda>(resp, kicks, s1).
               (True, kicks, if resp \<noteq> '''' then on_world (cs_SendChatMessage sender resp) s1 else s1)) r))"

definition player_sender :: "'i \<Rightarrow> ('i, 'n) world \<Rightarrow> ('i, 'n) CommandSender" where
  "player_sender i w = \<lparr>cs_Nickname = nick w i, cs_HasPermission = may w i, cs_SendChatMessage = SendChatMessage i\<rparr>"

definition CommandsFilter ::
    "'db ban_env \<Rightarrow> 'i \<Rightarrow> ChatMessagePacketSB \<Rightarrow> ('i, 'n, 'db) bans \<Rightarrow>
     (gerr option \<times> ('i \<times> Abuse) list \<times> ('i, 'n, 'db) bans) go" where
  "CommandsFilter env i msg s =
     (if cms_Message msg = '''' then Ret (None, [], s)
      else
        go_map (\<lambda>(drop, kicks, s1). (if drop then Some ErrDropPacket else None, kicks, s1))
          (HandleCommand env (player_sender i (bs_world s)) (Fields (cms_Message msg)) s))"

end
