(* ===== verification/Auth.thy ===== *)
theory Auth
  imports PlayCustom GoStrings
begin

text \<open>
  src/auth.go: the digest that identifies a login session, offline UUIDs, nicknames, and the two
  requests to web services.  The hash functions of the crypto packages are the parameters \<open>sha1\<close> and
  \<open>md5\<close>; what a web service answers is a parameter too.
\<close>

unbundle bit_operations_syntax

definition ErrBadLogin :: gerr where "ErrBadLogin = Errorf ''Bad Login!'' []"

definition ErrUnauthenticated :: gerr where "ErrUnauthenticated = Errorf ''Player unauthenticated'' []"

definition ErrTooManyRequests :: gerr where
  "ErrTooManyRequests = Errorf ''Too many requests, try again later!'' []"

section \<open>Two's complement\<close>

text \<open>The loop runs from the last byte to the first: here, over the reversed list.\<close>

fun twos_loop :: "bool \<Rightarrow> bytes \<Rightarrow> bytes" where
  "twos_loop carry [] = []"
| "twos_loop carry (b # bs) =
     (let c = NOT b in
      if carry then (c + 1) # twos_loop (c = 0xff) bs else c # twos_loop False bs)"

definition twosComplement :: "bytes \<Rightarrow> bytes" where
  "twosComplement p = rev (twos_loop True (rev p))"

definition le_value :: "bytes \<Rightarrow> nat" where
  "le_value bs = foldr (\<lambda>b v. unat b + 256 * v) bs 0"

definition be_value :: "bytes \<Rightarrow> nat" where
  "be_value bs = foldl (\<lambda>v b. 256 * v + unat b) 0 bs"

lemma le_value_simps [simp]: "le_value [] = 0" "le_value (b # bs) = unat b + 256 * le_value bs"
  by (simp_all add: le_value_def)

lemma be_value_snoc [simp]: "be_value [] = 0" "be_value (bs @ [b]) = 256 * be_value bs + unat b"
  by (simp_all add: be_value_def)

lemma be_value_rev: "be_value bs = le_value (rev bs)"
  by (induction bs rule: rev_induct) simp_all

lemma unat_byte_less: "unat (b :: byte) < 256"
  using unsigned_less [of b] by simp

lemma le_value_less: "le_value bs < 256 ^ length bs"
proof (induction bs)
  case (Cons b bs)
  have "unat b < 256" by (rule unat_byte_less)
  with Cons show ?case by simp
qed simp

lemma unat_not_byte: "unat (NOT b :: byte) = 255 - unat b"
proof -
  have "NOT b = - 1 - b" by (simp add: not_eq_complement)
  moreover have "b \<le> - 1" by (rule word_order.extremum)
  ultimately have "unat (NOT b) = unat (- 1 :: byte) - unat b" by (simp add: unat_sub)
  then show ?thesis by (simp add: unsigned_minus_1_eq_mask mask_eq_exp_minus_1)
qed

lemma twos_loop_False: "le_value (twos_loop False bs) = 256 ^ length bs - 1 - le_value bs"
proof (induction bs)
  case (Cons b bs)
  have "unat b < 256" "le_value bs < 256 ^ length bs" by (rule unat_byte_less, rule le_value_less)
  with Cons show ?case by (simp add: Let_def unat_not_byte)
qed simp

lemma twos_loop_True:
  "le_value (twos_loop True bs) = (if le_value bs = 0 then 0 else 256 ^ length bs - le_value bs)"
proof (induction bs)
  case (Cons b bs)
  have b: "unat b < 256" and v: "le_value bs < 256 ^ length bs"
    by (rule unat_byte_less, rule le_value_less)
  show ?case
  proof (cases "b = 0")
    case True
    with Cons v show ?thesis by (simp add: Let_def diff_mult_distrib2)
  next
    case False
    then have pos: "0 < unat b" by (simp add: unat_gt_0)
    have ff: "NOT b \<noteq> 0xff"
    proof
      assume "NOT b = 0xff"
      then have "unat (NOT b) = 255" by simp
      with pos b show False by (simp add: unat_not_byte)
    qed
    then have "unat (NOT b + 1) = 256 - unat b"
      using b pos by (simp add: unat_word_ariths(1) unat_not_byte)
    with ff b pos v show ?thesis by (simp add: Let_def twos_loop_False)
  qed
qed simp

lemma length_twos_loop [simp]: "length (twos_loop c bs) = length bs"
  by (induction bs arbitrary: c) (simp_all add: Let_def)

lemma twosComplement_value:
  "be_value (twosComplement p) = (if be_value p = 0 then 0 else 256 ^ length p - be_value p)"
  by (simp add: twosComplement_def be_value_rev twos_loop_True)

section \<open>The session digest\<close>

definition hex_digit :: "nat \<Rightarrow> char" where
  "hex_digit n = chr (if n < 10 then 48 + n else 87 + n)"

definition hex_of :: "bytes \<Rightarrow> string" where
  "hex_of bs = concat (map (\<lambda>b. [hex_digit (unat b div 16), hex_digit (unat b mod 16)]) bs)"

text \<open>\<^verbatim>\<open>strings.TrimLeft(s, "0")\<close>.\<close>

definition TrimLeft0 :: "string \<Rightarrow> string" where
  "TrimLeft0 s = dropWhile (\<lambda>c. c = CHR ''0'') s"

definition digest_string :: "bytes \<Rightarrow> string" where
  "digest_string hash =
     (let negative = ((hash ! 0) AND 0x80 = 0x80);
          hash' = (if negative then twosComplement hash else hash);
          res = TrimLeft0 (hex_of hash')
      in if negative then ''-'' @ res else res)"

definition authDigest :: "(bytes \<Rightarrow> bytes) \<Rightarrow> bytes \<Rightarrow> bytes \<Rightarrow> bytes \<Rightarrow> string" where
  "authDigest sha1 serverID secret publicKey = digest_string (sha1 (serverID @ secret @ publicKey))"

text \<open>What it must be: the hash as a signed big-endian number, in hexadecimal.\<close>

definition hex_digit_value :: "char \<Rightarrow> nat" where
  "hex_digit_value c = (if code c < 58 then code c - 48 else code c - 87)"

definition hex_value :: "string \<Rightarrow> nat" where
  "hex_value s = foldl (\<lambda>v c. 16 * v + hex_digit_value c) 0 s"

definition signed_be :: "bytes \<Rightarrow> int" where
  "signed_be bs =
     (if 2 * be_value bs < 256 ^ length bs then int (be_value bs)
      else int (be_value bs) - 256 ^ length bs)"

lemma hex_digit_value_of [simp]: "n < 16 \<Longrightarrow> hex_digit_value (hex_digit n) = n"
  by (simp add: hex_digit_value_def hex_digit_def)

lemma hex_value_snoc [simp]:
  "hex_value [] = 0" "hex_value (s @ [c]) = 16 * hex_value s + hex_digit_value c"
  by (simp_all add: hex_value_def)

lemma hex_value_hex_of: "hex_value (hex_of bs) = be_value bs"
proof (induction bs rule: rev_induct)
  case (snoc b bs)
  have "unat b div 16 < 16" using unat_byte_less [of b] by simp
  moreover have "hex_of (bs @ [b]) = (hex_of bs @ [hex_digit (unat b div 16)]) @ [hex_digit (unat b mod 16)]"
    by (simp add: hex_of_def)
  moreover have "16 * (16 * be_value bs + unat b div 16) + unat b mod 16 = 256 * be_value bs + unat b"
    by simp
  ultimately show ?case using snoc by (simp only: hex_value_snoc hex_digit_value_of) simp
qed (simp add: hex_of_def)

lemma hex_value_Cons0: "hex_value (CHR ''0'' # s) = hex_value s"
  by (simp add: hex_value_def hex_digit_value_def code_def)

lemma hex_value_TrimLeft0 [simp]: "hex_value (TrimLeft0 s) = hex_value s"
  by (induction s) (simp_all add: TrimLeft0_def hex_value_Cons0)

lemma TrimLeft0_head: "TrimLeft0 s \<noteq> [] \<Longrightarrow> hd (TrimLeft0 s) \<noteq> CHR ''0''"
  unfolding TrimLeft0_def by (rule hd_dropWhile)

lemma be_value_Cons: "be_value (b # bs) = unat b * 256 ^ length bs + be_value bs"
proof (induction bs rule: rev_induct)
  case (snoc c bs)
  have "be_value (b # bs @ [c]) = 256 * be_value (b # bs) + unat c"
    using be_value_snoc(2) [of "b # bs" c] by simp
  with snoc show ?case by simp
qed (simp add: be_value_def)

lemma top_bit_byte: "(b :: byte) AND 0x80 = 0x80 \<longleftrightarrow> 128 \<le> unat b"
proof -
  have "bit b 7 \<longleftrightarrow> bit (unat b) 7" by (simp add: bit_unsigned_iff)
  then have "bit b 7 \<longleftrightarrow> odd (unat b div 2 ^ 7)" by (simp only: bit_iff_odd)
  moreover have "unat b div 128 = (if 128 \<le> unat b then 1 else 0)"
    using unat_byte_less [of b] by (auto intro: div_nat_eqI)
  ultimately have "bit b 7 \<longleftrightarrow> 128 \<le> unat b" by simp
  moreover have "b AND 0x80 = 0x80 \<longleftrightarrow> bit b 7"
  proof
    assume "b AND 0x80 = 0x80"
    then have "bit (b AND 0x80) 7 = bit (0x80 :: byte) 7" by simp
    then show "bit b 7" by (simp add: bit_and_iff)
  next
    assume "bit b 7"
    moreover have "bit (0x80 :: byte) n \<longleftrightarrow> n = 7" if "n < 8" for n
      using that by (auto simp: less_Suc_eq numeral_eq_Suc)
    ultimately show "b AND 0x80 = 0x80" by (intro bit_word_eqI) (auto simp: bit_and_iff)
  qed
  ultimately show ?thesis by simp
qed

lemma leading_digit:
  fixes u v P :: nat
  assumes "v < P"
  shows "2 * (u * P + v) < 256 * P \<longleftrightarrow> u < 128"
proof
  assume "u < 128"
  with mult_le_mono1 [of "Suc u" 128 P] have "P + u * P \<le> 128 * P"
    by (simp only: mult_Suc Suc_le_eq)
  moreover have "2 * (w + v) < 256 * P" if "P + w \<le> 128 * P" for w
    using that assms by presburger
  ultimately show "2 * (u * P + v) < 256 * P" by blast
next
  assume less: "2 * (u * P + v) < 256 * P"
  show "u < 128"
  proof (rule ccontr)
    assume "\<not> u < 128"
    then have "128 * P \<le> u * P" by (intro mult_le_mono1) simp
    moreover have "\<not> 128 * P \<le> w" if "2 * (w + v) < 256 * P" for w using that by presburger
    ultimately show False using less by blast
  qed
qed

lemma negative_hash:
  assumes "hash \<noteq> []"
  shows "(hash ! 0) AND 0x80 = 0x80 \<longleftrightarrow> \<not> 2 * be_value hash < 256 ^ length hash"
proof -
  obtain b bs where h: "hash = b # bs" using assms by (cases hash) auto
  have "be_value bs < 256 ^ length bs"
    using le_value_less [of "rev bs"] by (simp add: be_value_rev)
  from leading_digit [OF this, of "unat b"] show ?thesis
    by (simp add: h be_value_Cons top_bit_byte not_less)
qed

text \<open>The digest denotes the signed number, without leading zeros.\<close>

lemma digest_string_signed:
  assumes "hash \<noteq> []"
  shows "\<exists>d. digest_string hash = (if signed_be hash < 0 then ''-'' @ d else d)
    \<and> int (hex_value d) = \<bar>signed_be hash\<bar> \<and> (d \<noteq> [] \<longrightarrow> hd d \<noteq> CHR ''0'')"
proof (cases "2 * be_value hash < 256 ^ length hash")
  case True
  then show ?thesis
    using negative_hash [OF assms] TrimLeft0_head [of "hex_of hash"]
    by (auto simp: digest_string_def Let_def signed_be_def hex_value_hex_of)
next
  case False
  have less: "be_value hash < 256 ^ length hash"
    using le_value_less [of "rev hash"] by (simp add: be_value_rev)
  with False have pos: "0 < be_value hash" by (cases "be_value hash = 0") auto
  have "int (256 ^ length hash - be_value hash) = 256 ^ length hash - int (be_value hash)"
    using less by (simp add: of_nat_diff)
  with False pos less show ?thesis
    using negative_hash [OF assms] TrimLeft0_head [of "hex_of (twosComplement hash)"]
    by (auto simp: digest_string_def Let_def signed_be_def hex_value_hex_of twosComplement_value)
qed

section \<open>Nicknames\<close>

definition nick_char :: "char \<Rightarrow> bool" where
  "nick_char c \<longleftrightarrow> (65 \<le> code c \<and> code c \<le> 90) \<or> (97 \<le> code c \<and> code c \<le> 122)
     \<or> (48 \<le> code c \<and> code c \<le> 57) \<or> c = CHR ''_''"

text \<open>
  \<^verbatim>\<open>MatchString\<close> looks for the pattern anywhere in the string: at some position at least three (and
  then, at most sixteen) characters of the class follow.
\<close>

fun ValidateNickname :: "string \<Rightarrow> bool" where
  "ValidateNickname [] = False"
| "ValidateNickname (c # s) =
     (3 \<le> length (takeWhile nick_char (take 16 (c # s))) \<or> ValidateNickname s)"

text \<open>The language of the pattern \<^verbatim>\<open>[A-Za-z0-9_]{3,16}\<close>.\<close>

definition nickname_pattern :: "string \<Rightarrow> bool" where
  "nickname_pattern m \<longleftrightarrow> 3 \<le> length m \<and> length m \<le> 16 \<and> list_all nick_char m"

lemma takeWhile_prefix_ge:
  "n \<le> length (takeWhile P xs) \<longleftrightarrow> n \<le> length xs \<and> list_all P (take n xs)"
proof (induction xs arbitrary: n)
  case (Cons x xs)
  then show ?case by (cases n) auto
qed simp

lemma run_of_three:
  "3 \<le> length (takeWhile nick_char (take 16 s)) \<longleftrightarrow> 3 \<le> length s \<and> list_all nick_char (take 3 s)"
  by (auto simp: takeWhile_prefix_ge min_def)

lemma ValidateNickname_append: "ValidateNickname t \<Longrightarrow> ValidateNickname (p @ t)"
  by (induction p) simp_all

lemma ValidateNickname_start:
  "3 \<le> length s \<Longrightarrow> list_all nick_char (take 3 s) \<Longrightarrow> ValidateNickname s"
  using run_of_three [of s] by (cases s) simp_all

lemma ValidateNickname_find:
  "ValidateNickname s \<Longrightarrow> \<exists>p t. s = p @ t \<and> 3 \<le> length t \<and> list_all nick_char (take 3 t)"
proof (induction s)
  case (Cons c s)
  show ?case
  proof (cases "ValidateNickname s")
    case True
    from Cons.IH [OF this] obtain p t where
      "s = p @ t" "3 \<le> length t" "list_all nick_char (take 3 t)" by blast
    then have "c # s = (c # p) @ t" by simp
    with \<open>3 \<le> length t\<close> \<open>list_all nick_char (take 3 t)\<close> show ?thesis by blast
  next
    case False
    with Cons.prems run_of_three [of "c # s"]
    have "3 \<le> length (c # s) \<and> list_all nick_char (take 3 (c # s))"
      unfolding ValidateNickname.simps by blast
    then show ?thesis by (metis append_Nil)
  qed
qed simp

lemma ValidateNickname_matches:
  "ValidateNickname s \<longleftrightarrow> (\<exists>p m q. s = p @ m @ q \<and> nickname_pattern m)"
proof
  assume "ValidateNickname s"
  from ValidateNickname_find [OF this] obtain p t where
    t: "s = p @ t" "3 \<le> length t" "list_all nick_char (take 3 t)" by blast
  then have "nickname_pattern (take 3 t)" by (simp add: nickname_pattern_def)
  moreover have "s = p @ take 3 t @ drop 3 t" using t(1) by simp
  ultimately show "\<exists>p m q. s = p @ m @ q \<and> nickname_pattern m" by blast
next
  assume "\<exists>p m q. s = p @ m @ q \<and> nickname_pattern m"
  then obtain p m q where s: "s = p @ m @ q" and m: "nickname_pattern m" by blast
  then have "list_all nick_char (take 3 (m @ q))"
    by (auto simp: nickname_pattern_def list_all_iff dest: in_set_takeD)
  with m have "ValidateNickname (m @ q)"
    by (intro ValidateNickname_start) (simp_all add: nickname_pattern_def)
  then show "ValidateNickname s" unfolding s by (rule ValidateNickname_append)
qed

section \<open>Offline UUIDs\<close>

definition FromBytes :: "bytes \<Rightarrow> uuid" where
  "FromBytes b = (if length b = 16 then b else replicate 16 0)"

text \<open>The version (3, from a name by MD5) and the variant of RFC 4122.\<close>

definition name_uuid :: "uuid \<Rightarrow> uuid" where
  "name_uuid u =
     (let u1 = u[6 := ((u ! 6) AND 0x0f) OR push_bit 4 (3 AND 0xf)]
      in u1[8 := ((u1 ! 8) AND 0x3f) OR 0x80])"

definition OfflinePlayerUUID :: "(bytes \<Rightarrow> bytes) \<Rightarrow> string \<Rightarrow> uuid" where
  "OfflinePlayerUUID md5 nickname =
     name_uuid (FromBytes (md5 (bytes_of (''OfflinePlayer:'' @ nickname))))"

lemma high_bits:
  "drop_bit 4 ((x AND 0x0f) OR 0x30 :: byte) = 3" "drop_bit 6 ((x AND 0x3f) OR 0x80 :: byte) = 2"
proof -
  have a: "drop_bit 4 (x AND 0x0f) = 0" "drop_bit 6 (x AND 0x3f) = 0"
    by (simp_all add: drop_bit_and)
  show "drop_bit 4 ((x AND 0x0f) OR 0x30 :: byte) = 3" "drop_bit 6 ((x AND 0x3f) OR 0x80 :: byte) = 2"
    unfolding drop_bit_or a by simp_all
qed

lemma name_uuid_bits:
  assumes "length u = 16"
  shows "length (name_uuid u) = 16"
    and "i < 16 \<Longrightarrow> i \<noteq> 6 \<Longrightarrow> i \<noteq> 8 \<Longrightarrow> name_uuid u ! i = u ! i"
    and "drop_bit 4 (name_uuid u ! 6) = 3" "drop_bit 6 (name_uuid u ! 8) = 2"
  using assms high_bits by (simp_all add: name_uuid_def Let_def)


section \<open>Web services\<close>

text \<open>
  What \<^verbatim>\<open>http.Client.Do\<close> and the JSON decoder make of a request: the request could not be built, it
  failed, or there is a response with a status code and a body that decodes or not.
\<close>

datatype 'a http = NoRequest gerr | Failed gerr | Response int "gerr + 'a"

record joined =
  jn_id :: uuid
  jn_name :: string
  jn_properties :: "AuthProperty list"

text \<open>
  \<^verbatim>\<open>HasJoined\<close>: the error, and on success the identity that the session server gave.  \<open>allow\<close> is the
  answer of the rate limiter, \<open>session serverId username\<close> that of the session server.  The status code
  is not looked at.
\<close>

definition HasJoined ::
    "(bytes \<Rightarrow> bytes) \<Rightarrow> (string \<Rightarrow> string \<Rightarrow> joined http) \<Rightarrow> bool \<Rightarrow> string \<Rightarrow> bytes \<Rightarrow> string \<Rightarrow> bytes \<Rightarrow>
     gerr option \<times> joined option" where
  "HasJoined sha1 session allow serverID publicKey nickname secret =
     (if \<not> ValidateNickname nickname then (Some (Errorf ''Invalid nickname'' []), None)
      else if \<not> allow then (Some ErrTooManyRequests, None)
      else
        (case session (authDigest sha1 (bytes_of serverID) secret publicKey) nickname of
           NoRequest e \<Rightarrow> (Some e, None)
         | Failed e \<Rightarrow> (Some ErrBadLogin, None)
         | Response status (Inl e) \<Rightarrow> (Some e, None)
         | Response status (Inr j) \<Rightarrow> (None, Some j)))"

text \<open>\<^verbatim>\<open>HasPaid\<close>: the body holds the \<^verbatim>\<open>id\<close> of the profile.\<close>

definition HasPaid :: "(string \<Rightarrow> string http) \<Rightarrow> bool \<Rightarrow> string \<Rightarrow> bool \<times> gerr option" where
  "HasPaid profile allow nickname =
     (if \<not> ValidateNickname nickname then (False, Some (Errorf ''Invalid nickname'' []))
      else if \<not> allow then (False, Some ErrTooManyRequests)
      else
        (case profile (''https://api.minetools.eu/uuid/'' @ nickname) of
           NoRequest e \<Rightarrow> (False, Some e)
         | Failed e \<Rightarrow> (False, Some e)
         | Response status body \<Rightarrow>
             if status = 200 then
               (case body of Inl e \<Rightarrow> (False, Some e) | Inr i \<Rightarrow> (i \<noteq> ''null'', None))
             else if status = 429 then (False, Some ErrTooManyRequests)
             else (False, Some (Errorf ''unexpected status code: %v'' [GInt status]))))"

section \<open>Properties\<close>

text \<open>The session digest.  For every hash the string is the hash read as a signed big-endian
  number and written in hexadecimal: a minus sign exactly for negative numbers, then the digits of
  the absolute value without leading zeros (none at all for the number zero).\<close>

theorem auth_digest_signed:
  assumes "sha1 (serverID @ secret @ publicKey) = hash" "hash \<noteq> []"
  shows "\<exists>d. authDigest sha1 serverID secret publicKey = (if signed_be hash < 0 then ''-'' @ d else d)
    \<and> int (hex_value d) = \<bar>signed_be hash\<bar> \<and> (d \<noteq> [] \<longrightarrow> hd d \<noteq> CHR ''0'')"
  using digest_string_signed [OF assms(2)] by (simp add: authDigest_def assms(1))

theorem auth_digest_signed_witness:
  "\<exists>d. authDigest (\<lambda>_. [0xFF, 0xFE]) [1] [2] [3] = ''-'' @ d \<and> hex_value d = 2"
proof -
  have "signed_be [0xFF, 0xFE] = - 2" by (simp add: signed_be_def be_value_def)
  with auth_digest_signed [of "\<lambda>_. [0xFF, 0xFE]" "[1]" "[2]" "[3]" "[0xFF, 0xFE]"]
  show ?thesis by auto
qed

text \<open>Which nicknames are let in.  A nickname is valid exactly when it contains a substring that
  matches the pattern; so the pattern does not limit the length of a nickname nor exclude any
  character, and a nickname with, say, a space or a slash in it is let in.\<close>

theorem nickname_contains_pattern:
  "(ValidateNickname s \<longleftrightarrow> (\<exists>p m q. s = p @ m @ q \<and> nickname_pattern m))
    \<and> (ValidateNickname s \<longrightarrow> ValidateNickname (p @ s @ q))"
proof -
  have "ValidateNickname (p @ s @ q)" if "ValidateNickname s"
  proof -
    from that obtain a m b where "s = a @ m @ b" "nickname_pattern m"
      unfolding ValidateNickname_matches by blast
    then have "p @ s @ q = (p @ a) @ m @ (b @ q)" by simp
    with \<open>nickname_pattern m\<close> show ?thesis unfolding ValidateNickname_matches by blast
  qed
  then show ?thesis by (simp add: ValidateNickname_matches)
qed

theorem nickname_contains_pattern_witness:
  "ValidateNickname (''../'' @ ''bob'' @ '' '')"
proof -
  have "nickname_pattern ''bob''" by (simp add: nickname_pattern_def nick_char_def code_def)
  then have "ValidateNickname ''bob''"
    unfolding ValidateNickname_matches by (metis append_Nil append_Nil2)
  with nickname_contains_pattern [of "''bob''" "''../''" "'' ''"] show ?thesis by blast
qed

text \<open>Offline UUIDs.  For a hash of 16 bytes the UUID has version 3 and the RFC 4122 variant, and
  all other bits are those of the hash of the nickname.\<close>

theorem offline_uuid_version:
  assumes "length (md5 (bytes_of (''OfflinePlayer:'' @ nickname))) = 16"
  shows "length (OfflinePlayerUUID md5 nickname) = 16
    \<and> drop_bit 4 (OfflinePlayerUUID md5 nickname ! 6) = 3
    \<and> drop_bit 6 (OfflinePlayerUUID md5 nickname ! 8) = 2
    \<and> (\<forall>i<16. i \<noteq> 6 \<longrightarrow> i \<noteq> 8 \<longrightarrow>
        OfflinePlayerUUID md5 nickname ! i = md5 (bytes_of (''OfflinePlayer:'' @ nickname)) ! i)"
  using name_uuid_bits [OF assms] assms unfolding OfflinePlayerUUID_def FromBytes_def by presburger

theorem offline_uuid_version_witness:
  "drop_bit 4 (OfflinePlayerUUID (\<lambda>_. replicate 16 0xAB) ''bob'' ! 6) = 3"
  using offline_uuid_version [of "\<lambda>_. replicate 16 0xAB" "''bob''"] by (simp only: length_replicate)

end
