(* ===== verification/Encryption.thy ===== *)
theory Encryption
  imports Prelude
begin

text \<open>
  src/packets/encryption.go: the AES/CFB8 stream of the protocol.  The code keeps the shift register
  as a 16-byte window that slides over a 256-byte buffer and is copied back to its start when it
  reaches the end; the development shows that this is the textbook shift register, that a reader
  decrypts what a writer with the same key encrypted, and that the sizes of the reads and writes do
  not matter.  The block cipher is the parameter \<open>E\<close> (only the first byte of its result is used);
  nothing is assumed of it.
\<close>

section \<open>Stream ciphers\<close>

text \<open>One byte at a time through a state.\<close>

fun run_stream :: "('s \<Rightarrow> byte \<Rightarrow> byte \<times> 's) \<Rightarrow> 's \<Rightarrow> bytes \<Rightarrow> bytes \<times> 's" where
  "run_stream f s [] = ([], s)"
| "run_stream f s (b # bs) =
     (case f s b of (c, s') \<Rightarrow> case run_stream f s' bs of (cs, s'') \<Rightarrow> (c # cs, s''))"

lemma run_stream_append:
  "run_stream f s (xs @ ys) =
     (case run_stream f s xs of (cs, s') \<Rightarrow> case run_stream f s' ys of (ds, s'') \<Rightarrow> (cs @ ds, s''))"
  by (induction xs arbitrary: s) (auto split: prod.splits)

lemma length_run_stream: "run_stream f s xs = (cs, s') \<Longrightarrow> length cs = length xs"
  by (induction xs arbitrary: s cs) (auto split: prod.splits)

fun run_chunks :: "('s \<Rightarrow> byte \<Rightarrow> byte \<times> 's) \<Rightarrow> 's \<Rightarrow> bytes list \<Rightarrow> bytes list \<times> 's" where
  "run_chunks f s [] = ([], s)"
| "run_chunks f s (x # xs) =
     (case run_stream f s x of (c, s') \<Rightarrow> case run_chunks f s' xs of (cs, s'') \<Rightarrow> (c # cs, s''))"

lemma run_chunks_concat:
  "run_chunks f s xs = (cs, s') \<Longrightarrow> run_stream f s (concat xs) = (concat cs, s')"
  by (induction xs arbitrary: s cs) (auto simp: run_stream_append split: prod.splits)

locale stream_cipher =
  fixes enc dec :: "'s \<Rightarrow> byte \<Rightarrow> byte \<times> 's"
    and sync :: "'s \<Rightarrow> 's \<Rightarrow> bool"
  assumes dec_enc: "sync s t \<Longrightarrow> enc s b = (c, s') \<Longrightarrow> \<exists>t'. dec t c = (b, t') \<and> sync s' t'"
begin

lemma dec_enc_stream:
  "sync s t \<Longrightarrow> run_stream enc s bs = (cs, s') \<Longrightarrow> \<exists>t'. run_stream dec t cs = (bs, t') \<and> sync s' t'"
proof (induction bs arbitrary: s t cs)
  case Nil
  then show ?case by auto
next
  case (Cons b bs)
  from Cons.prems(2) obtain c s1 ds where
    step: "enc s b = (c, s1)" "run_stream enc s1 bs = (ds, s')" "cs = c # ds"
    by (auto split: prod.splits)
  from dec_enc [OF Cons.prems(1) step(1)] obtain t1 where "dec t c = (b, t1)" "sync s1 t1" by blast
  with Cons.IH [of s1 t1 ds] step show ?case by auto
qed

text \<open>Writes of any sizes, reads of any sizes.\<close>

lemma dec_enc_chunks:
  assumes "sync s t" "run_chunks enc s ws = (wire, s')" "concat reads = concat wire"
    "run_chunks dec t reads = (got, t')"
  shows "concat got = concat ws \<and> sync s' t'"
proof -
  from dec_enc_stream [OF assms(1) run_chunks_concat [OF assms(2)]] obtain t1 where
    "run_stream dec t (concat wire) = (concat ws, t1)" "sync s' t1" by blast
  moreover from run_chunks_concat [OF assms(4)] assms(3)
  have "run_stream dec t (concat wire) = (concat got, t')" by simp
  ultimately show ?thesis by simp
qed

end

section \<open>The sliding window\<close>

text \<open>\<open>cf_off\<close> is where the slice \<^verbatim>\<open>iv\<close> starts in \<^verbatim>\<open>iv_real\<close>; its capacity is \<open>256 - cf_off\<close>.\<close>

record cfb8 =
  cf_real :: bytes
  cf_off :: nat
  cf_de :: bool

definition cf_iv :: "cfb8 \<Rightarrow> bytes" where
  "cf_iv cf = take 16 (drop (cf_off cf) (cf_real cf))"

definition newCFB8 :: "bytes \<Rightarrow> bool \<Rightarrow> cfb8 go" where
  "newCFB8 iv decrypt =
     (if length iv \<noteq> 16 then Panic ''bad iv length!''
      else Ret \<lparr>cf_real = iv @ replicate 240 0, cf_off = 0, cf_de = decrypt\<rparr>)"

text \<open>The body of the loop of \<^verbatim>\<open>XORKeyStream\<close>; \<^verbatim>\<open>dst\<close> may be \<^verbatim>\<open>src\<close>.\<close>

definition cfb8_step :: "(bytes \<Rightarrow> bytes) \<Rightarrow> cfb8 \<Rightarrow> byte \<Rightarrow> byte \<times> cfb8" where
  "cfb8_step E cf src =
     (let tmp = E (cf_iv cf);
          val = src XOR tmp ! 0;
          cf1 = (if 17 \<le> length (cf_real cf) - cf_off cf then cf\<lparr>cf_off := cf_off cf + 1\<rparr>
                 else cf\<lparr>cf_real := drop 1 (cf_iv cf) @ drop 15 (cf_real cf), cf_off := 0\<rparr>);
          last15 = (if cf_de cf then src else val)
      in (val, cf1\<lparr>cf_real := (cf_real cf1)[cf_off cf1 + 15 := last15]\<rparr>))"

definition XORKeyStream :: "(bytes \<Rightarrow> bytes) \<Rightarrow> cfb8 \<Rightarrow> bytes \<Rightarrow> bytes \<times> cfb8" where
  "XORKeyStream E cf src = run_stream (cfb8_step E) cf src"

definition cfb8_ok :: "cfb8 \<Rightarrow> bool" where
  "cfb8_ok cf \<longleftrightarrow> length (cf_real cf) = 256 \<and> cf_off cf \<le> 240"

lemma newCFB8_ok: "newCFB8 iv d = Ret cf \<Longrightarrow> cfb8_ok cf \<and> cf_iv cf = iv \<and> cf_de cf = d"
  by (auto simp: newCFB8_def cfb8_ok_def cf_iv_def split: if_splits)

lemma cfb8_ok_length: "cfb8_ok cf \<Longrightarrow> length (cf_iv cf) = 16"
  by (auto simp: cfb8_ok_def cf_iv_def min_def)

section \<open>Refinement of the shift register\<close>

text \<open>The specification: CFB8 on a register of 16 bytes.\<close>

definition shift_register :: "(bytes \<Rightarrow> bytes) \<Rightarrow> bool \<Rightarrow> bytes \<Rightarrow> byte \<Rightarrow> byte \<times> bytes" where
  "shift_register E de reg b =
     (let v = b XOR E reg ! 0 in (v, tl reg @ [if de then b else v]))"

lemma window_slide:
  assumes "n + 17 \<le> length xs"
  shows "take 16 (drop (Suc n) (xs[16 + n := y])) = tl (take 16 (drop n xs)) @ [y]"
  using assms by (intro nth_equalityI) (auto simp: nth_append nth_tl nth_list_update)

lemma cfb8_step_refines:
  assumes "cfb8_ok cf" "cfb8_step E cf b = (v, cf')"
  shows "cfb8_ok cf' \<and> cf_de cf' = cf_de cf
    \<and> shift_register E (cf_de cf) (cf_iv cf) b = (v, cf_iv cf')"
proof (cases "17 \<le> length (cf_real cf) - cf_off cf")
  case True
  with assms show ?thesis
    using window_slide [of "cf_off cf" "cf_real cf"]
    by (auto simp: cfb8_step_def Let_def cfb8_ok_def shift_register_def cf_iv_def)
next
  case False
  with assms(1) have off: "cf_off cf = 240" "length (cf_real cf) = 256" by (auto simp: cfb8_ok_def)
  define x where "x = tl (take 16 (drop 240 (cf_real cf)))"
  have "length x = 15" using off by (simp add: x_def)
  with off assms(2) False show ?thesis
    by (auto simp: cfb8_step_def Let_def cfb8_ok_def shift_register_def cf_iv_def drop_Suc list_update_append x_def [symmetric]
        list_update_beyond Cons_nth_drop_Suc [symmetric])
qed

lemma XORKeyStream_refines:
  "cfb8_ok cf \<Longrightarrow> XORKeyStream E cf src = (dst, cf') \<Longrightarrow>
   cfb8_ok cf' \<and> cf_de cf' = cf_de cf
     \<and> run_stream (shift_register E (cf_de cf)) (cf_iv cf) src = (dst, cf_iv cf')"
  unfolding XORKeyStream_def
proof (induction src arbitrary: cf dst)
  case Nil
  then show ?case by simp
next
  case (Cons b src)
  from Cons.prems(2) obtain v cf1 ds where
    step: "cfb8_step E cf b = (v, cf1)" "run_stream (cfb8_step E) cf1 src = (ds, cf')" "dst = v # ds"
    by (auto split: prod.splits)
  from cfb8_step_refines [OF Cons.prems(1) step(1)] have
    "cfb8_ok cf1" "cf_de cf1 = cf_de cf" "shift_register E (cf_de cf) (cf_iv cf) b = (v, cf_iv cf1)"
    by auto
  with Cons.IH [OF _ step(2)] step(3) show ?case by simp
qed

text \<open>An encrypting and a decrypting window with the same register stay in step.\<close>

definition in_step :: "cfb8 \<Rightarrow> cfb8 \<Rightarrow> bool" where
  "in_step s t \<longleftrightarrow> cfb8_ok s \<and> cfb8_ok t \<and> \<not> cf_de s \<and> cf_de t \<and> cf_iv s = cf_iv t"

interpretation cfb8: stream_cipher "cfb8_step E" "cfb8_step E" in_step for E
proof
  fix s t b c s'
  assume sync: "in_step s t" and enc: "cfb8_step E s b = (c, s')"
  obtain b' t' where dec: "cfb8_step E t c = (b', t')" by force
  from sync cfb8_step_refines [OF _ enc] cfb8_step_refines [OF _ dec]
  have "b' = b \<and> in_step s' t'"
    by (auto simp: in_step_def shift_register_def Let_def xor.assoc)
  with dec show "\<exists>t'. cfb8_step E t c = (b, t') \<and> in_step s' t'" by auto
qed

section \<open>Readers and writers\<close>

text \<open>
  \<^verbatim>\<open>aes.NewCipher\<close> accepts keys of 16, 24 and 32 bytes; \<open>AES key\<close> is the cipher it makes.  The initial
  register is the key itself.
\<close>

definition KeySizeError :: "nat \<Rightarrow> gerr" where
  "KeySizeError n = Errorf ''crypto/aes: invalid key size '' [GInt (int n)]"

definition new_stream :: "bool \<Rightarrow> bytes \<Rightarrow> (cfb8 option \<times> gerr option) go" where
  "new_stream decrypt secret =
     (if length secret \<notin> {16, 24, 32} then Ret (None, Some (KeySizeError (length secret)))
      else go_map (\<lambda>cf. (Some cf, None)) (newCFB8 secret decrypt))"

definition NewEncryptedReader :: "bytes \<Rightarrow> (cfb8 option \<times> gerr option) go" where
  "NewEncryptedReader secret = new_stream True secret"

definition NewEncryptedWriter :: "bytes \<Rightarrow> (cfb8 option \<times> gerr option) go" where
  "NewEncryptedWriter secret = new_stream False secret"

text \<open>
  \<^verbatim>\<open>Read\<close>: \<open>(data, err)\<close> is what the connection returned; bytes that come together with an error are
  handed on as they are.
\<close>

definition encryptedReader_Read ::
    "(bytes \<Rightarrow> bytes) \<Rightarrow> cfb8 \<Rightarrow> bytes \<times> gerr option \<Rightarrow> (bytes \<times> gerr option) \<times> cfb8" where
  "encryptedReader_Read E cf r =
     (case r of
        (data, Some err) \<Rightarrow> ((data, Some err), cf)
      | (data, None) \<Rightarrow> (case XORKeyStream E cf data of (d, cf') \<Rightarrow> ((d, None), cf')))"

text \<open>
  \<^verbatim>\<open>Write\<close>: what is passed to the connection.  The encryption is done in place, so the caller's
  slice holds the same bytes afterwards.
\<close>

definition encryptedWriter_Write :: "(bytes \<Rightarrow> bytes) \<Rightarrow> cfb8 \<Rightarrow> bytes \<Rightarrow> bytes \<times> cfb8" where
  "encryptedWriter_Write E cf p = XORKeyStream E cf p"

text \<open>A connection without errors: the writes one after the other, the reads one after the other.\<close>

fun write_all :: "(bytes \<Rightarrow> bytes) \<Rightarrow> cfb8 \<Rightarrow> bytes list \<Rightarrow> bytes list \<times> cfb8" where
  "write_all E cf [] = ([], cf)"
| "write_all E cf (p # ps) =
     (case encryptedWriter_Write E cf p of (c, cf') \<Rightarrow>
      case write_all E cf' ps of (cs, cf'') \<Rightarrow> (c # cs, cf''))"

fun read_all :: "(bytes \<Rightarrow> bytes) \<Rightarrow> cfb8 \<Rightarrow> bytes list \<Rightarrow> bytes list \<times> cfb8" where
  "read_all E cf [] = ([], cf)"
| "read_all E cf (r # rs) =
     (case encryptedReader_Read E cf (r, None) of ((d, e), cf') \<Rightarrow>
      case read_all E cf' rs of (ds, cf'') \<Rightarrow> (d # ds, cf''))"

lemma write_all_chunks: "write_all E cf ps = run_chunks (cfb8_step E) cf ps"
  by (induction ps arbitrary: cf) (simp_all add: encryptedWriter_Write_def XORKeyStream_def)

lemma read_all_chunks: "read_all E cf rs = run_chunks (cfb8_step E) cf rs"
  by (induction rs arbitrary: cf)
     (auto simp: encryptedReader_Read_def XORKeyStream_def split: prod.splits)

lemma new_streams_in_step:
  assumes "NewEncryptedWriter secret = Ret (Some w, None)" "NewEncryptedReader secret = Ret (Some r, None)"
  shows "in_step w r"
  using assms newCFB8_ok [of secret]
  by (auto simp: NewEncryptedWriter_def NewEncryptedReader_def new_stream_def in_step_def
      split: if_splits)

section \<open>Properties\<close>

text \<open>C12: the encrypted channel is transparent.  When both ends are set up with the same secret,
  then for any sizes of the writes, and any way the connection cuts the encrypted bytes into reads,
  the reader gets the bytes that were written; and this for every block cipher.\<close>

theorem encrypted_channel:
  assumes "NewEncryptedWriter secret = Ret (Some w, None)" "NewEncryptedReader secret = Ret (Some r, None)"
    and "write_all E w ps = (wire, w')" "concat reads = concat wire" "read_all E r reads = (got, r')"
  shows "concat got = concat ps"
  using cfb8.dec_enc_chunks [OF new_streams_in_step [OF assms(1,2)]
      assms(3) [unfolded write_all_chunks] assms(4) assms(5) [unfolded read_all_chunks]] ..

theorem encrypted_channel_witness:
  "let E = (\<lambda>b. b);
       w = \<lparr>cf_real = replicate 16 7 @ replicate 240 0, cf_off = 0, cf_de = False\<rparr>;
       r = \<lparr>cf_real = replicate 16 7 @ replicate 240 0, cf_off = 0, cf_de = True\<rparr>;
       wire = concat (fst (write_all E w [[1, 2], [3]]))
   in concat (fst (read_all E r [wire])) = [1, 2, 3]"
proof -
  let ?E = "\<lambda>b :: bytes. b"
  let ?w = "\<lparr>cf_real = replicate 16 7 @ replicate 240 0, cf_off = 0, cf_de = False\<rparr>"
  let ?r = "\<lparr>cf_real = replicate 16 7 @ replicate 240 0, cf_off = 0, cf_de = True\<rparr>"
  have new: "NewEncryptedWriter (replicate 16 7) = Ret (Some ?w, None)"
    "NewEncryptedReader (replicate 16 7) = Ret (Some ?r, None)"
    by (simp_all add: NewEncryptedWriter_def NewEncryptedReader_def new_stream_def newCFB8_def)
  obtain wire w' where w: "write_all ?E ?w [[1, 2], [3]] = (wire, w')" by force
  obtain got r' where r: "read_all ?E ?r [concat wire] = (got, r')" by force
  have "concat [concat wire] = concat wire" by simp
  from encrypted_channel [OF new w this r] w r show ?thesis by (simp add: Let_def)
qed

text \<open>C18: the sliding window implements CFB8.  Over any input, of any length (so across any number
  of returns of the window to the start of its buffer), \<^verbatim>\<open>XORKeyStream\<close> gives the bytes of the 16-byte
  shift register that starts with the initialisation vector.\<close>

theorem cfb8_refines_register:
  assumes "newCFB8 iv decrypt = Ret cf"
  shows "fst (XORKeyStream E cf src) = fst (run_stream (shift_register E decrypt) iv src)"
proof -
  obtain dst cf' where x: "XORKeyStream E cf src = (dst, cf')" by force
  from newCFB8_ok [OF assms] XORKeyStream_refines [OF _ x] show ?thesis by (auto simp: x)
qed

theorem cfb8_refines_register_witness:
  "\<forall>E. fst (XORKeyStream E \<lparr>cf_real = replicate 16 7 @ replicate 240 0, cf_off = 0, cf_de = False\<rparr>
         (replicate 1000 1))
       = fst (run_stream (shift_register E False) (replicate 16 7) (replicate 1000 1))"
proof (rule allI)
  fix E
  have "newCFB8 (replicate 16 7) False
      = Ret \<lparr>cf_real = replicate 16 7 @ replicate 240 0, cf_off = 0, cf_de = False\<rparr>"
    by (simp only: newCFB8_def length_replicate) simp
  from cfb8_refines_register [OF this]
  show "fst (XORKeyStream E \<lparr>cf_real = replicate 16 7 @ replicate 240 0, cf_off = 0, cf_de = False\<rparr>
         (replicate 1000 1))
       = fst (run_stream (shift_register E False) (replicate 16 7) (replicate 1000 1))" .
qed

text \<open>Which shared secrets crash the proxy.  A secret with a valid AES key size other than 16
  bytes passes \<^verbatim>\<open>aes.NewCipher\<close> and then panics in \<^verbatim>\<open>newCFB8\<close>; every other secret is accepted (16
  bytes) or refused with an error.  The secret is chosen by the client.\<close>

theorem stream_key_sizes:
  "(panics (NewEncryptedReader secret) \<longleftrightarrow> length secret \<in> {24, 32})
    \<and> (panics (NewEncryptedWriter secret) \<longleftrightarrow> length secret \<in> {24, 32})
    \<and> ((\<exists>r. NewEncryptedReader secret = Ret (Some r, None)) \<longleftrightarrow> length secret = 16)"
  by (auto simp: NewEncryptedReader_def NewEncryptedWriter_def new_stream_def newCFB8_def)

end
