(* ===== verification/Handler.thy ===== *)
theory Handler
  imports FilterLaws Auth PlayerMgr Encryption ChatFormat
begin

text \<open>
  src/handler.go, commands.go, encryption.go and the callbacks of potoq.go: the life of a handler.
  What comes from outside is the record \<open>env\<close>: the libraries, the filter table, the connections that
  dialling gives, the callbacks of the program that uses the proxy, and the texts that the status JSON and error
  formatting makes.
\<close>

section \<open>The environment\<close>

record 'n env =
  e_lib :: "'n nbt_lib"
  e_zl :: zlib_lib
  e_pool :: buffer_pool
  e_zero_nbt :: 'n
  e_filters :: "'n filter_table"
  e_dial :: "string \<Rightarrow> gerr + (bytes \<times> gerr \<times> out_dev)"
  e_close :: "gerr option"
  e_upstreams :: "string \<rightharpoonup> string \<times> string"
  e_status_json :: "ServerStatus \<Rightarrow> string \<times> gerr option"
  e_error_text :: "gerr \<Rightarrow> string"
  e_uuid_string :: "uuid \<Rightarrow> string"
  e_map_order :: "uuid set \<Rightarrow> uuid list"
  e_dump :: string
  e_PingHandler :: "HandshakePacket \<Rightarrow> ServerStatus"
  e_PreLoginHandler :: "'n Handler \<Rightarrow> gerr option \<times> 'n Handler"
  e_LoginHandler :: "gerr option \<Rightarrow> 'n Handler \<Rightarrow> gerr option \<times> 'n Handler"
  e_md5 :: "bytes \<Rightarrow> bytes"
  e_sha1 :: "bytes \<Rightarrow> bytes"
  e_aes :: "bytes \<Rightarrow> bytes \<Rightarrow> bytes"
  e_random :: "bytes \<times> gerr option"
  e_rsa_decrypt :: "bytes \<Rightarrow> gerr + bytes"
  e_ServerID :: string
  e_PublicKey :: bytes
  e_session :: "string \<Rightarrow> string \<Rightarrow> joined http"
  e_allow :: bool

text \<open>\<^verbatim>\<open>fmt\<close> prints a direction with its \<^verbatim>\<open>String\<close> method.\<close>

definition dir_name :: "direction \<Rightarrow> string" where
  "dir_name d = (case direction_String d of Ret s \<Rightarrow> s | Panic m \<Rightarrow> ''%!s(PANIC)'')"

section \<open>The reading goroutine\<close>

text \<open>The error the tomb dies with.\<close>

definition tomb_error :: "direction \<Rightarrow> gerr \<Rightarrow> gerr" where
  "tomb_error d e = (if e = EOF then EOF else Errorf ''%s %w'' [GStr (dir_name d), GErr e])"

text \<open>
  One round of the loop of \<^verbatim>\<open>read_packets\<close>: the packet for the channel, or the end.  A packet that no
  filter wants stays raw; the payload of the others is parsed.
\<close>

datatype 'n round = Deliver "'n packet" packetReader | Finished stream_end

definition read_round :: "'n env \<Rightarrow> direction \<Rightarrow> packetReader \<Rightarrow> 'n round" where
  "read_round env d r =
     (case ReadPacket (e_zl env) (e_pool env) r of
        Panic m \<Rightarrow> Finished (Crashed m)
      | Ret ((raw, Some e), r1) \<Rightarrow> Finished (Ended (tomb_error d e))
      | Ret ((raw, None), r1) \<Rightarrow>
          (case Get (ft_packetsParsed (e_filters env)) (bucket d (raw_ID raw)) of
             Panic m \<Rightarrow> Finished (Crashed m)
           | Ret should_parse \<Rightarrow>
               if \<not> should_parse then Deliver (P_RawPacket raw) r1
               else
                 (case NewPacket (e_lib env) (e_zero_nbt env) (raw_ID raw) PLAY d of
                    Panic m \<Rightarrow> Finished (Crashed m)
                  | Ret None \<Rightarrow>
                      Finished (Ended (tomb_error d
                        (Errorf ''Not implemented packet -> %v'' [GInt (sint (raw_ID raw))])))
                  | Ret (Some packet) \<Rightarrow>
                      (case Payload r1 of
                         Panic m \<Rightarrow> Finished (Crashed m)
                       | Ret ((payload, Some e), r2) \<Rightarrow> Finished (Ended (tomb_error d e))
                       | Ret ((payload, None), r2) \<Rightarrow>
                           (case Parse (e_lib env) packet (the payload) of
                              Panic m \<Rightarrow> Finished (Crashed m)
                            | Ret (p, Some e, rest) \<Rightarrow>
                                Finished (Ended (tomb_error d
                                  (Errorf ''Error parsing packet %02X: %w, dump: %s''
                                     [GInt (sint (raw_ID raw)), GErr e, GStr (e_dump env)])))
                            | Ret (p, None, rest) \<Rightarrow> Deliver p (advance_payload rest r2))))))"

text \<open>A packet that was read has shortened the input, so the loop ends with its input.\<close>

lemma ReadPacket_shorter:
  assumes "ReadPacket zl get r = Ret ((raw, None), r1)"
  shows "length (pr_input r1) < length (pr_input r)"
proof -
  obtain len err s where len: "ReadVarInt (pr_input r) = (len, err, s)" by (metis prod_cases3)
  have no: "pr_err r = None" "input_error (pr_end r) err = None" "sint len \<le> MaxPacketSize"
    using assms(1) len
    by (auto simp: ReadPacket_def fail_read_def Let_def split: option.splits if_splits)
  then have "err = None" by (cases "(pr_end r, err)" rule: input_error.cases) (auto split: if_splits)
  with ReadVarInt_consumes [OF len] have less: "length s < length (pr_input r)"
    by (auto simp flip: length_greater_0_conv)
  obtain buf where buf: "get (sint len) = Ret buf"
    using assms(1) len no by (cases "get (sint len)") (auto simp: ReadPacket_def Let_def)
  obtain payload err' s' where full: "ReadFull (length buf) s = (payload, err', s')"
    by (metis prod_cases3)
  define r2 where "r2 = r\<lparr>pr_input := s, pr_payload := reset_slicer [] (pr_payload r)\<rparr>\<lparr>pr_input := s'\<rparr>"
  have "open_frame zl payload r2 = Ret ((raw, None), r1)"
    using assms(1) len no buf full
    by (auto simp: ReadPacket_def fail_read_def Let_def r2_def split: option.splits)
  from open_frame_ok [OF this] have "pr_input r1 = s'"
    by (auto simp: r2_def dest: arg_cong [where f = pr_input])
  moreover have "length s' \<le> length s" using full by (auto simp: ReadFull_def)
  ultimately show ?thesis using less by simp
qed

lemma Payload_input: "Payload r = Ret (x, r') \<Longrightarrow> pr_input r' = pr_input r"
  by (auto simp: Payload_def split: payload_src.splits option.splits)

lemma read_round_shorter: "read_round env d r = Deliver p r' \<Longrightarrow> length (pr_input r') < length (pr_input r)"
  unfolding read_round_def
  by (auto split: go.splits prod.splits option.splits if_splits
      dest!: ReadPacket_shorter Payload_input simp: advance_payload_def)

function read_packets :: "'n env \<Rightarrow> direction \<Rightarrow> packetReader \<Rightarrow> 'n packet list \<times> stream_end" where
  "read_packets env d r =
     (case read_round env d r of
        Finished end \<Rightarrow> ([], end)
      | Deliver p r' \<Rightarrow> (case read_packets env d r' of (ps, end) \<Rightarrow> (p # ps, end)))"
  by pat_completeness auto
termination
  by (relation "measure (\<lambda>(env, d, r). length (pr_input r))") (auto dest: read_round_shorter)

declare read_packets.simps [simp del]

section \<open>Writing to one side\<close>

text \<open>
  The writer toward the server is \<^verbatim>\<open>UpstreamW\<close>, nil between two servers; calling a method of a nil
  interface panics.
\<close>

definition write_side ::
    "'n env \<Rightarrow> direction \<Rightarrow> 'n packet \<Rightarrow> bool \<Rightarrow> 'n Handler \<Rightarrow> (gerr option \<times> 'n Handler) go" where
  "write_side env d p flush h =
     (if d = ServerBound then
        (case h_UpstreamW h of
           None \<Rightarrow> Panic ''nil pointer dereference''
         | Some w \<Rightarrow> go_map (\<lambda>(e, w'). (e, h\<lparr>h_UpstreamW := Some w'\<rparr>))
                      (WritePacket (e_lib env) (e_zl env) p flush w))
      else go_map (\<lambda>(e, w'). (e, h\<lparr>h_DownstreamW := w'\<rparr>))
             (WritePacket (e_lib env) (e_zl env) p flush (h_DownstreamW h)))"

definition flush_side :: "direction \<Rightarrow> 'n Handler \<Rightarrow> (gerr option \<times> 'n Handler) go" where
  "flush_side d h =
     (if d = ServerBound then
        (case h_UpstreamW h of
           None \<Rightarrow> Panic ''nil pointer dereference''
         | Some w \<Rightarrow> (case Flush w of (e, w') \<Rightarrow> Ret (e, h\<lparr>h_UpstreamW := Some w'\<rparr>)))
      else (case Flush (h_DownstreamW h) of (e, w') \<Rightarrow> Ret (e, h\<lparr>h_DownstreamW := w'\<rparr>)))"

text \<open>Write packets one after the other, stopping at the first error.\<close>

fun write_each ::
    "'n env \<Rightarrow> direction \<Rightarrow> 'n packet list \<Rightarrow> 'n Handler \<Rightarrow> (gerr option \<times> 'n Handler) go" where
  "write_each env d [] h = Ret (None, h)"
| "write_each env d (p # ps) h =
     (case write_side env d p False h of
        Panic m \<Rightarrow> Panic m
      | Ret (Some e, h') \<Rightarrow> Ret (Some e, h')
      | Ret (None, h') \<Rightarrow> write_each env d ps h')"

text \<open>A kick for an error: the error itself when it is a \<^verbatim>\<open>LoginKickPacket\<close>, or a new one with its text.\<close>

definition kick_for :: "'n env \<Rightarrow> gerr \<Rightarrow> 'n packet" where
  "kick_for env e =
     (case e of ErrKick m \<Rightarrow> P_LoginKickPacket \<lparr>lk_Message = m\<rparr>
      | _ \<Rightarrow> NewLoginKick (text_message (e_error_text env e)))"

section \<open>Handling a packet\<close>

text \<open>
  The error of the first check; \<open>d\<close> is the direction the packet travels.  The raw payload is given
  back to the pool afterwards.
\<close>

definition handlePacket ::
    "'n env \<Rightarrow> 'n packet \<Rightarrow> direction \<Rightarrow> bool \<Rightarrow> 'n Handler \<Rightarrow> (gerr option \<times> 'n Handler) go" where
  "handlePacket env packet d flush h =
     (case (case packet of
              P_RawPacket raw \<Rightarrow> Ret (None, h, packet)
            | _ \<Rightarrow> dispatchPacket (e_lib env) (e_filters env) h packet) of
        Panic m \<Rightarrow> Panic m
      | Ret (err, h1, packet1) \<Rightarrow>
          if err = Some ErrDropPacket then Ret (None, h1)
          else
            (case err of
               Some e \<Rightarrow> Ret (Some (Errorf ''[%s] dispatch error: %w'' [GStr (dir_name d), GErr e]), h1)
             | None \<Rightarrow>
                 (case write_side env d packet1 flush h1 of
                    Panic m \<Rightarrow> Panic m
                  | Ret (None, h2) \<Rightarrow> Ret (None, h2)
                  | Ret (Some e, h2) \<Rightarrow>
                      Ret (Some (Errorf ''[%s] write packet error %w'' [GStr (dir_name d), GErr e]), h2))))"

end
