(* ===== verification/HandlerLife.thy ===== *)
theory HandlerLife
  imports Handler
begin

text \<open>
  The life of a handler: the status request, the login, the connection to an upstream server, the
  switch to another one, and the main loop (src/handler.go, commands.go, encryption.go).
\<close>

section \<open>Connecting to an upstream server\<close>

text \<open>
  The host of the handshake carries three fields separated by NUL: the host the client asked for,
  its address, and its UUID.  A NUL in the first is escaped.
\<close>

definition NUL :: char where "NUL = CHR 0x00"

definition handshake_host :: "string \<Rightarrow> string \<Rightarrow> string \<Rightarrow> string" where
  "handshake_host host addr uuid_str =
     ReplaceAll host NUL (CHR 92 # ''u0000'') @ [NUL] @ addr @ [NUL] @ uuid_str"

text \<open>
  \<^verbatim>\<open>connectUpstream\<close>.  The connection delivers the bytes \<open>input\<close>.  A \<^verbatim>\<open>PacketReader\<close> takes no byte more
  than its packets, so the second reader goes on where the first stopped.
\<close>

definition connectUpstream ::
    "'n env \<Rightarrow> string \<Rightarrow> string \<Rightarrow> 'n Handler \<Rightarrow> (gerr option \<times> 'n Handler) go" where
  "connectUpstream env name addr h =
     (case e_dial env addr of
        Inl e \<Rightarrow> Ret (Some e, h)
      | Inr (input, en, dev) \<Rightarrow>
          (let h1 = h\<lparr>h_UpstreamW := Some (NewPacketWriter dev False 0), h_UpstreamName := name\<rparr>;
               hs = (h_Handshake h)\<lparr>hs_Host := handshake_host (hs_Host (h_Handshake h))
                       (h_DownstreamAddr h) (e_uuid_string env (h_UUID h))\<rparr>
           in
           go_bind (write_side env ServerBound (P_HandshakePacket hs) False h1) (\<lambda>(_, h2).
           go_bind (write_side env ServerBound (P_LoginStartPacket \<lparr>ls_Nickname = h_Nickname h\<rparr>) True h2)
             (\<lambda>(err, h3).
           case err of Some e \<Rightarrow> Ret (Some e, h3)
           | None \<Rightarrow>
           go_bind (ParsePackets (e_lib env) (e_zl env) (e_pool env)
                     [P_LoginCompressionPacket new_LoginCompressionPacket, P_LoginKickPacket new_LoginKickPacket]
                     (NewPacketReader input en 0)) (\<lambda>((packet, err), r).
           case (err, packet) of
             (Some e, _) \<Rightarrow> Ret (Some e, h3)
           | (None, Some (P_LoginKickPacket p)) \<Rightarrow> Ret (Some (Errorf (lk_Message p) []), h3)
           | (None, Some (P_LoginCompressionPacket p)) \<Rightarrow>
               if sint (lc_Threshold p) \<noteq> CompressThreshold then
                 Ret (Some (Errorf ''connectUpstream: bad compression threshold %d''
                             [GInt (sint (lc_Threshold p))]), h3)
               else
                 (let dev1 = (case h_UpstreamW h3 of Some w \<Rightarrow> pw_out w | None \<Rightarrow> dev);
                      h4 = h3\<lparr>h_UpstreamW := Some (NewPacketWriter dev1 True CompressThreshold)\<rparr>
                  in
                  go_bind (ParsePackets (e_lib env) (e_zl env) (e_pool env)
                            [P_LoginSuccessPacket new_LoginSuccessPacket]
                            (NewPacketReader (pr_input r) en CompressThreshold)) (\<lambda>((_, err), r').
                  case err of Some e \<Rightarrow> Ret (Some e, h4)
                  | None \<Rightarrow>
                      Ret (None, h4\<lparr>h_UpstreamPackets := read_packets env ClientBound r'\<rparr>)))
           | _ \<Rightarrow> Panic ''unexpected packet type'')))))"

section \<open>Commands\<close>

text \<open>The IEEE single of a byte: \<^verbatim>\<open>float32(join.GameMode)\<close>.\<close>

fun top_bit :: "nat \<Rightarrow> nat" where
  "top_bit n = (if n < 2 then 0 else Suc (top_bit (n div 2)))"

declare top_bit.simps [simp del]

definition float32_of_byte :: "byte \<Rightarrow> 32 word" where
  "float32_of_byte b =
     (if b = 0 then 0
      else (let k = top_bit (unat b) in
            push_bit 23 (word_of_nat (127 + k)) + word_of_nat ((unat b - 2 ^ k) * 2 ^ (23 - k))))"

definition respawn_of :: "'n JoinGamePacketCB \<Rightarrow> 'n RespawnPacketCB" where
  "respawn_of join =
     \<lparr>rs_Dimension = jg_Dimension join, rs_DimensionId = jg_DimensionId join,
      rs_HashedSeed = jg_HashedSeed join, rs_GameMode = jg_GameMode join,
      rs_PreviousGameMode = jg_PreviousGameMode join, rs_IsDebug = jg_IsDebug join,
      rs_IsFlat = jg_IsFlat join, rs_CopyMetadata = False\<rparr>"

definition list_values :: "'n env \<Rightarrow> (uuid \<rightharpoonup> PlayerListItem) \<Rightarrow> PlayerListItem list" where
  "list_values env pl = List.map_filter pl (e_map_order env (dom pl))"

text \<open>The packets after the player list was cleared.\<close>

definition switch_packets :: "'n JoinGamePacketCB \<Rightarrow> 'n packet list" where
  "switch_packets join =
     [P_PlayerListTitlePacketCB
        \<lparr>plt_Header = ''{\"text\":\"\"}'', plt_Footer = ''{\"text\":\"\"}''\<rparr>,
      P_RespawnPacketCB ((respawn_of join)\<lparr>rs_DimensionId :=
        (if jg_DimensionId join = ''minecraft:overworld'' then ''minecraft:the_end''
         else jg_DimensionId join)\<rparr>),
      P_JoinGamePacketCB join,
      P_RespawnPacketCB (respawn_of join),
      P_GameStateChangePacketCB
        \<lparr>gsc_Reason = 3, gsc_Value = float32_of_byte (jg_GameMode join)\<rparr>]"

definition SendDimensionSwitch ::
    "'n env \<Rightarrow> 'n JoinGamePacketCB \<Rightarrow> 'n Handler \<Rightarrow> (gerr option \<times> 'n Handler) go" where
  "SendDimensionSwitch env join h =
     (case write_side env ClientBound
             (P_PlayerListItemPacketCB \<lparr>pli_Action = REMOVE_PLAYER,
                pli_Items = list_values env (h_playerList h)\<rparr>) False h of
        Panic m \<Rightarrow> Panic m
      | Ret (Some e, h1) \<Rightarrow> Ret (Some e, h1)
      | Ret (None, h1) \<Rightarrow>
          (case write_each env ClientBound (switch_packets join) (h1\<lparr>h_playerList := Map.empty\<rparr>) of
             Panic m \<Rightarrow> Panic m
           | Ret (Some e, h2) \<Rightarrow> Ret (Some e, h2)
           | Ret (None, h2) \<Rightarrow> flush_side ClientBound h2))"

text \<open>
  \<^verbatim>\<open>ReconnectCommand\<close>.  When the upstream ends before its first packet the select sees either the
  closed channel or the dead tomb; both are an error, and the model takes the error of the tomb.
\<close>

definition Reconnect :: "'n env \<Rightarrow> string \<Rightarrow> string \<Rightarrow> 'n Handler \<Rightarrow> (gerr option \<times> 'n Handler) go" where
  "Reconnect env name addr h =
     (case (if h_UpstreamW h \<noteq> None then e_close env else None) of
        Some e \<Rightarrow> Ret (Some e, h)
      | None \<Rightarrow>
          (case connectUpstream env name addr (h\<lparr>h_UpstreamW := None\<rparr>) of
             Panic m \<Rightarrow> Panic m
           | Ret (Some e, h1) \<Rightarrow>
               go_map (\<lambda>(_, h2). (Some e, h2))
                 (write_side env ClientBound (NewIngameKickTxt (e_error_text env e)) True h1)
           | Ret (None, h1) \<Rightarrow>
               (case h_UpstreamPackets h1 of
                  ([], Crashed m) \<Rightarrow> Panic m
                | ([], Ended e) \<Rightarrow> Ret (Some e, h1)
                | (p # ps, end) \<Rightarrow>
                    (let h2 = h1\<lparr>h_UpstreamPackets := (ps, end)\<rparr> in
                     case p of
                       P_JoinGamePacketCB join \<Rightarrow>
                         (case dispatchPacket (e_lib env) (e_filters env) h2 p of
                            Panic m \<Rightarrow> Panic m
                          | Ret (Some derr, h3, _) \<Rightarrow>
                              Ret (Some (Errorf ''Error in JoinGamePacketCB packet hook: %s'' [GStr ''<nil>'']), h3)
                          | Ret (None, h3, P_JoinGamePacketCB join') \<Rightarrow> SendDimensionSwitch env join' h3
                          | Ret (None, h3, _) \<Rightarrow> SendDimensionSwitch env join h3)
                     | _ \<Rightarrow> Ret (Some (Errorf ''Packet other than JoinGamePacketCB while reconnecting upstream: %#v'' []), h2)))))"

text \<open>
  \<^verbatim>\<open>injectPacketCommand\<close>.  The error of each write is dropped: the loop checks the outer \<^verbatim>\<open>err\<close>, which
  the write does not assign.
\<close>

fun inject_each ::
    "'n env \<Rightarrow> direction \<Rightarrow> 'n packet list \<Rightarrow> 'n Handler \<Rightarrow> 'n Handler go" where
  "inject_each env d [] h = Ret h"
| "inject_each env d (p # ps) h =
     go_bind (write_side env d p False h) (\<lambda>(_, h'). inject_each env d ps h')"

definition inject ::
    "'n env \<Rightarrow> direction \<Rightarrow> 'n packet list option \<Rightarrow> gerr option \<Rightarrow> 'n Handler \<Rightarrow> (gerr option \<times> 'n Handler) go" where
  "inject env d payload raise h =
     (if d \<noteq> ServerBound \<and> d \<noteq> ClientBound then Panic ''Unknown direction''
      else
        (case payload of
           None \<Rightarrow> Panic ''Nil payload!''
         | Some ps \<Rightarrow>
             go_bind (inject_each env d ps h) (\<lambda>h1.
             go_bind (flush_side d h1) (\<lambda>(err, h2).
             case err of Some e \<Rightarrow> Ret (Some e, h2) | None \<Rightarrow> Ret (raise, h2)))))"

definition Execute :: "'n env \<Rightarrow> 'n command \<Rightarrow> 'n Handler \<Rightarrow> (gerr option \<times> 'n Handler) go" where
  "Execute env cmd h =
     (case cmd of
        ReconnectCommand name addr \<Rightarrow> Reconnect env name addr h
      | InjectPacketCommand d payload raise \<Rightarrow> inject env d payload raise h)"

section \<open>The main loop\<close>

text \<open>
  What \<^verbatim>\<open>select\<close> took: a command, something from one of the two channels (a packet, or the news that it
  was closed), or the idle timer.  The channels are unbuffered, so \<^verbatim>\<open>len(channel) == 0\<close> always holds and
  every packet is flushed.
\<close>

datatype event = TakeCommand | FromClient | FromServer | IdleTimeout

definition main_step :: "'n env \<Rightarrow> event \<Rightarrow> 'n Handler \<Rightarrow> (gerr option \<times> 'n Handler) go option" where
  "main_step env ev h =
     (case ev of
        TakeCommand \<Rightarrow>
          (case h_commandChan h of
             [] \<Rightarrow> None
           | c # cs \<Rightarrow> Some (Execute env c (h\<lparr>h_commandChan := cs\<rparr>)))
      | FromClient \<Rightarrow>
          Some (case h_downstream_packets h of
             (p # ps, end) \<Rightarrow> handlePacket env p ServerBound True (h\<lparr>h_downstream_packets := (ps, end)\<rparr>)
           | ([], Ended e) \<Rightarrow> Ret (Some e, h)
           | ([], Crashed m) \<Rightarrow> Panic m)
      | FromServer \<Rightarrow>
          Some (case h_UpstreamPackets h of
             (p # ps, end) \<Rightarrow> handlePacket env p ClientBound True (h\<lparr>h_UpstreamPackets := (ps, end)\<rparr>)
           | ([], Ended e) \<Rightarrow> Ret (Some e, h)
           | ([], Crashed m) \<Rightarrow> Panic m)
      | IdleTimeout \<Rightarrow> Some (Ret (Some EOF, h)))"

text \<open>A run of the loop: the events that \<^verbatim>\<open>select\<close> happened to take, until an error ends it.\<close>

inductive main_loop :: "'n env \<Rightarrow> event list \<Rightarrow> 'n Handler \<Rightarrow> 'n Handler \<Rightarrow> bool" for env where
  start: "main_loop env [] h h"
| round: "main_loop env evs h h1 \<Longrightarrow> main_step env ev h1 = Some (Ret (None, h2)) \<Longrightarrow>
    main_loop env (evs @ [ev]) h h2"

text \<open>The error of the loop as \<^verbatim>\<open>handleProxy\<close> returns it.\<close>

definition loop_error :: "gerr \<Rightarrow> gerr" where
  "loop_error e = (if e = EOF then EOF else Errorf ''Error in handler's MainLoop: %w'' [GErr e])"

section \<open>Login\<close>

text \<open>
  \<^verbatim>\<open>establishEncryptionAsServer\<close>.  From the moment the two encrypted streams are made every byte the
  connection still delivers is decrypted, and every byte written is encrypted.
\<close>

definition downstream_wire :: "'n env \<Rightarrow> 'n Handler \<Rightarrow> bytes" where
  "downstream_wire env h =
     (let out = od_written (pw_out (h_DownstreamW h)) in
      case h_DownstreamKey h of
        None \<Rightarrow> out
      | Some (key, n) \<Rightarrow>
          (case NewEncryptedWriter key of
             Ret (Some cf, _) \<Rightarrow> take n out @ fst (XORKeyStream (e_aes env key) cf (drop n out))
           | _ \<Rightarrow> out))"

definition encrypt_streams :: "'n env \<Rightarrow> bytes \<Rightarrow> 'n Handler \<Rightarrow> (gerr option \<times> 'n Handler) go" where
  "encrypt_streams env key h =
     (case NewEncryptedReader key of
        Panic m \<Rightarrow> Panic m
      | Ret (Some cf, None) \<Rightarrow>
          (case NewEncryptedWriter key of
             Panic m \<Rightarrow> Panic m
           | Ret (_, Some e) \<Rightarrow> Ret (Some e, h)
           | Ret (_, None) \<Rightarrow>
               (let r = h_DownstreamR h; out = pw_out (h_DownstreamW h) in
                Ret (None, h\<lparr>
                  h_DownstreamR := NewPacketReader (fst (XORKeyStream (e_aes env key) cf (pr_input r)))
                                     (pr_end r) CompressThreshold,
                  h_DownstreamW := NewPacketWriter out True CompressThreshold,
                  h_DownstreamKey := Some (key, length (od_written out))\<rparr>)))
      | Ret (_, err) \<Rightarrow> Ret (err, h))"

definition login_identity :: "joined \<Rightarrow> 'n Handler \<Rightarrow> 'n Handler" where
  "login_identity j h =
     h\<lparr>h_Nickname := jn_name j, h_UUID := jn_id j, h_AuthProperties := jn_properties j\<rparr>"

definition establishEncryptionAsServer :: "'n env \<Rightarrow> 'n Handler \<Rightarrow> (gerr option \<times> 'n Handler) go" where
  "establishEncryptionAsServer env h =
     (case e_random env of
        (original_token, Some e) \<Rightarrow> Ret (Some e, h)
      | (original_token, None) \<Rightarrow>
     go_bind (write_side env ClientBound (P_EncryptionRequestPacket
                \<lparr>erq_ServerID = e_ServerID env, erq_PublicKey = e_PublicKey env,
                 erq_Token = original_token\<rparr>) True h) (\<lambda>(err, h1).
     case err of Some e \<Rightarrow> Ret (Some e, h1)
     | None \<Rightarrow>
     go_bind (ParsePackets (e_lib env) (e_zl env) (e_pool env)
                [P_EncryptionResponsePacket new_EncryptionResponsePacket] (h_DownstreamR h1))
       (\<lambda>((packet, err), r).
     let h2 = h1\<lparr>h_DownstreamR := r\<rparr> in
     case (err, packet) of
       (None, Some (P_EncryptionResponsePacket resp)) \<Rightarrow>
         (case e_rsa_decrypt env (ers_Token resp) of
            Inl e \<Rightarrow> Ret (Some e, h2)
          | Inr decrypted_token \<Rightarrow>
              if decrypted_token \<noteq> original_token then
                Ret (Some (Errorf ''Client returned invalid encrypted token!'' []), h2)
              else
                (case e_rsa_decrypt env (ers_Secret resp) of
                   Inl e \<Rightarrow> Ret (Some e, h2)
                 | Inr symmetric_key \<Rightarrow>
                     go_bind (encrypt_streams env symmetric_key h2) (\<lambda>(err, h3).
                     case err of Some e \<Rightarrow> Ret (Some e, h3)
                     | None \<Rightarrow>
                         (case HasJoined (e_sha1 env) (e_session env) (e_allow env) (e_ServerID env)
                                 (e_PublicKey env) (h_Nickname h3) symmetric_key of
                            (Some e, _) \<Rightarrow> Ret (Some e, h3)
                          | (None, Some j) \<Rightarrow> Ret (None, login_identity j h3)
                          | (None, None) \<Rightarrow> Ret (None, h3)))))
     | (Some e, _) \<Rightarrow> Ret (Some e, h2)
     | _ \<Rightarrow> Panic ''unreachable'')))"

text \<open>
  \<^verbatim>\<open>handleProxy\<close> up to its main loop.  The result is the error the method returns (a kick that was
  written is no error), or the handler that enters the main loop, with the player manager.
\<close>

datatype 'n login_result = Returned "gerr option" "'n Handler" | Playing "'n Handler"

definition write_and_return ::
    "'n env \<Rightarrow> 'n packet \<Rightarrow> 'n Handler \<Rightarrow> 'n login_result go" where
  "write_and_return env p h =
     go_map (\<lambda>(err, h'). Returned err h') (write_side env ClientBound p True h)"

text \<open>After \<^verbatim>\<open>LoginSuccess\<close>: find the upstream server, connect, register, start reading.\<close>

definition enter_play ::
    "'n env \<Rightarrow> (nat \<Rightarrow> nat) \<Rightarrow> 'id \<Rightarrow> 'id PlayerManager \<Rightarrow> 'n Handler \<Rightarrow>
     ('n login_result \<times> 'id PlayerManager) go" where
  "enter_play env tbl self pm h =
     (case e_upstreams env (h_UpstreamName h) of
        None \<Rightarrow>
          go_map (\<lambda>res. (res, pm)) (write_and_return env (NewIngameKickTxt
            (''Login error: unknown target '' @ h_UpstreamName h)) h)
      | Some (name, addr) \<Rightarrow>
          go_bind (connectUpstream env name addr h) (\<lambda>(err, h1).
          case err of
            Some e \<Rightarrow>
              go_map (\<lambda>res. (res, pm)) (write_and_return env (NewIngameKickTxt
                (''Login error: upstream error: '' @ e_error_text env e)) h1)
          | None \<Rightarrow>
              (case Register tbl (h_Nickname h1) self pm of
                 (False, pm1) \<Rightarrow>
                   go_map (\<lambda>res. (res, pm1)) (write_and_return env (NewIngameKickTxt
                     ''Login error: register error'') h1)
               | (True, pm1) \<Rightarrow>
                   Ret (Playing (h1\<lparr>h_downstream_packets :=
                     read_packets env ServerBound (h_DownstreamR h1)\<rparr>), pm1))))"

text \<open>The part between the first packet and \<^verbatim>\<open>LoginSuccess\<close>: who is the player, and is he let in.\<close>

definition authenticate :: "'n env \<Rightarrow> 'n Handler \<Rightarrow> (gerr option \<times> 'n Handler) go" where
  "authenticate env h =
     (if \<not> h_hasAuthenticator h then
        Ret (Some ErrUnauthenticated, h\<lparr>h_UUID := OfflinePlayerUUID (e_md5 env) (h_Nickname h)\<rparr>)
      else establishEncryptionAsServer env h)"

definition finish_login ::
    "'n env \<Rightarrow> (nat \<Rightarrow> nat) \<Rightarrow> 'id \<Rightarrow> 'id PlayerManager \<Rightarrow> 'n Handler \<Rightarrow>
     ('n login_result \<times> 'id PlayerManager) go" where
  "finish_login env tbl self pm h =
     (case e_PreLoginHandler env h of
        (Some e, h1) \<Rightarrow> go_map (\<lambda>res. (res, pm)) (write_and_return env (kick_for env e) h1)
      | (None, h1) \<Rightarrow>
          go_bind (authenticate env h1) (\<lambda>(err, h2).
          case e_LoginHandler env err h2 of
            (Some e, h3) \<Rightarrow> go_map (\<lambda>res. (res, pm)) (write_and_return env (kick_for env e) h3)
          | (None, h3) \<Rightarrow>
              go_bind (write_side env ClientBound (P_LoginSuccessPacket
                         \<lparr>lsu_UID = h_UUID h3, lsu_Username = h_Nickname h3\<rparr>) True h3) (\<lambda>(err, h4).
              case err of Some e \<Rightarrow> Ret (Returned (Some e) h4, pm)
              | None \<Rightarrow> enter_play env tbl self pm h4)))"

definition handleProxy ::
    "'n env \<Rightarrow> (nat \<Rightarrow> nat) \<Rightarrow> 'id \<Rightarrow> 'id PlayerManager \<Rightarrow> 'n Handler \<Rightarrow>
     ('n login_result \<times> 'id PlayerManager) go" where
  "handleProxy env tbl self pm h =
     (if sint (hs_Protocol (h_Handshake h)) \<noteq> ProtocolVersion then
        go_map (\<lambda>res. (res, pm)) (write_and_return env (NewLoginKick
          (text_message (''Server version:'' @ ssv_Name GameVersion))) h)
      else
        go_bind (ParsePackets (e_lib env) (e_zl env) (e_pool env)
                   [P_LoginStartPacket new_LoginStartPacket] (h_DownstreamR h)) (\<lambda>((packet, err), r).
        let h1 = h\<lparr>h_DownstreamR := r\<rparr> in
        case (err, packet) of
          (None, Some (P_LoginStartPacket login_start)) \<Rightarrow>
            if \<not> ValidateNickname (ls_Nickname login_start) then
              go_map (\<lambda>res. (res, pm)) (write_and_return env (NewLoginKick (text_message ''Invalid nickname'')) h1)
            else
              go_bind (write_side env ClientBound
                         (P_LoginCompressionPacket \<lparr>lc_Threshold = word_of_int CompressThreshold\<rparr>) True
                         (h1\<lparr>h_Nickname := ls_Nickname login_start\<rparr>)) (\<lambda>(err, h2).
              case err of Some e \<Rightarrow> Ret (Returned (Some e) h2, pm)
              | None \<Rightarrow>
                  finish_login env tbl self pm (h2\<lparr>
                    h_DownstreamW := NewPacketWriter (pw_out (h_DownstreamW h2)) False CompressThreshold,
                    h_DownstreamR := NewPacketReader (pr_input (h_DownstreamR h2))
                                       (pr_end (h_DownstreamR h2)) CompressThreshold\<rparr>))
        | (Some e, _) \<Rightarrow> Ret (Returned (Some e) h1, pm)
        | _ \<Rightarrow> Panic ''unreachable''))"

section \<open>The status request\<close>

definition handleStatus :: "'n env \<Rightarrow> 'n Handler \<Rightarrow> (gerr option \<times> 'n Handler) go" where
  "handleStatus env h =
     go_bind (ParsePackets (e_lib env) (e_zl env) (e_pool env)
                [P_StatusRequestPacketSB new_StatusRequestPacketSB] (h_DownstreamR h)) (\<lambda>((packet, err), r).
     let h1 = h\<lparr>h_DownstreamR := r\<rparr> in
     case err of Some e \<Rightarrow> Ret (Some e, h1)
     | None \<Rightarrow>
       (case e_status_json env (e_PingHandler env (h_Handshake h1)) of
          (json, Some e) \<Rightarrow> Ret (Some e, h1)
        | (json, None) \<Rightarrow>
            go_bind (write_side env ClientBound (P_StatusResponsePacketCB \<lparr>sr_Data = json\<rparr>) True h1)
              (\<lambda>(err, h2).
            case err of Some e \<Rightarrow> Ret (Some e, h2)
            | None \<Rightarrow>
                go_bind (ParsePackets (e_lib env) (e_zl env) (e_pool env)
                           [P_StatusPingPacketSB new_StatusPingPacketSB] (h_DownstreamR h2))
                  (\<lambda>((packet, err), r').
                let h3 = h2\<lparr>h_DownstreamR := r'\<rparr> in
                case (err, packet) of
                  (None, Some (P_StatusPingPacketSB ping)) \<Rightarrow>
                    write_side env ClientBound (P_StatusPingPacketCB \<lparr>pc_Time = ps_Time ping\<rparr>) True h3
                | (Some e, _) \<Rightarrow> Ret (None, h3)
                | _ \<Rightarrow> Panic ''unreachable''))))"

text \<open>
  \<^verbatim>\<open>Handle\<close> up to the end of the login: the handshake, and what its next state asks for.  The rest of
  \<^verbatim>\<open>Handle\<close> closes the connections and runs the close hooks.
\<close>

definition Handle ::
    "'n env \<Rightarrow> (nat \<Rightarrow> nat) \<Rightarrow> 'id \<Rightarrow> 'id PlayerManager \<Rightarrow> 'n Handler \<Rightarrow>
     ('n login_result \<times> 'id PlayerManager) go" where
  "Handle env tbl self pm h =
     go_bind (ParsePackets (e_lib env) (e_zl env) (e_pool env)
                [P_HandshakePacket (h_Handshake h)] (h_DownstreamR h)) (\<lambda>((packet, err), r).
     let h1 = h\<lparr>h_DownstreamR := r\<rparr> in
     case (err, packet) of
       (Some e, _) \<Rightarrow> Ret (Returned (Some e) h1, pm)
     | (None, Some (P_HandshakePacket hs)) \<Rightarrow>
         (let h2 = h1\<lparr>h_Handshake := hs\<rparr> in
          if hs_NextState hs = STATUS then
            go_map (\<lambda>(err, h'). (Returned err h', pm)) (handleStatus env h2)
          else if hs_NextState hs = LOGIN then handleProxy env tbl self pm h2
          else Ret (Returned (Some (Errorf ''Invalid handshake.NextState! %d''
                      [GInt (sint (hs_NextState hs))])) h2, pm))
     | _ \<Rightarrow> Panic ''unreachable'')"

text \<open>The end of the main loop, and the deferred \<^verbatim>\<open>Players.Unregister\<close>.\<close>

definition leave_play ::
    "(nat \<Rightarrow> nat) \<Rightarrow> gerr \<Rightarrow> 'n Handler \<Rightarrow> 'id PlayerManager \<Rightarrow> gerr \<times> 'id PlayerManager" where
  "leave_play tbl e h pm = (loop_error e, Unregister tbl (h_Nickname h) pm)"

end
