(* ===== verification/HandlerLaws.thy ===== *)
theory HandlerLaws
  imports HandlerLife
begin

text \<open>
  What a handler guarantees: packets that no filter wants cross the proxy unchanged and in order,
  filters decide about the others, a client cannot forge the identity passed on to the server, who
  gets into the play state, and how a peer can and cannot crash the process.
\<close>

section \<open>Forwarding\<close>

definition raw_frame :: "RawPacket \<Rightarrow> bytes" where
  "raw_frame raw = WriteVarInt (word_of_nat (length (raw_Payload raw))) @ raw_Payload raw"

fun packet_frame :: "'n packet \<Rightarrow> bytes" where
  "packet_frame (P_RawPacket raw) = raw_frame raw"
| "packet_frame _ = []"

lemma WritePacket_raw:
  assumes "reliable w"
  shows "\<exists>w'. WritePacket lib zl (P_RawPacket raw) flush w = Ret (None, w') \<and> wrote (raw_frame raw) w w'"
proof -
  let ?b = "raw_Payload raw"
  define w1 where "w1 = write_out (WriteVarInt (word_of_nat (length ?b))) w"
  have w1: "wrote (WriteVarInt (word_of_nat (length ?b))) w w1"
    unfolding w1_def by (rule write_out_wrote [OF assms])
  from finish_write_wrote [OF wrote_trans [OF w1 write_out_wrote [OF wrote_reliable [OF w1]]]]
  obtain w2 where "finish_write flush (write_out ?b w1) = (None, w2)" "wrote (raw_frame raw) w w2"
    unfolding raw_frame_def by blast
  with assms w1 show ?thesis
    by (simp add: WritePacket_def wrote_def reliable_def unless_err_def w1_def [symmetric])
qed

text \<open>Two handlers that differ at most in the queues and in what was written.\<close>

definition forwarded :: "'n packet list \<Rightarrow> 'n packet list \<Rightarrow> 'n Handler \<Rightarrow> 'n Handler \<Rightarrow> bool" where
  "forwarded up down h h' \<longleftrightarrow>
     fst (h_downstream_packets h) = up @ fst (h_downstream_packets h') \<and>
     fst (h_UpstreamPackets h) = down @ fst (h_UpstreamPackets h') \<and>
     (\<exists>w w'. h_UpstreamW h = Some w \<and> h_UpstreamW h' = Some w' \<and>
        wrote (concat (map packet_frame up)) w w') \<and>
     wrote (concat (map packet_frame down)) (h_DownstreamW h) (h_DownstreamW h')"

lemma handlePacket_raw:
  "handlePacket env (P_RawPacket raw) d flush h =
     (case write_side env d (P_RawPacket raw) flush h of
        Panic m \<Rightarrow> Panic m
      | Ret (None, h2) \<Rightarrow> Ret (None, h2)
      | Ret (Some e, h2) \<Rightarrow>
          Ret (Some (Errorf ''[%s] write packet error %w'' [GStr (dir_name d), GErr e]), h2))"
  by (simp add: handlePacket_def)

lemma forward_client:
  assumes "h_downstream_packets h = (P_RawPacket raw # ps, end)" "h_UpstreamW h = Some w" "reliable w"
    and "reliable (h_DownstreamW h)"
    and "main_step env FromClient h = Some (Ret (err, h'))"
  shows "err = None \<and> forwarded [P_RawPacket raw] [] h h'"
proof -
  from WritePacket_raw [OF assms(3)] obtain w' where
    "WritePacket (e_lib env) (e_zl env) (P_RawPacket raw) True w = Ret (None, w')"
    "wrote (raw_frame raw) w w'" by blast
  with assms show ?thesis
    by (auto simp: main_step_def handlePacket_raw write_side_def forwarded_def wrote_def)
qed

lemma forward_server:
  assumes "h_UpstreamPackets h = (P_RawPacket raw # ps, end)" "h_UpstreamW h = Some w" "reliable w"
    and "reliable (h_DownstreamW h)"
    and "main_step env FromServer h = Some (Ret (err, h'))"
  shows "err = None \<and> forwarded [] [P_RawPacket raw] h h'"
proof -
  from WritePacket_raw [OF assms(4)] obtain w' where
    "WritePacket (e_lib env) (e_zl env) (P_RawPacket raw) True (h_DownstreamW h) = Ret (None, w')"
    "wrote (raw_frame raw) (h_DownstreamW h) w'" by blast
  with assms show ?thesis
    by (auto simp: main_step_def handlePacket_raw write_side_def forwarded_def wrote_def)
qed

lemma forwarded_trans:
  assumes "forwarded u d h h1" "forwarded u' d' h1 h2"
  shows "forwarded (u @ u') (d @ d') h h2"
  using assms by (auto simp: forwarded_def intro: wrote_trans)

definition all_raw :: "'n packet list \<Rightarrow> bool" where
  "all_raw ps \<longleftrightarrow> (\<forall>p\<in>set ps. \<exists>raw. p = P_RawPacket raw)"

lemma main_loop_forwards:
  assumes "main_loop env evs h h'" "TakeCommand \<notin> set evs"
    and "all_raw (fst (h_downstream_packets h))" "all_raw (fst (h_UpstreamPackets h))"
    and "h_UpstreamW h = Some w" "reliable w" "reliable (h_DownstreamW h)"
  shows "\<exists>up down. forwarded up down h h' \<and> length up = length (filter ((=) FromClient) evs)
    \<and> length down = length (filter ((=) FromServer) evs)"
  using assms
proof (induction rule: main_loop.induct)
  case (start h)
  have "forwarded [] [] h h" using start by (simp add: forwarded_def wrote_def)
  then show ?case by (intro exI [of _ "[]"]) simp
next
  case (round evs h h1 ev h2)
  then obtain up down where f: "forwarded up down h h1"
    and n: "length up = length (filter ((=) FromClient) evs)"
      "length down = length (filter ((=) FromServer) evs)" by auto
  then obtain w1 where w1: "h_UpstreamW h1 = Some w1" "reliable w1" "reliable (h_DownstreamW h1)"
    by (auto simp: forwarded_def wrote_def)
  have raws: "all_raw (fst (h_downstream_packets h1))" "all_raw (fst (h_UpstreamPackets h1))"
    using f round.prems by (auto simp: forwarded_def all_raw_def)
  have "\<exists>u d. forwarded u d h1 h2 \<and> length u = length (filter ((=) FromClient) [ev])
    \<and> length d = length (filter ((=) FromServer) [ev])"
  proof (cases ev)
    case FromClient
    with round.hyps(2) obtain p ps "end" where q: "h_downstream_packets h1 = (p # ps, end)"
      by (auto simp: main_step_def split: prod.splits list.splits stream_end.splits)
    with raws obtain raw where "p = P_RawPacket raw" by (auto simp: all_raw_def)
    with forward_client [OF _ w1] q round.hyps(2) FromClient have "forwarded [P_RawPacket raw] [] h1 h2"
      by blast
    with FromClient show ?thesis by (intro exI [of _ "[P_RawPacket raw]"] exI [of _ "[]"]) simp
  next
    case FromServer
    with round.hyps(2) obtain p ps "end" where q: "h_UpstreamPackets h1 = (p # ps, end)"
      by (auto simp: main_step_def split: prod.splits list.splits stream_end.splits)
    with raws obtain raw where "p = P_RawPacket raw" by (auto simp: all_raw_def)
    with forward_server [OF _ w1] q round.hyps(2) FromServer have "forwarded [] [P_RawPacket raw] h1 h2"
      by blast
    with FromServer show ?thesis by (intro exI [of _ "[]"] exI [of _ "[P_RawPacket raw]"]) simp
  next
    case TakeCommand
    with round.prems show ?thesis by simp
  next
    case IdleTimeout
    with round.hyps(2) show ?thesis by (simp add: main_step_def)
  qed
  then obtain u d where "forwarded u d h1 h2" "length u = length (filter ((=) FromClient) [ev])"
    "length d = length (filter ((=) FromServer) [ev])" by blast
  with forwarded_trans [OF f] n show ?case
    by (intro exI [of _ "up @ u"] exI [of _ "down @ d"]) simp
qed

section \<open>The reading goroutine\<close>

text \<open>
  A raw packet that any reader with the threshold \<open>thres\<close> gets again from its frame, and that no
  filter wants.
\<close>

definition passes :: "'n env \<Rightarrow> direction \<Rightarrow> VarInt \<Rightarrow> RawPacket \<Rightarrow> bool" where
  "passes env d thres raw \<longleftrightarrow>
     Get (ft_packetsParsed (e_filters env)) (bucket d (raw_ID raw)) = Ret False \<and>
     (\<forall>r s. pr_err r = None \<longrightarrow> pr_compthres r = thres \<longrightarrow> pr_input r = raw_frame raw @ s \<longrightarrow>
        (\<exists>r1. ReadPacket (e_zl env) (e_pool env) r = Ret ((raw, None), r1) \<and> pr_input r1 = s
          \<and> pr_err r1 = None \<and> pr_compthres r1 = thres))"

lemma ReadPacket_again:
  assumes "ReadPacket zl get r = Ret ((raw, None), r1)" "pool_gives get"
    and "pr_err r' = None" "pr_compthres r' = pr_compthres r" "pr_input r' = raw_frame raw @ s"
  shows "\<exists>r1'. ReadPacket zl get r' = Ret ((raw, None), r1') \<and> pr_input r1' = s
    \<and> pr_err r1' = None \<and> pr_compthres r1' = pr_compthres r"
proof -
  let ?b = "raw_Payload raw"
  let ?r = "r'\<lparr>pr_payload := reset_slicer [] (pr_payload r'), pr_input := s\<rparr>"
  from ReadPacket_ok [OF assms(1,2)] have
    len: "length ?b \<le> 131072" and
    same: "open_frame zl ?b ?r = Ret ((raw, None), ?r\<lparr>pr_payload := pr_payload r1\<rparr>)"
    using assms(4) by (auto simp: MaxPacketSize_def)
  from assms(5) have "pr_input r' = WriteVarInt (word_of_nat (length ?b)) @ ?b @ s"
    by (simp add: raw_frame_def)
  from ReadPacket_frame [OF assms(3) this len assms(2)] same assms(3,4) show ?thesis by simp
qed

text \<open>A parsed packet is never the raw container, so a raw packet on the channel is one no filter wanted.\<close>

lemma Parse_raw: "Parse lib q s \<noteq> Ret (P_RawPacket raw, err, rest)"
  by (cases q) (auto simp: methods_defs parse_as_def)

lemma read_round_raw:
  assumes "pool_gives (e_pool env)" "read_round env d r = Deliver (P_RawPacket raw) r'"
  shows "passes env d (pr_compthres r) raw \<and> pr_compthres r' = pr_compthres r"
proof -
  obtain raw' r1 where rp: "ReadPacket (e_zl env) (e_pool env) r = Ret ((raw', None), r1)"
    using assms(2) by (auto simp: read_round_def split: go.splits prod.splits option.splits)
  with assms(2) have g: "Get (ft_packetsParsed (e_filters env)) (bucket d (raw_ID raw')) = Ret False"
    "raw' = raw" "r' = r1"
    by (auto simp: read_round_def Parse_raw split: go.splits prod.splits option.splits if_splits)
  moreover have "pr_compthres r1 = pr_compthres r" using ReadPacket_ok [OF rp assms(1)] by auto
  moreover have "passes env d (pr_compthres r) raw"
    unfolding passes_def using g ReadPacket_again [OF rp assms(1)] by auto
  ultimately show ?thesis by simp
qed

lemma read_round_compthres:
  assumes "pool_gives (e_pool env)" "read_round env d r = Deliver p r'"
  shows "pr_compthres r' = pr_compthres r"
proof -
  obtain raw r1 where rp: "ReadPacket (e_zl env) (e_pool env) r = Ret ((raw, None), r1)"
    using assms(2) by (auto simp: read_round_def split: go.splits prod.splits option.splits)
  have "pr_compthres r' = pr_compthres r1"
    using assms(2) rp
    by (auto simp: read_round_def Payload_def advance_payload_def
        split: go.splits prod.splits option.splits if_splits payload_src.splits)
  with ReadPacket_ok [OF rp assms(1)] show ?thesis by auto
qed

lemma read_packets_raw:
  assumes "pool_gives (e_pool env)" "P_RawPacket raw \<in> set (fst (read_packets env d r))"
  shows "passes env d (pr_compthres r) raw"
  using assms
proof (induction env d r rule: read_packets.induct)
  case (1 env d r)
  show ?case
  proof (cases "read_round env d r")
    case (Deliver p r')
    with "1.prems" have "p = P_RawPacket raw \<or> P_RawPacket raw \<in> set (fst (read_packets env d r'))"
      by (subst (asm) read_packets.simps) (auto split: prod.splits)
    with read_round_raw [OF "1.prems"(1)] "1.IH" [OF Deliver "1.prems"(1)]
      read_round_compthres [OF "1.prems"(1) Deliver] Deliver show ?thesis by auto
  next
    case (Finished x)
    with "1.prems"(2) show ?thesis by (subst (asm) read_packets.simps) simp
  qed
qed

text \<open>What was forwarded is read by the next reader as what it was.\<close>

lemma read_packets_frames:
  assumes "\<forall>raw\<in>set raws. passes env d thres raw" "pr_err r = None" "pr_compthres r = thres"
    and "pr_input r = concat (map raw_frame raws) @ s"
  shows "\<exists>r'. fst (read_packets env d r) = map P_RawPacket raws @ fst (read_packets env d r')
    \<and> pr_input r' = s"
  using assms
proof (induction raws arbitrary: r)
  case Nil
  then show ?case by auto
next
  case (Cons raw raws)
  from Cons.prems have in_r: "pr_input r = raw_frame raw @ (concat (map raw_frame raws) @ s)" by simp
  have p: "passes env d thres raw" using Cons.prems(1) by simp
  with Cons.prems(2,3) in_r obtain r1 where r1:
    "ReadPacket (e_zl env) (e_pool env) r = Ret ((raw, None), r1)"
    "pr_input r1 = concat (map raw_frame raws) @ s" "pr_err r1 = None" "pr_compthres r1 = thres"
    unfolding passes_def by blast
  with p have "read_round env d r = Deliver (P_RawPacket raw) r1"
    by (simp add: read_round_def passes_def)
  then have "fst (read_packets env d r) = P_RawPacket raw # fst (read_packets env d r1)"
    by (subst read_packets.simps) (simp split: prod.splits)
  with Cons.IH [OF _ r1(3,4,2)] Cons.prems(1) show ?case by auto
qed

text \<open>How a peer can end the process through a reading goroutine.\<close>

lemma Get_table:
  assumes "ft_ok ft" "0 \<le> i" "i < 512"
  shows "\<exists>b. Get (ft_packetsParsed ft) i = Ret b"
  using assms by (auto simp: ft_ok_def)

lemma read_round_crash:
  assumes "read_round env d r = Finished (Crashed m)" "pool_gives (e_pool env)" "ft_ok (e_filters env)"
    and "d = ServerBound \<or> d = ClientBound"
  shows "(\<exists>len s. ReadVarInt (pr_input r) = (len, None, s) \<and> sint len < 0)
    \<or> (\<exists>raw r1. ReadPacket (e_zl env) (e_pool env) r = Ret ((raw, None), r1)
        \<and> (d = ClientBound \<and> sint (raw_ID raw) = 256 \<or> raw_ID raw = 0x24))"
proof (cases "ReadPacket (e_zl env) (e_pool env) r")
  case (Panic m')
  then have "panics (ReadPacket (e_zl env) (e_pool env) r)" by simp
  with ReadPacket_panics [OF assms(2)] show ?thesis by blast
next
  case (Ret x)
  then obtain raw err r1 where x: "x = ((raw, err), r1)" by (metis surj_pair)
  with Ret assms(1) have err: "err = None" by (cases err) (auto simp: read_round_def)
  have rp: "ReadPacket (e_zl env) (e_pool env) r = Ret ((raw, None), r1)" using Ret x err by simp
  from ReadPacket_ok [OF rp assms(2)] have
    i: "0 \<le> sint (raw_ID raw)" "sint (raw_ID raw) \<le> 256" and src: "pr_payload r1 \<noteq> NoPayload"
    by (auto simp: id_ok_def MaxPacketID_def)
  show ?thesis
  proof (rule ccontr)
    assume contra: "\<not> ?thesis"
    with rp have no: "\<not> (d = ClientBound \<and> sint (raw_ID raw) = 256)" "raw_ID raw \<noteq> 0x24" by blast+
    have "0 \<le> bucket d (raw_ID raw)" "bucket d (raw_ID raw) < 512"
      using i no assms(4) by (auto simp: bucket_dir)
    from Get_table [OF assms(3) this] obtain b where
      b: "Get (ft_packetsParsed (e_filters env)) (bucket d (raw_ID raw)) = Ret b" ..
    have play: "\<not> (PLAY = STATUS \<and> raw_ID raw = 1)" by (simp add: PLAY_def STATUS_def)
    from NewPacket_choose [OF assms(4) play, of "e_lib env" "e_zero_nbt env"]
    obtain c where c: "NewPacket (e_lib env) (e_zero_nbt env) (raw_ID raw) PLAY d = Ret c"
      "choose_packet (e_zero_nbt env) (raw_ID raw) PLAY d = c" by blast
    have no_panic: "\<not> panics (Parse (e_lib env) q s)" if "c = Some q" for q s
      using choose_packet_safe [of "e_zero_nbt env" "raw_ID raw" PLAY d q] c(2) that no(2)
      by (simp add: Parse_no_panic)
    have parse: "Parse (e_lib env) q s \<noteq> Panic x" if "c = Some q" for q s x
      using no_panic [OF that, of s] by auto
    have pay: "\<exists>y. Payload r1 = Ret y"
      using src by (auto simp: Payload_def split: payload_src.split option.split)
    show False
      using assms(1) rp b c(1) pay parse
      by (cases b; cases c) (auto simp: read_round_def split: prod.splits option.splits go.splits)
  qed
qed

section \<open>Handling one packet\<close>

text \<open>The packet that \<^verbatim>\<open>write_side\<close> sends to the other side, or the error of the filters.\<close>

definition filtered :: "'n env \<Rightarrow> 'n packet \<Rightarrow> 'n Handler \<Rightarrow> (gerr option \<times> 'n Handler \<times> 'n packet) go" where
  "filtered env p h =
     (case p of P_RawPacket raw \<Rightarrow> Ret (None, h, p)
      | _ \<Rightarrow> dispatchPacket (e_lib env) (e_filters env) h p)"

lemma handlePacket_filtered:
  "handlePacket env p d flush h =
     (case filtered env p h of
        Panic m \<Rightarrow> Panic m
      | Ret (err, h1, p1) \<Rightarrow>
          if err = Some ErrDropPacket then Ret (None, h1)
          else
            (case err of
               Some e \<Rightarrow> Ret (Some (Errorf ''[%s] dispatch error: %w'' [GStr (dir_name d), GErr e]), h1)
             | None \<Rightarrow>
                 (case write_side env d p1 flush h1 of
                    Panic m \<Rightarrow> Panic m
                  | Ret (None, h2) \<Rightarrow> Ret (None, h2)
                  | Ret (Some e, h2) \<Rightarrow>
                      Ret (Some (Errorf ''[%s] write packet error %w'' [GStr (dir_name d), GErr e]), h2))))"
  unfolding handlePacket_def filtered_def by (rule refl)

lemma write_side_writers:
  assumes "write_side env d p flush h = Ret (err, h')"
  shows "(if d = ServerBound then
        (\<exists>w w'. h_UpstreamW h = Some w \<and> WritePacket (e_lib env) (e_zl env) p flush w = Ret (err, w')
           \<and> h' = h\<lparr>h_UpstreamW := Some w'\<rparr>)
      else (\<exists>w'. WritePacket (e_lib env) (e_zl env) p flush (h_DownstreamW h) = Ret (err, w')
           \<and> h' = h\<lparr>h_DownstreamW := w'\<rparr>))"
  using assms by (auto simp: write_side_def split: if_splits option.splits)

lemma write_side_result:
  assumes "write_side env d p flush h = Ret (err, h')"
  shows "h_Nickname h' = h_Nickname h \<and> h_UUID h' = h_UUID h \<and> h_AuthProperties h' = h_AuthProperties h
    \<and> h_Handshake h' = h_Handshake h \<and> h_UpstreamName h' = h_UpstreamName h
    \<and> h_DownstreamR h' = h_DownstreamR h \<and> h_DownstreamKey h' = h_DownstreamKey h
    \<and> h_DownstreamAddr h' = h_DownstreamAddr h \<and> h_hasAuthenticator h' = h_hasAuthenticator h
    \<and> h_playerList h' = h_playerList h"
  using write_side_writers [OF assms] by (auto split: if_splits)

text \<open>A sticky error: once a write fails, so does every later write and flush on that side.\<close>

lemma write_side_same: "h_UpstreamW h = Some w \<Longrightarrow> h\<lparr>h_UpstreamW := Some w\<rparr> = h"
  by (cases h) simp

lemma inject_each_failed:
  assumes "h_UpstreamW h = Some w" "pw_err w = Some e"
  shows "inject_each env ServerBound ps h = Ret h"
  using assms
  by (induction ps) (simp_all add: write_side_def WritePacket_sticky write_side_same)

lemma inject_each_failed_down:
  assumes "pw_err (h_DownstreamW h) = Some e"
  shows "inject_each env ClientBound ps h = Ret h"
  using assms by (induction ps) (simp_all add: write_side_def WritePacket_sticky)

fun side_err :: "direction \<Rightarrow> 'n Handler \<Rightarrow> gerr option" where
  "side_err d h =
     (if d = ServerBound then (case h_UpstreamW h of None \<Rightarrow> None | Some w \<Rightarrow> pw_err w)
      else pw_err (h_DownstreamW h))"

lemma write_side_err: "write_side env d p flush h = Ret (err, h') \<Longrightarrow> side_err d h' = err"
  by (drule write_side_writers) (auto split: if_splits dest: WritePacket_result)

lemma flush_side_failed:
  "side_err d h = Some e \<Longrightarrow> flush_side d h = Ret (Some e, h)"
  by (auto simp: flush_side_def Flush_def split: if_splits option.splits)

lemma inject_each_sticky:
  assumes "side_err d h = Some e" "d = ServerBound \<or> d = ClientBound"
  shows "inject_each env d ps h = Ret h"
  using assms inject_each_failed [of h _ e env ps] inject_each_failed_down [of h e env ps]
  by (auto split: option.splits)

text \<open>Injecting is writing one after the other up to the first error.\<close>

lemma inject_each_write_each:
  assumes "d = ServerBound \<or> d = ClientBound" "side_err d h = None"
  shows "inject_each env d ps h = go_map snd (write_each env d ps h)"
    and "write_each env d ps h = Ret (err, h') \<Longrightarrow> side_err d h' = err"
  using assms(2)
proof (induction ps arbitrary: h)
  case (Cons p ps)
  case 1
  show ?case
  proof (cases "write_side env d p False h")
    case (Ret x)
    then obtain e h1 where x: "write_side env d p False h = Ret (e, h1)" by (cases x) auto
    from write_side_err [OF x] Cons(1) [of h1] inject_each_sticky [OF _ assms(1), of h1] x
    show ?thesis by (cases e) auto
  qed simp
next
  case (Cons p ps)
  case 2
  then obtain e h1 where x: "write_side env d p False h = Ret (e, h1)"
    by (auto split: go.splits)
  from write_side_err [OF x] Cons(2) [of h1] 2(1) x show ?case by (cases e) auto
qed simp_all

end
