(* ===== verification/LoginLaws.thy ===== *)
theory LoginLaws
  imports HandlerLaws
begin

text \<open>
  The login: what must have happened before a handler enters the play state, who the player then is,
  and what the upstream server is told about him.
\<close>

section \<open>Encryption and authentication\<close>

lemma encrypt_streams_ok:
  assumes "encrypt_streams env key h = Ret (None, h')"
  shows "length key = 16 \<and> (\<exists>n. h_DownstreamKey h' = Some (key, n)) \<and> h_Nickname h' = h_Nickname h"
  using assms
  by (auto simp: encrypt_streams_def NewEncryptedReader_def NewEncryptedWriter_def new_stream_def
      newCFB8_def Let_def split: if_splits go.splits option.splits)

text \<open>What a response must have been like for the login to be confirmed.\<close>

definition confirmed :: "'n env \<Rightarrow> string \<Rightarrow> bytes \<Rightarrow> joined \<Rightarrow> bool" where
  "confirmed env asked key j \<longleftrightarrow> ValidateNickname asked \<and> e_allow env \<and>
     (\<exists>status. e_session env (authDigest (e_sha1 env) (bytes_of (e_ServerID env)) key (e_PublicKey env)) asked
        = Response status (Inr j))"

lemma HasJoined_ok:
  assumes "HasJoined sha1 session allow serverID publicKey nickname secret = (None, x)"
  shows "ValidateNickname nickname \<and> allow \<and> (\<exists>status j. x = Some j \<and>
    session (authDigest sha1 (bytes_of serverID) secret publicKey) nickname = Response status (Inr j))"
  using assms by (auto simp: HasJoined_def split: if_splits http.splits sum.splits)

lemma establish_ok:
  assumes "establishEncryptionAsServer env h = Ret (None, h')"
  shows "\<exists>token (resp :: EncryptionResponsePacket) key j n r. e_random env = (token, None)
    \<and> ParsePackets (e_lib env) (e_zl env) (e_pool env)
          [P_EncryptionResponsePacket new_EncryptionResponsePacket] (h_DownstreamR h)
        = Ret ((Some (P_EncryptionResponsePacket resp), None), r)
    \<and> e_rsa_decrypt env (ers_Token resp) = Inr token \<and> e_rsa_decrypt env (ers_Secret resp) = Inr key
    \<and> length key = 16 \<and> h_DownstreamKey h' = Some (key, n) \<and> confirmed env (h_Nickname h) key j
    \<and> h_Nickname h' = jn_name j \<and> h_UUID h' = jn_id j \<and> h_AuthProperties h' = jn_properties j"
proof -
  obtain token h1 where 1: "e_random env = (token, None)"
    "write_side env ClientBound (P_EncryptionRequestPacket
       \<lparr>erq_ServerID = e_ServerID env, erq_PublicKey = e_PublicKey env, erq_Token = token\<rparr>) True h
     = Ret (None, h1)"
    using assms by (auto simp: establishEncryptionAsServer_def split: prod.splits option.splits)
  with assms obtain resp r where 2:
    "ParsePackets (e_lib env) (e_zl env) (e_pool env)
       [P_EncryptionResponsePacket new_EncryptionResponsePacket] (h_DownstreamR h1)
     = Ret ((Some (P_EncryptionResponsePacket resp), None), r)"
    by (auto simp: establishEncryptionAsServer_def Let_def
        split: prod.splits option.splits packet.splits)
  define h2 where "h2 = h1\<lparr>h_DownstreamR := r\<rparr>"
  from assms 1 2 obtain key h3 where 3: "e_rsa_decrypt env (ers_Token resp) = Inr token"
    "e_rsa_decrypt env (ers_Secret resp) = Inr key" "encrypt_streams env key h2 = Ret (None, h3)"
    by (auto simp: establishEncryptionAsServer_def Let_def h2_def
        split: sum.splits if_splits option.splits)
  obtain e x where joined: "HasJoined (e_sha1 env) (e_session env) (e_allow env) (e_ServerID env)
      (e_PublicKey env) (h_Nickname h3) key = (e, x)" by force
  with assms 1 2 3 have "e = None"
    by (cases e) (simp_all add: establishEncryptionAsServer_def Let_def h2_def)
  with HasJoined_ok joined obtain status j where j: "x = Some j" "ValidateNickname (h_Nickname h3)"
    "e_allow env" "e_session env (authDigest (e_sha1 env) (bytes_of (e_ServerID env)) key
       (e_PublicKey env)) (h_Nickname h3) = Response status (Inr j)" by metis
  have "h_Nickname h3 = h_Nickname h"
    using encrypt_streams_ok [OF 3(3)] write_side_result [OF 1(2)] by (simp add: h2_def)
  moreover have "h' = login_identity j h3"
    using assms 1 2 3 joined j(1) \<open>e = None\<close>
    by (simp add: establishEncryptionAsServer_def Let_def h2_def)
  moreover have "h_DownstreamR h1 = h_DownstreamR h" using write_side_result [OF 1(2)] by simp
  ultimately show ?thesis
    using 1(1) 2 3 j encrypt_streams_ok [OF 3(3)]
    by (auto simp: confirmed_def login_identity_def)
qed

section \<open>Connecting upstream\<close>

lemma connectUpstream_keeps:
  assumes "connectUpstream env name addr h = Ret (None, h')"
  shows "h_Nickname h' = h_Nickname h \<and> h_UUID h' = h_UUID h \<and> h_UpstreamName h' = name
    \<and> h_DownstreamR h' = h_DownstreamR h \<and> h_DownstreamW h' = h_DownstreamW h
    \<and> h_DownstreamKey h' = h_DownstreamKey h \<and> h_playerList h' = h_playerList h"
proof -
  obtain input en dev where d: "e_dial env addr = Inr (input, en, dev)"
    using assms by (auto simp: connectUpstream_def split: sum.splits)
  let ?h1 = "h\<lparr>h_UpstreamW := Some (NewPacketWriter dev False 0), h_UpstreamName := name\<rparr>"
  let ?hs = "(h_Handshake h)\<lparr>hs_Host := handshake_host (hs_Host (h_Handshake h))
               (h_DownstreamAddr h) (e_uuid_string env (h_UUID h))\<rparr>"
  obtain e2 h2 where 2: "write_side env ServerBound (P_HandshakePacket ?hs) False ?h1 = Ret (e2, h2)"
    using assms d by (auto simp: connectUpstream_def Let_def)
  obtain h3 where 3: "write_side env ServerBound (P_LoginStartPacket \<lparr>ls_Nickname = h_Nickname h\<rparr>) True h2
      = Ret (None, h3)"
    using assms d 2 by (auto simp: connectUpstream_def Let_def split: option.splits)
  have "h_DownstreamW h3 = h_DownstreamW h"
    using write_side_writers [OF 2] write_side_writers [OF 3] by auto
  moreover have "h_Nickname h' = h_Nickname h3 \<and> h_UUID h' = h_UUID h3 \<and> h_UpstreamName h' = h_UpstreamName h3
    \<and> h_DownstreamR h' = h_DownstreamR h3 \<and> h_DownstreamW h' = h_DownstreamW h3
    \<and> h_DownstreamKey h' = h_DownstreamKey h3 \<and> h_playerList h' = h_playerList h3"
    using assms d 2 3
    by (auto simp: connectUpstream_def Let_def split: option.splits packet.splits if_splits)
  ultimately show ?thesis using write_side_result [OF 2] write_side_result [OF 3] by simp
qed

lemma WritePacket_cases:
  assumes "reliable w" "packet_type p \<noteq> 0"
  shows "WritePacket lib zl p flush w = (case Serialize lib p of
        Panic m \<Rightarrow> Panic m
      | Ret (b, Some e) \<Rightarrow> Ret (Some e, w\<lparr>pw_err := Some e\<rparr>)
      | Ret (b, None) \<Rightarrow> Ret (write_frame zl (WriteVarInt (PacketID lib p) @ b) flush w))"
  using assms by (cases p)
    (simp_all only: WritePacket_def reliable_def packet.case option.case packet_type.simps refl simp_thms)

lemma WritePacket_success:
  assumes "WritePacket lib zl p flush w = Ret (None, w')" "reliable w" "packet_type p \<noteq> 0"
  shows "\<exists>b. Serialize lib p = Ret (b, None)
    \<and> wrote (frame zl (pw_compthres w) (WriteVarInt (PacketID lib p) @ b)) w w'"
proof -
  note WritePacket_cases [OF assms(2,3), of lib zl flush]
  with assms(1) obtain b where "Serialize lib p = Ret (b, None)"
    "write_frame zl (WriteVarInt (PacketID lib p) @ b) flush w = (None, w')"
    by (auto split: go.splits prod.splits option.splits)
  with write_frame_frame [OF assms(2), of zl "WriteVarInt (PacketID lib p) @ b" flush] show ?thesis
    by auto
qed

text \<open>The two packets that a successful connection has sent.\<close>

lemma connectUpstream_sent:
  assumes "connectUpstream env name addr h = Ret (None, h')" "e_dial env addr = Inr (input, en, dev)"
    and "od_plan dev = []" "od_flush_plan dev = []"
  defines "hs \<equiv> (h_Handshake h)\<lparr>hs_Host := handshake_host (hs_Host (h_Handshake h))
               (h_DownstreamAddr h) (e_uuid_string env (h_UUID h))\<rparr>"
  shows "\<exists>hb lb w. Serialize (e_lib env) (P_HandshakePacket hs) = Ret (hb, None)
    \<and> Serialize (e_lib env) (P_LoginStartPacket \<lparr>ls_Nickname = h_Nickname h\<rparr>) = Ret (lb, None)
    \<and> h_UpstreamW h' = Some w
    \<and> od_written (pw_out w) = od_written dev @ frame (e_zl env) 0 (WriteVarInt 0 @ hb)
        @ frame (e_zl env) 0 (WriteVarInt 0 @ lb)"
proof -
  let ?h1 = "h\<lparr>h_UpstreamW := Some (NewPacketWriter dev False 0), h_UpstreamName := name\<rparr>"
  let ?hs = "P_HandshakePacket hs" and ?ls = "P_LoginStartPacket \<lparr>ls_Nickname = h_Nickname h\<rparr>"
  obtain e2 h2 where 2: "write_side env ServerBound ?hs False ?h1 = Ret (e2, h2)"
    using assms(1,2) by (auto simp: connectUpstream_def Let_def hs_def)
  obtain h3 where 3: "write_side env ServerBound ?ls True h2 = Ret (None, h3)"
    using assms(1,2) 2 by (auto simp: connectUpstream_def Let_def hs_def split: option.splits)
  obtain w2 where w2: "h_UpstreamW h2 = Some w2"
    "WritePacket (e_lib env) (e_zl env) ?hs False (NewPacketWriter dev False 0) = Ret (e2, w2)"
    using write_side_writers [OF 2] by auto
  obtain w3 where w3: "h_UpstreamW h3 = Some w3"
    "WritePacket (e_lib env) (e_zl env) ?ls True w2 = Ret (None, w3)"
    using write_side_writers [OF 3] w2(1) by auto
  have "e2 = None"
    using WritePacket_result [OF w2(2)] w3(2) by (cases e2) (simp_all add: WritePacket_sticky)
  have r: "reliable (NewPacketWriter dev False 0)" "pw_compthres (NewPacketWriter dev False 0) = 0"
    "pw_out (NewPacketWriter dev False 0) = dev"
    using assms(3,4) by (simp_all add: reliable_def NewPacketWriter_def)
  have ids: "PacketID (e_lib env) ?hs = 0" "PacketID (e_lib env) ?ls = 0"
    by (simp_all add: methods_defs)
  from WritePacket_success [OF w2(2) [unfolded \<open>e2 = None\<close>] r(1)] obtain hb where
    hb: "Serialize (e_lib env) ?hs = Ret (hb, None)"
      "wrote (frame (e_zl env) 0 (WriteVarInt 0 @ hb)) (NewPacketWriter dev False 0) w2"
    unfolding ids r(2) by (auto simp: ids)
  from WritePacket_success [OF w3(2) wrote_reliable [OF hb(2)]] obtain lb where
    lb: "Serialize (e_lib env) ?ls = Ret (lb, None)"
      "wrote (frame (e_zl env) 0 (WriteVarInt 0 @ lb)) w2 w3"
    using hb(2) r(2) unfolding ids by (auto simp: wrote_def)
  have "h_UpstreamW h' = Some (NewPacketWriter (pw_out w3) True CompressThreshold)"
    using assms(1,2) 2 3 w3(1)
    by (auto simp: connectUpstream_def Let_def hs_def split: option.splits packet.splits if_splits)
  with hb lb r(3) show ?thesis by (auto simp: wrote_def NewPacketWriter_def)
qed

lemma handshake_host_fields:
  assumes "NUL \<notin> set addr" "NUL \<notin> set uuid_str"
  shows "Split NUL (handshake_host host addr uuid_str)
    = [ReplaceAll host NUL (CHR 92 # ''u0000''), addr, uuid_str]"
proof -
  have "NUL \<notin> set (ReplaceAll host NUL (CHR 92 # ''u0000''))"
    by (rule ReplaceAll_absent) (simp add: NUL_def)
  with assms show ?thesis by (simp add: handshake_host_def Split_append Split_no_sep)
qed

section \<open>Entering the play state\<close>

lemma write_and_return_not_playing [simp]:
  "write_and_return env p h \<noteq> Ret (Playing h')"
  by (auto simp: write_and_return_def)

lemma Register_ok:
  assumes "Register tbl nick self pm = (True, pm')"
  shows "GetByNickname tbl nick pm = None \<and> GetByNickname tbl nick pm' = Some self
    \<and> pm_count pm' = pm_count pm + 1"
  using assms
  by (auto simp: Register_def LoadOrStore_def AddInt64_def GetByNickname_def
      split: option.splits prod.splits bool.splits)

lemma enter_play_ok:
  assumes "enter_play env tbl self pm h = Ret (Playing h', pm')"
  shows "\<exists>addr h1. e_upstreams env (h_UpstreamName h) = Some (h_UpstreamName h', addr)
    \<and> connectUpstream env (h_UpstreamName h') addr h = Ret (None, h1)
    \<and> h' = h1\<lparr>h_downstream_packets := read_packets env ServerBound (h_DownstreamR h1)\<rparr>
    \<and> h_Nickname h' = h_Nickname h \<and> h_UUID h' = h_UUID h \<and> h_DownstreamKey h' = h_DownstreamKey h
    \<and> Register tbl (h_Nickname h') self pm = (True, pm')"
proof -
  obtain name addr where t: "e_upstreams env (h_UpstreamName h) = Some (name, addr)"
    using assms by (auto simp: enter_play_def split: option.splits)
  with assms obtain h1 where h1: "connectUpstream env name addr h = Ret (None, h1)"
    by (auto simp: enter_play_def split: option.splits)
  with assms t have "Register tbl (h_Nickname h1) self pm = (True, pm')"
    "h' = h1\<lparr>h_downstream_packets := read_packets env ServerBound (h_DownstreamR h1)\<rparr>"
    by (auto simp: enter_play_def split: prod.splits bool.splits)
  with t h1 connectUpstream_keeps [OF h1] show ?thesis by auto
qed

text \<open>
  The course of a successful login, after the nickname was accepted: the hook that is called before
  the authentication, the authentication, and the hook that is given its result.
\<close>

definition admitted ::
    "'n env \<Rightarrow> 'n Handler \<Rightarrow> gerr option \<Rightarrow> 'n Handler \<Rightarrow> 'n Handler \<Rightarrow> bool" where
  "admitted env h0 err h2 h3 \<longleftrightarrow>
     (\<exists>h1. e_PreLoginHandler env h0 = (None, h1) \<and> authenticate env h1 = Ret (err, h2)
        \<and> e_LoginHandler env err h2 = (None, h3))"

lemma finish_login_ok:
  assumes "finish_login env tbl self pm h = Ret (Playing h', pm')"
  shows "\<exists>err h2 h3 h4. admitted env h err h2 h3
    \<and> write_side env ClientBound (P_LoginSuccessPacket
         \<lparr>lsu_UID = h_UUID h3, lsu_Username = h_Nickname h3\<rparr>) True h3 = Ret (None, h4)
    \<and> enter_play env tbl self pm h4 = Ret (Playing h', pm')"
proof -
  obtain h1 where 1: "e_PreLoginHandler env h = (None, h1)"
    using assms by (auto simp: finish_login_def split: prod.splits option.splits)
  with assms obtain x where "authenticate env h1 = Ret x"
    by (cases "authenticate env h1") (simp_all add: finish_login_def)
  then obtain err h2 where 2: "authenticate env h1 = Ret (err, h2)" by (cases x) auto
  with assms 1 obtain h3 where 3: "e_LoginHandler env err h2 = (None, h3)"
    by (cases "e_LoginHandler env err h2") (auto simp: finish_login_def split: option.splits)
  with assms 1 2 obtain h4 where "write_side env ClientBound (P_LoginSuccessPacket
         \<lparr>lsu_UID = h_UUID h3, lsu_Username = h_Nickname h3\<rparr>) True h3 = Ret (None, h4)"
    "enter_play env tbl self pm h4 = Ret (Playing h', pm')"
    by (auto simp: finish_login_def split: option.splits)
  with 1 2 3 show ?thesis unfolding admitted_def by blast
qed

lemma handleProxy_ok:
  assumes "handleProxy env tbl self pm h = Ret (Playing h', pm')"
  shows "sint (hs_Protocol (h_Handshake h)) = ProtocolVersion
    \<and> (\<exists>h0. ValidateNickname (h_Nickname h0) \<and> h_hasAuthenticator h0 = h_hasAuthenticator h
        \<and> finish_login env tbl self pm h0 = Ret (Playing h', pm'))"
proof -
  have proto: "sint (hs_Protocol (h_Handshake h)) = ProtocolVersion"
    using assms by (auto simp: handleProxy_def split: if_splits)
  with assms obtain ls r where 1: "ParsePackets (e_lib env) (e_zl env) (e_pool env)
      [P_LoginStartPacket new_LoginStartPacket] (h_DownstreamR h)
      = Ret ((Some (P_LoginStartPacket ls), None), r)"
    by (auto simp: handleProxy_def Let_def split: prod.splits option.splits packet.splits)
  with assms proto have nick: "ValidateNickname (ls_Nickname ls)"
    by (auto simp: handleProxy_def Let_def split: if_splits)
  with assms proto 1 obtain h2 where
    2: "write_side env ClientBound (P_LoginCompressionPacket
          \<lparr>lc_Threshold = word_of_int CompressThreshold\<rparr>) True
          (h\<lparr>h_DownstreamR := r\<rparr>\<lparr>h_Nickname := ls_Nickname ls\<rparr>) = Ret (None, h2)"
    and 3: "finish_login env tbl self pm (h2\<lparr>
            h_DownstreamW := NewPacketWriter (pw_out (h_DownstreamW h2)) False CompressThreshold,
            h_DownstreamR := NewPacketReader (pr_input (h_DownstreamR h2))
                               (pr_end (h_DownstreamR h2)) CompressThreshold\<rparr>) = Ret (Playing h', pm')"
    by (auto simp: handleProxy_def Let_def split: option.splits)
  from write_side_result [OF 2] nick 3 proto show ?thesis
    by (intro conjI exI [of _ "h2\<lparr>
            h_DownstreamW := NewPacketWriter (pw_out (h_DownstreamW h2)) False CompressThreshold,
            h_DownstreamR := NewPacketReader (pr_input (h_DownstreamR h2))
                               (pr_end (h_DownstreamR h2)) CompressThreshold\<rparr>"]) simp_all
qed

end
