(* ===== verification/LoginComplete.thy ===== *)
theory LoginComplete
  imports LoginLaws
begin

text \<open>
  The other half of the login: a client that follows the protocol does get into the play state, when
  the hooks accept him and the upstream server answers.
\<close>

section \<open>What works\<close>

text \<open>The documented behaviour of the libraries, as far as the login needs it.\<close>

definition good_libs :: "'n env \<Rightarrow> ('n \<Rightarrow> bool) \<Rightarrow> bool" where
  "good_libs env nbt_ok \<longleftrightarrow> zlib_roundtrips (e_zl env) \<and> pool_gives (e_pool env)
     \<and> nbt_roundtrips (e_lib env) nbt_ok"

text \<open>\<open>f\<close> is the frame of a packet that respects its limits.\<close>

definition frame_of :: "'n env \<Rightarrow> ('n \<Rightarrow> bool) \<Rightarrow> int \<Rightarrow> 'n packet \<Rightarrow> bytes \<Rightarrow> bool" where
  "frame_of env nbt_ok t p f \<longleftrightarrow> packet_ok nbt_ok p \<and>
     (\<exists>b. sends (e_lib env) (e_zl env) t p b \<and> f = frame (e_zl env) t (WriteVarInt (PacketID (e_lib env) p) @ b))"

definition reader_at :: "int \<Rightarrow> bytes \<Rightarrow> packetReader \<Rightarrow> bool" where
  "reader_at t s r \<longleftrightarrow> pr_err r = None \<and> pr_compthres r = word_of_int t \<and> pr_input r = s"

lemma reader_at_New: "reader_at t s (NewPacketReader s en t)"
  by (simp add: reader_at_def NewPacketReader_def)

lemma ParsePackets_frame:
  assumes "good_libs env nbt_ok" "frame_of env nbt_ok t p f" "threshold_ok t" "reader_at t (f @ s) r"
    and "find (\<lambda>q. PacketID (e_lib env) p = PacketID (e_lib env) q) qs = Some q" "receives q p"
  shows "\<exists>r'. ParsePackets (e_lib env) (e_zl env) (e_pool env) qs r
      = Ret ((Some (read_back q p), None), r') \<and> reader_at t s r' \<and> pr_end r' = pr_end r"
proof -
  from assms(2) obtain b where b: "packet_ok nbt_ok p" "sends (e_lib env) (e_zl env) t p b"
    "f = frame (e_zl env) t (WriteVarInt (PacketID (e_lib env) p) @ b)" by (auto simp: frame_of_def)
  have libs: "zlib_roundtrips (e_zl env)" "pool_gives (e_pool env)" "nbt_roundtrips (e_lib env) nbt_ok"
    using assms(1) by (simp_all add: good_libs_def)
  have r: "pr_err r = None" "pr_compthres r = word_of_int t" "pr_input r = f @ s"
    using assms(4) by (simp_all add: reader_at_def)
  from sends_read [OF b(2) libs(1,2) assms(3) r(1,2) r(3) [unfolded b(3)]] obtain raw r1 r2 where
    step: "ReadPacket (e_zl env) (e_pool env) r = Ret ((raw, None), r1)"
      "raw_ID raw = PacketID (e_lib env) p" "Payload r1 = Ret ((Some b, None), r2)" "pr_input r2 = s"
      "pr_err r2 = None" "pr_compthres r2 = pr_compthres r" "pr_end r2 = pr_end r" by blast
  from packet_reads_back [OF b(1) libs(3) assms(6)] b(2)
  have "Parse (e_lib env) q b = Ret (read_back q p, None, [])" by (auto simp: sends_def)
  with step assms(5) r(2) show ?thesis
    by (simp add: ParsePackets_def advance_payload_def reader_at_def)
qed

lemma receives_same_type:
  "packet_type q = packet_type p \<Longrightarrow> packet_type p \<noteq> 23 \<Longrightarrow> receives q p"
  by (cases q) (auto simp: receives_def)

lemma packet_ok_Serialize:
  assumes "packet_ok nbt_ok p" "nbt_roundtrips lib nbt_ok" "receives p p"
  shows "\<exists>b. Serialize lib p = Ret (b, None)"
  using packet_reads_back [OF assms] by blast

lemma WritePacket_ok:
  assumes "Serialize lib p = Ret (b, None)" "reliable w"
  shows "\<exists>w'. WritePacket lib zl p flush w = Ret (None, w')
    \<and> wrote (frame zl (pw_compthres w) (WriteVarInt (PacketID lib p) @ b)) w w'"
proof -
  have "packet_type p \<noteq> 0" using assms(1) by (cases p) simp_all
  then have "WritePacket lib zl p flush w = (case Serialize lib p of
        Panic m \<Rightarrow> Panic m
      | Ret (b, Some e) \<Rightarrow> Ret (Some e, w\<lparr>pw_err := Some e\<rparr>)
      | Ret (b, None) \<Rightarrow> Ret (write_frame zl (WriteVarInt (PacketID lib p) @ b) flush w))"
    using assms(2) by (rule WritePacket_cases [rotated])
  with assms(1) write_frame_frame [OF assms(2), of zl "WriteVarInt (PacketID lib p) @ b" flush]
  show ?thesis by simp
qed

lemma write_down_ok:
  assumes "Serialize (e_lib env) p = Ret (b, None)" "reliable (h_DownstreamW h)"
  shows "\<exists>w'. write_side env ClientBound p flush h = Ret (None, h\<lparr>h_DownstreamW := w'\<rparr>) \<and> reliable w'"
  using WritePacket_ok [OF assms, of "e_zl env" flush]
  by (auto simp: write_side_def wrote_def)

lemma write_up_ok:
  assumes "Serialize (e_lib env) p = Ret (b, None)" "h_UpstreamW h = Some w" "reliable w"
  shows "\<exists>w'. write_side env ServerBound p flush h = Ret (None, h\<lparr>h_UpstreamW := Some w'\<rparr>) \<and> reliable w'"
  using WritePacket_ok [OF assms(1,3), of "e_zl env" flush] assms(2)
  by (auto simp: write_side_def wrote_def)

section \<open>The upstream server\<close>

text \<open>The handshake that the upstream server is sent.\<close>

definition upstream_handshake :: "'n env \<Rightarrow> 'n Handler \<Rightarrow> HandshakePacket" where
  "upstream_handshake env h = (h_Handshake h)\<lparr>hs_Host := handshake_host (hs_Host (h_Handshake h))
     (h_DownstreamAddr h) (e_uuid_string env (h_UUID h))\<rparr>"

text \<open>
  A server that works: it can be dialled, takes what it is sent, and answers with the compression
  packet and the success packet; \<open>rest\<close> are the bytes it sends in the play state.
\<close>

definition answers :: "'n env \<Rightarrow> ('n \<Rightarrow> bool) \<Rightarrow> string \<Rightarrow> bytes \<Rightarrow> bool" where
  "answers env nbt_ok addr rest \<longleftrightarrow>
     (\<exists>f1 f2 su en dev. e_dial env addr = Inr (f1 @ f2 @ rest, en, dev)
        \<and> frame_of env nbt_ok 0 (P_LoginCompressionPacket \<lparr>lc_Threshold = word_of_int CompressThreshold\<rparr>) f1
        \<and> frame_of env nbt_ok CompressThreshold (P_LoginSuccessPacket su) f2
        \<and> od_plan dev = [] \<and> od_flush_plan dev = [])"

lemma threshold_cases: "threshold_ok 0" "threshold_ok CompressThreshold"
  by (simp_all add: threshold_ok_def CompressThreshold_def)

lemma sint_CompressThreshold: "sint (word_of_int CompressThreshold :: 32 word) = CompressThreshold"
  using threshold_cases(2) by (simp add: threshold_ok_def sint_word_of_int_32)

lemma connectUpstream_completes:
  assumes "good_libs env nbt_ok" "answers env nbt_ok addr rest"
    and "packet_ok nbt_ok (P_HandshakePacket (upstream_handshake env h))" "length (h_Nickname h) \<le> 16"
  shows "\<exists>h' r w. connectUpstream env name addr h = Ret (None, h') \<and> h_UpstreamW h' = Some w \<and> reliable w
    \<and> h_UpstreamPackets h' = read_packets env ClientBound r \<and> reader_at CompressThreshold rest r"
proof -
  from assms(2) obtain f1 f2 su en dev where srv: "e_dial env addr = Inr (f1 @ f2 @ rest, en, dev)"
    "frame_of env nbt_ok 0 (P_LoginCompressionPacket \<lparr>lc_Threshold = word_of_int CompressThreshold\<rparr>) f1"
    "frame_of env nbt_ok CompressThreshold (P_LoginSuccessPacket su) f2"
    "od_plan dev = []" "od_flush_plan dev = []" unfolding answers_def by blast
  have nbt: "nbt_roundtrips (e_lib env) nbt_ok" using assms(1) by (simp add: good_libs_def)
  define h1 where "h1 = h\<lparr>h_UpstreamW := Some (NewPacketWriter dev False 0), h_UpstreamName := name\<rparr>"
  have w1: "h_UpstreamW h1 = Some (NewPacketWriter dev False 0)" "reliable (NewPacketWriter dev False 0)"
    using srv(4,5) by (simp_all add: h1_def NewPacketWriter_def reliable_def)
  have ls_ok: "packet_ok nbt_ok (P_LoginStartPacket \<lparr>ls_Nickname = h_Nickname h\<rparr>)"
    using assms(4) by (simp add: LoginStartPacket_reflect_def)
  obtain hb where hb: "Serialize (e_lib env) (P_HandshakePacket (upstream_handshake env h)) = Ret (hb, None)"
    using packet_ok_Serialize [OF assms(3) nbt receives_same_type] by auto
  obtain lb where lb: "Serialize (e_lib env) (P_LoginStartPacket \<lparr>ls_Nickname = h_Nickname h\<rparr>) = Ret (lb, None)"
    using packet_ok_Serialize [OF ls_ok nbt receives_same_type] by auto
  from write_up_ok [OF hb w1, of False] obtain w2 where
    2: "write_side env ServerBound (P_HandshakePacket (upstream_handshake env h)) False h1
        = Ret (None, h1\<lparr>h_UpstreamW := Some w2\<rparr>)" "reliable w2" by blast
  from write_up_ok [OF lb _ 2(2), of "h1\<lparr>h_UpstreamW := Some w2\<rparr>" True] obtain w3 where
    3: "write_side env ServerBound (P_LoginStartPacket \<lparr>ls_Nickname = h_Nickname h\<rparr>) True
        (h1\<lparr>h_UpstreamW := Some w2\<rparr>) = Ret (None, h1\<lparr>h_UpstreamW := Some w3\<rparr>)" "reliable w3" by auto
  let ?c = "P_LoginCompressionPacket \<lparr>lc_Threshold = word_of_int CompressThreshold\<rparr> :: 'a packet"
  let ?q = "P_LoginCompressionPacket new_LoginCompressionPacket :: 'a packet"
  let ?r0 = "NewPacketReader (f1 @ f2 @ rest) en 0"
  from ParsePackets_frame [where s = "f2 @ rest" and r = ?r0 and q = ?q
      and qs = "[?q, P_LoginKickPacket new_LoginKickPacket]",
      OF assms(1) srv(2) threshold_cases(1) reader_at_New] obtain r1 where
    r1: "ParsePackets (e_lib env) (e_zl env) (e_pool env) [?q, P_LoginKickPacket new_LoginKickPacket] ?r0
        = Ret ((Some ?c, None), r1)" "reader_at 0 (f2 @ rest) r1"
    by (auto simp: methods_defs receives_def read_back_def)
  let ?s = "P_LoginSuccessPacket new_LoginSuccessPacket :: 'a packet"
  have "reader_at CompressThreshold (f2 @ rest) (NewPacketReader (pr_input r1) en CompressThreshold)"
    using r1(2) by (simp add: reader_at_def NewPacketReader_def)
  from ParsePackets_frame [where qs = "[?s]" and q = ?s, OF assms(1) srv(3) threshold_cases(2) this] obtain r2 where
    r2: "ParsePackets (e_lib env) (e_zl env) (e_pool env) [?s] (NewPacketReader (pr_input r1) en CompressThreshold)
        = Ret ((Some (P_LoginSuccessPacket su), None), r2)" "reader_at CompressThreshold rest r2"
    by (auto simp: methods_defs receives_def read_back_def)
  have "connectUpstream env name addr h = Ret (None, h1\<lparr>h_UpstreamW :=
      Some (NewPacketWriter (pw_out w3) True CompressThreshold),
      h_UpstreamPackets := read_packets env ClientBound r2\<rparr>)"
    using srv(1) 2(1) 3(1) r1(1) r2(1)
    by (simp add: connectUpstream_def Let_def h1_def [symmetric] upstream_handshake_def [symmetric]
        sint_CompressThreshold)
  moreover have "reliable (NewPacketWriter (pw_out w3) True CompressThreshold)"
    using 3(2) by (simp add: reliable_def NewPacketWriter_def)
  ultimately show ?thesis using r2(2) by fastforce
qed

section \<open>The client\<close>

lemma Register_free:
  "GetByNickname tbl nick pm = None \<Longrightarrow>
    \<exists>pm'. Register tbl nick self pm = (True, pm') \<and> GetByNickname tbl nick pm' = Some self"
  by (simp add: Register_def LoadOrStore_def GetByNickname_def AddInt64_def)

lemma enter_play_completes:
  assumes "good_libs env nbt_ok" "e_upstreams env (h_UpstreamName h) = Some (name, addr)"
    and "answers env nbt_ok addr rest" "packet_ok nbt_ok (P_HandshakePacket (upstream_handshake env h))"
    and "length (h_Nickname h) \<le> 16" "GetByNickname tbl (h_Nickname h) pm = None"
  shows "\<exists>h' pm' r w. enter_play env tbl self pm h = Ret (Playing h', pm')
    \<and> h_Nickname h' = h_Nickname h \<and> h_UUID h' = h_UUID h \<and> h_UpstreamName h' = name
    \<and> h_DownstreamKey h' = h_DownstreamKey h
    \<and> h_DownstreamW h' = h_DownstreamW h \<and> h_UpstreamW h' = Some w \<and> reliable w
    \<and> GetByNickname tbl (h_Nickname h) pm' = Some self
    \<and> h_downstream_packets h' = read_packets env ServerBound (h_DownstreamR h)
    \<and> h_UpstreamPackets h' = read_packets env ClientBound r \<and> reader_at CompressThreshold rest r"
proof -
  from connectUpstream_completes [OF assms(1,3,4,5)] obtain h1 r w where
    c: "connectUpstream env name addr h = Ret (None, h1)" "h_UpstreamW h1 = Some w" "reliable w"
      "h_UpstreamPackets h1 = read_packets env ClientBound r" "reader_at CompressThreshold rest r" by blast
  from Register_free [OF assms(6)] obtain pm' where
    reg: "Register tbl (h_Nickname h) self pm = (True, pm')" "GetByNickname tbl (h_Nickname h) pm' = Some self"
    by blast
  let ?h' = "h1\<lparr>h_downstream_packets := read_packets env ServerBound (h_DownstreamR h1)\<rparr>"
  have "enter_play env tbl self pm h = Ret (Playing ?h', pm')"
    using assms(2) c(1) reg(1) connectUpstream_keeps [OF c(1)] by (simp add: enter_play_def)
  with connectUpstream_keeps [OF c(1)] c reg(2) show ?thesis
    by (intro exI [of _ ?h'] exI [of _ pm'] exI [of _ r] exI [of _ w]) simp
qed

text \<open>
  From the first hook on; \<open>h3\<close> is the handler after the second.
\<close>

lemma finish_login_completes:
  assumes "admitted env h err h2 h3" "good_libs env nbt_ok" "reliable (h_DownstreamW h3)"
    and "e_upstreams env (h_UpstreamName h3) = Some (name, addr)"
    and "answers env nbt_ok addr rest" "packet_ok nbt_ok (P_HandshakePacket (upstream_handshake env h3))"
    and "length (h_Nickname h3) \<le> 16" "length (h_UUID h3) = 16"
    and "GetByNickname tbl (h_Nickname h3) pm = None"
  shows "\<exists>h' pm' r w. finish_login env tbl self pm h = Ret (Playing h', pm')
    \<and> h_Nickname h' = h_Nickname h3 \<and> h_UUID h' = h_UUID h3 \<and> h_UpstreamName h' = name
    \<and> h_DownstreamKey h' = h_DownstreamKey h3
    \<and> reliable (h_DownstreamW h') \<and> h_UpstreamW h' = Some w \<and> reliable w
    \<and> GetByNickname tbl (h_Nickname h3) pm' = Some self
    \<and> h_downstream_packets h' = read_packets env ServerBound (h_DownstreamR h3)
    \<and> h_UpstreamPackets h' = read_packets env ClientBound r \<and> reader_at CompressThreshold rest r"
proof -
  let ?p = "P_LoginSuccessPacket \<lparr>lsu_UID = h_UUID h3, lsu_Username = h_Nickname h3\<rparr> :: 'a packet"
  have "packet_ok nbt_ok ?p" using assms(7,8) by (simp add: LoginSuccessPacket_reflect_def)
  moreover have "nbt_roundtrips (e_lib env) nbt_ok" using assms(2) by (simp add: good_libs_def)
  ultimately obtain b where b: "Serialize (e_lib env) ?p = Ret (b, None)"
    using packet_ok_Serialize receives_same_type [of ?p ?p] by fastforce
  from write_down_ok [OF b assms(3), of True] obtain w' where
    w': "write_side env ClientBound ?p True h3 = Ret (None, h3\<lparr>h_DownstreamW := w'\<rparr>)" "reliable w'" by blast
  let ?h4 = "h3\<lparr>h_DownstreamW := w'\<rparr>"
  have fin: "finish_login env tbl self pm h = enter_play env tbl self pm ?h4"
    using assms(1) w'(1) by (auto simp: admitted_def finish_login_def)
  have "upstream_handshake env ?h4 = upstream_handshake env h3" by (simp add: upstream_handshake_def)
  with enter_play_completes [of env nbt_ok ?h4 name addr rest tbl pm self, OF assms(2)] assms(4-9)
  obtain h' pm' r w where "enter_play env tbl self pm ?h4 = Ret (Playing h', pm')"
    "h_Nickname h' = h_Nickname h3" "h_UUID h' = h_UUID h3" "h_UpstreamName h' = name"
    "h_DownstreamKey h' = h_DownstreamKey h3" "h_DownstreamW h' = w'" "h_UpstreamW h' = Some w" "reliable w"
    "GetByNickname tbl (h_Nickname h3) pm' = Some self"
    "h_downstream_packets h' = read_packets env ServerBound (h_DownstreamR h3)"
    "h_UpstreamPackets h' = read_packets env ClientBound r" "reader_at CompressThreshold rest r"
    by auto
  with w'(2) show ?thesis unfolding fin by blast
qed

text \<open>\<open>h0\<close> is the handler that has read the nickname and announced the compression.\<close>

lemma handleProxy_completes:
  assumes "good_libs env nbt_ok" "sint (hs_Protocol (h_Handshake h)) = ProtocolVersion"
    and "frame_of env nbt_ok 0 (P_LoginStartPacket \<lparr>ls_Nickname = nick\<rparr>) f" "ValidateNickname nick"
    and "reader_at 0 (f @ s) (h_DownstreamR h)" "reliable (h_DownstreamW h)"
  shows "\<exists>h0 w r. h0 = h\<lparr>h_Nickname := nick, h_DownstreamW := w, h_DownstreamR := r\<rparr>
    \<and> reliable w \<and> reader_at CompressThreshold s r
    \<and> handleProxy env tbl self pm h = finish_login env tbl self pm h0"
proof -
  let ?q = "P_LoginStartPacket new_LoginStartPacket :: 'a packet"
  from ParsePackets_frame [where qs = "[?q]" and q = ?q, OF assms(1,3) threshold_cases(1) assms(5)]
  obtain r where r: "ParsePackets (e_lib env) (e_zl env) (e_pool env) [?q] (h_DownstreamR h)
      = Ret ((Some (P_LoginStartPacket \<lparr>ls_Nickname = nick\<rparr>), None), r)" "reader_at 0 s r"
    by (auto simp: methods_defs receives_def read_back_def)
  let ?p = "P_LoginCompressionPacket \<lparr>lc_Threshold = word_of_int CompressThreshold\<rparr> :: 'a packet"
  let ?h1 = "h\<lparr>h_DownstreamR := r\<rparr>\<lparr>h_Nickname := nick\<rparr>"
  have "packet_ok nbt_ok ?p" by (simp add: LoginCompressionPacket_reflect_def)
  moreover have "nbt_roundtrips (e_lib env) nbt_ok" using assms(1) by (simp add: good_libs_def)
  ultimately obtain b where b: "Serialize (e_lib env) ?p = Ret (b, None)"
    using packet_ok_Serialize receives_same_type [of ?p ?p] by fastforce
  from write_down_ok [OF b, of ?h1 True] assms(6) obtain w where
    w: "write_side env ClientBound ?p True ?h1 = Ret (None, ?h1\<lparr>h_DownstreamW := w\<rparr>)" "reliable w" by auto
  let ?w = "NewPacketWriter (pw_out w) False CompressThreshold"
  let ?r = "NewPacketReader (pr_input r) (pr_end r) CompressThreshold"
  let ?h0 = "h\<lparr>h_Nickname := nick, h_DownstreamW := ?w, h_DownstreamR := ?r\<rparr>"
  have "handleProxy env tbl self pm h = finish_login env tbl self pm ?h0"
    using assms(2,4) r(1) w(1) by (simp add: handleProxy_def Let_def)
  moreover have "reliable ?w" using w(2) by (simp add: reliable_def NewPacketWriter_def)
  moreover have "reader_at CompressThreshold s ?r" using r(2) by (simp add: reader_at_def NewPacketReader_def)
  ultimately show ?thesis by blast
qed

section \<open>Authentication\<close>

definition decrypted :: "'n env \<Rightarrow> bytes \<Rightarrow> bytes \<Rightarrow> bytes" where
  "decrypted env key s =
     (case NewEncryptedReader key of
        Ret (Some cf, None) \<Rightarrow> fst (XORKeyStream (e_aes env key) cf s) | _ \<Rightarrow> [])"

lemma encrypt_streams_completes:
  assumes "length key = 16" "reliable (h_DownstreamW h)" "reader_at t s (h_DownstreamR h)"
  shows "\<exists>w r n. encrypt_streams env key h
      = Ret (None, h\<lparr>h_DownstreamR := r, h_DownstreamW := w, h_DownstreamKey := Some (key, n)\<rparr>)
    \<and> reliable w \<and> reader_at CompressThreshold (decrypted env key s) r"
proof -
  let ?r = "NewPacketReader (decrypted env key s) (pr_end (h_DownstreamR h)) CompressThreshold"
  let ?w = "NewPacketWriter (pw_out (h_DownstreamW h)) True CompressThreshold"
  have "encrypt_streams env key h = Ret (None, h\<lparr>h_DownstreamR := ?r, h_DownstreamW := ?w,
      h_DownstreamKey := Some (key, length (od_written (pw_out (h_DownstreamW h))))\<rparr>)"
    using assms
    by (simp add: encrypt_streams_def NewEncryptedReader_def NewEncryptedWriter_def new_stream_def
        newCFB8_def Let_def decrypted_def reader_at_def)
  moreover have "reliable ?w" using assms(2) by (simp add: reliable_def NewPacketWriter_def)
  ultimately show ?thesis using reader_at_New by blast
qed

text \<open>A client that owns the key it sends, and whose session the session server confirms.\<close>

definition genuine :: "'n env \<Rightarrow> bytes \<Rightarrow> EncryptionResponsePacket \<Rightarrow> bytes \<Rightarrow> string \<Rightarrow> joined \<Rightarrow> bool" where
  "genuine env token resp key nick j \<longleftrightarrow> e_random env = (token, None)
     \<and> e_rsa_decrypt env (ers_Token resp) = Inr token \<and> e_rsa_decrypt env (ers_Secret resp) = Inr key
     \<and> length key = 16 \<and> confirmed env nick key j"

lemma HasJoined_confirmed:
  assumes "confirmed env nick key j"
  shows "HasJoined (e_sha1 env) (e_session env) (e_allow env) (e_ServerID env) (e_PublicKey env) nick key
    = (None, Some j)"
  using assms by (auto simp: confirmed_def HasJoined_def)

lemma establish_completes:
  assumes "good_libs env nbt_ok" "genuine env token resp key (h_Nickname h) j"
    and "packet_ok nbt_ok (P_EncryptionRequestPacket
       \<lparr>erq_ServerID = e_ServerID env, erq_PublicKey = e_PublicKey env, erq_Token = token\<rparr>)"
    and "frame_of env nbt_ok CompressThreshold (P_EncryptionResponsePacket resp) f"
    and "reader_at CompressThreshold (f @ s) (h_DownstreamR h)" "reliable (h_DownstreamW h)"
  shows "\<exists>r w n. establishEncryptionAsServer env h = Ret (None, login_identity j
      (h\<lparr>h_DownstreamR := r, h_DownstreamW := w, h_DownstreamKey := Some (key, n)\<rparr>))
    \<and> reliable w \<and> reader_at CompressThreshold (decrypted env key s) r"
proof -
  have g: "e_random env = (token, None)" "e_rsa_decrypt env (ers_Token resp) = Inr token"
    "e_rsa_decrypt env (ers_Secret resp) = Inr key" "length key = 16" "confirmed env (h_Nickname h) key j"
    using assms(2) by (simp_all add: genuine_def)
  let ?p = "P_EncryptionRequestPacket
       \<lparr>erq_ServerID = e_ServerID env, erq_PublicKey = e_PublicKey env, erq_Token = token\<rparr> :: 'a packet"
  have "nbt_roundtrips (e_lib env) nbt_ok" using assms(1) by (simp add: good_libs_def)
  with assms(3) obtain b where b: "Serialize (e_lib env) ?p = Ret (b, None)"
    using packet_ok_Serialize receives_same_type [of ?p ?p] by fastforce
  from write_down_ok [OF b assms(6), of True] obtain w where
    w: "write_side env ClientBound ?p True h = Ret (None, h\<lparr>h_DownstreamW := w\<rparr>)" "reliable w" by blast
  let ?q = "P_EncryptionResponsePacket new_EncryptionResponsePacket :: 'a packet"
  from ParsePackets_frame [where qs = "[?q]" and q = ?q, OF assms(1,4) threshold_cases(2) assms(5)]
  obtain r where r: "ParsePackets (e_lib env) (e_zl env) (e_pool env) [?q] (h_DownstreamR h)
      = Ret ((Some (P_EncryptionResponsePacket resp), None), r)" "reader_at CompressThreshold s r"
    by (auto simp: methods_defs receives_def read_back_def)
  let ?h2 = "h\<lparr>h_DownstreamW := w\<rparr>\<lparr>h_DownstreamR := r\<rparr>"
  have "reliable (h_DownstreamW ?h2)" "reader_at CompressThreshold s (h_DownstreamR ?h2)"
    using w(2) r(2) by simp_all
  from encrypt_streams_completes [OF g(4) this, of env] obtain w' r' n where
    e: "encrypt_streams env key ?h2
      = Ret (None, ?h2\<lparr>h_DownstreamR := r', h_DownstreamW := w', h_DownstreamKey := Some (key, n)\<rparr>)"
      "reliable w'" "reader_at CompressThreshold (decrypted env key s) r'" by blast
  have "establishEncryptionAsServer env h = Ret (None, login_identity j
      (?h2\<lparr>h_DownstreamR := r', h_DownstreamW := w', h_DownstreamKey := Some (key, n)\<rparr>))"
    using g(1-3) w(1) r(1) e(1) HasJoined_confirmed [OF g(5)]
    by (simp add: establishEncryptionAsServer_def Let_def)
  moreover have "?h2\<lparr>h_DownstreamR := r', h_DownstreamW := w', h_DownstreamKey := Some (key, n)\<rparr>
      = h\<lparr>h_DownstreamR := r', h_DownstreamW := w', h_DownstreamKey := Some (key, n)\<rparr>" by simp
  ultimately show ?thesis using e(2,3) by (metis (no_types, lifting))
qed

lemma login_completes:
  assumes "good_libs env nbt_ok" "sint (hs_Protocol (h_Handshake h)) = ProtocolVersion"
    and "h_hasAuthenticator h" "ValidateNickname nick"
    and "frame_of env nbt_ok 0 (P_LoginStartPacket \<lparr>ls_Nickname = nick\<rparr>) f"
    and "frame_of env nbt_ok CompressThreshold (P_EncryptionResponsePacket resp) g"
    and "reader_at 0 (f @ g @ s) (h_DownstreamR h)" "reliable (h_DownstreamW h)"
    and "genuine env token resp key nick j" "length (jn_name j) \<le> 16" "length (jn_id j) = 16"
    and "packet_ok nbt_ok (P_EncryptionRequestPacket
       \<lparr>erq_ServerID = e_ServerID env, erq_PublicKey = e_PublicKey env, erq_Token = token\<rparr>)"
    and "\<And>h. e_PreLoginHandler env h = (None, h\<lparr>h_UpstreamName := target\<rparr>)"
    and "\<And>h. e_LoginHandler env None h = (None, h)"
    and "e_upstreams env target = Some (name, addr)" "answers env nbt_ok addr rest"
    and "packet_ok nbt_ok (P_HandshakePacket ((h_Handshake h)\<lparr>hs_Host := handshake_host
       (hs_Host (h_Handshake h)) (h_DownstreamAddr h) (e_uuid_string env (jn_id j))\<rparr>))"
    and "GetByNickname tbl (jn_name j) pm = None"
  shows "\<exists>h' pm' rc rs w. handleProxy env tbl self pm h = Ret (Playing h', pm')
    \<and> h_Nickname h' = jn_name j \<and> h_UUID h' = jn_id j \<and> h_UpstreamName h' = name
    \<and> GetByNickname tbl (jn_name j) pm' = Some self
    \<and> reliable (h_DownstreamW h') \<and> h_UpstreamW h' = Some w \<and> reliable w
    \<and> h_downstream_packets h' = read_packets env ServerBound rc
    \<and> reader_at CompressThreshold (decrypted env key s) rc
    \<and> h_UpstreamPackets h' = read_packets env ClientBound rs \<and> reader_at CompressThreshold rest rs"
proof -
  have "reader_at 0 (f @ (g @ s)) (h_DownstreamR h)" using assms(7) by simp
  from handleProxy_completes [OF assms(1,2,5,4) this assms(8), of tbl self pm] obtain h0 w0 r0 where
    h0: "h0 = h\<lparr>h_Nickname := nick, h_DownstreamW := w0, h_DownstreamR := r0\<rparr>" "reliable w0"
      "reader_at CompressThreshold (g @ s) r0"
      "handleProxy env tbl self pm h = finish_login env tbl self pm h0" by blast
  let ?h1 = "h0\<lparr>h_UpstreamName := target\<rparr>"
  have "genuine env token resp key (h_Nickname ?h1) j" using assms(9) h0(1) by simp
  from establish_completes [OF assms(1) this assms(12,6)] h0(1-3) obtain r w n where
    e: "establishEncryptionAsServer env ?h1 = Ret (None, login_identity j
        (?h1\<lparr>h_DownstreamR := r, h_DownstreamW := w, h_DownstreamKey := Some (key, n)\<rparr>))"
      "reliable w" "reader_at CompressThreshold (decrypted env key s) r" by fastforce
  let ?h3 = "login_identity j
        (?h1\<lparr>h_DownstreamR := r, h_DownstreamW := w, h_DownstreamKey := Some (key, n)\<rparr>)"
  have adm: "admitted env h0 None ?h3 ?h3"
    using assms(3,13,14) e(1) h0(1) by (simp add: admitted_def authenticate_def)
  have h3: "h_Nickname ?h3 = jn_name j" "h_UUID ?h3 = jn_id j" "h_UpstreamName ?h3 = target"
    "h_DownstreamR ?h3 = r" "h_DownstreamW ?h3 = w"
    "upstream_handshake env ?h3 = (h_Handshake h)\<lparr>hs_Host := handshake_host
       (hs_Host (h_Handshake h)) (h_DownstreamAddr h) (e_uuid_string env (jn_id j))\<rparr>"
    by (simp_all add: login_identity_def upstream_handshake_def h0(1))
  from finish_login_completes [where rest = rest and self = self and tbl = tbl and pm = pm and addr = addr
      and name = name, OF adm assms(1)]
  show ?thesis unfolding h3 h0(4) using assms(10,11,15-18) e(2,3) by blast
qed

section \<open>A sample login\<close>

text \<open>
  An environment in which the libraries behave as documented in the simplest way: stored blocks for
  zlib, RSA and the session server accept everything, no filters.
\<close>

definition sample_frame :: "int \<Rightarrow> unit packet \<Rightarrow> bytes" where
  "sample_frame t p =
     (case Serialize unit_nbt p of
        Ret (b, None) \<Rightarrow> frame stored_zlib t (WriteVarInt (PacketID unit_nbt p) @ b)
      | _ \<Rightarrow> [])"

definition sample_key :: bytes where "sample_key = replicate 16 7"

definition sample_response :: EncryptionResponsePacket where
  "sample_response = \<lparr>ers_Secret = sample_key, ers_Token = [1, 2, 3, 4]\<rparr>"

definition sample_joined :: joined where
  "sample_joined = \<lparr>jn_id = replicate 16 9, jn_name = ''Bob'', jn_properties = []\<rparr>"

definition sample_env :: "unit env" where
  "sample_env =
     \<lparr>e_lib = unit_nbt, e_zl = stored_zlib, e_pool = fresh_pool, e_zero_nbt = (),
      e_filters = no_filters,
      e_dial = (\<lambda>addr. Inr (
         sample_frame 0 (P_LoginCompressionPacket \<lparr>lc_Threshold = word_of_int CompressThreshold\<rparr>) @
         sample_frame CompressThreshold (P_LoginSuccessPacket \<lparr>lsu_UID = replicate 16 9, lsu_Username = ''Bob''\<rparr>) @
         [], EOF, open_dev)),
      e_close = None, e_upstreams = (\<lambda>n. Some (''lobby'', ''10.0.0.1:25565'')),
      e_status_json = (\<lambda>s. (''{}'', None)), e_error_text = (\<lambda>e. ''error''),
      e_uuid_string = (\<lambda>u. ''uuid''), e_map_order = (\<lambda>S. []), e_dump = ''WTF'',
      e_PingHandler = (\<lambda>p. \<lparr>ss_Version = GameVersion, ss_Players = \<lparr>ssp_Online = 0, ssp_Max = 1\<rparr>,
                                ss_Description = '''', ss_Favicon = ''''\<rparr>),
      e_PreLoginHandler = (\<lambda>h. (None, h\<lparr>h_UpstreamName := ''lobby''\<rparr>)), e_LoginHandler = (\<lambda>e h. (e, h)),
      e_md5 = (\<lambda>b. replicate 16 1), e_sha1 = (\<lambda>b. replicate 20 1), e_aes = (\<lambda>k b. b),
      e_random = ([1, 2, 3, 4], None), e_rsa_decrypt = Inr, e_ServerID = ''id'', e_PublicKey = [5],
      e_session = (\<lambda>d n. Response 200 (Inr sample_joined)), e_allow = True\<rparr>"

definition sample_client :: "unit Handler" where
  "sample_client = (NewHandler
      (sample_frame 0 (P_LoginStartPacket \<lparr>ls_Nickname = ''bob''\<rparr>) @
       sample_frame CompressThreshold (P_EncryptionResponsePacket sample_response) @ [])
      EOF open_dev ''10.1.1.1'' True)
     \<lparr>h_Handshake := \<lparr>hs_Protocol = 753, hs_Host = ''mc'', hs_Port = 25565, hs_NextState = 2\<rparr>\<rparr>"

lemma sample_frame_of:
  assumes "packet_ok (\<lambda>_. True) p" "Serialize unit_nbt p = Ret (b, None)" "length b \<le> 1000"
    and "id_ok (PacketID unit_nbt p)"
  shows "frame_of sample_env (\<lambda>_. True) t p (sample_frame t p)"
proof -
  have "length (WriteVarInt i) \<le> 5" for i by (rule length_WriteVarInt)
  from this [of "PacketID unit_nbt p"] this [of "word_of_nat (length (WriteVarInt (PacketID unit_nbt p) @ b))"]
    this [of 0] assms
  have "sends unit_nbt stored_zlib t p b"
    by (auto simp: sends_def frame_body_def MaxPacketSize_def stored_zlib_def)
  with assms show ?thesis by (auto simp: frame_of_def sample_frame_def sample_env_def)
qed

lemma sample_good: "good_libs sample_env (\<lambda>_. True)"
  using concrete_ok by (simp add: good_libs_def sample_env_def)

lemma sample_frames:
  "frame_of sample_env (\<lambda>_. True) 0 (P_LoginStartPacket \<lparr>ls_Nickname = ''bob''\<rparr>)
     (sample_frame 0 (P_LoginStartPacket \<lparr>ls_Nickname = ''bob''\<rparr>))"
  "frame_of sample_env (\<lambda>_. True) CompressThreshold (P_EncryptionResponsePacket sample_response)
     (sample_frame CompressThreshold (P_EncryptionResponsePacket sample_response))"
  "frame_of sample_env (\<lambda>_. True) 0 (P_LoginCompressionPacket \<lparr>lc_Threshold = word_of_int CompressThreshold\<rparr>)
     (sample_frame 0 (P_LoginCompressionPacket \<lparr>lc_Threshold = word_of_int CompressThreshold\<rparr>))"
  "frame_of sample_env (\<lambda>_. True) CompressThreshold
     (P_LoginSuccessPacket \<lparr>lsu_UID = replicate 16 9, lsu_Username = ''Bob''\<rparr>)
     (sample_frame CompressThreshold (P_LoginSuccessPacket \<lparr>lsu_UID = replicate 16 9, lsu_Username = ''Bob''\<rparr>))"
proof -
  have l: "length (WriteVarInt i) \<le> 5" for i by (rule length_WriteVarInt)
  have key: "length sample_key = 16" unfolding sample_key_def by (rule length_replicate)
  have id9: "length (replicate 16 9 :: uuid) = 16" by (rule length_replicate)
  show "frame_of sample_env (\<lambda>_. True) 0 (P_LoginStartPacket \<lparr>ls_Nickname = ''bob''\<rparr>)
     (sample_frame 0 (P_LoginStartPacket \<lparr>ls_Nickname = ''bob''\<rparr>))"
    using l [of 3]
    by (intro sample_frame_of [where b = "WriteMinecraftString ''bob''"])
      (simp_all add: methods_defs LoginStartPacket_reflect_def struct_Serialize_def
        WriteMinecraftString_def id_ok_def MaxPacketID_def)
  show "frame_of sample_env (\<lambda>_. True) CompressThreshold (P_EncryptionResponsePacket sample_response)
     (sample_frame CompressThreshold (P_EncryptionResponsePacket sample_response))"
  proof (rule sample_frame_of [where b = "WriteVarInt 16 @ sample_key @ WriteVarInt 4 @ [1, 2, 3, 4]"])
    show "Serialize unit_nbt (P_EncryptionResponsePacket sample_response)
        = Ret (WriteVarInt 16 @ sample_key @ WriteVarInt 4 @ [1, 2, 3, 4], None)"
      using key by (simp add: methods_defs EncryptionResponsePacket_reflect_def struct_Serialize_def
        sample_response_def WriteBytesField_def WriteVarInt_def)
    show "length (WriteVarInt 16 @ sample_key @ WriteVarInt 4 @ [1, 2, 3, 4]) \<le> 1000"
      using l [of 16] l [of 4] key by simp
  qed (use key in \<open>simp_all add: methods_defs EncryptionResponsePacket_reflect_def sample_response_def
        id_ok_def MaxPacketID_def\<close>)
  show "frame_of sample_env (\<lambda>_. True) 0 (P_LoginCompressionPacket \<lparr>lc_Threshold = word_of_int CompressThreshold\<rparr>)
     (sample_frame 0 (P_LoginCompressionPacket \<lparr>lc_Threshold = word_of_int CompressThreshold\<rparr>))"
    using l [of "word_of_int CompressThreshold"]
    by (intro sample_frame_of [where b = "WriteVarInt (word_of_int CompressThreshold)"])
      (simp_all add: methods_defs LoginCompressionPacket_reflect_def struct_Serialize_def
        WriteVarInt_def [symmetric] id_ok_def MaxPacketID_def)
  show "frame_of sample_env (\<lambda>_. True) CompressThreshold
     (P_LoginSuccessPacket \<lparr>lsu_UID = replicate 16 9, lsu_Username = ''Bob''\<rparr>)
     (sample_frame CompressThreshold (P_LoginSuccessPacket \<lparr>lsu_UID = replicate 16 9, lsu_Username = ''Bob''\<rparr>))"
    using l [of 3] id9
    by (intro sample_frame_of [where b = "replicate 16 9 @ WriteMinecraftString ''Bob''"])
      (simp_all add: methods_defs LoginSuccessPacket_reflect_def struct_Serialize_def
        WriteMinecraftString_def id_ok_def MaxPacketID_def)
qed

lemma sample_genuine:
  "genuine sample_env [1, 2, 3, 4] sample_response sample_key ''bob'' sample_joined"
proof -
  have "ValidateNickname ''bob''" by (simp add: nick_char_def code_def)
  moreover have "length sample_key = 16" unfolding sample_key_def by (rule length_replicate)
  ultimately show ?thesis by (simp add: genuine_def confirmed_def sample_env_def sample_response_def)
qed

lemma sample_answers: "answers sample_env (\<lambda>_. True) addr []"
  unfolding answers_def
proof (intro exI conjI)
  show "e_dial sample_env addr = Inr (
      sample_frame 0 (P_LoginCompressionPacket \<lparr>lc_Threshold = word_of_int CompressThreshold\<rparr>) @
      sample_frame CompressThreshold (P_LoginSuccessPacket \<lparr>lsu_UID = replicate 16 9, lsu_Username = ''Bob''\<rparr>) @
      [], EOF, open_dev)" by (simp only: sample_env_def env.simps)
qed (rule sample_frames(3), rule sample_frames(4), simp_all add: open_dev_def)

lemma sample_client_simps:
  "h_hasAuthenticator sample_client"
  "sint (hs_Protocol (h_Handshake sample_client)) = ProtocolVersion"
  "h_DownstreamAddr sample_client = ''10.1.1.1''"
  "reliable (h_DownstreamW sample_client)"
  "reader_at 0 (sample_frame 0 (P_LoginStartPacket \<lparr>ls_Nickname = ''bob''\<rparr>) @
       sample_frame CompressThreshold (P_EncryptionResponsePacket sample_response) @ []) (h_DownstreamR sample_client)"
  by (simp_all add: sample_client_def NewHandler_def ProtocolVersion_def reliable_def NewPacketWriter_def
      open_dev_def reader_at_New)

lemma sample_packets:
  "packet_ok (\<lambda>_. True) (P_EncryptionRequestPacket \<lparr>erq_ServerID = e_ServerID sample_env,
     erq_PublicKey = e_PublicKey sample_env, erq_Token = [1, 2, 3, 4]\<rparr>)"
  "packet_ok (\<lambda>_. True) (P_HandshakePacket ((h_Handshake sample_client)\<lparr>hs_Host := handshake_host
       (hs_Host (h_Handshake sample_client)) (h_DownstreamAddr sample_client)
       (e_uuid_string sample_env (jn_id sample_joined))\<rparr>))"
  by (simp_all add: EncryptionRequestPacket_reflect_def HandshakePacket_reflect_def sample_env_def
      sample_client_def NewHandler_def handshake_host_def ReplaceAll_def NUL_def)

lemma sample_facts:
  "ValidateNickname ''bob''" "length (jn_name sample_joined) \<le> 16" "length (jn_id sample_joined) = 16"
  "\<And>h. e_PreLoginHandler sample_env h = (None, h\<lparr>h_UpstreamName := ''lobby''\<rparr>)"
  "\<And>h. e_LoginHandler sample_env None h = (None, h)"
  "e_upstreams sample_env ''lobby'' = Some (''lobby'', ''10.0.0.1:25565'')"
  "GetByNickname id (jn_name sample_joined) (empty_PlayerManager :: nat PlayerManager) = None"
  using sample_genuine length_replicate [of 16 "9 :: byte"]
  by (simp_all only: genuine_def confirmed_def sample_env_def env.simps sample_joined_def joined.simps
      GetByNickname_def empty_PlayerManager_def PlayerManager.simps) simp

lemma sample_plays:
  "\<exists>h' pm'. handleProxy sample_env id (0 :: nat) empty_PlayerManager sample_client = Ret (Playing h', pm')"
  using login_completes [where self = "0 :: nat", OF sample_good sample_client_simps(2,1) sample_facts(1) sample_frames(1,2)
      sample_client_simps(5,4) sample_genuine sample_facts(2,3) sample_packets(1) sample_facts(4,5,6)
      sample_answers sample_packets(2) sample_facts(7)] by blast

section \<open>Properties\<close>

text \<open>C5: who gets into the play state.  A handler enters the main loop only for a client of the right
  protocol version whose nickname passed the check, that both hooks have let in (the second knowing
  the result of the authentication), for a target that exists and a server that accepted the
  connection; and it then holds its nickname, as decided by authentication and hooks, alone: nobody
  was registered under it, and now the handler is.\<close>

theorem login_gate:
  assumes "handleProxy env tbl self pm h = Ret (Playing h', pm')"
  shows "sint (hs_Protocol (h_Handshake h)) = ProtocolVersion
    \<and> (\<exists>h0 err h2 h3 addr. ValidateNickname (h_Nickname h0) \<and> admitted env h0 err h2 h3
        \<and> e_upstreams env (h_UpstreamName h3) = Some (h_UpstreamName h', addr)
        \<and> (\<exists>h4 h5. connectUpstream env (h_UpstreamName h') addr h4 = Ret (None, h5))
        \<and> h_Nickname h' = h_Nickname h3 \<and> h_UUID h' = h_UUID h3)
    \<and> GetByNickname tbl (h_Nickname h') pm = None
    \<and> GetByNickname tbl (h_Nickname h') pm' = Some self"
proof -
  from handleProxy_ok [OF assms] obtain h0 where h0: "sint (hs_Protocol (h_Handshake h)) = ProtocolVersion"
    "ValidateNickname (h_Nickname h0)" "finish_login env tbl self pm h0 = Ret (Playing h', pm')" by blast
  from finish_login_ok [OF h0(3)] obtain err h2 h3 h4 where fin: "admitted env h0 err h2 h3"
    "write_side env ClientBound (P_LoginSuccessPacket
         \<lparr>lsu_UID = h_UUID h3, lsu_Username = h_Nickname h3\<rparr>) True h3 = Ret (None, h4)"
    "enter_play env tbl self pm h4 = Ret (Playing h', pm')" by blast
  from enter_play_ok [OF fin(3)] obtain addr h5 where
    "e_upstreams env (h_UpstreamName h4) = Some (h_UpstreamName h', addr)"
    "connectUpstream env (h_UpstreamName h') addr h4 = Ret (None, h5)"
    "h_Nickname h' = h_Nickname h4" "h_UUID h' = h_UUID h4"
    "Register tbl (h_Nickname h') self pm = (True, pm')" by blast
  with h0 fin(1) write_side_result [OF fin(2)] Register_ok show ?thesis by metis
qed

theorem login_gate_witness:
  "\<exists>h' pm'. handleProxy sample_env id (0 :: nat) empty_PlayerManager sample_client = Ret (Playing h', pm')
    \<and> GetByNickname id (h_Nickname h') pm' = Some 0"
  using sample_plays login_gate [of sample_env id "0 :: nat" empty_PlayerManager sample_client] by blast

text \<open>C2: in online mode nobody enters under a name or a UUID that the session server did not confirm.
  When the hook refuses every failed authentication and leaves the identity alone, the nickname and
  UUID of a handler in the play state are those the session server gave for the digest of a secret
  of 16 bytes, which the client sent encrypted together with the proxy's random token, and with
  which the connection is encrypted.\<close>

theorem online_mode_identity:
  assumes "handleProxy env tbl self pm h = Ret (Playing h', pm')" "h_hasAuthenticator h"
    and "\<forall>h. h_hasAuthenticator (snd (e_PreLoginHandler env h)) = h_hasAuthenticator h"
    and "\<forall>e h. fst (e_LoginHandler env (Some e) h) \<noteq> None"
    and "\<forall>h. h_Nickname (snd (e_LoginHandler env None h)) = h_Nickname h
      \<and> h_UUID (snd (e_LoginHandler env None h)) = h_UUID h
      \<and> h_DownstreamKey (snd (e_LoginHandler env None h)) = h_DownstreamKey h"
  shows "\<exists>asked token (resp :: EncryptionResponsePacket) key j n. e_random env = (token, None)
    \<and> e_rsa_decrypt env (ers_Token resp) = Inr token \<and> e_rsa_decrypt env (ers_Secret resp) = Inr key
    \<and> length key = 16 \<and> confirmed env asked key j
    \<and> h_Nickname h' = jn_name j \<and> h_UUID h' = jn_id j \<and> h_DownstreamKey h' = Some (key, n)"
proof -
  from handleProxy_ok [OF assms(1)] obtain h0 where h0: "h_hasAuthenticator h0"
    "finish_login env tbl self pm h0 = Ret (Playing h', pm')" using assms(2) by auto
  from finish_login_ok [OF h0(2)] obtain err h2 h3 h4 where fin: "admitted env h0 err h2 h3"
    "write_side env ClientBound (P_LoginSuccessPacket
         \<lparr>lsu_UID = h_UUID h3, lsu_Username = h_Nickname h3\<rparr>) True h3 = Ret (None, h4)"
    "enter_play env tbl self pm h4 = Ret (Playing h', pm')" by blast
  from fin(1) obtain h1 where adm: "e_PreLoginHandler env h0 = (None, h1)"
    "authenticate env h1 = Ret (err, h2)" "e_LoginHandler env err h2 = (None, h3)"
    unfolding admitted_def by blast
  have "err = None" using assms(4) adm(3) by (cases err) (simp, metis fst_conv)
  moreover have "h_hasAuthenticator h1" using assms(3) adm(1) h0(1) by (metis snd_conv)
  ultimately have "establishEncryptionAsServer env h1 = Ret (None, h2)"
    using adm(2) by (simp add: authenticate_def)
  from establish_ok [OF this] obtain token and resp :: EncryptionResponsePacket and key j n where
    e: "e_random env = (token, None)" "e_rsa_decrypt env (ers_Token resp) = Inr token"
      "e_rsa_decrypt env (ers_Secret resp) = Inr key" "length key = 16"
      "h_DownstreamKey h2 = Some (key, n)" "confirmed env (h_Nickname h1) key j"
      "h_Nickname h2 = jn_name j" "h_UUID h2 = jn_id j" by blast
  have "h3 = snd (e_LoginHandler env None h2)" using adm(3) \<open>err = None\<close> by simp
  with assms(5) e have "h_Nickname h3 = jn_name j" "h_UUID h3 = jn_id j" "h_DownstreamKey h3 = Some (key, n)"
    by simp_all
  moreover from enter_play_ok [OF fin(3)] write_side_result [OF fin(2)]
  have "h_Nickname h' = h_Nickname h3" "h_UUID h' = h_UUID h3" "h_DownstreamKey h' = h_DownstreamKey h3"
    by auto
  ultimately show ?thesis using e(1-4,6) by metis
qed

theorem online_mode_identity_witness:
  "\<exists>h' pm' key n. handleProxy sample_env id (0 :: nat) empty_PlayerManager sample_client = Ret (Playing h', pm')
    \<and> h_DownstreamKey h' = Some (key, n) \<and> length key = 16"
proof -
  have hooks: "\<forall>h. h_hasAuthenticator (snd (e_PreLoginHandler sample_env h)) = h_hasAuthenticator h"
    "\<forall>e h. fst (e_LoginHandler sample_env (Some e) h) \<noteq> None"
    "\<forall>h. h_Nickname (snd (e_LoginHandler sample_env None h)) = h_Nickname h
      \<and> h_UUID (snd (e_LoginHandler sample_env None h)) = h_UUID h
      \<and> h_DownstreamKey (snd (e_LoginHandler sample_env None h)) = h_DownstreamKey h"
    by (simp_all add: sample_env_def)
  from sample_plays obtain h' pm' where
    "handleProxy sample_env id (0 :: nat) empty_PlayerManager sample_client = Ret (Playing h', pm')" by blast
  with online_mode_identity [OF this sample_client_simps(1) hooks] show ?thesis by blast
qed

text \<open>C36: what the upstream server is told.  A connection that succeeded has sent the server exactly two
  frames before the play state: a handshake whose host splits at NUL into three fields, the host the
  client asked for (its own NULs escaped), the address of the client and its UUID; and a login start
  with the nickname.  So a client cannot forge the address or the UUID with a NUL in its host name.\<close>

theorem identity_forwarded:
  assumes "connectUpstream env name addr h = Ret (None, h')" "e_dial env addr = Inr (input, en, dev)"
    and "od_plan dev = []" "od_flush_plan dev = []"
    and "NUL \<notin> set (h_DownstreamAddr h)" "NUL \<notin> set (e_uuid_string env (h_UUID h))"
  shows "\<exists>host hb lb w. Split NUL host
        = [ReplaceAll (hs_Host (h_Handshake h)) NUL (CHR 92 # ''u0000''), h_DownstreamAddr h,
           e_uuid_string env (h_UUID h)]
    \<and> Serialize (e_lib env) (P_HandshakePacket ((h_Handshake h)\<lparr>hs_Host := host\<rparr>)) = Ret (hb, None)
    \<and> Serialize (e_lib env) (P_LoginStartPacket \<lparr>ls_Nickname = h_Nickname h\<rparr>) = Ret (lb, None)
    \<and> h_UpstreamW h' = Some w
    \<and> od_written (pw_out w) = od_written dev @ frame (e_zl env) 0 (WriteVarInt 0 @ hb)
        @ frame (e_zl env) 0 (WriteVarInt 0 @ lb)"
  using connectUpstream_sent [OF assms(1-4)] handshake_host_fields [OF assms(5,6)] by blast

theorem identity_forwarded_witness:
  "\<exists>h' w. connectUpstream sample_env ''lobby'' ''addr'' sample_client = Ret (None, h')
    \<and> h_UpstreamW h' = Some w \<and> od_written (pw_out w) \<noteq> []"
proof -
  have "packet_ok (\<lambda>_. True) (P_HandshakePacket (upstream_handshake sample_env sample_client))"
    "length (h_Nickname sample_client) \<le> 16"
    by (simp_all add: upstream_handshake_def HandshakePacket_reflect_def sample_env_def
        sample_client_def NewHandler_def handshake_host_def ReplaceAll_def NUL_def)
  from connectUpstream_completes [OF sample_good sample_answers this] obtain h' where
    h': "connectUpstream sample_env ''lobby'' ''addr'' sample_client = Ret (None, h')" by blast
  obtain input where d: "e_dial sample_env ''addr'' = Inr (input, EOF, open_dev)"
    by (simp add: sample_env_def)
  have nul: "NUL \<notin> set (h_DownstreamAddr sample_client)"
    "NUL \<notin> set (e_uuid_string sample_env (h_UUID sample_client))"
    unfolding sample_client_simps(3) by (simp_all add: NUL_def sample_env_def)
  have dev: "od_plan open_dev = []" "od_flush_plan open_dev = []" by (simp_all add: open_dev_def)
  from identity_forwarded [OF h' d dev nul] h' show ?thesis by (auto simp: frame_def)
qed

text \<open>C10: a genuine client gets in.  When the client follows the protocol (right version, valid
  nickname, the proxy's token back, a key of 16 bytes, a session that the session server confirms),
  the hooks accept it, the target exists, the server there answers and the name is free, the login
  ends in the play state, under the identity the session server gave; the channel from the client
  continues with the decrypted rest of its bytes, the one from the server with the rest of its
  bytes, and both writers are intact.\<close>

theorem genuine_client_gets_in:
  assumes "good_libs env nbt_ok" "sint (hs_Protocol (h_Handshake h)) = ProtocolVersion"
    and "h_hasAuthenticator h" "ValidateNickname nick"
    and "frame_of env nbt_ok 0 (P_LoginStartPacket \<lparr>ls_Nickname = nick\<rparr>) f"
    and "frame_of env nbt_ok CompressThreshold (P_EncryptionResponsePacket resp) g"
    and "reader_at 0 (f @ g @ s) (h_DownstreamR h)" "reliable (h_DownstreamW h)"
    and "genuine env token resp key nick j" "length (jn_name j) \<le> 16" "length (jn_id j) = 16"
    and "packet_ok nbt_ok (P_EncryptionRequestPacket
       \<lparr>erq_ServerID = e_ServerID env, erq_PublicKey = e_PublicKey env, erq_Token = token\<rparr>)"
    and "\<And>h. e_PreLoginHandler env h = (None, h\<lparr>h_UpstreamName := target\<rparr>)"
    and "\<And>h. e_LoginHandler env None h = (None, h)"
    and "e_upstreams env target = Some (name, addr)" "answers env nbt_ok addr rest"
    and "packet_ok nbt_ok (P_HandshakePacket ((h_Handshake h)\<lparr>hs_Host := handshake_host
       (hs_Host (h_Handshake h)) (h_DownstreamAddr h) (e_uuid_string env (jn_id j))\<rparr>))"
    and "GetByNickname tbl (jn_name j) pm = None"
  shows "\<exists>h' pm' rc rs w. handleProxy env tbl self pm h = Ret (Playing h', pm')
    \<and> h_Nickname h' = jn_name j \<and> h_UUID h' = jn_id j \<and> h_UpstreamName h' = name
    \<and> GetByNickname tbl (jn_name j) pm' = Some self
    \<and> reliable (h_DownstreamW h') \<and> h_UpstreamW h' = Some w \<and> reliable w
    \<and> h_downstream_packets h' = read_packets env ServerBound rc
    \<and> reader_at CompressThreshold (decrypted env key s) rc
    \<and> h_UpstreamPackets h' = read_packets env ClientBound rs \<and> reader_at CompressThreshold rest rs"
  using assms by (rule login_completes)

theorem genuine_client_gets_in_witness:
  "\<exists>h' pm'. handleProxy sample_env id (0 :: nat) empty_PlayerManager sample_client = Ret (Playing h', pm')
    \<and> h_Nickname h' = ''Bob''"
  using genuine_client_gets_in [where self = "0 :: nat", OF sample_good sample_client_simps(2,1)
      sample_facts(1) sample_frames(1,2) sample_client_simps(5,4) sample_genuine sample_facts(2,3)
      sample_packets(1) sample_facts(4,5,6) sample_answers sample_packets(2) sample_facts(7)]
  by (auto simp: sample_joined_def)

end
