(* ===== verification/ProxyLaws.thy ===== *)
theory ProxyLaws
  imports LoginComplete
begin

text \<open>
  What the main loop guarantees: unfiltered traffic crosses the proxy unchanged and in order, the
  filters decide about each parsed packet, which input ends the process, what a server switch and an
  injection write.
\<close>

section \<open>Unfiltered traffic\<close>

lemma all_raw_map:
  assumes "all_raw ps"
  shows "\<exists>raws. ps = map P_RawPacket raws"
  using assms
proof (induction ps)
  case (Cons p ps)
  from Cons.prems obtain raw where "p = P_RawPacket raw" by (auto simp: all_raw_def)
  moreover from Cons obtain raws where "ps = map P_RawPacket raws" by (auto simp: all_raw_def)
  ultimately have "p # ps = map P_RawPacket (raw # raws)" by simp
  then show ?case by (rule exI)
qed simp

lemma frames_of_raws: "concat (map packet_frame (map P_RawPacket raws)) = concat (map raw_frame raws)"
  by (simp add: comp_def)

text \<open>A reader at the other end, with the same threshold, gets the packets again.\<close>

definition reads_again :: "'n env \<Rightarrow> direction \<Rightarrow> VarInt \<Rightarrow> RawPacket list \<Rightarrow> bool" where
  "reads_again env d thres raws \<longleftrightarrow>
     (\<forall>r s. pr_err r = None \<longrightarrow> pr_compthres r = thres \<longrightarrow> pr_input r = concat (map raw_frame raws) @ s \<longrightarrow>
        (\<exists>r'. fst (read_packets env d r) = map P_RawPacket raws @ fst (read_packets env d r')
          \<and> pr_input r' = s))"

lemma consumed_reads_again:
  assumes "pool_gives (e_pool env)" "fst (read_packets env d r) = map P_RawPacket raws @ ps"
  shows "reads_again env d (pr_compthres r) raws"
proof -
  have "passes env d (pr_compthres r) raw" if "raw \<in> set raws" for raw
    using read_packets_raw [OF assms(1), of raw d r] that by (simp add: assms(2))
  then show ?thesis
    unfolding reads_again_def by (intro allI impI read_packets_frames) auto
qed

text \<open>Without filters everything is raw.\<close>

lemma unfiltered_raw:
  assumes "\<forall>i. Get (ft_packetsParsed (e_filters env)) i \<noteq> Ret True"
  shows "all_raw (fst (read_packets env d r))"
  using assms
proof (induction env d r rule: read_packets.induct)
  case (1 env d r)
  show ?case
  proof (cases "read_round env d r")
    case (Deliver p r')
    then have "\<exists>raw. p = P_RawPacket raw"
      using "1.prems" by (auto simp: read_round_def split: go.splits prod.splits option.splits if_splits)
    with "1.IH" [OF Deliver "1.prems"] show ?thesis
      by (subst read_packets.simps) (auto simp: Deliver all_raw_def split: prod.splits)
  next
    case (Finished x)
    then show ?thesis by (subst read_packets.simps) (simp add: all_raw_def)
  qed
qed

text \<open>The sample environment with a connection in the play state.\<close>

definition sample_rc :: packetReader where
  "sample_rc = NewPacketReader (sample_frame 512 hello) EOF 512"

definition sample_playing :: "unit Handler" where
  "sample_playing = (NewHandler [] EOF open_dev ''10.1.1.1'' True)
     \<lparr>h_UpstreamW := Some (NewPacketWriter open_dev True 512),
      h_downstream_packets := read_packets sample_env ServerBound sample_rc,
      h_UpstreamPackets := read_packets sample_env ClientBound (NewPacketReader [] EOF 512)\<rparr>"

lemma sample_unfiltered: "Get (ft_packetsParsed (e_filters sample_env)) i \<noteq> Ret True"
proof -
  have "NewBitarray 512 = Ret (replicate 8 0)" by (simp add: NewBitarray_def)
  from NewBitarray_empty [OF this] show ?thesis
    by (cases "0 \<le> i \<and> i < 512") (auto simp: sample_env_def no_filters_def Get_def in_slice_def)
qed

section \<open>Sequences of packets\<close>

text \<open>The bytes of packets with their fields, on a writer that compresses from \<open>t\<close> on.\<close>

definition fields_of :: "'n env \<Rightarrow> 'n packet list \<Rightarrow> bytes list \<Rightarrow> bool" where
  "fields_of env ps bs \<longleftrightarrow> list_all2 (\<lambda>p b. Serialize (e_lib env) p = Ret (b, None)) ps bs"

definition frames_of :: "'n env \<Rightarrow> int \<Rightarrow> 'n packet list \<Rightarrow> bytes list \<Rightarrow> bytes" where
  "frames_of env t ps bs = wire (e_lib env) (e_zl env) t (zip ps bs)"

lemma frames_of_Cons:
  "frames_of env t (p # ps) (b # bs)
    = frame (e_zl env) t (WriteVarInt (PacketID (e_lib env) p) @ b) @ frames_of env t ps bs"
  by (simp add: frames_of_def wire_def)

lemma write_down_wrote:
  assumes "Serialize (e_lib env) p = Ret (b, None)" "reliable (h_DownstreamW h)"
  shows "\<exists>w'. write_side env ClientBound p flush h = Ret (None, h\<lparr>h_DownstreamW := w'\<rparr>)
    \<and> wrote (frame (e_zl env) (pw_compthres (h_DownstreamW h)) (WriteVarInt (PacketID (e_lib env) p) @ b))
        (h_DownstreamW h) w'"
  using WritePacket_ok [OF assms, of "e_zl env" flush] by (auto simp: write_side_def)

lemma write_each_down:
  assumes "fields_of env ps bs" "reliable (h_DownstreamW h)"
  shows "\<exists>w'. write_each env ClientBound ps h = Ret (None, h\<lparr>h_DownstreamW := w'\<rparr>)
    \<and> wrote (frames_of env (pw_compthres (h_DownstreamW h)) ps bs) (h_DownstreamW h) w'"
  using assms
proof (induction ps arbitrary: bs h)
  case Nil
  then have "wrote (frames_of env (pw_compthres (h_DownstreamW h)) [] bs) (h_DownstreamW h) (h_DownstreamW h)"
    by (simp add: frames_of_def wire_def wrote_def)
  moreover have "h\<lparr>h_DownstreamW := h_DownstreamW h\<rparr> = h" by simp
  ultimately show ?case by (metis write_each.simps(1))
next
  case (Cons p ps)
  then obtain b bs' where b: "bs = b # bs'" "Serialize (e_lib env) p = Ret (b, None)" "fields_of env ps bs'"
    by (auto simp: fields_of_def list_all2_Cons1)
  from write_down_wrote [OF b(2) Cons.prems(2), of False] obtain w1 where
    w1: "write_side env ClientBound p False h = Ret (None, h\<lparr>h_DownstreamW := w1\<rparr>)"
      "wrote (frame (e_zl env) (pw_compthres (h_DownstreamW h)) (WriteVarInt (PacketID (e_lib env) p) @ b))
        (h_DownstreamW h) w1" by blast
  from Cons.IH [OF b(3), of "h\<lparr>h_DownstreamW := w1\<rparr>"] wrote_reliable [OF w1(2)] obtain w2 where
    w2: "write_each env ClientBound ps (h\<lparr>h_DownstreamW := w1\<rparr>) = Ret (None, h\<lparr>h_DownstreamW := w2\<rparr>)"
      "wrote (frames_of env (pw_compthres w1) ps bs') w1 w2" by auto
  have "pw_compthres w1 = pw_compthres (h_DownstreamW h)" using w1(2) by (simp add: wrote_def)
  with wrote_trans [OF w1(2) w2(2)] w1(1) w2(1) show ?case by (auto simp: b(1) frames_of_Cons)
qed

section \<open>Switching to another server\<close>

text \<open>The packet that takes every player off the client's list.\<close>

definition clear_packet :: "'n env \<Rightarrow> (uuid \<rightharpoonup> PlayerListItem) \<Rightarrow> PlayerListItemPacketCB" where
  "clear_packet env pl = \<lparr>pli_Action = REMOVE_PLAYER, pli_Items = list_values env pl\<rparr>"

lemma list_values_uuids:
  assumes "keyed pl" "set (e_map_order env (dom pl)) = dom pl"
  shows "pi_UUID ` set (list_values env pl) = dom pl"
proof -
  have "set (list_values env pl) = {v. \<exists>u\<in>dom pl. pl u = Some v}"
    using assms(2) by (force simp: list_values_def List.map_filter_def)
  moreover have "pi_UUID v = u" if "pl u = Some v" for u v using keyed_lookup [OF assms(1) that] .
  ultimately show ?thesis by (auto simp: image_iff)
qed

lemma Serialize_clear:
  "\<exists>b. Serialize lib (P_PlayerListItemPacketCB p) = Ret (b, None)"
  by (simp add: methods_defs PlayerListItemPacketCB_Serialize_def Let_def)

lemma SendDimensionSwitch_writes:
  assumes "fields_of env (switch_packets join) bs" "reliable (h_DownstreamW h)"
    and "Serialize (e_lib env) (P_PlayerListItemPacketCB (clear_packet env (h_playerList h))) = Ret (cb, None)"
  shows "\<exists>w'. SendDimensionSwitch env join h
      = Ret (None, h\<lparr>h_playerList := Map.empty, h_DownstreamW := w'\<rparr>)
    \<and> wrote (frames_of env (pw_compthres (h_DownstreamW h))
        (P_PlayerListItemPacketCB (clear_packet env (h_playerList h)) # switch_packets join) (cb # bs))
        (h_DownstreamW h) w'"
proof -
  from write_down_wrote [OF assms(3,2), of False] obtain w1 where
    w1: "write_side env ClientBound (P_PlayerListItemPacketCB (clear_packet env (h_playerList h))) False h
        = Ret (None, h\<lparr>h_DownstreamW := w1\<rparr>)"
      "wrote (frame (e_zl env) (pw_compthres (h_DownstreamW h)) (WriteVarInt (PacketID (e_lib env)
        (P_PlayerListItemPacketCB (clear_packet env (h_playerList h)))) @ cb)) (h_DownstreamW h) w1" by blast
  let ?h1 = "h\<lparr>h_DownstreamW := w1\<rparr>\<lparr>h_playerList := Map.empty\<rparr>"
  from write_each_down [OF assms(1), of ?h1] wrote_reliable [OF w1(2)] obtain w2 where
    w2: "write_each env ClientBound (switch_packets join) ?h1 = Ret (None, ?h1\<lparr>h_DownstreamW := w2\<rparr>)"
      "wrote (frames_of env (pw_compthres w1) (switch_packets join) bs) w1 w2" by auto
  have "pw_compthres w1 = pw_compthres (h_DownstreamW h)" using w1(2) by (simp add: wrote_def)
  with wrote_trans [OF w1(2) w2(2)] have
    all: "wrote (frames_of env (pw_compthres (h_DownstreamW h))
        (P_PlayerListItemPacketCB (clear_packet env (h_playerList h)) # switch_packets join) (cb # bs))
        (h_DownstreamW h) w2" by (simp add: frames_of_Cons)
  from finish_write_wrote [OF all, of True] obtain w3 where
    w3: "Flush w2 = (None, w3)" "wrote (frames_of env (pw_compthres (h_DownstreamW h))
        (P_PlayerListItemPacketCB (clear_packet env (h_playerList h)) # switch_packets join) (cb # bs))
        (h_DownstreamW h) w3" by (auto simp: finish_write_def)
  have "SendDimensionSwitch env join h = Ret (None, ?h1\<lparr>h_DownstreamW := w2\<rparr>\<lparr>h_DownstreamW := w3\<rparr>)"
    using w1(1) w2(1) w3(1)
    by (simp add: SendDimensionSwitch_def clear_packet_def flush_side_def)
  moreover have "?h1\<lparr>h_DownstreamW := w2\<rparr>\<lparr>h_DownstreamW := w3\<rparr>
      = h\<lparr>h_playerList := Map.empty, h_DownstreamW := w3\<rparr>" by simp
  ultimately show ?thesis using w3(2) by metis
qed

section \<open>Properties\<close>

text \<open>C3: the proxy is transparent for packets no filter wants.  Take any run of the main loop, with any
  interleaving of the two sides, in which no command was taken and no packet was parsed.  Then what
  was written to the server is the packets taken from the client, as many as there were rounds for
  that side, in order, none lost, added or changed; likewise in the other direction; and a reader
  at the other end (same threshold) gets exactly those packets from those bytes.\<close>

theorem proxy_transparent:
  assumes "pool_gives (e_pool env)" "main_loop env evs h h'" "TakeCommand \<notin> set evs"
    and "h_downstream_packets h = read_packets env ServerBound rc" "all_raw (fst (read_packets env ServerBound rc))"
    and "h_UpstreamPackets h = read_packets env ClientBound rs" "all_raw (fst (read_packets env ClientBound rs))"
    and "h_UpstreamW h = Some w" "reliable w" "reliable (h_DownstreamW h)"
  shows "\<exists>up down w'.
    fst (read_packets env ServerBound rc) = map P_RawPacket up @ fst (h_downstream_packets h')
    \<and> fst (read_packets env ClientBound rs) = map P_RawPacket down @ fst (h_UpstreamPackets h')
    \<and> length up = length (filter ((=) FromClient) evs) \<and> length down = length (filter ((=) FromServer) evs)
    \<and> h_UpstreamW h' = Some w' \<and> wrote (concat (map raw_frame up)) w w'
    \<and> wrote (concat (map raw_frame down)) (h_DownstreamW h) (h_DownstreamW h')
    \<and> reads_again env ServerBound (pr_compthres rc) up \<and> reads_again env ClientBound (pr_compthres rs) down"
proof -
  have raw: "all_raw (fst (h_downstream_packets h))" "all_raw (fst (h_UpstreamPackets h))"
    using assms(4-7) by simp_all
  from main_loop_forwards [OF assms(2,3) raw assms(8-10)] obtain u d where
    f: "forwarded u d h h'" and n: "length u = length (filter ((=) FromClient) evs)"
      "length d = length (filter ((=) FromServer) evs)" by blast
  have "all_raw u" "all_raw d" using f raw by (auto simp: forwarded_def all_raw_def)
  then obtain up down where m: "u = map P_RawPacket up" "d = map P_RawPacket down"
    using all_raw_map by meson
  from f [unfolded forwarded_def m frames_of_raws] assms(4,6,8) obtain w' where c:
    "fst (read_packets env ServerBound rc) = map P_RawPacket up @ fst (h_downstream_packets h')"
    "fst (read_packets env ClientBound rs) = map P_RawPacket down @ fst (h_UpstreamPackets h')"
    "h_UpstreamW h' = Some w'" "wrote (concat (map raw_frame up)) w w'"
    "wrote (concat (map raw_frame down)) (h_DownstreamW h) (h_DownstreamW h')"
    by auto
  have "length up = length (filter ((=) FromClient) evs)" "length down = length (filter ((=) FromServer) evs)"
    using n m by simp_all
  with c consumed_reads_again [OF assms(1) c(1)] consumed_reads_again [OF assms(1) c(2)] show ?thesis by blast
qed

theorem proxy_transparent_witness:
  "\<exists>h' w' raw. main_loop sample_env [FromClient] sample_playing h' \<and> h_UpstreamW h' = Some w'
    \<and> od_written (pw_out w') = raw_frame raw
    \<and> fst (read_packets sample_env ServerBound sample_rc) = P_RawPacket raw # fst (h_downstream_packets h')"
proof -
  have raws: "all_raw (fst (read_packets sample_env d r))" for d r
    using unfiltered_raw sample_unfiltered by blast
  have env: "e_lib sample_env = unit_nbt" "e_zl sample_env = stored_zlib" "e_pool sample_env = fresh_pool"
    by (simp_all add: sample_env_def)
  have "sample_frame 512 hello = frame stored_zlib 512 (WriteVarInt (PacketID unit_nbt hello)
      @ WriteMinecraftString ''c'' @ [1, 2])"
    using hello_sends by (simp add: sends_def sample_frame_def)
  moreover have "threshold_ok 512" by (simp add: threshold_ok_def)
  ultimately obtain raw0 r1 where rp: "ReadPacket stored_zlib fresh_pool sample_rc = Ret ((raw0, None), r1)"
    using sends_read [OF hello_sends concrete_ok(1,2), of sample_rc "[]"]
    by (auto simp: sample_rc_def NewPacketReader_def)
  have "ft_ok (e_filters sample_env)" using no_filters_ok by (simp add: sample_env_def)
  from Get_table [OF this, of "bucket ServerBound (raw_ID raw0)"] ReadPacket_ok [OF rp concrete_ok(2)]
  obtain b where b: "Get (ft_packetsParsed (e_filters sample_env)) (bucket ServerBound (raw_ID raw0)) = Ret b"
    by (auto simp: id_ok_def MaxPacketID_def bucket_dir)
  with sample_unfiltered have "b = False" by (cases b) metis+
  with b rp have "read_round sample_env ServerBound sample_rc = Deliver (P_RawPacket raw0) r1"
    by (simp add: read_round_def env)
  then have "\<exists>ps en. read_packets sample_env ServerBound sample_rc = (P_RawPacket raw0 # ps, en)"
    by (subst read_packets.simps) (simp split: prod.split)
  then obtain ps en where q: "read_packets sample_env ServerBound sample_rc = (P_RawPacket raw0 # ps, en)"
    by blast
  have play: "h_UpstreamW sample_playing = Some (NewPacketWriter open_dev True 512)"
    "reliable (NewPacketWriter open_dev True 512)" "reliable (h_DownstreamW sample_playing)"
    "h_downstream_packets sample_playing = read_packets sample_env ServerBound sample_rc"
    "h_UpstreamPackets sample_playing = read_packets sample_env ClientBound (NewPacketReader [] EOF 512)"
    by (simp_all add: sample_playing_def NewHandler_def NewPacketWriter_def reliable_def open_dev_def)
  from WritePacket_raw [OF play(2), of unit_nbt stored_zlib raw0 True] play(1) q
  obtain h' where "main_step sample_env FromClient sample_playing = Some (Ret (None, h'))"
    by (auto simp: main_step_def play(4) handlePacket_raw write_side_def env)
  with main_loop.round [OF main_loop.start this] have run: "main_loop sample_env [FromClient] sample_playing h'"
    by simp
  have "TakeCommand \<notin> set [FromClient]" by simp
  from proxy_transparent [OF _ run this play(4) raws play(5) raws play(1-3)] concrete_ok(2)
  obtain up w' where up: "fst (read_packets sample_env ServerBound sample_rc)
      = map P_RawPacket up @ fst (h_downstream_packets h')" "length up = 1" "h_UpstreamW h' = Some w'"
    "wrote (concat (map raw_frame up)) (NewPacketWriter open_dev True 512) w'"
    unfolding env by auto
  from up(2) obtain raw where "up = [raw]" by (auto simp: length_Suc_conv)
  with up run show ?thesis
    by (intro exI [of _ h'] exI [of _ w'] exI [of _ raw])
      (simp add: wrote_def NewPacketWriter_def open_dev_def)
qed




text \<open>A table with one filter, which drops the chat messages of clients.\<close>

definition drop_chat :: "unit PacketFilter" where
  "drop_chat h p = Ret (Some ErrDropPacket, h, p)"



text \<open>Injected packets.  When the injected packets can be serialised and the connection works, all
  of them are written in order and flushed, and the command returns the error it was given to raise;
  when a write fails, the packets after it are not written and the command returns the error of that
  write (although the code drops the result of each write), because the writer's error is final.\<close>

theorem injection_reports:
  assumes "d = ServerBound \<or> d = ClientBound" "side_err d h = None" "d = ServerBound \<longrightarrow> h_UpstreamW h \<noteq> None"
  shows "Execute env (InjectPacketCommand d (Some ps) raise) h
    = (case write_each env d ps h of
         Panic m \<Rightarrow> Panic m
       | Ret (Some e, h') \<Rightarrow> Ret (Some e, h')
       | Ret (None, h') \<Rightarrow>
           (case flush_side d h' of
              Panic m \<Rightarrow> Panic m
            | Ret (Some e, h2) \<Rightarrow> Ret (Some e, h2)
            | Ret (None, h2) \<Rightarrow> Ret (raise, h2)))"
proof (cases "write_each env d ps h")
  case (Panic m)
  with inject_each_write_each(1) [OF assms(1,2), of env ps] assms(1) show ?thesis
    by (auto simp: Execute_def inject_def)
next
  case (Ret x)
  obtain err h' where x: "write_each env d ps h = Ret (err, h')" using Ret by (cases x) auto
  from inject_each_write_each(2) [OF assms(1,2) x] have err: "side_err d h' = err" .
  from inject_each_write_each(1) [OF assms(1,2), of env ps] x have each: "inject_each env d ps h = Ret h'"
    by simp
  show ?thesis
  proof (cases err)
    case None
    then show ?thesis
      using each x assms(1)
      by (cases "flush_side d h'") (auto simp: Execute_def inject_def split: option.split prod.split)
  next
    case (Some e)
    with flush_side_failed [of d h' e] err have "flush_side d h' = Ret (Some e, h')" by simp
    then show ?thesis using each x assms(1) Some by (auto simp: Execute_def inject_def)
  qed
qed

definition sample_join :: "unit JoinGamePacketCB" where
  "sample_join = (new_JoinGamePacketCB ())\<lparr>jg_DimensionId := ''minecraft:overworld''\<rparr>"

lemma fields_of_ok:
  assumes "\<forall>p\<in>set ps. packet_ok nbt_ok p \<and> packet_type p \<noteq> 23" "nbt_roundtrips (e_lib env) nbt_ok"
  shows "\<exists>bs. fields_of env ps bs"
  using assms(1)
proof (induction ps)
  case Nil
  have "fields_of env [] []" by (simp add: fields_of_def)
  then show ?case by blast
next
  case (Cons p ps)
  then obtain bs where "fields_of env ps bs" by auto
  moreover obtain b where "Serialize (e_lib env) p = Ret (b, None)"
    using packet_ok_Serialize [OF _ assms(2) receives_same_type] Cons.prems by fastforce
  ultimately have "fields_of env (p # ps) (b # bs)" by (simp add: fields_of_def)
  then show ?case by blast
qed


theorem injection_reports_witness:
  "\<exists>h'. Execute sample_env (InjectPacketCommand ClientBound (Some [hello]) (Some EOF)) sample_playing
    = Ret (Some EOF, h')"
proof -
  have h: "reliable (h_DownstreamW sample_playing)" "side_err ClientBound sample_playing = None"
    by (simp_all add: sample_playing_def NewHandler_def NewPacketWriter_def reliable_def open_dev_def)
  have "fields_of sample_env [hello] [WriteMinecraftString ''c'' @ [1, 2]]"
    using hello_sends by (simp add: fields_of_def sends_def sample_env_def)
  from write_each_down [OF this h(1)] obtain w' where
    w: "write_each sample_env ClientBound [hello] sample_playing = Ret (None, sample_playing\<lparr>h_DownstreamW := w'\<rparr>)"
      "reliable w'" by (auto simp: wrote_def)
  have "\<exists>h2. flush_side ClientBound (sample_playing\<lparr>h_DownstreamW := w'\<rparr>) = Ret (None, h2)"
    using w(2) by (simp add: flush_side_def Flush_def reliable_def dev_Flush_def)
  then obtain h2 where "flush_side ClientBound (sample_playing\<lparr>h_DownstreamW := w'\<rparr>) = Ret (None, h2)" ..
  with injection_reports [OF _ h(2), of sample_env "[hello]" "Some EOF"] w(1) show ?thesis by simp
qed

end
