(* ===== verification/Delivery.thy ===== *)
theory Delivery
  imports World ProxyLaws
begin

text \<open>
  From a command channel to the client: what other players' filters put into the queue of a handler is
  written by the turns of its main loop that take it.
\<close>

lemma main_loop_Cons:
  "main_loop env evs h1 h2 \<Longrightarrow> main_step env ev h = Some (Ret (None, h1)) \<Longrightarrow> main_loop env (ev # evs) h h2"
proof (induction rule: main_loop.induct)
  case (start h1)
  from main_loop.round [OF main_loop.start start] show ?case by simp
next
  case (round evs h1 h3 ev' h2)
  then have "main_loop env (ev # evs) h h3" by blast
  from main_loop.round [OF this round.hyps(2)] show ?case by simp
qed

text \<open>A command with one packet writes and flushes it, and then raises what it was told to raise.\<close>

lemma execute_send:
  assumes "Serialize (e_lib px) p = Ret (b, None)" "reliable (h_DownstreamW h)"
  shows "\<exists>w. Execute px (send_command ClientBound raise [p]) h = Ret (raise, h\<lparr>h_DownstreamW := w\<rparr>)
    \<and> wrote (frame (e_zl px) (pw_compthres (h_DownstreamW h)) (WriteVarInt (PacketID (e_lib px) p) @ b))
        (h_DownstreamW h) w"
proof -
  from write_down_wrote [OF assms, of False] obtain w1 where
    w1: "write_side px ClientBound p False h = Ret (None, h\<lparr>h_DownstreamW := w1\<rparr>)"
      "wrote (frame (e_zl px) (pw_compthres (h_DownstreamW h)) (WriteVarInt (PacketID (e_lib px) p) @ b))
        (h_DownstreamW h) w1" by blast
  from finish_write_wrote [OF w1(2), of True] obtain w2 where
    w2: "Flush w1 = (None, w2)"
      "wrote (frame (e_zl px) (pw_compthres (h_DownstreamW h)) (WriteVarInt (PacketID (e_lib px) p) @ b))
        (h_DownstreamW h) w2" by (auto simp: finish_write_def)
  have "Execute px (send_command ClientBound raise [p]) h = Ret (raise, h\<lparr>h_DownstreamW := w2\<rparr>)"
    using w1(1) w2(1) by (simp add: Execute_def send_command_def inject_def flush_side_def)
  with w2(2) show ?thesis by blast
qed

text \<open>A queue of such commands that raise nothing: as many turns write the packets in order.\<close>

lemma queue_written:
  assumes "fields_of px ps bs" "reliable (h_DownstreamW h)"
    and "h_commandChan h = map (\<lambda>p. send_command ClientBound None [p]) ps @ rest"
  shows "\<exists>w. main_loop px (replicate (length ps) TakeCommand) h (h\<lparr>h_commandChan := rest, h_DownstreamW := w\<rparr>)
    \<and> wrote (frames_of px (pw_compthres (h_DownstreamW h)) ps bs) (h_DownstreamW h) w"
  using assms
proof (induction ps arbitrary: bs h)
  case Nil
  then have "h\<lparr>h_commandChan := rest, h_DownstreamW := h_DownstreamW h\<rparr> = h" by simp
  moreover have "wrote (frames_of px (pw_compthres (h_DownstreamW h)) [] bs) (h_DownstreamW h) (h_DownstreamW h)"
    using Nil.prems(2) by (simp add: frames_of_def wire_def wrote_def)
  ultimately show ?case by (metis list.size(3) main_loop.start replicate_0)
next
  case (Cons p ps)
  then obtain b bs' where b: "bs = b # bs'" "Serialize (e_lib px) p = Ret (b, None)" "fields_of px ps bs'"
    by (auto simp: fields_of_def list_all2_Cons1)
  let ?h = "h\<lparr>h_commandChan := map (\<lambda>p. send_command ClientBound None [p]) ps @ rest\<rparr>"
  have "reliable (h_DownstreamW ?h)" using Cons.prems(2) by simp
  from execute_send [OF b(2) this, of None] obtain w1 where
    w1: "Execute px (send_command ClientBound None [p]) ?h = Ret (None, ?h\<lparr>h_DownstreamW := w1\<rparr>)"
      "wrote (frame (e_zl px) (pw_compthres (h_DownstreamW h)) (WriteVarInt (PacketID (e_lib px) p) @ b))
        (h_DownstreamW h) w1" by auto
  have step: "main_step px TakeCommand h = Some (Ret (None, ?h\<lparr>h_DownstreamW := w1\<rparr>))"
    using Cons.prems(3) w1(1) by (simp add: main_step_def)
  from Cons.IH [OF b(3), of "?h\<lparr>h_DownstreamW := w1\<rparr>"] wrote_reliable [OF w1(2)] obtain w2 where
    w2: "main_loop px (replicate (length ps) TakeCommand) (?h\<lparr>h_DownstreamW := w1\<rparr>)
        (h\<lparr>h_commandChan := rest, h_DownstreamW := w2\<rparr>)"
      "wrote (frames_of px (pw_compthres w1) ps bs') w1 w2" by auto
  have "pw_compthres w1 = pw_compthres (h_DownstreamW h)" using w1(2) by (simp add: wrote_def)
  with wrote_trans [OF w1(2) w2(2)] main_loop_Cons [OF w2(1) step] show ?case
    by (auto simp: b(1) frames_of_Cons)
qed

text \<open>The fields of a chat message.\<close>

lemma chat_packet_fields:
  "Serialize lib (chat_packet t pos) = Ret (WriteMinecraftString (Para2Json t) @ pos # nil_UUID, None)"
  "PacketID lib (chat_packet t pos) = 0x0E"
  by (simp_all add: chat_packet_def methods_defs struct_Serialize_def ChatMessagePacketCB_reflect_def
      WriteUnsignedByte_def)

lemma frames_of_append:
  "length ps = length bs \<Longrightarrow> frames_of env t (ps @ qs) (bs @ cs) = frames_of env t ps bs @ frames_of env t qs cs"
  by (simp add: frames_of_def wire_def)

end
