(* ===== verification/BanLaws.thy ===== *)
theory BanLaws
  imports CloudyBans Delivery
begin

text \<open>
  What the moderation commands guarantee: the cache of abuses never contradicts the database, so mutes
  and pardons take effect at once; durations; who may change what; a kick ends the connection.
\<close>

section \<open>The laws of the database\<close>

text \<open>
  What the code relies on.  Names that differ only in case get the same answer (the collation of the
  tables), a statement that fails changes no answer, and writing an abuse changes at most the answers
  about its kind and its player, by name or by UUID.  An update is of a row that was just read, with only
  the pardon filled in.
\<close>

definition abuse_keys :: "'db ban_env \<Rightarrow> Abuse \<Rightarrow> string set" where
  "abuse_keys env b = {cache_key env (ab_Kind b) (ab_Player b), cache_key env (ab_Kind b) (bn_uuid_text env (ab_UUID b))}"

definition unaffected :: "'db ban_env \<Rightarrow> Abuse \<Rightarrow> 'db \<Rightarrow> 'db \<Rightarrow> gerr option \<Rightarrow> bool" where
  "unaffected env b db db' err \<longleftrightarrow>
     (\<forall>kind name. err \<noteq> None \<or> kind \<noteq> ab_Kind b \<or> cache_key env kind name \<notin> abuse_keys env b \<longrightarrow>
        db_list_abuses (bn_db env) db' kind name = db_list_abuses (bn_db env) db kind name)"

definition abuse_laws :: "'db ban_env \<Rightarrow> bool" where
  "abuse_laws env \<longleftrightarrow>
     (\<forall>db kind name name'. cache_key env kind name = cache_key env kind name' \<longrightarrow>
        db_list_abuses (bn_db env) db kind name = db_list_abuses (bn_db env) db kind name') \<and>
     (\<forall>b db err n db'. db_insert_abuse (bn_db env) b db = (err, n, db') \<longrightarrow> unaffected env b db db' err) \<and>
     (\<forall>n b0 b db err db'. db_get_abuse (bn_db env) db n = (Some b0, None) \<longrightarrow>
        b = b0\<lparr>ab_Pardon_moderator := ab_Pardon_moderator b, ab_Pardon_comment := ab_Pardon_comment b,
               ab_Pardon_ts := ab_Pardon_ts b\<rparr> \<longrightarrow>
        db_update_abuse (bn_db env) b db = (err, db') \<longrightarrow> unaffected env b db db' err)"

lemma unaffectedD:
  "unaffected env b db db' err \<Longrightarrow>
   err \<noteq> None \<or> kind \<noteq> ab_Kind b \<or> cache_key env kind name \<notin> abuse_keys env b \<Longrightarrow>
   db_list_abuses (bn_db env) db' kind name = db_list_abuses (bn_db env) db kind name"
  unfolding unaffected_def by blast

lemma abuse_lawsD:
  assumes "abuse_laws env"
  shows "cache_key env kind name = cache_key env kind name' \<Longrightarrow>
      db_list_abuses (bn_db env) db kind name = db_list_abuses (bn_db env) db kind name'"
    and "db_insert_abuse (bn_db env) b db = (err, n, db') \<Longrightarrow> unaffected env b db db' err"
    and "db_get_abuse (bn_db env) db i = (Some b0, None) \<Longrightarrow>
      b = b0\<lparr>ab_Pardon_moderator := ab_Pardon_moderator b, ab_Pardon_comment := ab_Pardon_comment b,
             ab_Pardon_ts := ab_Pardon_ts b\<rparr> \<Longrightarrow>
      db_update_abuse (bn_db env) b db = (err, db') \<Longrightarrow> unaffected env b db db' err"
  using assms unfolding abuse_laws_def by blast+

lemma cache_key_time [simp]: "cache_key (env\<lparr>bn_now := t\<rparr>) = cache_key env"
  by (simp add: cache_key_def fun_eq_iff)

lemma abuse_laws_time [simp]: "abuse_laws (env\<lparr>bn_now := t\<rparr>) = abuse_laws env"
  by (simp add: abuse_laws_def unaffected_def abuse_keys_def)

section \<open>Coherence of the cache\<close>

definition cached_kinds :: "string set" where
  "cached_kinds = {''ban'', ''mute''}"

definition latest :: "Abuse list \<Rightarrow> Abuse option" where
  "latest l = (case l of [] \<Rightarrow> None | a # _ \<Rightarrow> Some a)"

text \<open>An entry is right when it is what the database answers to every question with its key.\<close>

definition abuse_src :: "'db ban_env \<Rightarrow> 'db \<Rightarrow> string \<Rightarrow> Abuse option \<Rightarrow> bool" where
  "abuse_src env db key v \<longleftrightarrow>
     (\<forall>kind \<in> cached_kinds. \<forall>name l. cache_key env kind name = key \<longrightarrow>
        db_list_abuses (bn_db env) db kind name = Inr l \<longrightarrow> v = latest l)"

definition coherent :: "'db ban_env \<Rightarrow> ('i, 'n, 'db) bans \<Rightarrow> bool" where
  "coherent env s \<longleftrightarrow> expiring.agrees (abuse_src env (bs_db s)) (bs_cache s)"

lemma abuse_src_time [simp]: "abuse_src (env\<lparr>bn_now := t\<rparr>) = abuse_src env"
  by (simp add: abuse_src_def fun_eq_iff)

lemma coherent_time [simp]: "coherent (env\<lparr>bn_now := t\<rparr>) = coherent env"
  by (simp add: coherent_def fun_eq_iff)

lemma abuse_src_cong:
  assumes "\<And>kind name. kind \<in> cached_kinds \<Longrightarrow> cache_key env kind name = key \<Longrightarrow>
    db_list_abuses (bn_db env) db' kind name = db_list_abuses (bn_db env) db kind name"
  shows "abuse_src env db' key v = abuse_src env db key v"
  unfolding abuse_src_def using assms by metis

lemma coherent_world [simp]: "coherent env (s\<lparr>bs_world := w\<rparr>) = coherent env s"
  "coherent env (on_world f s) = coherent env s"
  by (simp_all add: coherent_def on_world_def)

text \<open>The keys of bans and of mutes are never the same.\<close>

lemma hd_ToLower:
  assumes "code c < 128" "\<not> (65 \<le> code c \<and> code c \<le> 90)"
  shows "\<exists>t. ToLower tbl (c # s) = c # t"
proof -
  have c: "encode_rune (code c) = [c]" "rune_ToLower tbl (code c) = code c"
    using assms by (simp_all add: encode_rune_def rune_ToLower_def valid_rune_def)
  have "chr (rune_ToLower tbl (code c)) = c" by (simp only: c(2) chr_code)
  with c show ?thesis by (simp add: ToLower_def runes_of_ascii_Cons assms(1))
qed

lemma cache_key_kind:
  assumes "cache_key env kind name = cache_key env kind' name'" "kind \<in> cached_kinds" "kind' \<in> cached_kinds"
  shows "kind' = kind"
proof -
  have ban: "hd (cache_key env ''ban'' n) = CHR ''b''" for n
    using hd_ToLower [of "CHR ''b''" "bn_tbl env" "''an'' @ '':'' @ n"] by (auto simp: cache_key_def code_def)
  have mute: "hd (cache_key env ''mute'' n) = CHR ''m''" for n
    using hd_ToLower [of "CHR ''m''" "bn_tbl env" "''ute'' @ '':'' @ n"] by (auto simp: cache_key_def code_def)
  have hds: "hd (cache_key env kind name) = hd (cache_key env kind' name')" using assms(1) by (rule arg_cong)
  from assms(2,3) consider "kind' = kind" | "kind = ''ban''" "kind' = ''mute''" | "kind = ''mute''" "kind' = ''ban''"
    unfolding cached_kinds_def by blast
  then show ?thesis by cases (use hds in \<open>simp_all add: ban mute\<close>)
qed

lemma abuse_src_answer:
  assumes "abuse_laws env" "kind \<in> cached_kinds" "db_list_abuses (bn_db env) db kind name = Inr l"
  shows "abuse_src env db (cache_key env kind name) (latest l)"
  unfolding abuse_src_def
proof (intro ballI allI impI)
  fix kind' name' l'
  assume k: "kind' \<in> cached_kinds" "cache_key env kind' name' = cache_key env kind name"
    and l': "db_list_abuses (bn_db env) db kind' name' = Inr l'"
  have "kind' = kind" by (rule cache_key_kind [OF k(2) [symmetric] assms(2) k(1)])
  with k(2) abuse_lawsD(1) [OF assms(1), of kind name' name db] assms(3) l' show "latest l = latest l'" by simp
qed

text \<open>A lookup keeps the cache coherent and answers what the database would.\<close>

lemma GetAbuse_coherent:
  assumes laws: "abuse_laws env" and kind: "kind \<in> cached_kinds" and coh: "coherent env s"
  shows "\<exists>v err c. GetAbuse env kind name use_cache s = Ret ((v, err), s\<lparr>bs_cache := c\<rparr>) \<and>
    coherent env (s\<lparr>bs_cache := c\<rparr>) \<and>
    (\<forall>l. db_list_abuses (bn_db env) (bs_db s) kind name = Inr l \<longrightarrow> v = latest l)"
proof -
  let ?key = "cache_key env kind name" and ?src = "abuse_src env (bs_db s)"
  define hit where "hit = (if use_cache then ExpiringCache_Get ?key (bn_now env 0) (bs_cache s) else (None, bs_cache s))"
  obtain v0 c0 where hit_eq: "hit = (v0, c0)" by (cases hit)
  have c0: "expiring.agrees ?src c0"
    using coh expiring.agrees_look [of ?src "bs_cache s" ?key "bn_now env 0"] hit_eq
    by (auto simp: coherent_def hit_def split: if_splits)
  show ?thesis
  proof (cases v0)
    case (Some v)
    then have "expiring.agrees ?src (bs_cache s)" "ExpiringCache_Get ?key (bn_now env 0) (bs_cache s) = (Some v, c0)"
      using coh hit_eq by (auto simp: coherent_def hit_def split: if_splits)
    then have "?src ?key v" by (rule expiring.look_agrees)
    with kind have "\<forall>l. db_list_abuses (bn_db env) (bs_db s) kind name = Inr l \<longrightarrow> v = latest l"
      by (auto simp: abuse_src_def)
    with Some c0 show ?thesis
      by (intro exI [of _ v] exI [of _ None] exI [of _ c0])
         (simp add: GetAbuse_def Let_def hit_def [symmetric] hit_eq coherent_def)
  next
    case None
    note miss = hit_eq [unfolded None]
    show ?thesis
    proof (cases "db_list_abuses (bn_db env) (bs_db s) kind name")
      case (Inl e)
      with c0 show ?thesis
        by (intro exI [of _ None] exI [of _ "Some e"] exI [of _ c0])
           (simp add: GetAbuse_def Let_def hit_def [symmetric] miss coherent_def)
    next
      case (Inr l)
      define ttl where "ttl = (case latest l of None \<Rightarrow> bn_now env 1 + 300 * 1000000000
        | Some a \<Rightarrow> if ab_Expires a < bn_now env 1 + 300 * 1000000000 then ab_Expires a
                    else bn_now env 1 + 300 * 1000000000)"
      obtain c1 where c1: "SetTime no_type ?key (latest l) ttl (bn_now env 2) c0 = Ret c1"
        by (cases "SetTime no_type ?key (latest l) ttl (bn_now env 2) c0") (auto simp: SetTime_def Let_def split: if_splits)
      have "expiring.agrees ?src c1"
        using c0 abuse_src_answer [OF laws kind Inr] c1 by (rule expiring.agrees_put)
      moreover have "GetAbuse env kind name use_cache s = Ret ((latest l, None), s\<lparr>bs_cache := c1\<rparr>)"
        unfolding GetAbuse_def Let_def hit_def [symmetric] miss fst_conv snd_conv option.case
        by (simp add: Inr latest_def [symmetric] c1 [unfolded ttl_def, simplified])
      ultimately show ?thesis using Inr by (auto simp: coherent_def)
    qed
  qed
qed

text \<open>Writing an abuse and dropping its two keys keeps the cache coherent.\<close>

lemma coherent_failed:
  assumes "coherent env s" "unaffected env b (bs_db s) db' (Some e)"
  shows "coherent env (s\<lparr>bs_db := db'\<rparr>)"
proof -
  have "abuse_src env db' = abuse_src env (bs_db s)"
    by (intro ext abuse_src_cong) (simp add: unaffectedD [OF assms(2)])
  with assms(1) show ?thesis by (simp add: coherent_def)
qed

lemma coherent_other_kind:
  assumes "coherent env s" "unaffected env b (bs_db s) db' err" "ab_Kind b \<notin> cached_kinds"
  shows "coherent env (s\<lparr>bs_db := db'\<rparr>)"
proof -
  have "abuse_src env db' = abuse_src env (bs_db s)"
    by (intro ext abuse_src_cong unaffectedD [OF assms(2)]) (use assms(3) in auto)
  with assms(1) show ?thesis by (simp add: coherent_def)
qed

lemma coherent_invalidated:
  assumes coh: "coherent env s" and un: "unaffected env b (bs_db s) db' err"
    and keys: "ab_Kind b' = ab_Kind b" "ab_Player b' = ab_Player b" "ab_UUID b' = ab_UUID b"
  shows "coherent env (invalidateCaches env b' (s\<lparr>bs_db := db'\<rparr>))"
proof -
  define k1 k2 where "k1 = cache_key env (ab_Kind b) (ab_Player b)"
    and "k2 = cache_key env (ab_Kind b) (bn_uuid_text env (ab_UUID b))"
  have other: "abuse_src env db' k v" if "abuse_src env (bs_db s) k v" "k \<noteq> k1" "k \<noteq> k2" for k v
  proof -
    have "abuse_src env db' k v = abuse_src env (bs_db s) k v"
      by (intro abuse_src_cong unaffectedD [OF un]) (use that in \<open>auto simp: abuse_keys_def k1_def k2_def\<close>)
    with that show ?thesis by simp
  qed
  have "expiring.agrees (\<lambda>k v. k \<noteq> k2 \<longrightarrow> abuse_src env db' k v) (Invalidate k1 (bs_cache s))"
    using coh unfolding coherent_def by (rule expiring.agrees_forget) (simp add: other)
  then have "expiring.agrees (abuse_src env db') (Invalidate k2 (Invalidate k1 (bs_cache s)))"
    by (rule expiring.agrees_forget) simp
  then show ?thesis by (simp add: coherent_def invalidateCaches_def keys k1_def k2_def)
qed

section \<open>Every command keeps it\<close>

lemma insert_coherent:
  assumes "abuse_laws env" "coherent env s" "db_insert_abuse (bn_db env) b (bs_db s) = (None, n, db)"
  shows "coherent env (invalidateCaches env (b\<lparr>ab_Id := n\<rparr>) (s\<lparr>bs_db := db\<rparr>))"
  by (rule coherent_invalidated [OF assms(2) abuse_lawsD(2) [OF assms(1,3)]]) simp_all

lemma insert_failed_coherent:
  assumes "abuse_laws env" "coherent env s" "db_insert_abuse (bn_db env) b (bs_db s) = (Some e, n, db)"
  shows "coherent env (s\<lparr>bs_db := db\<rparr>)"
  by (rule coherent_failed [OF assms(2) abuse_lawsD(2) [OF assms(1,3)]])

lemma announce_ban_coherent [simp]: "coherent env (announce_ban env b s) = coherent env s"
  by (simp add: announce_ban_def)

lemmas coherent_writes = insert_coherent insert_failed_coherent

lemma banCmd_coherent:
  assumes "abuse_laws env" "coherent env s" "banCmd env kind silent sender args s = Ret (t, s')"
  shows "coherent env s'"
proof -
  have ins: "db_insert_abuse (bn_db env) b (bs_db s) = (err, n, db) \<Longrightarrow>
      (case err of None \<Rightarrow> coherent env (invalidateCaches env (b\<lparr>ab_Id := n\<rparr>) (s\<lparr>bs_db := db\<rparr>))
       | Some e \<Rightarrow> coherent env (s\<lparr>bs_db := db\<rparr>))" for b err n db
    using insert_coherent [OF assms(1,2)] insert_failed_coherent [OF assms(1,2)] by (cases err) auto
  from assms(3,2) show ?thesis unfolding banCmd_def Let_def
    by (auto split: if_split_asm sum.split_asm prod.split_asm option.split_asm dest!: ins
        simp: kick_player_def inject_to_def)
qed

lemma bang_loop_coherent:
  "abuse_laws env \<Longrightarrow> coherent env s \<Longrightarrow>
   coherent env (snd (snd (snd (bang_loop env sender comment expires n k us s))))"
proof (induction us arbitrary: k s)
  case (Cons u us)
  have IH: "coherent env s1 \<Longrightarrow>
      bang_loop env sender comment expires n j us s1 = (err, nicks, kicks, s') \<Longrightarrow> coherent env s'"
    for j s1 err nicks kicks s'
    using Cons.IH [OF Cons.prems(1), of s1 j] by simp
  show ?case
    using Cons.prems(2)
    by (auto simp: Let_def insert_coherent [OF Cons.prems] split: sum.split prod.split option.split
        intro: insert_failed_coherent [OF Cons.prems] dest!: IH [rotated])
qed simp

lemma bangCmd_coherent:
  assumes "abuse_laws env" "coherent env s"
  shows "coherent env (snd (snd (bangCmd env sender args s)))"
proof -
  have loop: "bang_loop env sender comment expires n k us s = (err, nicks, kicks, s') \<Longrightarrow> coherent env s'"
    for comment expires n k us err nicks kicks s'
    using bang_loop_coherent [OF assms, of sender comment expires n k us] by simp
  show ?thesis
    using assms(2) by (auto simp: bangCmd_def Let_def split: sum.split prod.split option.split dest!: loop)
qed

lemma unbanCmd_coherent:
  assumes "abuse_laws env" "coherent env s"
  shows "coherent env (snd (unbanCmd env kind sender args s))"
proof -
  have un: "unaffected env (b0\<lparr>ab_Pardon_moderator := m, ab_Pardon_comment := c, ab_Pardon_ts := ts\<rparr>) (bs_db s) db err"
    if "db_get_abuse (bn_db env) (bs_db s) n = (Some b0, None)"
      "db_update_abuse (bn_db env) (b0\<lparr>ab_Pardon_moderator := m, ab_Pardon_comment := c, ab_Pardon_ts := ts\<rparr>) (bs_db s)
        = (err, db)" for n b0 m c ts err db
    by (rule abuse_lawsD(3) [OF assms(1) that(1) _ that(2)]) simp
  show ?thesis
    using assms(2)
    by (auto simp: unbanCmd_def Let_def split: prod.split option.split dest!: un
        intro: coherent_failed [OF assms(2)] coherent_invalidated [OF assms(2)])
qed

lemma kickCmd_coherent:
  assumes "abuse_laws env" "coherent env s"
  shows "coherent env (snd (kickCmd env sender silent args s))"
proof -
  have kick: "db_insert_abuse (bn_db env) b (bs_db s) = (err, n, db) \<Longrightarrow> ab_Kind b = ''kick'' \<Longrightarrow>
      coherent env (s\<lparr>bs_db := db\<rparr>)" for b err n db
    by (rule coherent_other_kind [OF assms(2) abuse_lawsD(2) [OF assms(1)]]) (auto simp: cached_kinds_def)
  show ?thesis
    using assms(2) by (auto simp: kickCmd_def Let_def split: prod.split option.split dest!: kick)
qed

text \<open>Tracking and questions write nothing.\<close>



lemma trackCmd_coherent: "coherent env s \<Longrightarrow> coherent env (snd (trackCmd env sender args s))"
  "coherent env s \<Longrightarrow> coherent env (snd (trackipCmd env sender args s))"
  by (auto simp: trackCmd_def trackipCmd_def Let_def split: list.split sum.split prod.split)

lemma CommandsFilter_coherent:
  assumes laws: "abuse_laws env" and coh: "coherent env s"
    and run: "CommandsFilter env i msg s = Ret (err, kicks, s')"
  shows "coherent env s'"
proof -
  have com: "coherent env s1" if "ban_command env sender words s = Some (Ret (resp, ks, s1))" for sender words resp ks s1
    using that banCmd_coherent [OF laws coh] unbanCmd_coherent [OF laws coh] bangCmd_coherent [OF laws coh]
      kickCmd_coherent [OF laws coh] trackCmd_coherent [OF coh] coh
    by (auto simp: ban_command_def Let_def split: if_split_asm prod.split_asm) (metis snd_conv)+
  have "coherent env s1" if "HandleCommand env sender words s = Ret (b, ks, s1)" for sender words b ks s1
    using that coh com [of sender words] by (auto simp: HandleCommand_def split: if_split_asm option.split_asm)
  with run coh show ?thesis
    by (auto simp: CommandsFilter_def split: if_split_asm)
qed

section \<open>Mutes\<close>

text \<open>
  The states that the filters of one proxy reach from an empty cache, in any order, at any times, while
  the players come, go and change in any way.  Each command, and each lookup, is one step.
\<close>

inductive bans_reachable :: "'db ban_env \<Rightarrow> ('i, 'n, 'db) bans \<Rightarrow> bool" for env where
  start: "bs_cache s = NewExpiringCache no_type v 50000 \<Longrightarrow> bans_reachable env s"
| command: "bans_reachable env s \<Longrightarrow>
    CommandsFilter (env\<lparr>bn_now := now\<rparr>) i msg s = Ret (err, kicks, s') \<Longrightarrow> bans_reachable env s'"
| chat: "bans_reachable env s \<Longrightarrow>
    MuteFilter (env\<lparr>bn_now := now\<rparr>) i msg s = Ret (err, s') \<Longrightarrow> bans_reachable env s'"
| lookup: "bans_reachable env s \<Longrightarrow> kind \<in> cached_kinds \<Longrightarrow>
    GetAbuse (env\<lparr>bn_now := now\<rparr>) kind name use_cache s = Ret (r, s') \<Longrightarrow> bans_reachable env s'"
| others: "bans_reachable env s \<Longrightarrow> bans_reachable env (s\<lparr>bs_world := w\<rparr>)"

definition mute_text :: "'db ban_env \<Rightarrow> Abuse \<Rightarrow> string" where
  "mute_text env m = COLOR_RED @ ''Nie mozesz pisac na chacie! Zostales wyciszony przez '' @ ab_Moderator m @ '' do ''
     @ bn_time env RFC822 (ab_Expires m) @ '' z powodu '' @ chr 39 # ab_Comment m @ [chr 39]"

lemma MuteFilter_result:
  assumes "abuse_laws env" "coherent env s"
  shows "\<exists>v c. coherent env (s\<lparr>bs_cache := c\<rparr>) \<and>
    (\<forall>l. db_list_abuses (bn_db env) (bs_db s) ''mute'' (nick (bs_world s) i) = Inr l \<longrightarrow> v = latest l) \<and>
    (\<not> HasPrefix (cms_Message msg) ''/'' \<longrightarrow>
      MuteFilter env i msg s = Ret (case v of None \<Rightarrow> (None, s\<lparr>bs_cache := c\<rparr>)
        | Some m \<Rightarrow> (Some ErrDropPacket, s\<lparr>bs_cache := c, bs_world := sent i [says (mute_text env m)] (bs_world s)\<rparr>)))"
proof -
  from GetAbuse_coherent [OF assms(1) _ assms(2), of "''mute''" "nick (bs_world s) i" True]
  obtain v err c where "GetAbuse env ''mute'' (nick (bs_world s) i) True s = Ret ((v, err), s\<lparr>bs_cache := c\<rparr>)"
    "coherent env (s\<lparr>bs_cache := c\<rparr>)"
    "\<forall>l. db_list_abuses (bn_db env) (bs_db s) ''mute'' (nick (bs_world s) i) = Inr l \<longrightarrow> v = latest l"
    by (auto simp: cached_kinds_def)
  then show ?thesis
    by (intro exI [of _ v] exI [of _ c])
       (simp add: MuteFilter_def SendChatMessage_sent on_world_def mute_text_def split: option.split)
qed

lemma MuteFilter_coherent:
  assumes "abuse_laws env" "coherent env s" "MuteFilter env i msg s = Ret (err, s')"
  shows "coherent env s'"
proof (cases "HasPrefix (cms_Message msg) ''/''")
  case True
  with assms(2,3) show ?thesis by (simp add: MuteFilter_def)
next
  case False
  with MuteFilter_result [OF assms(1,2), of i msg] assms(3) show ?thesis
    by (auto split: option.split_asm)
qed

lemma bans_reachable_coherent:
  assumes "bans_reachable env s" "abuse_laws env"
  shows "coherent env s"
  using assms(1)
proof induction
  case (start s v)
  then show ?case by (simp add: coherent_def expiring.agrees_def NewExpiringCache_def fresh_Some)
next
  case (command s now i msg err kicks s')
  with assms(2) CommandsFilter_coherent [of "env\<lparr>bn_now := now\<rparr>" s i msg err kicks s'] show ?case by simp
next
  case (chat s now i msg err s')
  with assms(2) MuteFilter_coherent [of "env\<lparr>bn_now := now\<rparr>" s i msg err s'] show ?case by simp
next
  case (lookup s kind now name use_cache r s')
  with assms(2) GetAbuse_coherent [of "env\<lparr>bn_now := now\<rparr>" kind s name use_cache] show ?case by auto
qed simp


section \<open>Durations\<close>

definition duration_text :: "string \<Rightarrow> string \<Rightarrow> int \<Rightarrow> bool" where
  "duration_text s ds k \<longleftrightarrow> (\<exists>u. s = ds @ [u] \<and> duration_unit u = Some k) \<and> ds \<noteq> [] \<and> list_all is_digit ds"

lemma duration_text_parse:
  assumes "duration_text s ds k"
  shows "parseDuration s = Inr (sint (word_of_int (fst (Atoi ds)) * word_of_int k :: 64 word))" "0 < k"
  using assms by (auto simp: duration_text_def parseDuration_def duration_unit_def split: if_split_asm)

lemma parseDuration_text: "parseDuration s = Inr d \<Longrightarrow> \<exists>ds k. duration_text s ds k"
  by (auto simp: parseDuration_def duration_text_def split: list.split_asm option.split_asm if_split_asm)

lemma Atoi_digits:
  assumes "ds \<noteq> []" "list_all is_digit ds" "digits_value ds < 2 ^ 63"
  shows "Atoi ds = (int (digits_value ds), None)"
proof -
  have "hd ds \<noteq> CHR ''-''" "hd ds \<noteq> CHR ''+''" using assms(1,2) by (cases ds; auto simp: is_digit_def code_def)+
  with assms show ?thesis by (simp add: Atoi_def parse_unsigned_def Let_def)
qed

lemma sint_product:
  assumes "0 \<le> n" "0 < k" "n * k < 2 ^ 63"
  shows "sint (word_of_int n * word_of_int k :: 64 word) = n * k"
proof -
  have "0 \<le> n * k" using assms by simp
  then have "sint (word_of_int (n * k) :: 64 word) = n * k"
    using assms(3) by (subst signed_of_int) (simp add: signed_take_bit_int_eq_self del: of_int_mult zero_le_mult_iff)
  then show ?thesis by (simp only: wi_hom_mult)
qed

text \<open>A text is a duration exactly when it is a number in decimal digits followed by one of the five
  units; its value is then the number times the unit, in nanoseconds, whenever that product is below
  $2^{63}$ (about 292 years).\<close>

theorem duration_exact:
  "case parseDuration s of
     Inl e \<Rightarrow> \<nexists>ds k. duration_text s ds k
   | Inr d \<Rightarrow> \<exists>ds k. duration_text s ds k \<and>
       (int (digits_value ds) * k < 2 ^ 63 \<longrightarrow> d = int (digits_value ds) * k)"
proof (cases "parseDuration s")
  case (Inl e)
  then show ?thesis using duration_text_parse(1) [of s] by fastforce
next
  case (Inr d)
  then obtain ds k where t: "duration_text s ds k" using parseDuration_text by blast
  have "d = int (digits_value ds) * k" if small: "int (digits_value ds) * k < 2 ^ 63"
  proof -
    have k: "0 < k" using duration_text_parse(2) [OF t] .
    then have "int (digits_value ds) \<le> int (digits_value ds) * k" by (simp add: mult_le_cancel_left1)
    with small have "digits_value ds < 2 ^ 63" by simp
    with t have "Atoi ds = (int (digits_value ds), None)" by (intro Atoi_digits) (auto simp: duration_text_def)
    with duration_text_parse(1) [OF t] Inr sint_product [OF _ k small] show ?thesis by simp
  qed
  with Inr t show ?thesis by auto
qed

text \<open>Above the bound the product wraps: 106752 days are a negative duration, and the ban never ends.\<close>

lemma duration_overflow:
  "parseDuration ''106752d'' = Inr (- 9223371273709551616)"
  "expires_after env (- 9223371273709551616) = 0"
proof -
  have "duration_text ''106752d'' ''106752'' 86400000000000"
    by (simp add: duration_text_def duration_unit_def is_digit_def code_def)
  moreover have "Atoi ''106752'' = (106752, None)"
    by (subst Atoi_digits) (simp_all add: is_digit_def code_def digits_value_def)
  ultimately show "parseDuration ''106752d'' = Inr (- 9223371273709551616)"
    by (simp add: duration_text_parse(1))
qed (simp add: expires_after_def)

section \<open>Who may moderate\<close>

definition ban_powers :: "string list" where
  "ban_powers = [''cloudybans.ban'', ''cloudybans.mute'', ''cloudybans.unban'', ''cloudybans.unmute'',
     ''cloudybans.bang'', ''cloudybans.baninfo'', ''cloudybans.kick'', ''cloudybans.track'',
     ''cloudybans.trackip'', ''cloudybans.revdns'']"

lemma powerless_ban_command:
  assumes "\<forall>perm \<in> set ban_powers. \<not> cs_HasPermission sender perm"
  shows "ban_command env sender words s = None \<or> ban_command env sender words s = Some (Ret (INSUFFICIENT_PERMS, [], s))"
proof -
  have no: "\<not> cs_HasPermission sender (''cloudybans.'' @ ''ban'')" "\<not> cs_HasPermission sender (''cloudybans.'' @ ''mute'')"
    "\<not> cs_HasPermission sender (''cloudybans.un'' @ ''ban'')" "\<not> cs_HasPermission sender (''cloudybans.un'' @ ''mute'')"
    "\<not> cs_HasPermission sender ''cloudybans.bang''" "\<not> cs_HasPermission sender ''cloudybans.baninfo''"
    "\<not> cs_HasPermission sender ''cloudybans.kick''" "\<not> cs_HasPermission sender ''cloudybans.track''"
    "\<not> cs_HasPermission sender ''cloudybans.trackip''" "\<not> cs_HasPermission sender ''cloudybans.revdns''"
    using assms by (simp_all add: ban_powers_def)
  show ?thesis
    unfolding ban_command_def Let_def banCmd_def unbanCmd_def bangCmd_def baninfoCmd_def kickCmd_def trackCmd_def
      trackipCmd_def revdnsCmd_def
    by (simp only: no simp_thms if_True go_map.simps prod.case split: if_split)
qed

text \<open>C34: A player without any of the capabilities of the moderation commands changes nothing with a
  message but its own queue, to which one text is added at most: no row is written, the cache stays, nobody
  is kicked, now or later, or told anything.\<close>

theorem moderation_needs_permission:
  assumes "\<forall>perm \<in> set ban_powers. \<not> may (bs_world s) i perm"
    and "CommandsFilter env i msg s = Ret (err, kicks, s')"
  shows "kicks = [] \<and> (\<exists>texts. s' = on_world (sent i (map says texts)) s)"
proof -
  let ?sender = "player_sender i (bs_world s)"
  have "\<forall>perm \<in> set ban_powers. \<not> cs_HasPermission ?sender perm" using assms(1) by (simp add: player_sender_def)
  note pc = powerless_ban_command [OF this, of env _ s]
  have same: "on_world (sent i (map says [])) s = s" by (simp add: on_world_def)
  have told: "on_world (cs_SendChatMessage ?sender t) s = on_world (sent i (map says [t])) s" for t
    by (simp add: player_sender_def SendChatMessage_sent on_world_def)
  have "kicks = [] \<and> (s' = s \<or> s' = on_world (cs_SendChatMessage ?sender INSUFFICIENT_PERMS) s)"
    using assms(2) pc [of "Fields (cms_Message msg)"]
    by (auto simp: CommandsFilter_def HandleCommand_def split: if_split_asm)
  with same told show ?thesis by metis
qed

text \<open>\<^verbatim>\<open>/unban\<close> and \<^verbatim>\<open>/unmute\<close> write at most one row: the one that was asked for
  by its id and whose player was named, not pardoned before, and given by the sender or with the capability
  for the abuses of others; only the pardon is filled in, with the sender's name.\<close>

theorem pardon_authorized:
  assumes "unbanCmd env kind sender args s = (t, s')" "s' \<noteq> s"
  shows "\<exists>n ban comment ts err.
    cs_HasPermission sender (''cloudybans.un'' @ kind) \<and> Atoi (args ! 0) = (n, None) \<and>
    db_get_abuse (bn_db env) (bs_db s) n = (Some ban, None) \<and> EqualFold (bn_fold env) (ab_Player ban) (args ! 1) \<and>
    ab_Pardon_moderator ban = None \<and>
    (EqualFold (bn_fold env) (ab_Moderator ban) (cs_Nickname sender) \<or>
     cs_HasPermission sender (''cloudybans.un'' @ kind @ ''.others'')) \<and>
    db_update_abuse (bn_db env) (ban\<lparr>ab_Pardon_moderator := Some (cs_Nickname sender),
      ab_Pardon_comment := Some comment, ab_Pardon_ts := Some ts\<rparr>) (bs_db s) = (err, bs_db s') \<and>
    bs_world s' = bs_world s"
  using assms unfolding unbanCmd_def Let_def
  by (auto split: if_split_asm prod.split_asm option.split_asm simp: invalidateCaches_def)
     (rule exI, rule exI, rule exI, assumption)+

text \<open>The kind of the row is not looked at: with the capability to lift mutes, \<^verbatim>\<open>/unmute\<close> lifts a ban.\<close>

lemma unmute_lifts_bans:
  assumes "cs_HasPermission sender ''cloudybans.unmute''" "Atoi n = (i, None)"
    and "db_get_abuse (bn_db env) (bs_db s) i = (Some ban, None)" "ab_Kind ban = ''ban''"
    and "EqualFold (bn_fold env) (ab_Player ban) name" "ab_Pardon_moderator ban = None"
    and "EqualFold (bn_fold env) (ab_Moderator ban) (cs_Nickname sender)"
    and "db_update_abuse (bn_db env) (ban\<lparr>ab_Pardon_moderator := Some (cs_Nickname sender),
        ab_Pardon_comment := Some '''', ab_Pardon_ts := Some (bn_now env 5)\<rparr>) (bs_db s) = (None, db)"
  shows "bs_db (snd (unbanCmd env ''mute'' sender [n, name] s)) = db"
proof -
  have "cs_HasPermission sender (''cloudybans.un'' @ ''mute'')" using assms(1) by simp
  then show ?thesis
    unfolding unbanCmd_def Let_def
    using assms by (simp add: invalidateCaches_def del: append_Cons append_Nil)
qed

section \<open>A kick ends the connection\<close>

definition kick_json :: "string \<Rightarrow> string list \<Rightarrow> string" where
  "kick_json moderator args = Para2Json (COLOR_RED @ ''KICKED BY '' @ moderator @ chr 10 # Join (drop 1 args) '' '')"

lemma alike_trans_queue:
  assumes "alike w w'"
  shows "\<exists>more. h_commandChan (wo_handlers w' p) = h_commandChan (wo_handlers w p) @ more"
  using assms unfolding alike_def by (auto simp: queued_def dest!: spec [of _ p])

lemma alike_sent_all: "alike w w' \<Longrightarrow> alike w (sent_all is f w')"
  unfolding sent_all_def by (induction "is" arbitrary: w') (simp_all add: alike_sent)

lemma alike_Broadcast: "alike w (Broadcast keys perm msg w)"
  by (simp add: Broadcast_sent alike_sent_all)

lemma execute_kick:
  assumes "reliable (h_DownstreamW h)"
  shows "\<exists>h'. Execute px (send_command ClientBound (Some EOF) [P_KickPacketCB \<lparr>kk_Message = json\<rparr>]) h = Ret (Some EOF, h')
    \<and> wrote (frame (e_zl px) (pw_compthres (h_DownstreamW h)) (WriteVarInt 25 @ WriteMinecraftString json))
        (h_DownstreamW h) (h_DownstreamW h')"
proof -
  let ?p = "P_KickPacketCB \<lparr>kk_Message = json\<rparr>"
  have ser: "Serialize (e_lib px) ?p = Ret (WriteMinecraftString json, None)" "PacketID (e_lib px) ?p = 25"
    by (simp_all add: methods_defs struct_Serialize_def KickPacketCB_reflect_def)
  from execute_send [OF ser(1) assms, of "Some EOF"] show ?thesis unfolding ser(2) by auto
qed

text \<open>C24: When a player with the capability kicks another one who is online, whose command channel has
  room, and the record is written, the victim's next new command is the kick; and when the victim's main
  loop takes that command, over a connection that works, it writes and flushes exactly the kick packet with
  the reason and the name of the moderator, and ends with EOF, which is how a connection ends normally.\<close>

theorem kick_disconnects:
  fixes s :: "('i, 'n, 'db) bans"
  assumes "cs_HasPermission sender ''cloudybans.kick''" "2 \<le> length args"
    and "GetByNickname (bn_tbl env) (args ! 0) (wo_players (bs_world s)) = Some p"
    and "\<And>b. ab_Kind b = ''kick'' \<Longrightarrow> fst (db_insert_abuse (bn_db env) b (bs_db s)) = None"
    and "length (h_commandChan (wo_handlers (bs_world s) p)) < commandChan_size"
    and "reliable (h_DownstreamW h)"
  shows "\<exists>cmd more h'.
    h_commandChan (wo_handlers (bs_world (snd (kickCmd env sender silent args s))) p)
      = h_commandChan (wo_handlers (bs_world s) p) @ cmd # more \<and>
    main_step px TakeCommand (h\<lparr>h_commandChan := cmd # rest\<rparr>) = Some (Ret (Some EOF, h')) \<and>
    wrote (frame (e_zl px) (pw_compthres (h_DownstreamW h))
        (WriteVarInt 25 @ WriteMinecraftString (kick_json (cs_Nickname sender) args)))
      (h_DownstreamW h) (h_DownstreamW h')"
proof -
  let ?json = "kick_json (cs_Nickname sender) args" and ?w = "bs_world s"
  define cmd :: "'n command" where "cmd = send_command ClientBound (Some EOF) [P_KickPacketCB \<lparr>kk_Message = ?json\<rparr>]"
  have kicked: "kick_player ?json p ?w = (None, sent p [cmd] ?w)"
    by (simp add: kick_player_def cmd_def inject_to_sent prod_eq_iff)
       (simp add: inject_to_def InjectPackets_def Let_def assms(5))
  have "\<exists>db w. snd (kickCmd env sender silent args s) = s\<lparr>bs_db := db, bs_world := w\<rparr> \<and> alike (sent p [cmd] ?w) w"
  proof -
    define b where "b = \<lparr>ab_Id = 0, ab_Kind = ''kick'', ab_UUID = h_UUID (wo_handlers ?w p),
      ab_Player = nick ?w p, ab_Moderator = cs_Nickname sender, ab_Ts = bn_now env 6,
      ab_Comment = Join (drop 1 args) '' '', ab_IP = h_DownstreamAddr (wo_handlers ?w p),
      ab_Expires = bn_now env 7, ab_Pardon_moderator = None, ab_Pardon_comment = None, ab_Pardon_ts = None\<rparr>"
    have b: "ab_Kind b = ''kick''" "kickCmd env sender silent args s
        = (case db_insert_abuse (bn_db env) b (bs_db s) of
             (Some e, _, db) \<Rightarrow> (db_error env (Some e), s\<lparr>bs_db := db\<rparr>)
           | (None, _, db) \<Rightarrow>
               if silent then (COLOR_GREEN @ ''Kicked!'', s\<lparr>bs_db := db, bs_world := sent p [cmd] ?w\<rparr>)
               else ('''', s\<lparr>bs_db := db, bs_world := Broadcast (bn_keys env) '''' (COLOR_RED @ ''KICK: ''
                 @ h_Nickname (wo_handlers ?w p) @ '' -> '' @ Join (drop 1 args) '' '' @ '' ['' @ cs_Nickname sender
                 @ '']'') (sent p [cmd] ?w)\<rparr>))"
      using assms(1-3) kicked [unfolded kick_json_def]
      by (simp_all add: kickCmd_def Let_def b_def split: option.split prod.split)
    obtain n db where "db_insert_abuse (bn_db env) b (bs_db s) = (None, n, db)"
      using assms(4) [OF b(1)] by (cases "db_insert_abuse (bn_db env) b (bs_db s)") auto
    with b(2) have "\<exists>w. snd (kickCmd env sender silent args s) = s\<lparr>bs_db := db, bs_world := w\<rparr> \<and>
        (w = sent p [cmd] ?w \<or> (\<exists>txt. w = Broadcast (bn_keys env) '''' txt (sent p [cmd] ?w)))"
      by (cases silent) auto
    then show ?thesis using alike_Broadcast alike_refl by blast
  qed
  then obtain w where "bs_world (snd (kickCmd env sender silent args s)) = w" "alike (sent p [cmd] ?w) w" by auto
  with alike_trans_queue [of "sent p [cmd] ?w" w p] obtain more where
    queue: "h_commandChan (wo_handlers (bs_world (snd (kickCmd env sender silent args s))) p)
      = h_commandChan (wo_handlers ?w p) @ cmd # more"
    using assms(5) by (auto simp: handler_sent queued_def take_Cons')
  have "reliable (h_DownstreamW (h\<lparr>h_commandChan := rest\<rparr>))" using assms(6) by simp
  from execute_kick [OF this, of px ?json] obtain h' where
    "Execute px cmd (h\<lparr>h_commandChan := rest\<rparr>) = Ret (Some EOF, h')"
    "wrote (frame (e_zl px) (pw_compthres (h_DownstreamW h)) (WriteVarInt 25 @ WriteMinecraftString ?json))
      (h_DownstreamW h) (h_DownstreamW h')" by (auto simp: cmd_def)
  with queue show ?thesis by (auto simp: main_step_def)
qed

section \<open>Witnesses\<close>

text \<open>A database that is a list of rows, and one mute of Ann.\<close>

definition sample_mute :: Abuse where
  "sample_mute = \<lparr>ab_Id = 0, ab_Kind = ''mute'', ab_UUID = nil_UUID, ab_Player = ''Ann'', ab_Moderator = ''Bob'',
     ab_Ts = 1, ab_Comment = ''spam'', ab_IP = ''1.2.3.4'', ab_Expires = 9, ab_Pardon_moderator = None,
     ab_Pardon_comment = None, ab_Pardon_ts = None\<rparr>"

definition sample_login :: Login where
  "sample_login = \<lparr>lo_Id = 1, lo_Player = ''Ann'', lo_UUID = nil_UUID, lo_Premium = False, lo_IP = ''1.2.3.4'',
     lo_Ts = 1, lo_AuthProperties = None\<rparr>"

definition row_key :: "string \<Rightarrow> string \<Rightarrow> string" where
  "row_key kind name = ToLower id (kind @ '':'' @ name)"

definition sample_db_ops :: "Abuse list db_ops" where
  "sample_db_ops =
     \<lparr>db_last_login = (\<lambda>_ _. Inr sample_login), db_first_login = (\<lambda>_ _. Inr sample_login),
      db_list_abuses = (\<lambda>db kind name. Inr (filter (\<lambda>a. ab_Kind a = kind \<and> ab_Pardon_ts a = None \<and>
        (row_key kind (ab_Player a) = row_key kind name \<or> row_key kind ''uuid'' = row_key kind name)) db)),
      db_insert_abuse = (\<lambda>b db. (None, int (List.length db), db @ [b\<lparr>ab_Id := int (List.length db)\<rparr>])),
      db_get_abuse = (\<lambda>db n. (find (\<lambda>a. ab_Id a = n) db, None)),
      db_update_abuse = (\<lambda>b db. (None, map (\<lambda>a. if ab_Id a = ab_Id b \<and> ab_Kind a = ab_Kind b
        \<and> ab_Player a = ab_Player b then b else a) db)),
      db_abuses_by_id = (\<lambda>db n. Inr (filter (\<lambda>a. ab_Id a = n) db)),
      db_abuses_of = (\<lambda>db name. Inr (filter (\<lambda>a. ab_Player a = name) db)),
      db_insert_login = (\<lambda>_ db. (None, 1, db)), db_end_login = (\<lambda>_ db. (None, db)),
      db_accounts_on = (\<lambda>_ _. (1, None)), db_logins_of = (\<lambda>_ _. Inr []), db_others_on = (\<lambda>_ _ _. Inr []),
      db_players_on = (\<lambda>_ _. Inr []), db_ips_of = (\<lambda>_ _ _. Inr [])\<rparr>"

definition sample_ban_env :: "Abuse list ban_env" where
  "sample_ban_env =
     \<lparr>bn_db = sample_db_ops, bn_tbl = id, bn_fold = id, bn_upper = id, bn_keys = [''ann'', ''bob''],
      bn_now = (\<lambda>k. int k), bn_time = (\<lambda>_ _. ''soon''), bn_uuid_text = (\<lambda>_. ''uuid''), bn_error_text = (\<lambda>_. ''error''),
      bn_group = None, bn_lookup = (\<lambda>_. Inr []), bn_authprops = (\<lambda>_. Inr []), bn_pointer = ''0xc000''\<rparr>"

definition sample_bans :: "(bool, unit, Abuse list) bans" where
  "sample_bans = \<lparr>bs_world = sample_world, bs_db = [sample_mute], bs_cache = NewExpiringCache no_type None 50000\<rparr>"

definition sample_moderator :: "(bool, unit) CommandSender" where
  "sample_moderator = \<lparr>cs_Nickname = ''Bob'', cs_HasPermission = (\<lambda>_. True), cs_SendChatMessage = (\<lambda>_ w. w)\<rparr>"

lemma sample_keys: "cache_key sample_ban_env kind name = row_key kind name"
  by (simp add: cache_key_def row_key_def sample_ban_env_def)

lemma sample_ops [simp]: "bn_db sample_ban_env = sample_db_ops" "bn_uuid_text sample_ban_env u = ''uuid''"
  by (simp_all add: sample_ban_env_def)

lemma sample_abuse_laws: "abuse_laws sample_ban_env"
proof -
  have keys: "abuse_keys sample_ban_env b = {row_key (ab_Kind b) (ab_Player b), row_key (ab_Kind b) ''uuid''}" for b
    by (simp add: abuse_keys_def sample_keys)
  have update: "filter P (map (\<lambda>a. if Q a then b else a) db) = filter P db"
    if "\<not> P b" "\<And>a. Q a \<Longrightarrow> \<not> P a" for P Q and b :: Abuse and db
    using that by (induction db) auto
  have "unaffected sample_ban_env b db (db @ [b\<lparr>ab_Id := n\<rparr>]) None" for b db n
    by (auto simp: unaffected_def keys sample_keys sample_db_ops_def)
  moreover have "unaffected sample_ban_env b db (map (\<lambda>a. if ab_Id a = ab_Id b \<and> ab_Kind a = ab_Kind b
        \<and> ab_Player a = ab_Player b then b else a) db) None" for b db
    unfolding unaffected_def keys sample_keys sample_ops
    by (auto simp: sample_db_ops_def intro!: update)
  ultimately show ?thesis
    unfolding abuse_laws_def sample_keys sample_ops by (auto simp: sample_db_ops_def)
qed


lemma duration_exact_witness: "parseDuration ''5d'' = Inr (5 * 86400000000000)"
proof -
  have t: "duration_text ''5d'' ds k \<longleftrightarrow> ds = ''5'' \<and> k = 86400000000000" for ds k
    by (auto simp: duration_text_def duration_unit_def is_digit_def code_def append_eq_Cons_conv split: if_split_asm)
  show ?thesis
    using duration_exact [of "''5d''"] by (auto simp: t digits_value_def code_def split: sum.split_asm)
qed

lemma moderation_needs_permission_witness:
  "\<exists>texts. snd (snd (case CommandsFilter sample_ban_env True \<lparr>cms_Message = ''/kick Ann spam''\<rparr> sample_bans of
     Ret r \<Rightarrow> r | Panic _ \<Rightarrow> (None, [], sample_bans))) = on_world (sent True (map says texts)) sample_bans"
proof -
  have no: "\<forall>perm \<in> set ban_powers. \<not> may (bs_world sample_bans) True perm"
    by (simp add: sample_bans_def sample_world_def)
  have "on_world (sent True (map says [])) sample_bans = sample_bans" by (simp add: on_world_def)
  then have "\<exists>texts. sample_bans = on_world (sent True (map says texts)) sample_bans" by metis
  with moderation_needs_permission [OF no, of sample_ban_env "\<lparr>cms_Message = ''/kick Ann spam''\<rparr>"] show ?thesis
    by (auto split: go.split)
qed

lemma pardon_authorized_witness:
  "\<exists>n ban comment ts err.
    db_get_abuse sample_db_ops [sample_mute] n = (Some ban, None) \<and>
    db_update_abuse sample_db_ops (ban\<lparr>ab_Pardon_moderator := Some ''Bob'', ab_Pardon_comment := Some comment,
      ab_Pardon_ts := Some ts\<rparr>) [sample_mute] = (err, [sample_mute\<lparr>ab_Pardon_moderator := Some ''Bob'',
        ab_Pardon_comment := Some '''', ab_Pardon_ts := Some 5\<rparr>])"
proof -
  let ?r = "unbanCmd sample_ban_env ''mute'' sample_moderator [''0'', ''Ann''] sample_bans"
  let ?row = "sample_mute\<lparr>ab_Pardon_moderator := Some ''Bob'', ab_Pardon_comment := Some '''', ab_Pardon_ts := Some 5\<rparr>"
  have "Atoi ''0'' = (0, None)" by (subst Atoi_digits) (simp_all add: is_digit_def code_def digits_value_def)
  then have db: "bs_db (snd ?r) = [?row]"
    by (simp add: unbanCmd_def Let_def sample_db_ops_def sample_bans_def sample_moderator_def EqualFold_def
        invalidateCaches_def) (simp add: sample_mute_def sample_ban_env_def)
  then have "snd ?r \<noteq> sample_bans" by (auto simp: sample_bans_def sample_mute_def)
  from pardon_authorized [OF prod.collapse [symmetric] this] obtain n ban comment ts err where
    "db_get_abuse sample_db_ops (bs_db sample_bans) n = (Some ban, None)"
    "db_update_abuse sample_db_ops (ban\<lparr>ab_Pardon_moderator := Some (cs_Nickname sample_moderator),
      ab_Pardon_comment := Some comment, ab_Pardon_ts := Some ts\<rparr>) (bs_db sample_bans) = (err, bs_db (snd ?r))"
    unfolding sample_ops by blast
  moreover have "bs_db sample_bans = [sample_mute]" "cs_Nickname sample_moderator = ''Bob''"
    by (simp_all add: sample_bans_def sample_moderator_def)
  ultimately show ?thesis unfolding db by metis
qed

lemma kick_disconnects_witness:
  "\<exists>cmd more h'.
    h_commandChan (wo_handlers (bs_world (snd (kickCmd sample_ban_env sample_moderator True [''Ann'', ''spam''] sample_bans))) False)
      = cmd # more \<and>
    main_step sample_env TakeCommand ((sample_handler ''Ann'')\<lparr>h_commandChan := [cmd]\<rparr>) = Some (Ret (Some EOF, h'))"
proof -
  let ?h = "sample_handler ''Ann'' :: unit Handler"
  have "reliable (h_DownstreamW ?h)"
    by (simp add: sample_handler_def NewHandler_def NewPacketWriter_def reliable_def)
  moreover have "GetByNickname (bn_tbl sample_ban_env) ''Ann'' (wo_players (bs_world sample_bans)) = Some False"
  proof -
    have "ToLower id ''Ann'' = ''ann''" by code_simp
    then show ?thesis by (simp add: sample_bans_def sample_world_def GetByNickname_def sample_ban_env_def)
  qed
  moreover have "h_commandChan (wo_handlers (bs_world sample_bans) False) = []"
    by (simp add: sample_bans_def sample_world_def)
  moreover have "fst (db_insert_abuse (bn_db sample_ban_env) b (bs_db sample_bans)) = None" for b
    by (simp add: sample_db_ops_def)
  ultimately show ?thesis
    using kick_disconnects [of sample_moderator "[''Ann'', ''spam'']" sample_ban_env sample_bans False ?h True sample_env "[]"]
    by (auto simp: sample_moderator_def commandChan_size_def)
qed

end
