(* ===== verification/DispatchTypes.thy ===== *)
theory DispatchTypes
  imports LoginComplete
begin

text \<open>
  The types of packets: what a reading goroutine delivers, and that the type assertions of the filters
  (\<^verbatim>\<open>packet.(*packets.X)\<close>) succeed for it.
\<close>

section \<open>Types decide ids\<close>

lemma same_type:
  assumes "packet_type q = packet_type p" "packet_type p \<noteq> 0"
  shows "PacketID lib q = PacketID lib p \<and> Direction lib q = Direction lib p"
  using assms by (cases p) (auto simp: packet_type_inversion)

lemma Parse_type: "Parse lib q s = Ret (p, err, rest) \<Longrightarrow> packet_type p = packet_type q"
  by (cases q) (auto simp: parse_as_def split: prod.splits)

text \<open>The packets of the play state, by what the registry makes for their id and direction.\<close>

definition in_registry :: "'n nbt_lib \<Rightarrow> 'n \<Rightarrow> 'n packet \<Rightarrow> bool" where
  "in_registry lib z t =
     (case Direction lib t of
        Panic _ \<Rightarrow> False
      | Ret d \<Rightarrow>
          (case newPlayPacket z (PacketID lib t) d of
             None \<Rightarrow> False
           | Some q \<Rightarrow> packet_type q = packet_type t))"

lemma in_registry_not_raw: "in_registry lib z t \<Longrightarrow> packet_type t \<noteq> 0"
  by (cases t) (auto simp: in_registry_def)

lemma in_registry_unique:
  assumes "in_registry lib z s" "in_registry lib z t" "PacketID lib s = PacketID lib t" "Direction lib s = Direction lib t"
  shows "packet_type s = packet_type t"
  using assms by (auto simp: in_registry_def split: go.splits option.splits)

lemma choose_play: "choose_packet z i PLAY d = newPlayPacket z i d"
  by (simp add: choose_packet_def PLAY_def LOGIN_def STATUS_def HANDSHAKING_def)

section \<open>What the reading goroutine delivers\<close>

definition parsed_for :: "'n env \<Rightarrow> direction \<Rightarrow> 'n packet \<Rightarrow> bool" where
  "parsed_for env d p \<longleftrightarrow>
     in_registry (e_lib env) (e_zero_nbt env) p \<and> Direction (e_lib env) p = Ret d \<and>
     Get (ft_packetsParsed (e_filters env)) (bucket d (PacketID (e_lib env) p)) = Ret True"

definition left_raw :: "'n env \<Rightarrow> direction \<Rightarrow> 'n packet \<Rightarrow> bool" where
  "left_raw env d p \<longleftrightarrow>
     (case p of
        P_RawPacket raw \<Rightarrow> Get (ft_packetsParsed (e_filters env)) (bucket d (raw_ID raw)) = Ret False
      | _ \<Rightarrow> False)"

lemma read_round_types:
  assumes "read_round env d r = Deliver p r'" "d = ServerBound \<or> d = ClientBound"
  shows "left_raw env d p \<or> parsed_for env d p"
proof -
  obtain raw r1 where rp: "ReadPacket (e_zl env) (e_pool env) r = Ret ((raw, None), r1)"
    using assms(1) by (auto simp: read_round_def split: go.splits prod.splits option.splits)
  then obtain b where b: "Get (ft_packetsParsed (e_filters env)) (bucket d (raw_ID raw)) = Ret b"
    using assms(1) by (auto simp: read_round_def split: go.splits)
  show ?thesis
  proof (cases b)
    case False
    with assms(1) rp b show ?thesis by (auto simp: read_round_def left_raw_def)
  next
    case True
    with assms(1) rp b obtain q where q: "NewPacket (e_lib env) (e_zero_nbt env) (raw_ID raw) PLAY d = Ret (Some q)"
      by (auto simp: read_round_def split: go.splits option.splits)
    with assms(1) rp b True obtain s err rest where "Parse (e_lib env) q s = Ret (p, err, rest)"
      by (auto simp: read_round_def split: go.splits option.splits prod.splits)
    then have ty: "packet_type p = packet_type q" by (rule Parse_type)
    have play: "\<not> (PLAY = STATUS \<and> raw_ID raw = 1)" by (simp add: PLAY_def STATUS_def)
    with q NewPacket_choose [OF assms(2) play, of "e_lib env" "e_zero_nbt env"]
    have c: "choose_packet (e_zero_nbt env) (raw_ID raw) PLAY d = Some q" by simp
    note id = choose_packet_id [OF c, of "e_lib env"]
    note dir = choose_packet_direction [OF c assms(2) play, of "e_lib env"]
    then have "packet_type q \<noteq> 0" by (cases q) auto
    from same_type [OF ty this, of "e_lib env"] id dir
    have "PacketID (e_lib env) p = raw_ID raw" "Direction (e_lib env) p = Ret d" by simp_all
    with b True c ty show ?thesis by (simp add: parsed_for_def in_registry_def choose_play)
  qed
qed

lemma read_packets_types:
  "p \<in> set (fst (read_packets env d r)) \<Longrightarrow> d = ServerBound \<or> d = ClientBound \<Longrightarrow>
    left_raw env d p \<or> parsed_for env d p"
proof (induction env d r rule: read_packets.induct)
  case (1 env d r)
  show ?case
  proof (cases "read_round env d r")
    case (Finished e)
    with "1.prems" show ?thesis by (simp add: read_packets.simps [of env d r])
  next
    case (Deliver q r')
    obtain ps e where rest: "read_packets env d r' = (ps, e)" by fastforce
    with "1.prems"(1) Deliver have "p = q \<or> p \<in> set ps" by (simp add: read_packets.simps [of env d r])
    with "1.IH" [OF Deliver] rest read_round_types [OF Deliver] "1.prems"(2) show ?thesis by auto
  qed
qed

section \<open>Filters of a type\<close>

text \<open>
  A filter for packets of the type of \<open>t\<close>: given one it returns, and a pointer to a packet of that type is
  still one afterwards.  The dynamic type behind a Go pointer never changes; a filter of another type is free
  to panic, as a failed assertion does.
\<close>

definition filter_for :: "'n packet \<Rightarrow> 'n PacketFilter \<Rightarrow> bool" where
  "filter_for t f \<longleftrightarrow>
     (\<forall>h p. packet_type p = packet_type t \<longrightarrow>
        (\<exists>err h' p'. f h p = Ret (err, h', p') \<and> packet_type p' = packet_type t))"

lemma filter_forD:
  assumes "filter_for t f" "packet_type p = packet_type t"
  obtains err h' p' where "f h p = Ret (err, h', p')" "packet_type p' = packet_type t"
  using assms unfolding filter_for_def by blast

lemma run_filters_typed:
  assumes "\<forall>f \<in> set fs. filter_for t f" "packet_type p = packet_type t"
  shows "\<exists>err h' p'. run_filters fs h p = Ret (err, h', p') \<and> packet_type p' = packet_type t"
  using assms
proof (induction fs arbitrary: h p)
  case (Cons f fs)
  then have "filter_for t f" by simp
  from filter_forD [OF this Cons.prems(2), of h] obtain err h1 p1 where
    1: "f h p = Ret (err, h1, p1)" "packet_type p1 = packet_type t" .
  with Cons show ?case by (cases err) auto
qed simp

lemma filter_for_same: "filter_for s f \<Longrightarrow> packet_type s = packet_type t \<Longrightarrow> filter_for t f"
  by (simp add: filter_for_def)

definition typed_registrations :: "'n nbt_lib \<Rightarrow> 'n \<Rightarrow> ('n packet \<times> 'n PacketFilter) list \<Rightarrow> bool" where
  "typed_registrations lib z rs \<longleftrightarrow> (\<forall>(t, f) \<in> set rs. in_registry lib z t \<and> filter_for t f)"

lemma wanted_typed:
  assumes "typed_registrations lib z rs" "in_registry lib z p" "Direction lib p = Ret d"
    and "f \<in> set (wanted lib rs d (PacketID lib p))"
  shows "filter_for p f"
proof -
  from assms(4) obtain t where t: "(t, f) \<in> set rs" "Direction lib t = Ret d" "PacketID lib t = PacketID lib p"
    by (auto simp: wanted_def)
  with assms(1) have "in_registry lib z t" "filter_for t f" by (auto simp: typed_registrations_def)
  with in_registry_unique [OF this(1) assms(2)] t assms(3) show ?thesis by (auto intro: filter_for_same)
qed

lemma filters_of_none:
  "d \<in> {ServerBound, ClientBound} \<Longrightarrow> 0 \<le> sint i \<Longrightarrow> sint i < 256 \<Longrightarrow> filters_of no_filters d i = []"
  by (auto simp: filters_of_def no_filters_def bucket_dir)

lemma dispatch_typed:
  assumes "typed_registrations lib z rs" "register_all lib rs no_filters = Ret ft"
    and "in_registry lib z p"
  shows "\<exists>err h' p'. dispatchPacket lib ft h p = Ret (err, h', p') \<and> packet_type p' = packet_type p"
proof -
  have raw: "packet_type p \<noteq> 0" using in_registry_not_raw [OF assms(3)] .
  obtain d where d: "Direction lib p = Ret d" "d \<in> {ServerBound, ClientBound}"
    and i: "0 \<le> sint (PacketID lib p)" "sint (PacketID lib p) < 256"
    using packet_ids [OF raw, of lib] by auto
  have "\<forall>(t, f) \<in> set rs. packet_type t \<noteq> 0"
    using assms(1) in_registry_not_raw by (fastforce simp: typed_registrations_def)
  from register_all_ok [OF this no_filters_ok, of lib] assms(2) d(2) i
  have ft: "ft_ok ft" "filters_of ft d (PacketID lib p) = filters_of no_filters d (PacketID lib p) @ wanted lib rs d (PacketID lib p)"
    by auto
  with ft(2) have "dispatchPacket lib ft h p = run_filters (wanted lib rs d (PacketID lib p)) h p"
    by (simp add: dispatchPacket_bucket [OF ft(1) d(1)] filters_of_none [OF d(2) i])
  with run_filters_typed [of "wanted lib rs d (PacketID lib p)" p p h] wanted_typed [OF assms(1,3) d(1)]
  show ?thesis by simp
qed

text \<open>The filters of the proxy itself have the types they are registered for.\<close>

definition own_registrations :: "('n packet \<times> 'n PacketFilter) list" where
  "own_registrations =
     [(P_ClientSettingsPacketSB new_ClientSettingsPacketSB, saveClientSettings),
      (P_PluginMessagePacketSB new_PluginMessagePacketSB, saveClientSettings),
      (P_PlayerListItemPacketCB new_PlayerListItemPacketCB, savePlayerList)]"

lemma own_filters_typed: "typed_registrations lib (z :: 'n) own_registrations"
proof -
  have "filter_for (P_ClientSettingsPacketSB c) (saveClientSettings :: 'n PacketFilter)"
    "filter_for (P_PluginMessagePacketSB m) (saveClientSettings :: 'n PacketFilter)"
    "filter_for (P_PlayerListItemPacketCB l) (savePlayerList :: 'n PacketFilter)" for c m l
    by (auto simp: filter_for_def packet_type_inversion saveClientSettings_def savePlayerList_def)
  moreover have "in_registry lib z (P_ClientSettingsPacketSB c)" "in_registry lib z (P_PluginMessagePacketSB m)"
    "in_registry lib z (P_PlayerListItemPacketCB l)" for c m l
    by (simp_all add: in_registry_def newPlayPacket_def methods_defs ServerBound_def ClientBound_def)
  ultimately show ?thesis by (simp add: typed_registrations_def own_registrations_def)
qed

text \<open>C9: A filter only ever gets packets of the type it was registered for.  When every filter is registered
  for a packet of the play state and returns on packets of its own type, no packet that a reading goroutine
  delivers makes the dispatch panic, whatever the other side sent, and the packet keeps its type.\<close>

theorem dispatch_type_safe:
  assumes "typed_registrations (e_lib env) (e_zero_nbt env) rs"
    and "register_all (e_lib env) rs no_filters = Ret (e_filters env)"
    and "d = ServerBound \<or> d = ClientBound" "p \<in> set (fst (read_packets env d r))" "packet_type p \<noteq> 0"
  shows "Direction (e_lib env) p = Ret d
    \<and> (\<exists>err h' p'. dispatchPacket (e_lib env) (e_filters env) h p = Ret (err, h', p') \<and> packet_type p' = packet_type p)"
proof -
  have "\<not> left_raw env d p" using assms(5) by (cases p) (auto simp: left_raw_def)
  with read_packets_types [OF assms(4,3)] have "parsed_for env d p" by blast
  with dispatch_typed [OF assms(1,2)] show ?thesis by (simp add: parsed_for_def)
qed

section \<open>Parsed packets arrive\<close>

lemma newPlayPacket_receives:
  "newPlayPacket z i d = Some q \<Longrightarrow> packet_type q = packet_type p \<Longrightarrow> receives q p"
  unfolding newPlayPacket_def
  by (auto simp: receives_def zero_packets split: if_splits)

lemma read_round_parsed:
  assumes "good_libs env nbt_ok" "frame_of env nbt_ok t p f" "threshold_ok t" "reader_at t (f @ s) r"
    and "parsed_for env d p"
  shows "\<exists>q r'. newPlayPacket (e_zero_nbt env) (PacketID (e_lib env) p) d = Some q \<and> receives q p
    \<and> read_round env d r = Deliver (read_back q p) r' \<and> reader_at t s r'"
proof -
  from assms(2) obtain b where b: "packet_ok nbt_ok p" "sends (e_lib env) (e_zl env) t p b"
    "f = frame (e_zl env) t (WriteVarInt (PacketID (e_lib env) p) @ b)" by (auto simp: frame_of_def)
  have libs: "zlib_roundtrips (e_zl env)" "pool_gives (e_pool env)" "nbt_roundtrips (e_lib env) nbt_ok"
    using assms(1) by (simp_all add: good_libs_def)
  have r: "pr_err r = None" "pr_compthres r = word_of_int t" "pr_input r = f @ s"
    using assms(4) by (simp_all add: reader_at_def)
  from sends_read [OF b(2) libs(1,2) assms(3) r(1,2) r(3) [unfolded b(3)]] obtain raw r1 r2 where
    step: "ReadPacket (e_zl env) (e_pool env) r = Ret ((raw, None), r1)"
      "raw_ID raw = PacketID (e_lib env) p" "Payload r1 = Ret ((Some b, None), r2)" "pr_input r2 = s"
      "pr_err r2 = None" "pr_compthres r2 = pr_compthres r" by blast
  from assms(5) have p: "Direction (e_lib env) p = Ret d" "in_registry (e_lib env) (e_zero_nbt env) p"
    "Get (ft_packetsParsed (e_filters env)) (bucket d (PacketID (e_lib env) p)) = Ret True"
    by (auto simp: parsed_for_def)
  from p(1,2) obtain q where q: "newPlayPacket (e_zero_nbt env) (PacketID (e_lib env) p) d = Some q"
    "packet_type q = packet_type p" by (auto simp: in_registry_def split: option.splits)
  have dir: "d = ServerBound \<or> d = ClientBound"
    using packet_ids [OF in_registry_not_raw [OF p(2)], of "e_lib env"] p(1) by auto
  have play: "\<not> (PLAY = STATUS \<and> PacketID (e_lib env) p = 1)" by (simp add: PLAY_def STATUS_def)
  have new: "NewPacket (e_lib env) (e_zero_nbt env) (PacketID (e_lib env) p) PLAY d = Ret (Some q)"
    using q(1) by (simp add: NewPacket_choose [OF dir play] choose_play)
  note rec = newPlayPacket_receives [OF q]
  from packet_reads_back [OF b(1) libs(3) rec] b(2)
  have "Parse (e_lib env) q b = Ret (read_back q p, None, [])" by (auto simp: sends_def)
  with step p(3) new q(1) rec r(2) show ?thesis
    by (simp add: read_round_def advance_payload_def reader_at_def)
qed

text \<open>What the reading goroutine delivers first when a packet that a filter waits for arrives.\<close>

lemma read_packets_parsed:
  assumes "good_libs env nbt_ok" "frame_of env nbt_ok t p f" "threshold_ok t" "reader_at t (f @ s) r"
    and "parsed_for env d p"
  shows "\<exists>q r' ps e. newPlayPacket (e_zero_nbt env) (PacketID (e_lib env) p) d = Some q
    \<and> read_packets env d r = (read_back q p # ps, e) \<and> read_packets env d r' = (ps, e) \<and> reader_at t s r'"
proof -
  from read_round_parsed [OF assms] obtain q r' where
    1: "newPlayPacket (e_zero_nbt env) (PacketID (e_lib env) p) d = Some q"
      "read_round env d r = Deliver (read_back q p) r'" "reader_at t s r'" by blast
  obtain ps e where "read_packets env d r' = (ps, e)" by fastforce
  with 1 show ?thesis by (auto simp: read_packets.simps [of env d r])
qed

text \<open>The table that the proxy starts with, and a message of a client that one of its filters waits for.\<close>

definition sample_brand :: "unit packet" where
  "sample_brand = P_PluginMessagePacketSB \<lparr>pms_Channel = ''minecraft:brand'', pms_Payload = [7]\<rparr>"

lemma sample_own_filters:
  "\<exists>ft. register_all unit_nbt own_registrations no_filters = Ret ft \<and> ft_ok ft
    \<and> filters_of ft ServerBound 0x0B = [saveClientSettings]
    \<and> parsed_for (sample_env\<lparr>e_filters := ft\<rparr>) ServerBound sample_brand"
proof -
  have raw: "\<forall>(t :: unit packet, f) \<in> set own_registrations. packet_type t \<noteq> 0"
    by (simp add: own_registrations_def)
  from register_all_ok [OF this no_filters_ok, of unit_nbt] obtain ft where
    ft: "register_all unit_nbt own_registrations no_filters = Ret ft" "ft_ok ft"
      "\<And>d j. d \<in> {ServerBound, ClientBound} \<Longrightarrow> 0 \<le> sint j \<Longrightarrow> sint j < 256 \<Longrightarrow>
         filters_of ft d j = filters_of no_filters d j @ wanted unit_nbt own_registrations d j" by blast
  have id: "PacketID unit_nbt sample_brand = 0x0B" "Direction unit_nbt sample_brand = Ret ServerBound"
    by (simp_all add: sample_brand_def methods_defs)
  have "wanted unit_nbt own_registrations ServerBound 0x0B = [saveClientSettings]"
    by (simp add: wanted_def own_registrations_def methods_defs ServerBound_def ClientBound_def)
  with ft(3) [of ServerBound "0x0B"] have fs: "filters_of ft ServerBound 0x0B = [saveClientSettings]"
    by (simp add: filters_of_none)
  then have "Get (ft_packetsParsed ft) (bucket ServerBound 0x0B) = Ret True"
    using ft(2) by (simp add: ft_ok_def filters_of_def bucket_dir)
  moreover have "in_registry unit_nbt () sample_brand"
    by (simp add: in_registry_def sample_brand_def newPlayPacket_def methods_defs ServerBound_def)
  ultimately have "parsed_for (sample_env\<lparr>e_filters := ft\<rparr>) ServerBound sample_brand"
    by (simp add: parsed_for_def id sample_env_def)
  with ft(1,2) fs show ?thesis by blast
qed

lemma sample_brand_frame:
  "frame_of (sample_env\<lparr>e_filters := ft\<rparr>) (\<lambda>_. True) t sample_brand (sample_frame t sample_brand)"
proof -
  have "length (WriteVarInt 15) \<le> 5" by (rule length_WriteVarInt)
  then have "frame_of sample_env (\<lambda>_. True) t sample_brand (sample_frame t sample_brand)"
    by (intro sample_frame_of [where b = "WriteMinecraftString ''minecraft:brand'' @ [7]"])
      (simp_all add: sample_brand_def methods_defs PluginMessagePacketSB_reflect_def struct_Serialize_def
        WriteMinecraftString_def WriteBytesField_def tag_def id_ok_def MaxPacketID_def)
  then show ?thesis by (simp add: frame_of_def)
qed

lemma sample_brand_parsed:
  "\<exists>ft r. register_all unit_nbt own_registrations no_filters = Ret ft
    \<and> sample_brand \<in> set (fst (read_packets (sample_env\<lparr>e_filters := ft\<rparr>) ServerBound r))"
proof -
  from sample_own_filters obtain ft where
    ft: "register_all unit_nbt own_registrations no_filters = Ret ft"
      "parsed_for (sample_env\<lparr>e_filters := ft\<rparr>) ServerBound sample_brand" by blast
  let ?env = "sample_env\<lparr>e_filters := ft\<rparr>"
  have good: "good_libs ?env (\<lambda>_. True)" using sample_good by (simp add: good_libs_def)
  have at: "reader_at 0 (sample_frame 0 sample_brand @ []) (NewPacketReader (sample_frame 0 sample_brand @ []) EOF 0)"
    by (rule reader_at_New)
  have "read_back q sample_brand = sample_brand" for q
    by (cases q) (simp_all add: read_back_def sample_brand_def)
  with read_packets_parsed [OF good sample_brand_frame threshold_cases(1) at ft(2)] obtain ps e where
    "read_packets ?env ServerBound (NewPacketReader (sample_frame 0 sample_brand @ []) EOF 0) = (sample_brand # ps, e)"
    by auto
  then have "sample_brand \<in> set (fst (read_packets ?env ServerBound
      (NewPacketReader (sample_frame 0 sample_brand @ []) EOF 0)))" by simp
  with ft(1) show ?thesis by blast
qed

theorem dispatch_type_safe_witness:
  "\<exists>ft err h' p'. register_all unit_nbt own_registrations no_filters = Ret ft
    \<and> dispatchPacket unit_nbt ft sample_client sample_brand = Ret (err, h', p') \<and> packet_type p' = 14"
proof -
  from sample_brand_parsed obtain ft r where
    ft: "register_all unit_nbt own_registrations no_filters = Ret ft"
    and p: "sample_brand \<in> set (fst (read_packets (sample_env\<lparr>e_filters := ft\<rparr>) ServerBound r))" by blast
  have "packet_type sample_brand = 14" by (simp add: sample_brand_def)
  moreover have "typed_registrations (e_lib (sample_env\<lparr>e_filters := ft\<rparr>)) (e_zero_nbt (sample_env\<lparr>e_filters := ft\<rparr>))
      own_registrations" by (rule own_filters_typed)
  moreover have "register_all (e_lib (sample_env\<lparr>e_filters := ft\<rparr>)) own_registrations no_filters
      = Ret (e_filters (sample_env\<lparr>e_filters := ft\<rparr>))" using ft by (simp add: sample_env_def)
  ultimately show ?thesis
    using dispatch_type_safe [OF _ _ disjI1 [OF refl] p, of own_registrations sample_client] ft
    by (simp add: sample_env_def)
qed

section \<open>Switching servers\<close>

lemma connectUpstream_reads:
  assumes "connectUpstream env name addr h = Ret (None, h')"
  shows "\<exists>r. h_UpstreamPackets h' = read_packets env ClientBound r"
  using assms
  by (auto simp: connectUpstream_def Let_def split: sum.splits prod.splits option.splits packet.splits if_splits)

lemma Reconnect_join:
  assumes "Reconnect env name addr h = Ret (None, h')"
  shows "\<exists>r join. P_JoinGamePacketCB join \<in> set (fst (read_packets env ClientBound r))"
proof -
  from assms obtain h1 where h1: "connectUpstream env name addr (h\<lparr>h_UpstreamW := None\<rparr>) = Ret (None, h1)"
    by (auto simp: Reconnect_def split: option.split_asm go.split_asm prod.split_asm if_split_asm)
  with assms obtain p ps e where "h_UpstreamPackets h1 = (p # ps, e)" "\<exists>join. p = P_JoinGamePacketCB join"
    by (auto simp: Reconnect_def Let_def
        split: option.split_asm if_split_asm list.split_asm prod.split_asm packet.split_asm stream_end.split_asm)
  with connectUpstream_reads [OF h1] show ?thesis
    by (metis fst_conv list.set_intros(1))
qed

text \<open>C21: A switch to another server needs the join packet of that server, and finds it only when some filter
  is registered for it: without one the packet stays raw, and every switch ends with an error.  The proxy
  itself registers no such filter.\<close>

theorem switch_needs_join_filter:
  assumes "ft_ok (e_filters env)" "filters_of (e_filters env) ClientBound 0x24 = []"
  shows "Reconnect env name addr h \<noteq> Ret (None, h')"
proof
  assume "Reconnect env name addr h = Ret (None, h')"
  from Reconnect_join [OF this] obtain r join where
    "P_JoinGamePacketCB join \<in> set (fst (read_packets env ClientBound r))" by blast
  from read_packets_types [OF this] have "parsed_for env ClientBound (P_JoinGamePacketCB join)"
    by (simp add: left_raw_def)
  then have "Get (ft_packetsParsed (e_filters env)) (bucket ClientBound 0x24) = Ret True"
    by (simp add: parsed_for_def methods_defs)
  with assms show False by (simp add: ft_ok_def filters_of_def bucket_dir)
qed

theorem switch_needs_join_filter_witness:
  "\<exists>ft. register_all unit_nbt own_registrations no_filters = Ret ft
    \<and> Reconnect (sample_env\<lparr>e_filters := ft\<rparr>) ''lobby'' ''10.0.0.1:25565'' sample_client \<noteq> Ret (None, sample_client)"
proof -
  have raw: "\<forall>(t :: unit packet, f) \<in> set own_registrations. packet_type t \<noteq> 0"
    by (simp add: own_registrations_def)
  from register_all_ok [OF this no_filters_ok, of unit_nbt] obtain ft where
    ft: "register_all unit_nbt own_registrations no_filters = Ret ft" "ft_ok ft"
      "filters_of ft ClientBound 0x24 = filters_of no_filters ClientBound 0x24
         @ wanted unit_nbt own_registrations ClientBound 0x24" by auto
  have "wanted unit_nbt own_registrations ClientBound 0x24 = []"
    by (simp add: wanted_def own_registrations_def methods_defs)
  then have "filters_of ft ClientBound 0x24 = []"
    by (simp add: ft(3) filters_of_none)
  with switch_needs_join_filter [of "sample_env\<lparr>e_filters := ft\<rparr>"] ft(1,2) show ?thesis by auto
qed

end
