(* ===== verification/Session.thy ===== *)
theory Session
  imports DispatchTypes
begin

text \<open>
  A whole session of a player, and all sessions of the proxy together: \<^verbatim>\<open>Handle\<close> with its end
  (src/handler.go 85 to 129), the main loop, and the player manager that the sessions share.
\<close>

section \<open>What the main loop changes\<close>

text \<open>The channels of a handler; writing changes none of them, nor the name of the player.\<close>

definition channels :: "'n Handler \<Rightarrow> ('n packet list \<times> stream_end) \<times> ('n packet list \<times> stream_end) \<times> 'n command list" where
  "channels h = (h_downstream_packets h, h_UpstreamPackets h, h_commandChan h)"

definition wrote_only :: "'n Handler \<Rightarrow> 'n Handler \<Rightarrow> bool" where
  "wrote_only h h' \<longleftrightarrow> h_Nickname h' = h_Nickname h \<and> channels h' = channels h"

lemma wrote_only_refl [simp]: "wrote_only h h"
  by (simp add: wrote_only_def)

lemma wrote_only_trans: "wrote_only h h1 \<Longrightarrow> wrote_only h1 h2 \<Longrightarrow> wrote_only h h2"
  by (simp add: wrote_only_def)

lemma write_side_only: "write_side env d p flush h = Ret (err, h') \<Longrightarrow> wrote_only h h'"
  by (drule write_side_writers) (auto simp: wrote_only_def channels_def split: if_splits)

lemma flush_side_only: "flush_side d h = Ret (err, h') \<Longrightarrow> wrote_only h h'"
  by (auto simp: flush_side_def wrote_only_def channels_def split: if_splits option.splits prod.splits)

lemma write_each_only: "write_each env d ps h = Ret (err, h') \<Longrightarrow> wrote_only h h'"
proof (induction ps arbitrary: h)
  case (Cons p ps)
  then obtain e h1 where 1: "write_side env d p False h = Ret (e, h1)" by (auto split: go.splits)
  with Cons write_side_only [OF 1] show ?case by (cases e) (auto intro: wrote_only_trans)
qed simp

lemma inject_each_only: "inject_each env d ps h = Ret h' \<Longrightarrow> wrote_only h h'"
proof (induction ps arbitrary: h)
  case (Cons p ps)
  then obtain e h1 where 1: "write_side env d p False h = Ret (e, h1)" by (auto split: prod.splits)
  with Cons write_side_only [OF 1] show ?case by (auto intro: wrote_only_trans)
qed simp

lemma inject_only: "inject env d payload raise h = Ret (err, h') \<Longrightarrow> wrote_only h h'"
  by (auto simp: inject_def split: if_splits option.splits prod.splits
      dest!: inject_each_only flush_side_only intro: wrote_only_trans)

lemma connectUpstream_name:
  assumes "connectUpstream env name addr h = Ret (err, h')"
  shows "h_Nickname h' = h_Nickname h \<and> h_commandChan h' = h_commandChan h
    \<and> h_downstream_packets h' = h_downstream_packets h"
proof (cases "e_dial env addr")
  case (Inl e)
  with assms show ?thesis by (simp add: connectUpstream_def)
next
  case (Inr x)
  then obtain input en dev where d: "e_dial env addr = Inr (input, en, dev)" by (metis prod_cases3)
  let ?h1 = "h\<lparr>h_UpstreamW := Some (NewPacketWriter dev False 0), h_UpstreamName := name\<rparr>"
  let ?hs = "(h_Handshake h)\<lparr>hs_Host := handshake_host (hs_Host (h_Handshake h))
               (h_DownstreamAddr h) (e_uuid_string env (h_UUID h))\<rparr>"
  obtain e2 h2 where 2: "write_side env ServerBound (P_HandshakePacket ?hs) False ?h1 = Ret (e2, h2)"
    using assms d by (auto simp: connectUpstream_def Let_def)
  obtain e3 h3 where 3: "write_side env ServerBound (P_LoginStartPacket \<lparr>ls_Nickname = h_Nickname h\<rparr>) True h2
      = Ret (e3, h3)"
    using assms d 2 by (auto simp: connectUpstream_def Let_def split: option.splits)
  have "h_Nickname h3 = h_Nickname h \<and> h_commandChan h3 = h_commandChan h
    \<and> h_downstream_packets h3 = h_downstream_packets h"
    using write_side_only [OF 2] write_side_only [OF 3] by (simp add: wrote_only_def channels_def)
  moreover have "h_Nickname h' = h_Nickname h3 \<and> h_commandChan h' = h_commandChan h3
    \<and> h_downstream_packets h' = h_downstream_packets h3"
    using assms d 2 3
    by (auto simp: connectUpstream_def Let_def split: option.split_asm packet.split_asm if_split_asm)
  ultimately show ?thesis by simp
qed

lemma SendDimensionSwitch_only:
  "SendDimensionSwitch env join h = Ret (err, h') \<Longrightarrow> wrote_only h h'"
proof -
  let ?p = "P_PlayerListItemPacketCB \<lparr>pli_Action = REMOVE_PLAYER, pli_Items = list_values env (h_playerList h)\<rparr>"
  assume sw: "SendDimensionSwitch env join h = Ret (err, h')"
  then obtain e1 h1 where 1: "write_side env ClientBound ?p False h = Ret (e1, h1)"
    by (auto simp: SendDimensionSwitch_def split: go.split_asm)
  let ?h1 = "h1\<lparr>h_playerList := Map.empty\<rparr>"
  have "wrote_only h1 ?h1" by (simp add: wrote_only_def channels_def)
  with write_side_only [OF 1] have h1: "wrote_only h h1" "wrote_only h ?h1" using wrote_only_trans by blast+
  show ?thesis
  proof (cases e1)
    case (Some e)
    with sw 1 h1 show ?thesis by (simp add: SendDimensionSwitch_def)
  next
    case None
    with sw 1 obtain e2 h2 where 2: "write_each env ClientBound (switch_packets join) ?h1 = Ret (e2, h2)"
      by (auto simp: SendDimensionSwitch_def split: go.split_asm)
    from h1(2) write_each_only [OF 2] have "wrote_only h h2" by (rule wrote_only_trans)
    with sw 1 2 None show ?thesis
      by (cases e2) (auto simp: SendDimensionSwitch_def dest: flush_side_only wrote_only_trans)
  qed
qed

subsection \<open>Filters\<close>

text \<open>Filters that leave the name of the player as it is, and the channels of the handler.\<close>

definition table_keeps :: "('n Handler \<Rightarrow> 'n Handler \<Rightarrow> bool) \<Rightarrow> 'n filter_table \<Rightarrow> bool" where
  "table_keeps R ft \<longleftrightarrow>
     (\<forall>fs \<in> set (ft_packetFilters ft). \<forall>f \<in> set fs. \<forall>h p err h' p'. f h p = Ret (err, h', p') \<longrightarrow> R h h')"

definition same_name :: "'n Handler \<Rightarrow> 'n Handler \<Rightarrow> bool" where
  "same_name h h' \<longleftrightarrow> h_Nickname h' = h_Nickname h"

lemma run_filters_keeps:
  assumes "\<forall>f \<in> set fs. \<forall>h p err h' p'. f h p = Ret (err, h', p') \<longrightarrow> R h h'" "reflp R" "transp R"
  shows "run_filters fs h p = Ret (err, h', p') \<Longrightarrow> R h h'"
  using assms(1)
proof (induction fs arbitrary: h p)
  case Nil
  then show ?case using assms(2) by (simp add: reflpD)
next
  case (Cons f fs)
  then obtain e h1 p1 where 1: "f h p = Ret (e, h1, p1)" by (auto split: go.splits)
  from Cons.prems(2) 1 have R1: "R h h1" by (meson list.set_intros(1))
  show ?case
  proof (cases e)
    case None
    with Cons.prems 1 Cons.IH [of h1 p1] have "R h1 h'" by simp
    with R1 show ?thesis by (rule transpD [OF assms(3)])
  next
    case (Some e)
    with Cons.prems(1) 1 R1 show ?thesis by simp
  qed
qed

lemma dispatchPacket_keeps:
  assumes "table_keeps R (e_filters env)" "reflp R" "transp R"
    and "dispatchPacket (e_lib env) (e_filters env) h p = Ret (err, h', p')"
  shows "R h h'"
proof -
  let ?ft = "e_filters env"
  obtain i where i: "in_slice i (ft_packetFilters ?ft)" "run_filters (ft_packetFilters ?ft ! nat i) h p = Ret (err, h', p')"
    using assms(4) by (auto simp: dispatchPacket_def Let_def split: if_splits)
  then have "ft_packetFilters ?ft ! nat i \<in> set (ft_packetFilters ?ft)" by (auto simp: in_slice_def)
  with assms(1) run_filters_keeps [OF _ assms(2,3) i(2)] show ?thesis unfolding table_keeps_def by blast
qed

lemma handlePacket_keeps:
  assumes "table_keeps R (e_filters env)" "reflp R" "transp R" "\<And>h h'. wrote_only h h' \<Longrightarrow> R h h'"
    and "handlePacket env p d flush h = Ret (err, h')"
  shows "R h h'"
proof -
  obtain e h1 p1 where 1: "filtered env p h = Ret (e, h1, p1)"
    using assms(5) by (auto simp: handlePacket_filtered split: go.split_asm)
  then have R1: "R h h1"
    using dispatchPacket_keeps [OF assms(1-3)] assms(2)
    by (auto simp: filtered_def reflpD split: packet.split_asm)
  have "h' = h1 \<or> (\<exists>e2. write_side env d p1 flush h1 = Ret (e2, h'))"
    using assms(5) 1 by (auto simp: handlePacket_filtered split: if_split_asm option.split_asm go.split_asm)
  with R1 assms(2-4) show ?thesis by (auto dest: write_side_only transpD)
qed

lemma Reconnect_name:
  assumes "table_keeps same_name (e_filters env)" "Reconnect env name addr h = Ret (err, h')"
  shows "same_name h h'"
proof -
  have eq: "reflp same_name" "transp same_name"
    by (auto simp: same_name_def intro: reflpI transpI)
  have only: "wrote_only g g' \<Longrightarrow> same_name g g'" for g g' :: "'a Handler"
    by (simp add: wrote_only_def same_name_def)
  show ?thesis
  proof (cases "if h_UpstreamW h \<noteq> None then e_close env else None")
    case (Some e)
    with assms(2) show ?thesis by (simp add: Reconnect_def same_name_def split: if_splits)
  next
    case None
    then obtain e1 h1 where 1: "connectUpstream env name addr (h\<lparr>h_UpstreamW := None\<rparr>) = Ret (e1, h1)"
      using assms(2) by (auto simp: Reconnect_def split: go.split_asm)
    then have h1: "same_name h h1" by (auto simp: same_name_def dest: connectUpstream_name)
    show ?thesis
    proof (cases e1)
      case (Some e)
      with assms(2) None 1 obtain x where "write_side env ClientBound (NewIngameKickTxt (e_error_text env e)) True h1 = Ret (x, h')"
        by (auto simp: Reconnect_def split: if_splits)
      with h1 write_side_only show ?thesis by (fastforce simp: same_name_def wrote_only_def)
    next
      case none: None
      show ?thesis
      proof (cases "\<exists>join ps end. h_UpstreamPackets h1 = (P_JoinGamePacketCB join # ps, end)")
        case True
        then obtain join ps "end" where up: "h_UpstreamPackets h1 = (P_JoinGamePacketCB join # ps, end)" by blast
        let ?h2 = "h1\<lparr>h_UpstreamPackets := (ps, end)\<rparr>"
        obtain e3 h3 p3 where 3: "dispatchPacket (e_lib env) (e_filters env) ?h2 (P_JoinGamePacketCB join) = Ret (e3, h3, p3)"
          using assms(2) None 1 none up by (auto simp: Reconnect_def split: if_splits go.split_asm)
        from dispatchPacket_keeps [OF assms(1) eq 3] h1 have h3: "same_name h h3" by (simp add: same_name_def)
        have "h' = h3 \<or> (\<exists>j. SendDimensionSwitch env j h3 = Ret (err, h'))"
          using assms(2) None 1 none up 3
          by (auto simp: Reconnect_def split: if_splits option.split_asm packet.split_asm)
        with h3 show ?thesis by (auto simp: same_name_def wrote_only_def dest: SendDimensionSwitch_only)
      next
        case False
        with assms(2) None 1 none have "h' = h1 \<or> (\<exists>q. h' = h1\<lparr>h_UpstreamPackets := q\<rparr>)"
          by (auto simp: Reconnect_def Let_def
              split: if_splits list.split_asm stream_end.split_asm packet.split_asm prod.split_asm)
        with h1 show ?thesis by (auto simp: same_name_def)
      qed
    qed
  qed
qed

lemma main_step_name:
  assumes "table_keeps same_name (e_filters env)" "main_step env ev h = Some (Ret (err, h'))"
  shows "h_Nickname h' = h_Nickname h"
proof -
  have eq: "reflp same_name" "transp same_name"
    by (auto simp: same_name_def intro: reflpI transpI)
  have only: "wrote_only g g' \<Longrightarrow> same_name g g'" for g g' :: "'a Handler"
    by (simp add: wrote_only_def same_name_def)
  have handle: "h_Nickname h' = h_Nickname g" if "handlePacket env p d flush g = Ret (err, h')" for p d flush g
    using handlePacket_keeps [OF assms(1) eq only that] by (simp add: same_name_def)
  show ?thesis
  proof (cases ev)
    case TakeCommand
    then obtain c cs where c: "h_commandChan h = c # cs" "Execute env c (h\<lparr>h_commandChan := cs\<rparr>) = Ret (err, h')"
      using assms(2) by (auto simp: main_step_def split: list.splits)
    then show ?thesis
      using Reconnect_name [OF assms(1)] inject_only
      by (cases c) (fastforce simp: Execute_def same_name_def wrote_only_def)+
  next
    case FromClient
    with assms(2) show ?thesis
      by (auto simp: main_step_def split: prod.splits list.splits stream_end.splits dest!: handle)
  next
    case FromServer
    with assms(2) show ?thesis
      by (auto simp: main_step_def split: prod.splits list.splits stream_end.splits dest!: handle)
  next
    case IdleTimeout
    with assms(2) show ?thesis by (simp add: main_step_def)
  qed
qed

text \<open>The filters that the proxy itself registers do.\<close>

definition all_filters :: "'n filter_table \<Rightarrow> 'n PacketFilter set" where
  "all_filters ft = \<Union> (set ` set (ft_packetFilters ft))"

lemma add_filter_all: "add_filter i f ft = Ret ft' \<Longrightarrow> all_filters ft' \<subseteq> insert f (all_filters ft)"
proof -
  assume "add_filter i f ft = Ret ft'"
  then have i: "nat i < length (ft_packetFilters ft)"
    and ft': "ft_packetFilters ft' = (ft_packetFilters ft)[nat i := ft_packetFilters ft ! nat i @ [f]]"
    by (auto simp: add_filter_def in_slice_def split: if_splits)
  from set_update_subset_insert [of "ft_packetFilters ft" "nat i"] nth_mem [OF i] show ?thesis
    unfolding all_filters_def ft' by fastforce
qed

lemma register_all_filters: "register_all lib rs ft = Ret ft' \<Longrightarrow> all_filters ft' \<subseteq> snd ` set rs \<union> all_filters ft"
proof (induction rs arbitrary: ft)
  case (Cons a rs)
  obtain t f where a: "a = (t, f)" by fastforce
  with Cons.prems obtain ft1 where 1: "RegisterPacketFilter lib t f ft = Ret ft1" "register_all lib rs ft1 = Ret ft'"
    by (auto split: go.splits)
  then have "all_filters ft1 \<subseteq> insert f (all_filters ft)"
    by (auto simp: RegisterPacketFilter_def split: if_splits dest!: add_filter_all)
  with Cons.IH [OF 1(2)] a show ?case by auto
qed simp

lemma own_filters_keep:
  assumes "register_all lib own_registrations no_filters = Ret ft"
  shows "table_keeps same_name ft" "table_keeps (\<lambda>h h'. channels h' = channels h) ft"
proof -
  have "all_filters no_filters = {}" by (simp add: all_filters_def no_filters_def)
  with register_all_filters [OF assms] have fs: "all_filters ft \<subseteq> {saveClientSettings, savePlayerList}"
    by (auto simp: own_registrations_def)
  have kept: "same_name h h' \<and> channels h' = channels h"
    if "g \<in> set (ft_packetFilters ft)" "f \<in> set g" "f h p = Ret (err, h', p')" for f g h p err h' p'
  proof -
    from that(1,2) fs have "f = saveClientSettings \<or> f = savePlayerList" by (auto simp: all_filters_def)
    with that(3) show ?thesis
      by (auto simp: saveClientSettings_def savePlayerList_def same_name_def channels_def split: packet.split_asm)
  qed
  show "table_keeps same_name ft"
    unfolding table_keeps_def by (intro ballI allI impI) (rule kept [THEN conjunct1])
  show "table_keeps (\<lambda>h h'. channels h' = channels h) ft"
    unfolding table_keeps_def by (intro ballI allI impI) (rule kept [THEN conjunct2])
qed

section \<open>The end of the login\<close>

lemma Register_conflict: "Register tbl n self pm = (False, pm') \<Longrightarrow> pm' = pm"
  by (auto simp: Register_def LoadOrStore_def split: option.splits prod.splits)

lemma enter_play_returned:
  assumes "enter_play env tbl self pm h = Ret (Returned err h', pm')"
  shows "pm' = pm"
proof (cases "e_upstreams env (h_UpstreamName h)")
  case None
  with assms show ?thesis by (auto simp: enter_play_def)
next
  case (Some t)
  then obtain name addr where t: "e_upstreams env (h_UpstreamName h) = Some (name, addr)" by (cases t) auto
  with assms obtain e h1 where 1: "connectUpstream env name addr h = Ret (e, h1)"
    by (cases "connectUpstream env name addr h") (auto simp: enter_play_def)
  with assms t show ?thesis
    by (cases e) (auto simp: enter_play_def dest: Register_conflict split: prod.splits bool.splits)
qed

lemma finish_login_returned:
  assumes "finish_login env tbl self pm h = Ret (Returned err h', pm')"
  shows "pm' = pm"
proof -
  obtain e h1 where 1: "e_PreLoginHandler env h = (e, h1)" by fastforce
  show ?thesis
  proof (cases e)
    case (Some x)
    with assms 1 show ?thesis by (auto simp: finish_login_def)
  next
    case None
    with assms 1 obtain e2 h2 where 2: "authenticate env h1 = Ret (e2, h2)"
      by (cases "authenticate env h1") (auto simp: finish_login_def)
    obtain e3 h3 where 3: "e_LoginHandler env e2 h2 = (e3, h3)" by fastforce
    show ?thesis
    proof (cases e3)
      case (Some x)
      with assms 1 2 3 None show ?thesis by (auto simp: finish_login_def)
    next
      case none: None
      from assms 1 2 3 None none obtain e4 h4 where "write_side env ClientBound (P_LoginSuccessPacket
          \<lparr>lsu_UID = h_UUID h3, lsu_Username = h_Nickname h3\<rparr>) True h3 = Ret (e4, h4)"
        by (auto simp: finish_login_def)
      with assms 1 2 3 None none show ?thesis
        by (cases e4) (auto simp: finish_login_def dest: enter_play_returned)
    qed
  qed
qed

lemma handleProxy_returned:
  assumes "handleProxy env tbl self pm h = Ret (Returned err h', pm')"
  shows "pm' = pm"
proof (cases "sint (hs_Protocol (h_Handshake h)) = ProtocolVersion")
  case False
  with assms show ?thesis by (auto simp: handleProxy_def)
next
  case True
  with assms obtain packet e r where 1: "ParsePackets (e_lib env) (e_zl env) (e_pool env)
      [P_LoginStartPacket new_LoginStartPacket] (h_DownstreamR h) = Ret ((packet, e), r)"
    by (auto simp: handleProxy_def split: go.split_asm)
  show ?thesis
  proof (cases e)
    case (Some x)
    with assms True 1 show ?thesis by (auto simp: handleProxy_def Let_def)
  next
    case None
    with assms True 1 obtain ls where ls: "packet = Some (P_LoginStartPacket ls)"
      by (auto simp: handleProxy_def Let_def split: option.splits packet.splits)
    show ?thesis
    proof (cases "ValidateNickname (ls_Nickname ls)")
      case False
      with assms True 1 None ls show ?thesis by (auto simp: handleProxy_def Let_def)
    next
      case valid: True
      from assms True 1 None ls valid obtain e2 h2 where "write_side env ClientBound
          (P_LoginCompressionPacket \<lparr>lc_Threshold = word_of_int CompressThreshold\<rparr>) True
          (h\<lparr>h_DownstreamR := r\<rparr>\<lparr>h_Nickname := ls_Nickname ls\<rparr>) = Ret (e2, h2)"
        by (auto simp: handleProxy_def Let_def)
      with assms True 1 None ls valid show ?thesis
        by (cases e2) (auto simp: handleProxy_def Let_def dest: finish_login_returned)
    qed
  qed
qed

lemma Handle_cases:
  assumes "Handle env tbl self pm h = Ret (res, pm')"
  shows "(\<exists>err h'. res = Returned err h' \<and> pm' = pm) \<or> (\<exists>h1. handleProxy env tbl self pm h1 = Ret (res, pm'))"
  using assms
  by (auto simp: Handle_def Let_def split: option.splits packet.splits if_splits)

lemma Handle_returned: "Handle env tbl self pm h = Ret (Returned err h', pm') \<Longrightarrow> pm' = pm"
  by (drule Handle_cases) (auto dest: handleProxy_returned)

lemma Handle_playing:
  assumes "Handle env tbl self pm h = Ret (Playing h', pm')"
  shows "Register tbl (h_Nickname h') self pm = (True, pm')"
proof -
  from Handle_cases [OF assms] obtain h1 where "handleProxy env tbl self pm h1 = Ret (Playing h', pm')" by blast
  from handleProxy_ok [OF this] obtain h0 where "finish_login env tbl self pm h0 = Ret (Playing h', pm')" by blast
  from finish_login_ok [OF this] obtain h4 where "enter_play env tbl self pm h4 = Ret (Playing h', pm')" by blast
  from enter_play_ok [OF this] show ?thesis by blast
qed

section \<open>The end of a session\<close>

text \<open>
  What the rest of \<^verbatim>\<open>Handle\<close> does, in order: it closes the connection to the server, when there is one, and
  the one to the client, logs the error of the tomb, which it was given here, and runs the close hooks.  A
  handler has an \<^verbatim>\<open>UpstreamC\<close> exactly when it has an \<^verbatim>\<open>UpstreamW\<close>, always a \<^verbatim>\<open>DownstreamC\<close>, and its writer is
  no \<^verbatim>\<open>io.Closer\<close>.
\<close>

datatype close_effect = CloseUpstream | CloseDownstream | LogError gerr | RunHook nat

definition close_handler :: "gerr option \<Rightarrow> nat \<Rightarrow> 'n Handler \<Rightarrow> close_effect list \<times> 'n Handler" where
  "close_handler err hooks h =
     ((if h_UpstreamW h \<noteq> None then [CloseUpstream] else []) @ [CloseDownstream] @
      (case err of None \<Rightarrow> [] | Some e \<Rightarrow> [LogError e]) @ map RunHook [0..<hooks],
      h\<lparr>h_UpstreamW := None\<rparr>)"

section \<open>All sessions\<close>

text \<open>
  \<^verbatim>\<open>Serve\<close> starts a goroutine for each connection.  A handler is idle until its connection is accepted, then
  connected until its login is over, then playing.  A step of the proxy is a step of one handler; the login is
  one step, since it uses the player manager only in \<^verbatim>\<open>Register\<close> (whose two parts are apart in \<open>pm_step\<close>).
  Each handler has its own environment: its connections, its random bytes, its callbacks.
\<close>

datatype 'n phase =
    Idle
  | Connected "'n Handler"
  | InPlay "'n Handler"
  | Closed "gerr option" "close_effect list" "'n Handler"

record ('i, 'n) server =
  sv_players :: "'i PlayerManager"
  sv_phase :: "'i \<Rightarrow> 'n phase"

definition new_server :: "('i, 'n) server" where
  "new_server = \<lparr>sv_players = empty_PlayerManager, sv_phase = (\<lambda>_. Idle)\<rparr>"

definition to_phase :: "'i \<Rightarrow> 'n phase \<Rightarrow> ('i, 'n) server \<Rightarrow> ('i, 'n) server" where
  "to_phase i ph s = s\<lparr>sv_phase := (sv_phase s)(i := ph)\<rparr>"

definition closed_with :: "gerr option \<Rightarrow> nat \<Rightarrow> 'n Handler \<Rightarrow> 'n phase" where
  "closed_with err hooks h = (case close_handler err hooks h of (effs, h') \<Rightarrow> Closed err effs h')"

inductive server_step ::
    "('i \<Rightarrow> 'n env) \<Rightarrow> (nat \<Rightarrow> nat) \<Rightarrow> ('i \<Rightarrow> nat) \<Rightarrow> ('i, 'n) server \<Rightarrow> ('i, 'n) server \<Rightarrow> bool"
  for envs tbl hooks where
  accept: "sv_phase s i = Idle \<Longrightarrow>
     server_step envs tbl hooks s (to_phase i (Connected (NewHandler input en out addr auth)) s)"
| login: "sv_phase s i = Connected h \<Longrightarrow>
     Handle (envs i) tbl i (sv_players s) h = Ret (Playing h', pm) \<Longrightarrow>
     server_step envs tbl hooks s (to_phase i (InPlay h') (s\<lparr>sv_players := pm\<rparr>))"
| refused: "sv_phase s i = Connected h \<Longrightarrow>
     Handle (envs i) tbl i (sv_players s) h = Ret (Returned err h', pm) \<Longrightarrow>
     server_step envs tbl hooks s (to_phase i (closed_with err (hooks i) h') (s\<lparr>sv_players := pm\<rparr>))"
| turn: "sv_phase s i = InPlay h \<Longrightarrow> main_step (envs i) ev h = Some (Ret (None, h')) \<Longrightarrow>
     server_step envs tbl hooks s (to_phase i (InPlay h') s)"
| pushed: "sv_phase s i = InPlay h \<Longrightarrow>
     server_step envs tbl hooks s (to_phase i (InPlay (snd (PushCommand c h))) s)"
| leave: "sv_phase s i = InPlay h \<Longrightarrow> main_step (envs i) ev h = Some (Ret (Some e, h')) \<Longrightarrow>
     leave_play tbl e h' (sv_players s) = (err, pm) \<Longrightarrow>
     server_step envs tbl hooks s (to_phase i (closed_with (Some err) (hooks i) h') (s\<lparr>sv_players := pm\<rparr>))"

inductive server_reachable ::
    "('i \<Rightarrow> 'n env) \<Rightarrow> (nat \<Rightarrow> nat) \<Rightarrow> ('i \<Rightarrow> nat) \<Rightarrow> ('i, 'n) server \<Rightarrow> bool"
  for envs tbl hooks where
  init: "server_reachable envs tbl hooks new_server"
| step: "server_reachable envs tbl hooks s \<Longrightarrow> server_step envs tbl hooks s s' \<Longrightarrow> server_reachable envs tbl hooks s'"

lemmas server_step_cases = server_step.cases [consumes 1, case_names accept login refused turn pushed leave]

subsection \<open>Who is listed\<close>

definition playing :: "('i, 'n) server \<Rightarrow> 'i set" where
  "playing s = {i. \<exists>h. sv_phase s i = InPlay h}"

definition name_key :: "(nat \<Rightarrow> nat) \<Rightarrow> ('i, 'n) server \<Rightarrow> 'i \<Rightarrow> string" where
  "name_key tbl s i = (case sv_phase s i of InPlay h \<Rightarrow> ToLower tbl (h_Nickname h) | _ \<Rightarrow> '''')"

definition listed_exactly :: "(nat \<Rightarrow> nat) \<Rightarrow> ('i, 'n) server \<Rightarrow> bool" where
  "listed_exactly tbl s \<longleftrightarrow>
     (\<forall>k i. pm_m (sv_players s) k = Some i \<longleftrightarrow> i \<in> playing s \<and> k = name_key tbl s i) \<and>
     finite (playing s) \<and> pm_count (sv_players s) = word_of_nat (card (playing s))"

lemma playing_to_phase:
  "playing (to_phase i ph s) = (case ph of InPlay h \<Rightarrow> insert i (playing s) | _ \<Rightarrow> playing s - {i})"
  by (auto simp: playing_def to_phase_def split: phase.split)

lemma playing_players [simp]: "playing (s\<lparr>sv_players := pm\<rparr>) = playing s"
  by (simp add: playing_def)

lemma playing_closed: "playing (to_phase i (closed_with e n h) s) = playing s - {i}"
  by (simp add: playing_to_phase closed_with_def close_handler_def)

lemma name_key_to_phase:
  "name_key tbl (to_phase i ph s) j =
    (if j = i then (case ph of InPlay h \<Rightarrow> ToLower tbl (h_Nickname h) | _ \<Rightarrow> '''') else name_key tbl s j)"
  by (simp add: name_key_def to_phase_def)

lemma name_key_players [simp]: "name_key tbl (s\<lparr>sv_players := pm\<rparr>) = name_key tbl s"
  by (simp add: name_key_def fun_eq_iff)

lemma to_phase_players [simp]: "sv_players (to_phase i ph s) = sv_players s"
  by (simp add: to_phase_def)

lemma listed_add:
  assumes "listed_exactly tbl s" "i \<notin> playing s" "Register tbl (h_Nickname h) i (sv_players s) = (True, pm)"
  shows "listed_exactly tbl (to_phase i (InPlay h) (s\<lparr>sv_players := pm\<rparr>))"
proof -
  let ?k = "ToLower tbl (h_Nickname h)"
  from assms(3) have free: "pm_m (sv_players s) ?k = None"
    and pm: "pm_m pm = (pm_m (sv_players s))(?k \<mapsto> i)" "pm_count pm = pm_count (sv_players s) + 1"
    by (auto simp: Register_def LoadOrStore_def AddInt64_def split: option.splits)
  have old: "pm_m (sv_players s) k = Some j \<longleftrightarrow> j \<in> playing s \<and> k = name_key tbl s j" for k j
    using assms(1) by (simp add: listed_exactly_def)
  with free have "\<forall>j \<in> playing s. name_key tbl s j \<noteq> ?k" by (metis option.distinct(1))
  with old assms(1,2) show ?thesis
    by (auto simp: listed_exactly_def playing_to_phase name_key_to_phase pm)
qed

lemma listed_remove:
  assumes "listed_exactly tbl s" "sv_phase s i = InPlay h" "h_Nickname h' = h_Nickname h"
    and "pm = Unregister tbl (h_Nickname h') (sv_players s)"
  shows "listed_exactly tbl (to_phase i (closed_with e n g) (s\<lparr>sv_players := pm\<rparr>))"
proof -
  let ?k = "ToLower tbl (h_Nickname h)"
  have i: "i \<in> playing s" "name_key tbl s i = ?k" using assms(2) by (auto simp: playing_def name_key_def)
  have old: "pm_m (sv_players s) k = Some j \<longleftrightarrow> j \<in> playing s \<and> k = name_key tbl s j" for k j
    using assms(1) by (simp add: listed_exactly_def)
  with i have unique: "\<forall>j \<in> playing s. name_key tbl s j = ?k \<longrightarrow> j = i" by (metis option.inject)
  have fin: "finite (playing s)" "pm_count (sv_players s) = word_of_nat (card (playing s))"
    using assms(1) by (simp_all add: listed_exactly_def)
  from fin(1) i(1) have "card (playing s) = Suc (card (playing s - {i}))" by (rule card.remove)
  with fin(2) have count: "pm_count (sv_players s) - 1 = word_of_nat (card (playing s - {i}))" by simp
  have pm: "pm_m pm = (pm_m (sv_players s))(?k := None)" "pm_count pm = pm_count (sv_players s) - 1"
    by (simp_all add: assms(3,4) Unregister_def AddInt64_def)
  have keys: "name_key tbl (to_phase i (closed_with e n g) (s\<lparr>sv_players := pm\<rparr>)) j = name_key tbl s j" if "j \<noteq> i" for j
    using that by (simp add: name_key_to_phase)
  have lookup: "pm_m pm k = Some j \<longleftrightarrow> j \<in> playing s - {i} \<and> k = name_key tbl s j" for k j
  proof (cases "k = ?k")
    case True
    have "\<not> (j \<in> playing s - {i} \<and> ?k = name_key tbl s j)" using unique by (metis DiffD1 DiffD2 singletonI)
    with True show ?thesis by (simp add: pm(1))
  next
    case False
    then have "pm_m pm k = pm_m (sv_players s) k" by (simp add: pm(1))
    with old [of k j] i(2) False show ?thesis by (metis DiffD1 DiffI singletonD)
  qed
  have "pm_m pm k = Some j \<longleftrightarrow> j \<in> playing s - {i} \<and>
      k = name_key tbl (to_phase i (closed_with e n g) (s\<lparr>sv_players := pm\<rparr>)) j" for k j
    unfolding lookup using keys by auto
  with fin(1) count pm(2) show ?thesis
    unfolding listed_exactly_def playing_closed playing_players to_phase_players by simp
qed

lemma listed_same:
  assumes "listed_exactly tbl s" "sv_phase s i = InPlay h" "h_Nickname h' = h_Nickname h"
  shows "listed_exactly tbl (to_phase i (InPlay h') s)"
proof -
  have "i \<in> playing s" using assms(2) by (auto simp: playing_def)
  then have "playing (to_phase i (InPlay h') s) = playing s"
    by (simp add: playing_to_phase insert_absorb)
  moreover have "name_key tbl (to_phase i (InPlay h') s) = name_key tbl s"
    using assms(2,3) by (auto simp: name_key_to_phase fun_eq_iff) (simp add: name_key_def)
  ultimately show ?thesis using assms(1) by (simp add: listed_exactly_def)
qed

lemma listed_outside:
  assumes "listed_exactly tbl s" "i \<notin> playing s" "playing (to_phase i ph s) = playing s - {i}"
  shows "listed_exactly tbl (to_phase i ph s)"
proof -
  have p: "playing (to_phase i ph s) = playing s" using assms(2,3) by blast
  moreover have "name_key tbl (to_phase i ph s) j = name_key tbl s j" if "j \<in> playing s" for j
    using that assms(2) by (auto simp: name_key_to_phase)
  ultimately show ?thesis using assms(1) unfolding listed_exactly_def by auto
qed

lemma listed_step:
  assumes "listed_exactly tbl s" "server_step envs tbl hooks s s'"
    and "\<forall>i. table_keeps same_name (e_filters (envs i))"
  shows "listed_exactly tbl s'"
  using assms(2)
proof (cases rule: server_step_cases)
  case (accept i input en out addr auth)
  then have "i \<notin> playing s" by (simp add: playing_def)
  with assms(1) accept(1) show ?thesis by (auto intro: listed_outside simp: playing_to_phase)
next
  case (login i h h' pm)
  then have "i \<notin> playing s" by (simp add: playing_def)
  from listed_add [OF assms(1) this Handle_playing [OF login(3)]] login(1) show ?thesis by simp
next
  case (refused i h err h' pm)
  then have "i \<notin> playing s" by (simp add: playing_def)
  moreover have "s\<lparr>sv_players := pm\<rparr> = s" using Handle_returned [OF refused(3)] by simp
  ultimately show ?thesis using assms(1) refused(1) by (auto intro: listed_outside simp: playing_closed)
next
  case (turn i h ev h')
  with assms(3) main_step_name have "h_Nickname h' = h_Nickname h" by blast
  from listed_same [OF assms(1) turn(2) this] turn(1) show ?thesis by simp
next
  case (pushed i h c)
  have "h_Nickname (snd (PushCommand c h)) = h_Nickname h" by (simp add: PushCommand_def)
  from listed_same [OF assms(1) pushed(2) this] pushed(1) show ?thesis by simp
next
  case (leave i h ev e h' err pm)
  with assms(3) main_step_name have "h_Nickname h' = h_Nickname h" by blast
  moreover have "pm = Unregister tbl (h_Nickname h') (sv_players s)" using leave(4) by (simp add: leave_play_def)
  ultimately show ?thesis unfolding leave(1) by (rule listed_remove [OF assms(1) leave(2)])
qed

lemma listed_reachable:
  assumes "\<forall>i. table_keeps same_name (e_filters (envs i))"
  shows "server_reachable envs tbl hooks s \<Longrightarrow> listed_exactly tbl s"
proof (induction rule: server_reachable.induct)
  case init
  show ?case by (simp add: listed_exactly_def new_server_def playing_def empty_PlayerManager_def)
next
  case (step s s')
  with assms listed_step show ?case by blast
qed

subsection \<open>What is closed\<close>

definition closed_ok :: "('i \<Rightarrow> nat) \<Rightarrow> ('i, 'n) server \<Rightarrow> bool" where
  "closed_ok hooks s \<longleftrightarrow>
     (\<forall>i err effs h. sv_phase s i = Closed err effs h \<longrightarrow> (\<exists>g. Closed err effs h = closed_with err (hooks i) g))"

lemma closed_with_self:
  "closed_with e n g = Closed err effs h \<Longrightarrow> \<exists>g. Closed err effs h = closed_with err n g"
  by (intro exI [of _ g]) (auto simp: closed_with_def close_handler_def)

lemma closed_reachable: "server_reachable envs tbl hooks s \<Longrightarrow> closed_ok hooks s"
proof (induction rule: server_reachable.induct)
  case init
  show ?case by (simp add: closed_ok_def new_server_def)
next
  case (step s s')
  from step(2) step(3) show ?case
    by (cases rule: server_step_cases)
       (auto simp: closed_ok_def to_phase_def split: if_split_asm intro: closed_with_self)
qed

lemma closed_with_effects:
  assumes "closed_with err n g = Closed err effs h"
  shows "CloseDownstream \<in> set effs \<and> (CloseUpstream \<in> set effs \<longleftrightarrow> h_UpstreamW g \<noteq> None) \<and> h_UpstreamW h = None
    \<and> (\<forall>e. LogError e \<in> set effs \<longleftrightarrow> err = Some e) \<and> filter (\<lambda>x. \<exists>k. x = RunHook k) effs = map RunHook [0..<n]"
proof -
  have "filter (\<lambda>x. \<exists>k. x = RunHook k) (map RunHook ks) = map RunHook ks" for ks
    by (induction ks) auto
  with assms show ?thesis
    by (auto simp: closed_with_def close_handler_def split: option.splits)
qed

section \<open>How long a session lasts\<close>

text \<open>The rounds that the main loop can still take: what waits in the channels of the handler.\<close>

definition work :: "'n Handler \<Rightarrow> nat" where
  "work h = length (fst (h_downstream_packets h)) + length (fst (h_UpstreamPackets h)) + length (h_commandChan h)"

definition same_channels :: "'n Handler \<Rightarrow> 'n Handler \<Rightarrow> bool" where
  "same_channels h h' \<longleftrightarrow> channels h' = channels h"

definition only_injections :: "'n Handler \<Rightarrow> bool" where
  "only_injections h \<longleftrightarrow> (\<forall>c \<in> set (h_commandChan h). \<forall>name addr. c \<noteq> ReconnectCommand name addr)"

lemma main_step_work:
  assumes "table_keeps same_channels (e_filters env)" "only_injections h"
    and "main_step env ev h = Some (Ret (None, h'))"
  shows "work h = Suc (work h') \<and> only_injections h'"
proof -
  have eq: "reflp same_channels" "transp same_channels"
    by (auto simp: same_channels_def intro: reflpI transpI)
  have only: "wrote_only g g' \<Longrightarrow> same_channels g g'" for g g' :: "'a Handler"
    by (simp add: wrote_only_def same_channels_def)
  have handle: "channels h' = channels g" if "handlePacket env p d flush g = Ret (None, h')" for p d flush g
    using handlePacket_keeps [OF assms(1) eq only that] by (simp add: same_channels_def)
  show ?thesis
  proof (cases ev)
    case TakeCommand
    with assms(3) obtain c cs where c: "h_commandChan h = c # cs" "Execute env c (h\<lparr>h_commandChan := cs\<rparr>) = Ret (None, h')"
      by (auto simp: main_step_def split: list.splits)
    with assms(2) have "channels h' = channels (h\<lparr>h_commandChan := cs\<rparr>)"
      by (cases c) (auto simp: only_injections_def Execute_def wrote_only_def dest!: inject_only)
    with c(1) assms(2) show ?thesis by (simp add: work_def only_injections_def channels_def)
  next
    case FromClient
    with assms(3) obtain p ps e where p: "h_downstream_packets h = (p # ps, e)"
      "handlePacket env p ServerBound True (h\<lparr>h_downstream_packets := (ps, e)\<rparr>) = Ret (None, h')"
      by (auto simp: main_step_def split: prod.splits list.splits stream_end.splits)
    from handle [OF p(2)] p(1) assms(2) show ?thesis by (simp add: work_def only_injections_def channels_def)
  next
    case FromServer
    with assms(3) obtain p ps e where p: "h_UpstreamPackets h = (p # ps, e)"
      "handlePacket env p ClientBound True (h\<lparr>h_UpstreamPackets := (ps, e)\<rparr>) = Ret (None, h')"
      by (auto simp: main_step_def split: prod.splits list.splits stream_end.splits)
    from handle [OF p(2)] p(1) assms(2) show ?thesis by (simp add: work_def only_injections_def channels_def)
  next
    case IdleTimeout
    with assms(3) show ?thesis by (simp add: main_step_def)
  qed
qed

lemma main_loop_work:
  assumes "table_keeps same_channels (e_filters env)"
  shows "main_loop env evs h h' \<Longrightarrow> only_injections h \<Longrightarrow> work h = length evs + work h' \<and> only_injections h'"
proof (induction rule: main_loop.induct)
  case (round evs h h1 ev h2)
  with main_step_work [OF assms, of h1 ev h2] show ?case by simp
qed simp

lemma read_packets_bound: "length (fst (read_packets env d r)) \<le> length (pr_input r)"
proof (induction env d r rule: read_packets.induct)
  case (1 env d r)
  show ?case
  proof (cases "read_round env d r")
    case (Finished e)
    then show ?thesis by (simp add: read_packets.simps [of env d r])
  next
    case (Deliver p r')
    from "1.IH" [OF this] read_round_shorter [OF this] Deliver show ?thesis
      by (auto simp: read_packets.simps [of env d r] split: prod.split)
  qed
qed

section \<open>Properties\<close>

text \<open>C7: The sessions of the proxy, under any interleaving of their logins, their main loops and the commands
  that others push, as long as no filter renames its player: the players that are listed are exactly the
  sessions that play, each under its lower-cased nickname, so no name plays twice, and the counter is their
  number.  A session that is over is not listed any more, has closed its connections and has run every close
  hook once, in order.\<close>

theorem server_sessions:
  assumes "\<forall>i. table_keeps same_name (e_filters (envs i))" "server_reachable envs tbl hooks s"
  shows "(\<forall>k i. pm_m (sv_players s) k = Some i \<longleftrightarrow> (\<exists>h. sv_phase s i = InPlay h \<and> ToLower tbl (h_Nickname h) = k))
    \<and> (\<forall>i j g h. sv_phase s i = InPlay g \<longrightarrow> sv_phase s j = InPlay h \<longrightarrow>
        ToLower tbl (h_Nickname g) = ToLower tbl (h_Nickname h) \<longrightarrow> i = j)
    \<and> pm_count (sv_players s) = word_of_nat (card {i. \<exists>h. sv_phase s i = InPlay h})
    \<and> (\<forall>i err effs h. sv_phase s i = Closed err effs h \<longrightarrow>
        i \<notin> ran (pm_m (sv_players s)) \<and> CloseDownstream \<in> set effs \<and> h_UpstreamW h = None
        \<and> filter (\<lambda>x. \<exists>k. x = RunHook k) effs = map RunHook [0..<hooks i])"
proof -
  from listed_reachable [OF assms] have l: "listed_exactly tbl s" .
  have lookup: "pm_m (sv_players s) k = Some i \<longleftrightarrow> (\<exists>h. sv_phase s i = InPlay h \<and> ToLower tbl (h_Nickname h) = k)" for k i
    using l by (auto simp: listed_exactly_def playing_def name_key_def)
  have "i = j" if "sv_phase s i = InPlay g" "sv_phase s j = InPlay h"
    "ToLower tbl (h_Nickname g) = ToLower tbl (h_Nickname h)" for i j g h
    using lookup [of "ToLower tbl (h_Nickname g)" i] lookup [of "ToLower tbl (h_Nickname g)" j] that by auto
  moreover have "i \<notin> ran (pm_m (sv_players s)) \<and> CloseDownstream \<in> set effs \<and> h_UpstreamW h = None
        \<and> filter (\<lambda>x. \<exists>k. x = RunHook k) effs = map RunHook [0..<hooks i]"
    if c: "sv_phase s i = Closed err effs h" for i err effs h
  proof -
    from closed_reachable [OF assms(2)] c obtain g where "closed_with err (hooks i) g = Closed err effs h"
      unfolding closed_ok_def by metis
    from closed_with_effects [OF this] c show ?thesis by (auto simp: ran_def lookup)
  qed
  moreover have "pm_count (sv_players s) = word_of_nat (card {i. \<exists>h. sv_phase s i = InPlay h})"
    using l by (simp add: listed_exactly_def playing_def)
  ultimately show ?thesis using lookup by blast
qed

text \<open>The sample client with its handshake in front.\<close>

definition sample_handshake :: HandshakePacket where
  "sample_handshake = \<lparr>hs_Protocol = 753, hs_Host = ''mc'', hs_Port = 25565, hs_NextState = 2\<rparr>"

definition sample_input :: bytes where
  "sample_input = sample_frame 0 (P_HandshakePacket sample_handshake) @
     sample_frame 0 (P_LoginStartPacket \<lparr>ls_Nickname = ''bob''\<rparr>) @
     sample_frame CompressThreshold (P_EncryptionResponsePacket sample_response) @ []"

definition sample_connection :: "unit Handler" where
  "sample_connection = NewHandler sample_input EOF open_dev ''10.1.1.1'' True"

lemma sample_handshake_frame:
  "frame_of sample_env (\<lambda>_. True) 0 (P_HandshakePacket sample_handshake)
     (sample_frame 0 (P_HandshakePacket sample_handshake))"
proof -
  have l: "length (WriteVarInt i) \<le> 5" for i by (rule length_WriteVarInt)
  show ?thesis
    using l [of 753] l [of 2]
    by (intro sample_frame_of [where b = "WriteVarInt 753 @ WriteMinecraftString ''mc'' @ PutUint16 25565 @ WriteVarInt 2"])
      (simp_all add: WriteVarInt_def PutUint16_def sample_handshake_def methods_defs HandshakePacket_reflect_def struct_Serialize_def
        WriteMinecraftString_def id_ok_def MaxPacketID_def)
qed

definition sample_rest :: bytes where
  "sample_rest = sample_frame 0 (P_LoginStartPacket \<lparr>ls_Nickname = ''bob''\<rparr>) @
     sample_frame CompressThreshold (P_EncryptionResponsePacket sample_response) @ []"

lemma sample_handle:
  fixes self :: 'i
  assumes "e_lib env = unit_nbt" "e_zl env = stored_zlib" "e_pool env = fresh_pool"
  shows "\<exists>r. reader_at 0 sample_rest r \<and> Handle env tbl self pm sample_connection
    = handleProxy env tbl self pm (sample_connection\<lparr>h_DownstreamR := r, h_Handshake := sample_handshake\<rparr>)"
proof -
  let ?qs = "[P_HandshakePacket (h_Handshake sample_connection)] :: unit packet list"
  have at: "reader_at 0 (sample_frame 0 (P_HandshakePacket sample_handshake) @ sample_rest) (h_DownstreamR sample_connection)"
    by (simp add: sample_connection_def NewHandler_def sample_input_def sample_rest_def reader_at_New)
  have find: "find (\<lambda>q. PacketID (e_lib sample_env) (P_HandshakePacket sample_handshake :: unit packet)
      = PacketID (e_lib sample_env) q) ?qs = Some (P_HandshakePacket (h_Handshake sample_connection))"
    by (simp add: methods_defs)
  have rec: "receives (P_HandshakePacket (h_Handshake sample_connection)) (P_HandshakePacket sample_handshake :: unit packet)"
    by (simp add: receives_def)
  have libs: "e_lib sample_env = unit_nbt" "e_zl sample_env = stored_zlib" "e_pool sample_env = fresh_pool"
    by (simp_all add: sample_env_def)
  from ParsePackets_frame [OF sample_good sample_handshake_frame threshold_cases(1) at find rec] obtain r where
    r: "ParsePackets unit_nbt stored_zlib fresh_pool ?qs (h_DownstreamR sample_connection)
      = Ret ((Some (P_HandshakePacket sample_handshake), None), r)" "reader_at 0 sample_rest r"
    by (auto simp: read_back_def libs)
  have "hs_NextState sample_handshake = LOGIN" "hs_NextState sample_handshake \<noteq> STATUS"
    by (simp_all add: sample_handshake_def LOGIN_def STATUS_def)
  with r show ?thesis by (auto simp: Handle_def assms)
qed

lemma sample_connection_simps:
  "sint (hs_Protocol sample_handshake) = ProtocolVersion" "h_hasAuthenticator sample_connection"
  "reliable (h_DownstreamW sample_connection)"
  by (simp_all add: sample_handshake_def ProtocolVersion_def sample_connection_def NewHandler_def
        reliable_def NewPacketWriter_def open_dev_def)

lemma sample_login:
  "\<exists>h pm. Handle sample_env id (0 :: nat) empty_PlayerManager sample_connection = Ret (Playing h, pm)
    \<and> h_Nickname h = ''Bob'' \<and> GetByNickname id ''Bob'' pm = Some 0"
proof -
  have "e_lib sample_env = unit_nbt" "e_zl sample_env = stored_zlib" "e_pool sample_env = fresh_pool"
    by (simp_all add: sample_env_def)
  from sample_handle [OF this, of id "0 :: nat" empty_PlayerManager] obtain r where
    r: "reader_at 0 sample_rest r" "Handle sample_env id (0 :: nat) empty_PlayerManager sample_connection
      = handleProxy sample_env id 0 empty_PlayerManager
          (sample_connection\<lparr>h_DownstreamR := r, h_Handshake := sample_handshake\<rparr>)" by blast
  let ?h = "sample_connection\<lparr>h_DownstreamR := r, h_Handshake := sample_handshake\<rparr>"
  have h: "sint (hs_Protocol (h_Handshake ?h)) = ProtocolVersion" "h_hasAuthenticator ?h"
    "reader_at 0 (sample_frame 0 (P_LoginStartPacket \<lparr>ls_Nickname = ''bob''\<rparr>) @
     sample_frame CompressThreshold (P_EncryptionResponsePacket sample_response) @ []) (h_DownstreamR ?h)"
    "reliable (h_DownstreamW ?h)"
    using r(1) sample_connection_simps by (simp_all add: sample_rest_def)
  have "packet_ok (\<lambda>_. True) (P_HandshakePacket ((h_Handshake ?h)\<lparr>hs_Host := handshake_host
       (hs_Host (h_Handshake ?h)) (h_DownstreamAddr ?h) (e_uuid_string sample_env (jn_id sample_joined))\<rparr>) :: unit packet)"
    using sample_packets(2) by (simp add: sample_handshake_def sample_connection_def sample_client_def NewHandler_def)
  from login_completes [where self = "0 :: nat", OF sample_good h(1,2) sample_facts(1) sample_frames(1,2)
      h(3,4) sample_genuine sample_facts(2,3) sample_packets(1) sample_facts(4,5,6) sample_answers this sample_facts(7)]
  show ?thesis unfolding r(2) by (auto simp: sample_joined_def)
qed

theorem server_sessions_witness:
  "\<exists>s h. server_reachable (\<lambda>_. sample_env) id (\<lambda>_. 1) s \<and> sv_phase s (0 :: nat) = InPlay h
    \<and> pm_m (sv_players s) ''bob'' = Some 0"
proof -
  obtain h pm where h: "Handle sample_env id (0 :: nat) empty_PlayerManager sample_connection = Ret (Playing h, pm)"
    "h_Nickname h = ''Bob''" using sample_login by blast
  let ?s1 = "to_phase 0 (Connected sample_connection) new_server :: (nat, unit) server"
  let ?s2 = "to_phase 0 (InPlay h) (?s1\<lparr>sv_players := pm\<rparr>)"
  have "server_step (\<lambda>_. sample_env) id (\<lambda>_. 1) new_server ?s1"
    unfolding sample_connection_def by (rule server_step.accept) (simp add: new_server_def)
  with server_reachable.init have 1: "server_reachable (\<lambda>_. sample_env) id (\<lambda>_. 1) ?s1" by (rule server_reachable.step)
  have "server_step (\<lambda>_. sample_env) id (\<lambda>_. 1) ?s1 ?s2"
    by (rule server_step.login [where h = sample_connection])
       (use h(1) in \<open>simp_all add: to_phase_def new_server_def\<close>)
  with 1 have 2: "server_reachable (\<lambda>_. sample_env) id (\<lambda>_. 1) ?s2" by (rule server_reachable.step)
  have keeps: "\<forall>i :: nat. table_keeps same_name (e_filters ((\<lambda>_. sample_env) i))"
    by (simp add: table_keeps_def sample_env_def no_filters_def)
  have "sv_phase ?s2 0 = InPlay h" by (simp add: to_phase_def)
  moreover have "ToLower id (h_Nickname h) = ''bob''" unfolding h(2) by code_simp
  ultimately have "pm_m (sv_players ?s2) ''bob'' = Some 0"
    using server_sessions [OF keeps 2] by blast
  with 2 \<open>sv_phase ?s2 0 = InPlay h\<close> show ?thesis by blast
qed



end
