(* ===== verification/ExampleProxy.thy ===== *)
theory ExampleProxy
  imports Session
begin

text \<open>
  src/example/main.go: the callbacks of a small proxy without authentication, and its chat filter.  The
  callbacks look into the player manager, so the environment depends on it; \<open>keys\<close> is the order in which
  Go visits the players.
\<close>

section \<open>Callbacks\<close>

definition ex_PingHandler :: "'i PlayerManager \<Rightarrow> HandshakePacket \<Rightarrow> ServerStatus" where
  "ex_PingHandler pm packet =
     (let p = Len pm in
      \<lparr>ss_Version = GameVersion, ss_Players = \<lparr>ssp_Online = p, ssp_Max = p + 1\<rparr>,
       ss_Description = ''potoq'', ss_Favicon = ''''\<rparr>)"

definition ex_PreLoginHandler :: "'n Handler \<Rightarrow> gerr option \<times> 'n Handler" where
  "ex_PreLoginHandler h = (None, h\<lparr>h_hasAuthenticator := False\<rparr>)"

definition ex_LoginHandler ::
    "string list \<Rightarrow> ('i \<Rightarrow> uuid) \<Rightarrow> 'i PlayerManager \<Rightarrow> gerr option \<Rightarrow> 'n Handler \<Rightarrow> gerr option \<times> 'n Handler" where
  "ex_LoginHandler keys uuid_of pm login_err h =
     (if login_err \<noteq> None \<and> login_err \<noteq> Some ErrUnauthenticated then (login_err, h)
      else if GetByUUID keys uuid_of (h_UUID h) pm \<noteq> None then (Some (Errorf ''Gracz jest juz zalogowany.'' []), h)
      else (None, h\<lparr>h_UpstreamName := ''local''\<rparr>))"

definition example_env :: "string list \<Rightarrow> ('i \<Rightarrow> uuid) \<Rightarrow> 'i PlayerManager \<Rightarrow> 'n env \<Rightarrow> 'n env" where
  "example_env keys uuid_of pm env = env\<lparr>e_PingHandler := ex_PingHandler pm,
     e_PreLoginHandler := ex_PreLoginHandler, e_LoginHandler := ex_LoginHandler keys uuid_of pm\<rparr>"

text \<open>On the example proxy, which authenticates nobody, a player enters the play state only under the UUID
  that follows from the nickname, only when no listed player has this UUID, and only on the server that is
  called local.\<close>

theorem example_identity:
  assumes "Handle (example_env keys uuid_of pm env) tbl self pm h = Ret (Playing h', pm')"
  shows "h_UUID h' = OfflinePlayerUUID (e_md5 env) (h_Nickname h')
    \<and> GetByUUID keys uuid_of (h_UUID h') pm = None
    \<and> (\<exists>addr. e_upstreams env ''local'' = Some (h_UpstreamName h', addr))"
proof -
  let ?env = "example_env keys uuid_of pm env"
  have hooks: "e_PreLoginHandler ?env = ex_PreLoginHandler" "e_LoginHandler ?env = ex_LoginHandler keys uuid_of pm"
    "e_md5 ?env = e_md5 env" "e_upstreams ?env = e_upstreams env"
    by (simp_all add: example_env_def)
  from Handle_cases [OF assms] obtain g where "handleProxy ?env tbl self pm g = Ret (Playing h', pm')" by blast
  from handleProxy_ok [OF this] obtain h0 where "finish_login ?env tbl self pm h0 = Ret (Playing h', pm')" by blast
  from finish_login_ok [OF this] obtain err h2 h3 h4 where fin: "admitted ?env h0 err h2 h3"
    "write_side ?env ClientBound (P_LoginSuccessPacket
         \<lparr>lsu_UID = h_UUID h3, lsu_Username = h_Nickname h3\<rparr>) True h3 = Ret (None, h4)"
    "enter_play ?env tbl self pm h4 = Ret (Playing h', pm')" by blast
  from fin(1) obtain h1 where adm: "ex_PreLoginHandler h0 = (None, h1)"
    "authenticate ?env h1 = Ret (err, h2)" "ex_LoginHandler keys uuid_of pm err h2 = (None, h3)"
    unfolding admitted_def hooks by blast
  then have "\<not> h_hasAuthenticator h1" by (auto simp: ex_PreLoginHandler_def)
  with adm(2) have h2: "err = Some ErrUnauthenticated" "h_UUID h2 = OfflinePlayerUUID (e_md5 env) (h_Nickname h2)"
    by (auto simp: authenticate_def hooks)
  with adm(3) have h3: "h_UUID h3 = h_UUID h2" "h_Nickname h3 = h_Nickname h2" "h_UpstreamName h3 = ''local''"
    "GetByUUID keys uuid_of (h_UUID h2) pm = None"
    by (auto simp: ex_LoginHandler_def split: if_splits)
  from enter_play_ok [OF fin(3)] write_side_result [OF fin(2)]
  have "h_Nickname h' = h_Nickname h3" "h_UUID h' = h_UUID h3"
    "\<exists>addr. e_upstreams env (h_UpstreamName h3) = Some (h_UpstreamName h', addr)"
    by (auto simp: hooks)
  with h2 h3 show ?thesis by simp
qed

lemma example_env_keeps [simp]:
  "e_lib (example_env keys uuid_of pm env) = e_lib env" "e_zl (example_env keys uuid_of pm env) = e_zl env"
  "e_pool (example_env keys uuid_of pm env) = e_pool env" "e_md5 (example_env keys uuid_of pm env) = e_md5 env"
  "e_upstreams (example_env keys uuid_of pm env) = e_upstreams env" "e_dial (example_env keys uuid_of pm env) = e_dial env"
  "e_uuid_string (example_env keys uuid_of pm env) = e_uuid_string env"
  "e_PreLoginHandler (example_env keys uuid_of pm env) = ex_PreLoginHandler"
  "e_LoginHandler (example_env keys uuid_of pm env) = ex_LoginHandler keys uuid_of pm"
  by (simp_all add: example_env_def)

theorem example_identity_witness:
  "\<exists>h pm. Handle (example_env [] (\<lambda>_. []) (empty_PlayerManager :: nat PlayerManager) sample_env) id (0 :: nat)
        empty_PlayerManager sample_connection
      = Ret (Playing h, pm)
    \<and> h_UUID h = OfflinePlayerUUID (\<lambda>_. replicate 16 1) (h_Nickname h)"
proof -
  let ?pm = "empty_PlayerManager :: nat PlayerManager"
  let ?env = "example_env [] (\<lambda>_. []) ?pm sample_env"
  have libs: "e_lib ?env = unit_nbt" "e_zl ?env = stored_zlib" "e_pool ?env = fresh_pool"
    by (simp_all add: sample_env_def)
  from sample_handle [OF libs, of id 0 ?pm] obtain r where
    r: "reader_at 0 sample_rest r" "Handle ?env id 0 ?pm sample_connection
      = handleProxy ?env id 0 ?pm (sample_connection\<lparr>h_DownstreamR := r, h_Handshake := sample_handshake\<rparr>)" by blast
  let ?h = "sample_connection\<lparr>h_DownstreamR := r, h_Handshake := sample_handshake\<rparr>"
  have good: "good_libs ?env (\<lambda>_. True)" using sample_good by (simp add: good_libs_def)
  have frame: "frame_of ?env (\<lambda>_. True) 0 (P_LoginStartPacket \<lparr>ls_Nickname = ''bob''\<rparr>)
      (sample_frame 0 (P_LoginStartPacket \<lparr>ls_Nickname = ''bob''\<rparr>))"
    using sample_frames(1) by (simp add: frame_of_def)
  have h: "sint (hs_Protocol (h_Handshake ?h)) = ProtocolVersion"
    "reader_at 0 (sample_frame 0 (P_LoginStartPacket \<lparr>ls_Nickname = ''bob''\<rparr>) @
     (sample_frame CompressThreshold (P_EncryptionResponsePacket sample_response) @ [])) (h_DownstreamR ?h)"
    "reliable (h_DownstreamW ?h)"
    using r(1) sample_connection_simps by (simp_all add: sample_rest_def)
  from handleProxy_completes [OF good h(1) frame sample_facts(1) h(2,3), of id 0 ?pm] obtain w r' where
    0: "reliable w" "handleProxy ?env id 0 ?pm ?h
      = finish_login ?env id 0 ?pm (?h\<lparr>h_Nickname := ''bob'', h_DownstreamW := w, h_DownstreamR := r'\<rparr>)" by blast
  let ?h0 = "?h\<lparr>h_Nickname := ''bob'', h_DownstreamW := w, h_DownstreamR := r'\<rparr>"
  let ?h2 = "?h0\<lparr>h_hasAuthenticator := False, h_UUID := OfflinePlayerUUID (e_md5 sample_env) ''bob''\<rparr>"
  let ?h3 = "?h2\<lparr>h_UpstreamName := ''local''\<rparr>"
  have adm: "admitted ?env ?h0 (Some ErrUnauthenticated) ?h2 ?h3"
    by (simp add: admitted_def ex_PreLoginHandler_def authenticate_def ex_LoginHandler_def GetByUUID_def Range_def
        List.map_filter_def)
  have md5: "e_md5 sample_env = (\<lambda>_. replicate 16 1)" by (simp add: sample_env_def)
  have len: "length (OfflinePlayerUUID (e_md5 sample_env) ''bob'') = 16"
    unfolding md5 using offline_uuid_version [of "\<lambda>_. replicate 16 1" "''bob''"] by (simp only: length_replicate)
  have up: "e_upstreams ?env (h_UpstreamName ?h3) = Some (''lobby'', ''10.0.0.1:25565'')"
    by (simp add: sample_env_def)
  have ans: "answers ?env (\<lambda>_. True) ''10.0.0.1:25565'' []"
    using sample_answers by (simp add: answers_def frame_of_def)
  have hs: "packet_ok (\<lambda>_. True) (P_HandshakePacket (upstream_handshake ?env ?h3))"
    by (simp add: upstream_handshake_def HandshakePacket_reflect_def sample_env_def sample_handshake_def
        sample_connection_def NewHandler_def handshake_host_def ReplaceAll_def NUL_def)
  have free: "GetByNickname id (h_Nickname ?h3) ?pm = None"
    by (simp add: GetByNickname_def empty_PlayerManager_def)
  from finish_login_completes [OF adm good _ up ans hs _ _ free, of 0] 0(1) len obtain h' pm' where
    "Handle ?env id 0 ?pm sample_connection = Ret (Playing h', pm')"
    unfolding r(2) 0(2) by auto
  note run = this
  from example_identity [OF run] have "h_UUID h' = OfflinePlayerUUID (\<lambda>_. replicate 16 1) (h_Nickname h')"
    unfolding md5 by (rule conjunct1)
  with run show ?thesis by (intro exI conjI)
qed

section \<open>The chat filter\<close>

text \<open>\<^verbatim>\<open>SimpleChatFilter\<close>; \<^verbatim>\<open>strings.ReplaceAll\<close> is \<open>replace_n None\<close>.\<close>

definition SimpleChatFilter :: "'n PacketFilter" where
  "SimpleChatFilter h packet =
     (case packet of
        P_ChatMessagePacketSB p \<Rightarrow>
          (let p1 = p\<lparr>cms_Message := replace_n None ''premium'' ''cukier'' (cms_Message p)\<rparr> in
           (Ret (if Contains (cms_Message p1) ''lagi'' then Some ErrDropPacket else None, h, P_ChatMessagePacketSB p1)))
      | _ \<Rightarrow> Panic ''interface conversion'')"

definition example_registrations :: "('n packet \<times> 'n PacketFilter) list" where
  "example_registrations = own_registrations @ [(P_ChatMessagePacketSB new_ChatMessagePacketSB, SimpleChatFilter)]"

lemma example_filters_typed: "typed_registrations lib (z :: 'n) example_registrations"
proof -
  have "filter_for (P_ChatMessagePacketSB c) (SimpleChatFilter :: 'n PacketFilter)" for c
    by (auto simp: filter_for_def packet_type_inversion SimpleChatFilter_def Let_def)
  moreover have "in_registry lib z (P_ChatMessagePacketSB c)" for c
    by (simp add: in_registry_def newPlayPacket_def methods_defs ServerBound_def ClientBound_def)
  ultimately show ?thesis
    using own_filters_typed [of lib z] by (simp add: typed_registrations_def example_registrations_def)
qed

text \<open>A message that reaches the server does not contain the forbidden word.\<close>

lemma SimpleChatFilter_passes:
  assumes "SimpleChatFilter h packet = Ret (None, h', packet')"
  shows "\<exists>p. packet' = P_ChatMessagePacketSB p \<and> \<not> Contains (cms_Message p) ''lagi''"
  using assms by (auto simp: SimpleChatFilter_def Let_def split: packet.splits if_splits)

end
