(* ===== verification/FilteredTraffic.thy ===== *)
theory FilteredTraffic
  imports Session Delivery
begin

text \<open>
  Traffic that filters look at: packets are parsed by the reading goroutine, seen by their filters and
  written again.  When the filters only look, the other side gets the same bytes.
\<close>

section \<open>The two directions\<close>

definition event_of :: "direction \<Rightarrow> event" where
  "event_of d = (if d = ServerBound then FromClient else FromServer)"

definition queue_of :: "direction \<Rightarrow> 'n Handler \<Rightarrow> 'n packet list \<times> stream_end" where
  "queue_of d h = (if d = ServerBound then h_downstream_packets h else h_UpstreamPackets h)"

definition writer_of :: "direction \<Rightarrow> 'n Handler \<Rightarrow> packetWriter option" where
  "writer_of d h = (if d = ServerBound then h_UpstreamW h else Some (h_DownstreamW h))"

definition set_queue :: "direction \<Rightarrow> 'n packet list \<times> stream_end \<Rightarrow> 'n Handler \<Rightarrow> 'n Handler" where
  "set_queue d q h = (if d = ServerBound then h\<lparr>h_downstream_packets := q\<rparr> else h\<lparr>h_UpstreamPackets := q\<rparr>)"

lemma main_step_queue:
  "queue_of d h = (p # ps, e) \<Longrightarrow> d = ServerBound \<or> d = ClientBound \<Longrightarrow>
   main_step env (event_of d) h = Some (handlePacket env p d True (set_queue d (ps, e) h))"
  by (auto simp: main_step_def event_of_def queue_of_def set_queue_def)

lemma writer_set_queue [simp]: "writer_of d (set_queue e q h) = writer_of d h"
  by (simp add: writer_of_def set_queue_def)

lemma queue_set_queue [simp]: "queue_of d (set_queue d q h) = q"
  by (simp add: queue_of_def set_queue_def)

lemma queue_channels: "channels h' = channels h \<Longrightarrow> queue_of d h' = queue_of d h"
  by (simp add: channels_def queue_of_def)

lemma write_side_writer:
  assumes "writer_of d h = Some w" "reliable w" "Serialize (e_lib env) p = Ret (b, None)"
    and "d = ServerBound \<or> d = ClientBound"
  shows "\<exists>h' w'. write_side env d p flush h = Ret (None, h') \<and> writer_of d h' = Some w'
    \<and> wrote (frame (e_zl env) (pw_compthres w) (WriteVarInt (PacketID (e_lib env) p) @ b)) w w'"
proof -
  from WritePacket_ok [OF assms(3,2), of "e_zl env" flush] obtain w' where
    "WritePacket (e_lib env) (e_zl env) p flush w = Ret (None, w')"
    "wrote (frame (e_zl env) (pw_compthres w) (WriteVarInt (PacketID (e_lib env) p) @ b)) w w'" by blast
  with assms(1,4) show ?thesis
    by (auto simp: write_side_def writer_of_def)
qed

section \<open>Filters that only look\<close>

definition watched :: "'n env \<Rightarrow> 'n packet \<Rightarrow> bool" where
  "watched env p \<longleftrightarrow>
     (\<forall>h. \<exists>h'. dispatchPacket (e_lib env) (e_filters env) h p = Ret (None, h', p) \<and> channels h' = channels h
        \<and> h_UpstreamW h' = h_UpstreamW h \<and> h_DownstreamW h' = h_DownstreamW h)"

lemma watched_step:
  assumes "queue_of d h = (p # ps, e)" "d = ServerBound \<or> d = ClientBound" "packet_type p \<noteq> 0" "watched env p"
    and "writer_of d h = Some w" "reliable w" "Serialize (e_lib env) p = Ret (b, None)"
  shows "\<exists>h' w'. main_step env (event_of d) h = Some (Ret (None, h')) \<and> queue_of d h' = (ps, e)
    \<and> writer_of d h' = Some w'
    \<and> wrote (frame (e_zl env) (pw_compthres w) (WriteVarInt (PacketID (e_lib env) p) @ b)) w w'"
proof -
  let ?h = "set_queue d (ps, e) h"
  from assms(4) obtain h1 where h1: "dispatchPacket (e_lib env) (e_filters env) ?h p = Ret (None, h1, p)"
    "channels h1 = channels ?h" "h_UpstreamW h1 = h_UpstreamW ?h" "h_DownstreamW h1 = h_DownstreamW ?h"
    unfolding watched_def by blast
  then have "writer_of d h1 = writer_of d ?h" by (simp add: writer_of_def)
  with assms(5) have "writer_of d h1 = Some w" by simp
  from write_side_writer [OF this assms(6,7,2), of True] obtain h2 w2 where
    2: "write_side env d p True h1 = Ret (None, h2)" "writer_of d h2 = Some w2"
      "wrote (frame (e_zl env) (pw_compthres w) (WriteVarInt (PacketID (e_lib env) p) @ b)) w w2" by blast
  have "filtered env p ?h = Ret (None, h1, p)"
    using assms(3) h1(1) by (cases p) (simp_all add: filtered_def)
  with 2(1) have "handlePacket env p d True ?h = Ret (None, h2)" by (simp add: handlePacket_filtered)
  moreover have "queue_of d h2 = queue_of d ?h"
    using write_side_only [OF 2(1)] h1(2) by (simp add: wrote_only_def queue_channels)
  ultimately show ?thesis
    using main_step_queue [OF assms(1,2)] 2 by auto
qed

section \<open>A stream of packets\<close>

lemma read_back_same: "packet_type p \<noteq> 27 \<Longrightarrow> read_back q p = p"
  by (cases q; cases p) (simp_all add: read_back_def)

lemma read_stream:
  assumes "good_libs env nbt_ok" "threshold_ok t"
  shows "list_all2 (frame_of env nbt_ok t) ps fs \<Longrightarrow>
    \<forall>p \<in> set ps. parsed_for env d p \<and> packet_type p \<noteq> 27 \<Longrightarrow> reader_at t (concat fs @ s) r \<Longrightarrow>
    \<exists>qs e r'. read_packets env d r = (ps @ qs, e) \<and> read_packets env d r' = (qs, e) \<and> reader_at t s r'"
proof (induction ps arbitrary: fs r)
  case Nil
  then show ?case by (cases "read_packets env d r") auto
next
  case (Cons p ps)
  then obtain f fs' where fs: "fs = f # fs'" "frame_of env nbt_ok t p f" "list_all2 (frame_of env nbt_ok t) ps fs'"
    by (auto simp: list_all2_Cons1)
  with Cons.prems(3) have "reader_at t (f @ (concat fs' @ s)) r" by simp
  from read_packets_parsed [OF assms(1) fs(2) assms(2) this] Cons.prems(2) read_back_same
  obtain r1 qs e where 1: "read_packets env d r = (p # qs, e)" "read_packets env d r1 = (qs, e)"
    "reader_at t (concat fs' @ s) r1" by fastforce
  from Cons.IH [OF fs(3) _ 1(3)] Cons.prems(2) 1(1,2) show ?case by fastforce
qed

text \<open>The turns that write them again.\<close>

lemma watched_turns:
  assumes "d = ServerBound \<or> d = ClientBound"
  shows "list_all2 (frame_of env nbt_ok t) ps fs \<Longrightarrow> \<forall>p \<in> set ps. packet_type p \<noteq> 0 \<and> watched env p \<Longrightarrow>
    queue_of d h = (ps @ qs, e) \<Longrightarrow> writer_of d h = Some w \<Longrightarrow> reliable w \<Longrightarrow> pw_compthres w = t \<Longrightarrow>
    \<exists>h' w'. main_loop env (replicate (length ps) (event_of d)) h h' \<and> queue_of d h' = (qs, e)
      \<and> writer_of d h' = Some w' \<and> wrote (concat fs) w w'"
proof (induction ps arbitrary: fs h w)
  case Nil
  then show ?case by (auto intro: main_loop.start simp: wrote_def)
next
  case (Cons p ps)
  then obtain f fs' where fs: "fs = f # fs'" "frame_of env nbt_ok t p f" "list_all2 (frame_of env nbt_ok t) ps fs'"
    by (auto simp: list_all2_Cons1)
  then obtain b where b: "Serialize (e_lib env) p = Ret (b, None)"
    "f = frame (e_zl env) t (WriteVarInt (PacketID (e_lib env) p) @ b)"
    by (auto simp: frame_of_def sends_def)
  have q: "queue_of d h = (p # (ps @ qs), e)" using Cons.prems(3) by simp
  have p: "packet_type p \<noteq> 0" "watched env p" using Cons.prems(2) by simp_all
  from watched_step [OF q assms p Cons.prems(4,5) b(1)] obtain h1 w1 where
    1: "main_step env (event_of d) h = Some (Ret (None, h1))" "queue_of d h1 = (ps @ qs, e)"
      "writer_of d h1 = Some w1" "wrote f w w1"
    using b(2) Cons.prems(6) by auto
  then have w1: "reliable w1" "pw_compthres w1 = t"
    using wrote_reliable [OF 1(4)] Cons.prems(6) by (simp_all add: wrote_def)
  from Cons.IH [OF fs(3) _ 1(2,3) w1] Cons.prems(2) obtain h2 w2 where
    2: "main_loop env (replicate (length ps) (event_of d)) h1 h2" "queue_of d h2 = (qs, e)"
      "writer_of d h2 = Some w2" "wrote (concat fs') w1 w2" by auto
  from main_loop_Cons [OF 2(1) 1(1)] 2(2,3) wrote_trans [OF 1(4) 2(4)] show ?case
    unfolding fs(1) by auto
qed



end
