(* ===== verification/ChatDelivery.thy ===== *)
theory ChatDelivery
  imports ChatLaws Delivery
begin

text \<open>
  A public chat message from the filter to the clients: cloudychat.go, the command channels of
  handler.go, and the main loops of those who hear it.
\<close>

text \<open>C23: A public message that is allowed arrives at every player: for each one who is listed and whose
  queue holds nothing but packets to be sent and has room, the message joins the end of the queue, and as many
  turns of the player's main loop, over a connection that works, write what was in the queue, in order, and then
  exactly the chat packet with the text in the sender's name, and go on.\<close>

theorem chat_delivered:
  fixes w :: "('i, 'n) world" and px :: "'n env"
  assumes "ce_Formatter env = DefaultFormatter" "checkMessage (cms_Message packet) = None"
    and "\<not> HasPrefix (cms_Message packet) ''/''"
    and "\<not> (HasPrefix (cms_Message packet) [chr 92] \<and> may w i ''cloudychat.command_forward'')"
    and "msg = (if may w i ''cloudychat.censorship.bypass'' then cms_Message packet
                else censorship s (cms_Message packet))" "msg \<noteq> ''''" "allowed env i s w"
    and "r \<in> set (players (ce_keys env) w)" "distinct (players (ce_keys env) w)"
    and "h_commandChan (wo_handlers w r) = map (\<lambda>p. send_command ClientBound None [p]) ps"
    and "length ps < commandChan_size" "fields_of px ps bs" "reliable (h_DownstreamW (wo_handlers w r))"
    and "t = pw_compthres (h_DownstreamW (wo_handlers w r))"
  shows "\<exists>s' w' h'. ChatFilter env i packet s w = (Some ErrDropPacket, packet, s', w')
    \<and> main_loop px (replicate (Suc (length ps)) TakeCommand) (wo_handlers w' r) h' \<and> h_commandChan h' = []
    \<and> wrote (frames_of px t ps bs @ frame (e_zl px) t (WriteVarInt 0x0E
          @ WriteMinecraftString (Para2Json (DefaultFormatter w r i msg)) @ 0 # nil_UUID))
        (h_DownstreamW (wo_handlers w r)) (h_DownstreamW h')"
proof -
  let ?p = "chat_packet (DefaultFormatter w r i msg) 0" and ?h = "wo_handlers w r"
  let ?b = "WriteMinecraftString (Para2Json (DefaultFormatter w r i msg)) @ 0 # nil_UUID"
  let ?w = "sent_all (players (ce_keys env) w) (hears w i msg) w"
  from public_chat_result [OF assms(1), of i s w msg] assms(7) obtain s' where
    "public_chat env i msg s w = (Some ErrDropPacket, s', ?w)" by auto
  then have run: "ChatFilter env i packet s w = (Some ErrDropPacket, packet, s', ?w)"
    using assms(6) unfolding assms(5)
    by (simp add: ChatFilter_def Let_def assms(2-4))
  let ?h' = "?h\<lparr>h_commandChan := map (\<lambda>p. send_command ClientBound None [p]) (ps @ [?p])\<rparr>"
  have h': "wo_handlers ?w r = ?h'"
    using assms(8-11) by (simp add: handler_sent_all queued_def hears_def)
  have "fields_of px (ps @ [?p]) (bs @ [?b])"
    using assms(12) by (simp add: fields_of_def list_all2_appendI chat_packet_fields)
  moreover have "frames_of px t (ps @ [?p]) (bs @ [?b]) = frames_of px t ps bs @ frame (e_zl px) t (WriteVarInt 0x0E @ ?b)"
    using assms(12) by (simp add: frames_of_append fields_of_def list_all2_lengthD frames_of_def wire_def chat_packet_fields)
  ultimately obtain u where "main_loop px (replicate (Suc (length ps)) TakeCommand) ?h'
      (?h'\<lparr>h_commandChan := [], h_DownstreamW := u\<rparr>)"
    "wrote (frames_of px t ps bs @ frame (e_zl px) t (WriteVarInt 0x0E @ ?b)) (h_DownstreamW ?h) u"
    using queue_written [of px "ps @ [?p]" "bs @ [?b]" ?h' "[]"] assms(13,14) by auto
  then show ?thesis
    by (intro exI [of _ s'] exI [of _ ?w] exI [of _ "?h'\<lparr>h_commandChan := [], h_DownstreamW := u\<rparr>"])
      (simp add: run h')
qed

lemma chat_delivered_witness:
  "\<exists>s' w' h'. ChatFilter sample_chat_env True \<lparr>cms_Message = ''hi''\<rparr> (initial_chat sample_config) sample_world
      = (Some ErrDropPacket, \<lparr>cms_Message = ''hi''\<rparr>, s', w')
    \<and> main_loop sample_env [TakeCommand] (wo_handlers w' False) h'
    \<and> od_written (pw_out (h_DownstreamW h')) = frame (e_zl sample_env) 0 (WriteVarInt 0x0E
          @ WriteMinecraftString (Para2Json (DefaultFormatter sample_world False True ''hi'')) @ 0 # nil_UUID)"
proof -
  have "Len (wo_players sample_world) = 2" by (simp add: Len_def sample_world_def)
  then have al: "allowed sample_chat_env True (initial_chat sample_config) sample_world"
    by (simp add: allowed_def checkSlowmode_def time_Sub_def Let_def sample_chat_env_def initial_chat_def
        sample_config_def zero_chatUser_def)
  have msg: "''hi'' = censorship (initial_chat sample_config) ''hi''"
    by (simp add: censorship_def initial_chat_def sample_config_def)
  have env: "ce_Formatter sample_chat_env = DefaultFormatter" "ce_keys sample_chat_env = [''ann'', ''bob'']"
    by (simp_all add: sample_chat_env_def)
  have h: "h_commandChan (wo_handlers sample_world False) = []"
    "h_DownstreamW (wo_handlers sample_world False) = NewPacketWriter open_dev False 0"
    by (simp_all add: sample_world_def sample_handler_def NewHandler_def open_dev_def)
  have w: "reliable (NewPacketWriter open_dev False 0)" "pw_compthres (NewPacketWriter open_dev False 0) = 0"
    by (simp_all add: NewPacketWriter_def reliable_def open_dev_def)
  show ?thesis
    using chat_delivered [of sample_chat_env "\<lparr>cms_Message = ''hi''\<rparr>" sample_world True "''hi''"
        "initial_chat sample_config" False "[]" sample_env "[]" 0] al msg env h w
    by (auto simp: sample_messages sample_players HasPrefix_def commandChan_size_def fields_of_def frames_of_def
        wire_def wrote_def NewPacketWriter_def open_dev_def)
qed

end
