(* ===== verification/ChatPipeline.thy ===== *)
theory ChatPipeline
  imports BanLaws ChatLaws BungeeCommands PermCommands
begin

text \<open>
  All filters of the chat packet together: cloudybans, bungeecord, permissions and cloudychat register for
  the same packet, and \<^verbatim>\<open>dispatchPacket\<close> runs them in the order in which the program registered them.
\<close>

section \<open>The filters of a program\<close>

text \<open>What the \<^verbatim>\<open>RegisterFilters\<close> functions register for the chat packet of a client, in their order.\<close>

datatype chat_filter = Run_MuteFilter | Run_CommandsFilter | Run_ChatCommands | Run_onChatMessage | Run_ChatFilter

datatype package = Cloudybans | Bungeecord | Permissions | Cloudychat

definition cloudybans_RegisterFilters :: "chat_filter list" where
  "cloudybans_RegisterFilters = [Run_MuteFilter, Run_CommandsFilter]"

definition bungeecord_RegisterFilters :: "chat_filter list" where
  "bungeecord_RegisterFilters = [Run_ChatCommands]"

definition permissions_RegisterFilters :: "chat_filter list" where
  "permissions_RegisterFilters = [Run_onChatMessage]"

definition cloudychat_RegisterFilters :: "chat_filter list" where
  "cloudychat_RegisterFilters = [Run_ChatFilter]"

fun register_package :: "package \<Rightarrow> chat_filter list" where
  "register_package Cloudybans = cloudybans_RegisterFilters"
| "register_package Bungeecord = bungeecord_RegisterFilters"
| "register_package Permissions = permissions_RegisterFilters"
| "register_package Cloudychat = cloudychat_RegisterFilters"

lemmas registrations = cloudybans_RegisterFilters_def bungeecord_RegisterFilters_def
  permissions_RegisterFilters_def cloudychat_RegisterFilters_def

definition chat_filters :: "package list \<Rightarrow> chat_filter list" where
  "chat_filters packages = concat (map register_package packages)"

text \<open>
  The state of all of them: the handlers are shared, \<open>hb_kicks\<close> are the kicks that goroutines of
  \<^verbatim>\<open>/bang\<close> will do later.
\<close>

record ('i, 'n, 'db) hub =
  hb_bans :: "('i, 'n, 'db) bans"
  hb_chat :: "'i chat_state"
  hb_perm :: perm_state
  hb_kicks :: "('i \<times> Abuse) list"

record ('i, 'n, 'db) hub_env =
  he_bans :: "'db ban_env"
  he_bungee :: "'i bungee_env"
  he_perm :: perm_env
  he_chat :: "('i, 'n) chat_env"

definition hub_world :: "('i, 'n, 'db) hub \<Rightarrow> ('i, 'n) world" where
  "hub_world hb = bs_world (hb_bans hb)"

definition set_world :: "('i, 'n) world \<Rightarrow> ('i, 'n, 'db) hub \<Rightarrow> ('i, 'n, 'db) hub" where
  "set_world w hb = hb\<lparr>hb_bans := (hb_bans hb)\<lparr>bs_world := w\<rparr>\<rparr>"

definition run_chat_filter ::
    "('i, 'n, 'db) hub_env \<Rightarrow> chat_filter \<Rightarrow> 'i \<Rightarrow> ChatMessagePacketSB \<Rightarrow> ('i, 'n, 'db) hub \<Rightarrow>
     (gerr option \<times> ChatMessagePacketSB \<times> ('i, 'n, 'db) hub) go option" where
  "run_chat_filter env f i p hb =
     (case f of
        Run_MuteFilter \<Rightarrow>
          Some (go_map (\<lambda>(err, b). (err, p, hb\<lparr>hb_bans := b\<rparr>)) (MuteFilter (he_bans env) i p (hb_bans hb)))
      | Run_CommandsFilter \<Rightarrow>
          Some (go_map (\<lambda>(err, kicks, b). (err, p, hb\<lparr>hb_bans := b, hb_kicks := hb_kicks hb @ kicks\<rparr>))
            (CommandsFilter (he_bans env) i p (hb_bans hb)))
      | Run_ChatCommands \<Rightarrow>
          map_option (\<lambda>(err, w). Ret (err, p, set_world w hb)) (ChatCommands (he_bungee env) i p (hub_world hb))
      | Run_onChatMessage \<Rightarrow>
          (case onChatMessage (he_perm env) i p (hb_perm hb) (hub_world hb) of
             (err, st, w) \<Rightarrow> Some (Ret (err, p, set_world w (hb\<lparr>hb_perm := st\<rparr>))))
      | Run_ChatFilter \<Rightarrow>
          (case ChatFilter (he_chat env) i p (hb_chat hb) (hub_world hb) of
             (err, p', s, w) \<Rightarrow> Some (Ret (err, p', set_world w (hb\<lparr>hb_chat := s\<rparr>)))))"

text \<open>The loop of \<^verbatim>\<open>dispatchPacket\<close>: up to the first error.\<close>

fun run_chat ::
    "('i, 'n, 'db) hub_env \<Rightarrow> chat_filter list \<Rightarrow> 'i \<Rightarrow> ChatMessagePacketSB \<Rightarrow> ('i, 'n, 'db) hub \<Rightarrow>
     (gerr option \<times> ChatMessagePacketSB \<times> ('i, 'n, 'db) hub) go option" where
  "run_chat env [] i p hb = Some (Ret (None, p, hb))"
| "run_chat env (f # fs) i p hb =
     (case run_chat_filter env f i p hb of
        None \<Rightarrow> None
      | Some (Panic m) \<Rightarrow> Some (Panic m)
      | Some (Ret (Some e, p1, hb1)) \<Rightarrow> Some (Ret (Some e, p1, hb1))
      | Some (Ret (None, p1, hb1)) \<Rightarrow> run_chat env fs i p1 hb1)"

section \<open>Messages that are no commands\<close>

text \<open>Neither as it is nor for those who cut it at white space, whatever the case of its letters.\<close>

definition no_command :: "('i, 'n, 'db) hub_env \<Rightarrow> string \<Rightarrow> bool" where
  "no_command env msg \<longleftrightarrow> \<not> HasPrefix msg ''/'' \<and> Fields msg \<noteq> []
     \<and> \<not> HasPrefix (ToLower (bn_tbl (he_bans env)) (hd (Fields msg))) ''/''
     \<and> \<not> HasPrefix (ToLower (be_tbl (he_bungee env)) (hd (Split (CHR '' '') msg))) ''/''"

lemma ban_command_none:
  "\<not> HasPrefix (ToLower (bn_tbl env) (hd words)) ''/'' \<Longrightarrow> ban_command env sender words s = None"
  by (auto simp: ban_command_def Let_def HasPrefix_def)

lemma bungee_command_none:
  "\<not> HasPrefix (ToLower (be_tbl env) (hd words)) ''/'' \<Longrightarrow> bungee_command env i words w = Some (Inl ())"
  by (auto simp: bungee_command_def Let_def HasPrefix_def)

lemma set_world_same [simp]: "set_world (hub_world hb) hb = hb"
  by (simp add: set_world_def hub_world_def)

lemma hub_world_set [simp]: "hub_world (set_world w hb) = w" "hb_chat (set_world w hb) = hb_chat hb"
  by (simp_all add: set_world_def hub_world_def)

lemma passes:
  assumes "no_command env (cms_Message p)" "f \<in> {Run_CommandsFilter, Run_ChatCommands, Run_onChatMessage}"
  shows "run_chat_filter env f i p hb = Some (Ret (None, p, hb))"
proof -
  have c: "CommandsFilter (he_bans env) i p (hb_bans hb) = Ret (None, [], hb_bans hb)"
    using assms(1) by (simp add: no_command_def CommandsFilter_def HandleCommand_def ban_command_none)
  have b: "ChatCommands (he_bungee env) i p (hub_world hb) = Some (None, hub_world hb)"
    using assms(1) by (simp add: no_command_def ChatCommands_def bungee_command_none)
  have "\<not> HasPrefix (cms_Message p) ''/gperm ''"
    using assms(1) by (cases "cms_Message p") (auto simp: no_command_def HasPrefix_def)
  then have "onChatMessage (he_perm env) i p (hb_perm hb) (hub_world hb) = (None, hb_perm hb, hub_world hb)"
    by (simp add: onChatMessage_def)
  with assms(2) b c show ?thesis by (auto simp: run_chat_filter_def)
qed

lemma run_chat_passes:
  assumes "no_command env (cms_Message p)" "\<forall>f \<in> set fs. f \<noteq> Run_MuteFilter \<and> f \<noteq> Run_ChatFilter"
  shows "run_chat env (fs @ gs) i p hb = run_chat env gs i p hb"
  using assms(2)
proof (induction fs)
  case (Cons f fs)
  then have "f \<in> {Run_CommandsFilter, Run_ChatCommands, Run_onChatMessage}" by (cases f) auto
  from passes [OF assms(1) this] Cons show ?case by simp
qed simp

lemma chat_filters_split:
  "chat_filters (xs @ q # ys) = chat_filters xs @ register_package q @ chat_filters ys"
  by (simp add: chat_filters_def)

lemma chat_filters_others:
  "Cloudybans \<notin> set xs \<Longrightarrow> Cloudychat \<notin> set xs \<Longrightarrow> f \<in> set (chat_filters xs) \<Longrightarrow>
   f \<noteq> Run_MuteFilter \<and> f \<noteq> Run_ChatFilter"
proof (induction xs)
  case (Cons x xs)
  then show ?case by (cases x) (auto simp: chat_filters_def registrations)
qed (simp add: chat_filters_def)

section \<open>Who silences whom\<close>

text \<open>C22: A mute silences a player exactly in programs that register cloudybans before cloudychat.  When a
  player whom the database lists as muted says something that is no command, then with that order, whatever other
  packages are registered, the message is dropped, nobody but the sender hears anything, and the sender is told who muted
  him.  With the other order a message that the chat allows reaches every player all the same.\<close>

theorem mute_needs_order:
  fixes hb :: "('i, 'n, 'db) hub"
  assumes "abuse_laws benv" "bans_reachable benv (hb_bans hb)" "he_bans env = benv\<lparr>bn_now := now\<rparr>"
    and "db_list_abuses (bn_db benv) (bs_db (hb_bans hb)) ''mute'' (nick (hub_world hb) i) = Inr (m # ms)"
    and "no_command env (cms_Message p)" "checkMessage (cms_Message p) = None"
    and "ce_Formatter (he_chat env) = DefaultFormatter"
    and "\<not> (HasPrefix (cms_Message p) [chr 92] \<and> may (hub_world hb) i ''cloudychat.command_forward'')"
    and "msg = (if may (hub_world hb) i ''cloudychat.censorship.bypass'' then cms_Message p
                else censorship (hb_chat hb) (cms_Message p))" "msg \<noteq> ''''"
    and "allowed (he_chat env) i (hb_chat hb) (hub_world hb)"
    and "packages = xs @ q # ys" "q = Cloudybans \<or> q = Cloudychat" "Cloudybans \<notin> set xs" "Cloudychat \<notin> set xs"
  shows "\<exists>hb'. run_chat env (chat_filters packages) i p hb = Some (Ret (Some ErrDropPacket, p, hb'))
    \<and> hub_world hb' = (if q = Cloudybans then sent i [says (mute_text benv m)] (hub_world hb)
         else sent_all (players (ce_keys (he_chat env)) (hub_world hb)) (hears (hub_world hb) i msg) (hub_world hb))
    \<and> (q = Cloudybans \<longrightarrow> hb_chat hb' = hb_chat hb)"
proof -
  have slash: "\<not> HasPrefix (cms_Message p) ''/''" using assms(5) by (simp add: no_command_def)
  have skip: "run_chat env (chat_filters packages) i p hb = run_chat env (register_package q @ chat_filters ys) i p hb"
    unfolding assms(12) chat_filters_split
    using chat_filters_others [OF assms(14,15)] by (intro run_chat_passes [OF assms(5)]) blast
  show ?thesis
  proof (cases "q = Cloudybans")
    case True
    have "coherent (he_bans env) (hb_bans hb)" "abuse_laws (he_bans env)"
      using bans_reachable_coherent [OF assms(2,1)] assms(1) by (simp_all add: assms(3))
    from MuteFilter_result [OF this(2,1), of i p] assms(4) slash obtain c where
      "MuteFilter (he_bans env) i p (hb_bans hb) = Ret (Some ErrDropPacket, (hb_bans hb)
         \<lparr>bs_cache := c, bs_world := sent i [says (mute_text benv m)] (hub_world hb)\<rparr>)"
      by (auto simp: latest_def mute_text_def hub_world_def assms(3))
    then show ?thesis
      using True unfolding skip by (simp add: run_chat_filter_def hub_world_def registrations)
  next
    case False
    from chat_all_or_nobody [OF assms(7,6) slash assms(8,9,10)] assms(11) obtain s' where
      "ChatFilter (he_chat env) i p (hb_chat hb) (hub_world hb) = (Some ErrDropPacket, p, s',
         sent_all (players (ce_keys (he_chat env)) (hub_world hb)) (hears (hub_world hb) i msg) (hub_world hb))"
      by auto
    then show ?thesis
      using False assms(13) unfolding skip by (auto simp add: run_chat_filter_def registrations)
  qed
qed

text \<open>Ann, who is muted, says hi, with both orders.\<close>

definition sample_hub :: "(bool, unit, Abuse list) hub" where
  "sample_hub = \<lparr>hb_bans = sample_bans, hb_chat = initial_chat sample_config,
     hb_perm = \<lparr>Groups = Map.empty, Users = Map.empty\<rparr>, hb_kicks = []\<rparr>"

definition sample_hub_env :: "(bool, unit, Abuse list) hub_env" where
  "sample_hub_env = \<lparr>he_bans = sample_ban_env\<lparr>bn_now := (\<lambda>_. 5)\<rparr>, he_bungee = sample_bungee,
     he_perm = \<lparr>pe_ord = (\<lambda>_. []), pe_tbl = id, pe_keys = [], pe_groups_file = Inl EOF, pe_users_file = Inl EOF,
       pe_percent = (\<lambda>_ _. ''''), pe_error_text = (\<lambda>_. ''error'')\<rparr>,
     he_chat = sample_chat_env\<rparr>"

lemma pieces_ascii: "code c < 128 \<Longrightarrow> pieces (c # s) = (code c, [c]) # pieces s"
  by (subst pieces.simps) simp

lemma sample_no_command: "no_command sample_hub_env ''hi''"
proof -
  have "Split (CHR '' '') ''hi'' = [''hi'']" "ToLower id ''hi'' = ''hi''" by code_simp+
  moreover have "pieces ''hi'' = [(104, ''h''), (105, ''i'')]"
    by (simp add: pieces_ascii code_def pieces.simps [of "''''"])
  then have "Fields ''hi'' = [''hi'']" by (simp add: Fields_def IsSpace_def)
  ultimately have "Fields ''hi'' = [''hi'']" "Split (CHR '' '') ''hi'' = [''hi'']" "ToLower id ''hi'' = ''hi''"
    by simp_all
  then show ?thesis
    by (simp add: no_command_def sample_hub_env_def sample_ban_env_def sample_bungee_def HasPrefix_def)
qed

lemma mute_needs_order_witness:
  "(\<exists>hb'. run_chat sample_hub_env (chat_filters [Permissions, Cloudybans, Bungeecord, Cloudychat]) False
      \<lparr>cms_Message = ''hi''\<rparr> sample_hub = Some (Ret (Some ErrDropPacket, \<lparr>cms_Message = ''hi''\<rparr>, hb'))
      \<and> hub_world hb' = sent False [says (mute_text sample_ban_env sample_mute)] sample_world)
   \<and> (\<exists>hb'. run_chat sample_hub_env (chat_filters [Bungeecord, Cloudychat, Cloudybans]) False
      \<lparr>cms_Message = ''hi''\<rparr> sample_hub = Some (Ret (Some ErrDropPacket, \<lparr>cms_Message = ''hi''\<rparr>, hb'))
      \<and> hub_world hb' = sent_all [False, True] (hears sample_world False ''hi'') sample_world)"
proof -
  have w: "hub_world sample_hub = sample_world" "hb_bans sample_hub = sample_bans"
    "hb_chat sample_hub = initial_chat sample_config" "bs_db sample_bans = [sample_mute]" "nick sample_world False = ''Ann''"
    by (simp_all add: hub_world_def sample_hub_def sample_bans_def sample_world_def)
  have e: "he_bans sample_hub_env = sample_ban_env\<lparr>bn_now := (\<lambda>_. 5)\<rparr>" "he_chat sample_hub_env = sample_chat_env"
    "ce_Formatter sample_chat_env = DefaultFormatter" "ce_keys sample_chat_env = [''ann'', ''bob'']"
    by (simp_all add: sample_hub_env_def sample_chat_env_def)
  have r: "bans_reachable sample_ban_env (hb_bans sample_hub)"
    unfolding w by (rule bans_reachable.start) (simp add: sample_bans_def)
  have db: "db_list_abuses (bn_db sample_ban_env) (bs_db (hb_bans sample_hub)) ''mute'' (nick (hub_world sample_hub) False)
      = Inr [sample_mute]"
    by (simp add: w sample_db_ops_def sample_mute_def)
  have "Len (wo_players sample_world) = 2" by (simp add: Len_def sample_world_def)
  then have al: "allowed sample_chat_env False (initial_chat sample_config) sample_world"
    by (simp add: allowed_def checkSlowmode_def time_Sub_def Let_def sample_chat_env_def initial_chat_def
        sample_config_def zero_chatUser_def)
  have msg: "censorship (initial_chat sample_config) ''hi'' = ''hi''"
    by (simp add: censorship_def initial_chat_def sample_config_def)
  have p: "no_command sample_hub_env (cms_Message \<lparr>cms_Message = ''hi''\<rparr>)"
    "checkMessage (cms_Message \<lparr>cms_Message = ''hi''\<rparr>) = None"
    by (simp_all add: sample_no_command sample_messages)
  note order = mute_needs_order [OF sample_abuse_laws r e(1) db p, of "''hi''"]
  from order [of "[Permissions, Cloudybans, Bungeecord, Cloudychat]" "[Permissions]" Cloudybans "[Bungeecord, Cloudychat]"]
    order [of "[Bungeecord, Cloudychat, Cloudybans]" "[Bungeecord]" Cloudychat "[Cloudybans]"]
  show ?thesis using e(3,4) al by (auto simp: msg w e(2) HasPrefix_def sample_players)
qed

end
