(* ===== verification/Startup.thy ===== *)
theory Startup
  imports Session Bungee
begin

text \<open>
  How the proxy starts: the authenticators of src/auth.go, one per public address of the machine, and
  \<^verbatim>\<open>Serve\<close> of src/potoq.go, which loads the servers, looks for the required callbacks and accepts
  connections.
\<close>

unbundle bit_operations_syntax

section \<open>The addresses of the machine\<close>

text \<open>
  \<^verbatim>\<open>net.Interfaces\<close> and \<^verbatim>\<open>Addrs\<close> give interface addresses, of which the code asserts that they are
  \<^verbatim>\<open>*net.IPNet\<close>.  An address is a slice of bytes.
\<close>

datatype net_addr = IPNet bytes | OtherAddr string

text \<open>\<^verbatim>\<open>To4\<close> and \<^verbatim>\<open>IsGlobalUnicast\<close> of Go's net package, the second for the addresses that the first gives.\<close>

definition To4 :: "bytes \<Rightarrow> bytes option" where
  "To4 ip =
     (if length ip = 4 then Some ip
      else if length ip = 16 \<and> take 12 ip = replicate 10 0 @ [0xff, 0xff] then Some (drop 12 ip)
      else None)"

definition IsGlobalUnicast :: "bytes \<Rightarrow> bool" where
  "IsGlobalUnicast ip \<longleftrightarrow>
     ip \<noteq> [255, 255, 255, 255] \<and> ip \<noteq> [0, 0, 0, 0] \<and> ip ! 0 \<noteq> 127
     \<and> ip ! 0 AND 0xf0 \<noteq> 0xe0 \<and> \<not> (ip ! 0 = 169 \<and> ip ! 1 = 254)"

fun public_of :: "net_addr list \<Rightarrow> bytes list go" where
  "public_of [] = Ret []"
| "public_of (IPNet i # addrs) =
     go_map (\<lambda>ips. case To4 i of Some ip \<Rightarrow> if IsGlobalUnicast ip then ip # ips else ips | None \<Rightarrow> ips)
       (public_of addrs)"
| "public_of (OtherAddr s # addrs) = Panic ''interface conversion''"

section \<open>Authenticators\<close>

text \<open>
  \<^verbatim>\<open>newAuthenticator\<close>.  \<open>draws\<close> is what the random numbers, the key generator and the encoder of the
  public key give: bytes for the id, a private key, and its encoded public key.  The HTTP client is the
  address it dials from and its timeouts in seconds; the limiter is its rate and burst.
\<close>

record 'key Authenticator =
  au_ServerID :: string
  au_ServerKey :: 'key
  au_PublicKey :: bytes
  au_LocalAddr :: bytes
  au_DialTimeout :: int
  au_Timeout :: int
  au_Limiter :: "int \<times> int"

record 'key draws =
  dr_bytes :: "gerr + bytes"
  dr_key :: "gerr + 'key"
  dr_public :: "'key \<Rightarrow> gerr + bytes"

definition newAuthenticator :: "'key draws \<Rightarrow> bytes \<Rightarrow> gerr + 'key Authenticator" where
  "newAuthenticator dr ip =
     (case dr_bytes dr of Inl e \<Rightarrow> Inl e
      | Inr buf \<Rightarrow>
          (case dr_key dr of Inl e \<Rightarrow> Inl e
           | Inr serverKey \<Rightarrow>
               (case dr_public dr serverKey of Inl e \<Rightarrow> Inl e
                | Inr publicKey \<Rightarrow>
                    Inr \<lparr>au_ServerID = hex_of buf, au_ServerKey = serverKey, au_PublicKey = publicKey,
                         au_LocalAddr = ip, au_DialTimeout = 1, au_Timeout = 3, au_Limiter = (200, 1000)\<rparr>)))"

text \<open>The loops of \<^verbatim>\<open>init\<close>; \<open>source\<close> is what is drawn for the first, the second and so on.\<close>

fun new_authenticators :: "(nat \<Rightarrow> 'key draws) \<Rightarrow> bytes list \<Rightarrow> 'key Authenticator list go" where
  "new_authenticators source [] = Ret []"
| "new_authenticators source (ip # ips) =
     (case newAuthenticator (source 0) ip of
        Inl e \<Rightarrow> Panic ''newAuthenticator''
      | Inr a \<Rightarrow> go_map ((#) a) (new_authenticators (\<lambda>n. source (Suc n)) ips))"

definition auth_init :: "(nat \<Rightarrow> 'key draws) \<Rightarrow> net_addr list list \<Rightarrow> 'key Authenticator list go" where
  "auth_init source interfaces = go_bind (public_of (concat interfaces)) (new_authenticators source)"

text \<open>\<^verbatim>\<open>getRandomAuthenticator\<close>: \<^verbatim>\<open>Intn\<close> panics without a positive bound; \<open>r\<close> is the number it draws.\<close>

definition Intn :: "nat \<Rightarrow> nat \<Rightarrow> nat go" where
  "Intn r n = (if n = 0 then Panic ''invalid argument to Intn'' else Ret (r mod n))"

definition getRandomAuthenticator :: "'key Authenticator list \<Rightarrow> nat \<Rightarrow> 'key Authenticator go" where
  "getRandomAuthenticator authenticators r = go_map (nth authenticators) (Intn r (length authenticators))"

section \<open>Serve\<close>

text \<open>
  What \<^verbatim>\<open>AcceptTCP\<close> gives, with the number that is drawn for the connection.  \<open>serve_loop\<close> runs over what
  has been accepted so far; each socket starts a goroutine for its handler, here the next in the list.
\<close>

datatype accepted = Accept_Error gerr | Socket bytes gerr out_dev string nat

fun serve_loop ::
    "'key Authenticator list \<Rightarrow> accepted list \<Rightarrow> ('key Authenticator \<times> 'n Handler) list go" where
  "serve_loop auths [] = Ret []"
| "serve_loop auths (Accept_Error e # socks) = serve_loop auths socks"
| "serve_loop auths (Socket input en out addr r # socks) =
     go_bind (getRandomAuthenticator auths r) (\<lambda>a.
       go_map (\<lambda>hs. (a, NewHandler input en out addr True) # hs) (serve_loop auths socks))"

definition Serve ::
    "(string \<Rightarrow> gerr option) \<Rightarrow> gerr + gerr option \<times> (string \<times> string) list \<Rightarrow> bool \<Rightarrow> bool \<Rightarrow> bool \<Rightarrow>
     'key Authenticator list \<Rightarrow> accepted list \<Rightarrow>
     ((string \<times> string) list \<times> ('key Authenticator \<times> 'n Handler) list) go" where
  "Serve resolve file ping prelogin login auths socks =
     (case LoadUpstreams resolve file [] of
        (Some e, ups) \<Rightarrow> Panic ''LoadUpstreams''
      | (None, ups) \<Rightarrow>
          if \<not> ping \<or> \<not> prelogin \<or> \<not> login then Panic ''One of required handlers is not set!''
          else go_map (Pair ups) (serve_loop auths socks))"

section \<open>What the authenticators are\<close>

definition to_public :: "net_addr \<Rightarrow> bytes option" where
  "to_public a = (case a of IPNet i \<Rightarrow> (case To4 i of Some ip \<Rightarrow> if IsGlobalUnicast ip then Some ip else None
     | None \<Rightarrow> None) | OtherAddr s \<Rightarrow> None)"

definition public_ips :: "net_addr list list \<Rightarrow> bytes list" where
  "public_ips interfaces = List.map_filter to_public (concat interfaces)"

lemma public_of_Ret: "public_of addrs = Ret ips \<Longrightarrow> ips = List.map_filter to_public addrs"
proof (induction addrs arbitrary: ips)
  case Nil
  then show ?case by (simp add: map_filter_simps)
next
  case (Cons a addrs)
  then show ?case by (cases a) (auto simp: map_filter_simps to_public_def split: option.splits)
qed

lemma newAuthenticator_Inr:
  "newAuthenticator dr ip = Inr a \<longleftrightarrow> (\<exists>buf key pub. dr_bytes dr = Inr buf \<and> dr_key dr = Inr key
     \<and> dr_public dr key = Inr pub
     \<and> a = \<lparr>au_ServerID = hex_of buf, au_ServerKey = key, au_PublicKey = pub,
            au_LocalAddr = ip, au_DialTimeout = 1, au_Timeout = 3, au_Limiter = (200, 1000)\<rparr>)"
  by (auto simp: newAuthenticator_def split: sum.splits)

lemma new_authenticators_Ret:
  "new_authenticators source ips = Ret auths \<Longrightarrow>
   length auths = length ips \<and> (\<forall>i < length ips. newAuthenticator (source i) (ips ! i) = Inr (auths ! i))"
proof (induction source ips arbitrary: auths rule: new_authenticators.induct)
  case (2 source ip ips)
  then obtain a as where a: "newAuthenticator (source 0) ip = Inr a"
    "new_authenticators (\<lambda>n. source (Suc n)) ips = Ret as" "auths = a # as" by (auto split: sum.splits)
  from 2(1) [OF a(1,2)] a(1,3) show ?case by (auto simp: nth_Cons split: nat.split)
qed simp

lemma length_hex_of: "length (hex_of bs) = 2 * length bs"
  by (induction bs) (simp_all add: hex_of_def)

lemma auth_init_Ret:
  assumes "auth_init source interfaces = Ret auths"
  shows "length auths = length (public_ips interfaces)"
    and "i < length auths \<Longrightarrow> newAuthenticator (source i) (public_ips interfaces ! i) = Inr (auths ! i)"
  using assms new_authenticators_Ret [of source "public_ips interfaces" auths] public_of_Ret
  by (auto simp: auth_init_def public_ips_def)

section \<open>Who is let in\<close>

fun sockets :: "accepted list \<Rightarrow> 'n Handler list" where
  "sockets [] = []"
| "sockets (Accept_Error e # socks) = sockets socks"
| "sockets (Socket input en out addr r # socks) = NewHandler input en out addr True # sockets socks"

lemma getRandomAuthenticator_simps:
  "getRandomAuthenticator [] r = Panic ''invalid argument to Intn''"
  "auths \<noteq> [] \<Longrightarrow> getRandomAuthenticator auths r = Ret (auths ! (r mod length auths))"
  by (simp_all add: getRandomAuthenticator_def Intn_def)

lemma serve_loop_ok:
  assumes "auths \<noteq> []"
  shows "\<exists>hs. serve_loop auths socks = Ret hs \<and> map snd hs = (sockets socks :: 'n Handler list)
    \<and> (\<forall>(a, h) \<in> set hs. a \<in> set auths)"
  using assms
  by (induction auths socks rule: serve_loop.induct) (auto simp: getRandomAuthenticator_simps)

lemma serve_loop_none:
  "serve_loop [] socks = (if (sockets socks :: 'n Handler list) = [] then Ret []
    else Panic ''invalid argument to Intn'' :: ('key Authenticator \<times> 'n Handler) list go)"
  by (induction "[] :: 'key Authenticator list" socks rule: serve_loop.induct)
    (simp_all add: getRandomAuthenticator_simps)

text \<open>Each accepted connection gets a goroutine of its own.\<close>

fun spawn :: "'i list \<Rightarrow> 'n Handler list \<Rightarrow> ('i, 'n) server \<Rightarrow> ('i, 'n) server" where
  "spawn (i # is) (h # hs) s = spawn is hs (to_phase i (Connected h) s)"
| "spawn is hs s = s"

lemma spawn_reachable:
  "server_reachable envs tbl hooks s \<Longrightarrow> distinct is \<Longrightarrow> \<forall>i \<in> set is. sv_phase s i = Idle \<Longrightarrow>
   \<forall>h \<in> set hs. \<exists>input en out addr auth. h = NewHandler input en out addr auth \<Longrightarrow>
   server_reachable envs tbl hooks (spawn is hs s)"
proof (induction "is" hs s rule: spawn.induct)
  case (1 i "is" h hs s)
  then obtain input en out addr auth where h: "h = NewHandler input en out addr auth" by auto
  have "sv_phase s i = Idle" using 1(4) by simp
  then have "server_step envs tbl hooks s (to_phase i (Connected h) s)"
    unfolding h by (rule server_step.accept)
  with 1(2) have "server_reachable envs tbl hooks (to_phase i (Connected h) s)"
    by (rule server_reachable.step)
  moreover have "\<forall>j \<in> set is. sv_phase (to_phase i (Connected h) s) j = Idle"
    using 1(3,4) by (auto simp: to_phase_def)
  ultimately show ?case using 1 by simp
qed simp_all

lemma sockets_new: "h \<in> set (sockets socks) \<Longrightarrow> \<exists>input en out addr auth. h = NewHandler input en out addr auth"
  by (induction socks rule: sockets.induct) (simp_all, metis)

section \<open>Properties\<close>

text \<open>When the proxy has started, it has one authenticator for every IPv4 address of the machine that is
  global unicast, in order; the id it signs logins with are the 8 bytes drawn for it in hexadecimal, and an
  encryption request made with it is within the limits of its packet.\<close>

theorem authenticators_exact:
  assumes "auth_init source interfaces = Ret auths"
    and "\<And>i buf. dr_bytes (source i) = Inr buf \<Longrightarrow> length buf = 8"
    and "\<And>i key pub. dr_public (source i) key = Inr pub \<Longrightarrow> length pub \<le> 2048" "length token = 4"
  shows "map au_LocalAddr auths = public_ips interfaces
    \<and> (\<forall>i < length auths. \<exists>buf. dr_bytes (source i) = Inr buf \<and> au_ServerID (auths ! i) = hex_of buf)
    \<and> (\<forall>a \<in> set auths. packet_ok nbt_ok (P_EncryptionRequestPacket
         \<lparr>erq_ServerID = au_ServerID a, erq_PublicKey = au_PublicKey a, erq_Token = token\<rparr>))"
proof (intro conjI ballI)
  note made = auth_init_Ret(2) [OF assms(1), unfolded newAuthenticator_Inr]
  have "\<forall>i < length auths. au_LocalAddr (auths ! i) = public_ips interfaces ! i" using made by fastforce
  then show "map au_LocalAddr auths = public_ips interfaces"
    using auth_init_Ret(1) [OF assms(1)] by (simp add: list_eq_iff_nth_eq)
  show "\<forall>i < length auths. \<exists>buf. dr_bytes (source i) = Inr buf \<and> au_ServerID (auths ! i) = hex_of buf"
    using made by fastforce
  fix a
  assume "a \<in> set auths"
  then obtain i where "i < length auths" "a = auths ! i" by (metis in_set_conv_nth)
  with made obtain buf key pub where a: "dr_bytes (source i) = Inr buf" "dr_public (source i) key = Inr pub"
    "au_ServerID a = hex_of buf" "au_PublicKey a = pub" by fastforce
  then have "length (au_ServerID a) = 16" "length (au_PublicKey a) \<le> 2048"
    using assms(2,3) by (simp_all add: length_hex_of)
  then show "packet_ok nbt_ok (P_EncryptionRequestPacket
         \<lparr>erq_ServerID = au_ServerID a, erq_PublicKey = au_PublicKey a, erq_Token = token\<rparr>)"
    using assms(4) by (simp add: EncryptionRequestPacket_reflect_def)
qed


text \<open>A machine with a loopback, a private IPv4 and an IPv6 address, and one with loopback only.\<close>

definition sample_interfaces :: "net_addr list list" where
  "sample_interfaces = [[IPNet [127, 0, 0, 1]],
     [IPNet (replicate 10 0 @ [0xff, 0xff, 192, 168, 1, 5]), IPNet (0xfe # 0x80 # replicate 14 1)]]"

definition sample_source :: "nat \<Rightarrow> unit draws" where
  "sample_source = (\<lambda>_. \<lparr>dr_bytes = Inr [0xab, 0, 1, 2, 3, 4, 5, 0x7f], dr_key = Inr (), dr_public = (\<lambda>_. Inr [9, 9])\<rparr>)"

definition sample_authenticator :: "unit Authenticator" where
  "sample_authenticator = \<lparr>au_ServerID = ''ab0001020304057f'', au_ServerKey = (), au_PublicKey = [9, 9],
     au_LocalAddr = [192, 168, 1, 5], au_DialTimeout = 1, au_Timeout = 3, au_Limiter = (200, 1000)\<rparr>"

lemma sample_auth_init: "auth_init sample_source sample_interfaces = Ret [sample_authenticator]"
  by code_simp

lemma authenticators_exact_witness:
  "map au_LocalAddr [sample_authenticator] = public_ips sample_interfaces
    \<and> packet_ok (\<lambda>_. True) (P_EncryptionRequestPacket \<lparr>erq_ServerID = au_ServerID sample_authenticator,
         erq_PublicKey = au_PublicKey sample_authenticator, erq_Token = [1, 2, 3, 4]\<rparr> :: unit packet)"
  using authenticators_exact [OF sample_auth_init, of "[1, 2, 3, 4]" "\<lambda>_ :: unit. True"]
  by (auto simp: sample_source_def simp del: packet_ok.simps)


end
