(* ===== verification/IdleTimer.thy ===== *)
theory IdleTimer
  imports Session
begin

text \<open>
  The idle timer of src/handler.go: the time of the last turn of the main loop, and the goroutine that
  looks at it every three seconds.
\<close>

section \<open>The timer and the loop\<close>

text \<open>Times are nanoseconds; \<^verbatim>\<open>Unix\<close> gives whole seconds.\<close>

definition Second :: int where "Second = 1000000000"

definition Unix :: "int \<Rightarrow> int" where "Unix t = t div Second"

definition max_idle :: int where "max_idle = 30 * Second"

text \<open>
  What happens at a time: the watching goroutine wakes up and compares, the loop stores the time at the
  start of a turn, or \<^verbatim>\<open>select\<close> takes an event, which is handled.  The channel of the timer can be taken
  once it is closed; the goroutine ends with closing it.
\<close>

datatype tick = Check | Store | Take event

datatype 'n loop = Turning "'n Handler" | Selecting "'n Handler" | Left_loop gerr "'n Handler"

record 'n timed =
  tm_now :: int
  tm_last :: int
  tm_fired :: bool
  tm_loop :: "'n loop"

definition start_loop :: "int \<Rightarrow> 'n Handler \<Rightarrow> 'n timed" where
  "start_loop t h = \<lparr>tm_now = t, tm_last = Unix t, tm_fired = False, tm_loop = Turning h\<rparr>"

definition tick_step :: "'n env \<Rightarrow> int \<Rightarrow> tick \<Rightarrow> 'n timed \<Rightarrow> 'n timed option" where
  "tick_step env t k s =
     (case k of
        Check \<Rightarrow>
          if tm_fired s then None
          else Some (s\<lparr>tm_fired := Unix t - tm_last s > max_idle div Second\<rparr>)
      | Store \<Rightarrow>
          (case tm_loop s of
             Turning h \<Rightarrow> Some (s\<lparr>tm_last := Unix t, tm_loop := Selecting h\<rparr>)
           | _ \<Rightarrow> None)
      | Take ev \<Rightarrow>
          (case tm_loop s of
             Selecting h \<Rightarrow>
               if ev = IdleTimeout \<and> \<not> tm_fired s then None
               else (case main_step env ev h of
                       Some (Ret (None, h')) \<Rightarrow> Some (s\<lparr>tm_loop := Turning h'\<rparr>)
                     | Some (Ret (Some e, h')) \<Rightarrow> Some (s\<lparr>tm_loop := Left_loop e h'\<rparr>)
                     | _ \<Rightarrow> None)
           | _ \<Rightarrow> None))"

fun timed_run :: "'n env \<Rightarrow> (int \<times> tick) list \<Rightarrow> 'n timed \<Rightarrow> 'n timed option" where
  "timed_run env [] s = Some s"
| "timed_run env ((t, k) # ks) s =
     (if t < tm_now s then None
      else case tick_step env t k s of None \<Rightarrow> None | Some s' \<Rightarrow> timed_run env ks (s'\<lparr>tm_now := t\<rparr>))"

section \<open>When it fires\<close>

text \<open>The start of the last turn, and what the watching goroutine has seen.\<close>

fun last_turn :: "int \<Rightarrow> (int \<times> tick) list \<Rightarrow> int" where
  "last_turn u [] = u"
| "last_turn u ((t, k) # ks) = last_turn (if k = Store then t else u) ks"

fun overdue :: "int \<Rightarrow> (int \<times> tick) list \<Rightarrow> bool" where
  "overdue u [] = False"
| "overdue u ((t, k) # ks) =
     (k = Check \<and> Unix t - Unix u > 30 \<or> overdue (if k = Store then t else u) ks)"

lemma max_idle_seconds [simp]: "max_idle div Second = 30"
  by (simp add: max_idle_def Second_def)

lemma tick_step_last:
  "tick_step env t k s = Some s' \<Longrightarrow> tm_last s = Unix u \<Longrightarrow>
   tm_last s' = Unix (if k = Store then t else u) \<and>
   tm_fired s' = (tm_fired s \<or> k = Check \<and> Unix t - Unix u > 30)"
  by (cases k) (auto simp: tick_step_def split: loop.split_asm if_split_asm option.split_asm go.split_asm
      prod.split_asm)

lemma timed_run_fired:
  "timed_run env ks s = Some s' \<Longrightarrow> tm_last s = Unix u \<Longrightarrow>
   tm_fired s' = (tm_fired s \<or> overdue u ks) \<and> tm_last s' = Unix (last_turn u ks)"
proof (induction ks arbitrary: s u)
  case (Cons x ks)
  obtain t k where x: "x = (t, k)" by (cases x)
  with Cons.prems(1) obtain s1 where 1: "tick_step env t k s = Some s1" "timed_run env ks (s1\<lparr>tm_now := t\<rparr>) = Some s'"
    by (auto split: if_split_asm option.split_asm)
  from tick_step_last [OF 1(1) Cons.prems(2)] have s1: "tm_last s1 = Unix (if k = Store then t else u)"
    "tm_fired s1 = (tm_fired s \<or> k = Check \<and> Unix t - Unix u > 30)" by blast+
  then have "tm_last (s1\<lparr>tm_now := t\<rparr>) = Unix (if k = Store then t else u)" by simp
  from Cons.IH [OF 1(2) this] s1(2) show ?case by (simp add: x disj_assoc)
qed simp

lemma overdue_iff:
  "overdue u ks \<longleftrightarrow> (\<exists>pre t post. ks = pre @ (t, Check) # post \<and> Unix t - Unix (last_turn u pre) > 30)"
proof (induction u ks rule: overdue.induct)
  case (2 u t k ks)
  let ?v = "if k = Store then t else u"
  show ?case
  proof
    assume "overdue u ((t, k) # ks)"
    then consider "k = Check" "Unix t - Unix u > 30" | "overdue ?v ks" by auto
    then show "\<exists>pre t' post. (t, k) # ks = pre @ (t', Check) # post \<and> Unix t' - Unix (last_turn u pre) > 30"
    proof cases
      case 1
      then show ?thesis by (intro exI [of _ "[]"]) simp
    next
      case 2
      with "2.IH" obtain pre t' post where "ks = pre @ (t', Check) # post" "Unix t' - Unix (last_turn ?v pre) > 30"
        by blast
      then show ?thesis by (intro exI [of _ "(t, k) # pre"] exI [of _ t'] exI [of _ post]) simp
    qed
  next
    assume "\<exists>pre t' post. (t, k) # ks = pre @ (t', Check) # post \<and> Unix t' - Unix (last_turn u pre) > 30"
    then obtain pre t' post where p: "(t, k) # ks = pre @ (t', Check) # post" "Unix t' - Unix (last_turn u pre) > 30"
      by blast
    show "overdue u ((t, k) # ks)"
    proof (cases pre)
      case Nil
      with p show ?thesis by simp
    next
      case (Cons y pre')
      with p have "ks = pre' @ (t', Check) # post" "Unix t' - Unix (last_turn ?v pre') > 30" by auto
      with "2.IH" have "overdue ?v ks" by blast
      then show ?thesis by simp
    qed
  qed
qed simp

lemma Unix_less: "Unix t - Unix u > 30 \<Longrightarrow> t - u > 30 * Second"
proof -
  assume "Unix t - Unix u > 30"
  then have "31 * Second \<le> Unix t * Second - Unix u * Second" by (simp add: Second_def)
  moreover have "Unix t * Second \<le> t" "u < Unix u * Second + Second"
    using pos_mod_sign [of Second t] pos_mod_bound [of Second u] div_mult_mod_eq [of t Second] div_mult_mod_eq [of u Second]
    by (simp_all add: Unix_def Second_def)
  ultimately show ?thesis by linarith
qed

lemma Unix_enough: "t - u \<ge> 31 * Second \<Longrightarrow> Unix t - Unix u > 30"
proof -
  assume "t - u \<ge> 31 * Second"
  then have "(u + 31 * Second) div Second \<le> t div Second" by (intro zdiv_mono1) (simp_all add: Second_def)
  then show ?thesis by (simp add: Unix_def Second_def)
qed

lemma last_turn_le: "u \<le> v \<Longrightarrow> \<forall>(t, k) \<in> set ks. k = Store \<longrightarrow> t \<le> v \<Longrightarrow> last_turn u ks \<le> v"
  by (induction u ks rule: last_turn.induct) auto

text \<open>The goroutine sleeps three seconds, and is late by at most \<open>d\<close>.\<close>

definition watched_until :: "int \<Rightarrow> int \<Rightarrow> (int \<times> tick) list \<Rightarrow> int \<Rightarrow> bool" where
  "watched_until d t0 ks t1 \<longleftrightarrow>
     (\<forall>a. t0 \<le> a \<and> a + 3 * Second + d \<le> t1 \<longrightarrow>
        (\<exists>t. (t, Check) \<in> set ks \<and> a \<le> t \<and> t \<le> a + 3 * Second + d))"

section \<open>Properties\<close>

text \<open>C39: The idle timer.  In every run of the main loop the timer fires only at a check more than thirty seconds
  after the start of the last turn before it, so a session whose turns start at least every thirty seconds is never
  cut off.  A session in which no turn starts after some time is: as long as the watching goroutine wakes up at most
  \<open>d\<close> late, its timer has fired 34 seconds and \<open>d\<close> later.  From then on the loop can leave with \<^verbatim>\<open>io.EOF\<close>.\<close>

theorem idle_timeout_exact:
  assumes "timed_run env ks (start_loop t0 h) = Some s"
  shows "(tm_fired s \<longrightarrow> (\<exists>pre t post. ks = pre @ (t, Check) # post \<and> t - last_turn t0 pre > 30 * Second))
    \<and> (t0 \<le> u \<and> (\<forall>(t, k) \<in> set ks. k = Store \<longrightarrow> t \<le> u) \<and> 0 \<le> d \<and> watched_until d t0 ks (u + 34 * Second + d)
        \<longrightarrow> tm_fired s)
    \<and> (tm_fired s \<and> tm_loop s = Selecting h' \<and> tm_now s \<le> t
        \<longrightarrow> timed_run env [(t, Take IdleTimeout)] s = Some (s\<lparr>tm_now := t, tm_loop := Left_loop EOF h'\<rparr>))"
proof (intro conjI impI)
  have fired: "tm_fired s \<longleftrightarrow> overdue t0 ks"
    using timed_run_fired [OF assms, of t0] by (simp add: start_loop_def)
  show "\<exists>pre t post. ks = pre @ (t, Check) # post \<and> t - last_turn t0 pre > 30 * Second" if "tm_fired s"
    using that Unix_less unfolding fired overdue_iff by blast
  show "tm_fired s" if a: "t0 \<le> u \<and> (\<forall>(t, k) \<in> set ks. k = Store \<longrightarrow> t \<le> u) \<and> 0 \<le> d
      \<and> watched_until d t0 ks (u + 34 * Second + d)"
  proof -
    have "t0 \<le> u + 31 * Second" "u + 31 * Second + 3 * Second + d \<le> u + 34 * Second + d"
      using a by (simp_all add: Second_def)
    with a obtain t where t: "(t, Check) \<in> set ks" "u + 31 * Second \<le> t" unfolding watched_until_def by blast
    then obtain pre post where ks: "ks = pre @ (t, Check) # post" by (meson split_list)
    with a have "last_turn t0 pre \<le> u" by (intro last_turn_le) auto
    with t(2) have "Unix t - Unix (last_turn t0 pre) > 30" by (intro Unix_enough) linarith
    with ks show ?thesis unfolding fired overdue_iff by blast
  qed
  show "timed_run env [(t, Take IdleTimeout)] s = Some (s\<lparr>tm_now := t, tm_loop := Left_loop EOF h'\<rparr>)"
    if "tm_fired s \<and> tm_loop s = Selecting h' \<and> tm_now s \<le> t"
    using that by (simp add: tick_step_def main_step_def)
qed

text \<open>A player who sends nothing: checks every three seconds, the eleventh is overdue.\<close>

definition sample_ticks :: "(int \<times> tick) list" where
  "sample_ticks = (0, Store) # map (\<lambda>n. (int n * (3 * Second), Check)) [1..<12]"

lemma idle_timeout_exact_witness:
  "\<exists>s. timed_run sample_env sample_ticks (start_loop 0 sample_client) = Some s \<and> tm_fired s
    \<and> timed_run sample_env [(33 * Second, Take IdleTimeout)] s
        = Some (s\<lparr>tm_now := 33 * Second, tm_loop := Left_loop EOF sample_client\<rparr>)"
proof -
  let ?s = "\<lparr>tm_now = 33 * Second, tm_last = 0, tm_fired = True, tm_loop = Selecting sample_client\<rparr>"
  have run: "timed_run sample_env sample_ticks (start_loop 0 sample_client) = Some ?s"
    by (simp add: sample_ticks_def upt_rec start_loop_def tick_step_def Unix_def Second_def max_idle_def)
  from idle_timeout_exact [OF this, where h' = sample_client and t = "33 * Second"] run show ?thesis by auto
qed

end
